(* ===== verification/Prelude.thy ===== *)
theory Prelude
  imports Main
begin

text \<open>
  Shared vocabulary of the development: programs with state and exceptions, the frame
  relation every layer uses for its invariants, and the row operations a relational
  table offers (first match, update where, delete where).

  A Python coroutine of the backend is a function from the world to a result and the new
  world. A raised exception is \<open>Inl\<close>; the state changes made before the raise stay, as they
  do in Python (a unit of work undoes the database part of them, see theory Store).
\<close>

type_synonym ('w, 'e, 'a) prog = "'w \<Rightarrow> ('e + 'a) \<times> 'w"

named_theorems prog_simps \<open>how the program combinators compute\<close>
named_theorems framed_intros \<open>frame rules for programs\<close>

section \<open>Programs\<close>

definition ret :: "'a \<Rightarrow> ('w, 'e, 'a) prog" where
  "ret x = (\<lambda>w. (Inr x, w))"

definition raise :: "'e \<Rightarrow> ('w, 'e, 'a) prog" where
  "raise e = (\<lambda>w. (Inl e, w))"

definition seq :: "('w, 'e, 'a) prog \<Rightarrow> ('a \<Rightarrow> ('w, 'e, 'b) prog) \<Rightarrow> ('w, 'e, 'b) prog" where
  "seq m f = (\<lambda>w. case m w of (Inl e, w') \<Rightarrow> (Inl e, w') | (Inr x, w') \<Rightarrow> f x w')"

definition catch :: "('w, 'e, 'a) prog \<Rightarrow> ('e \<Rightarrow> ('w, 'e, 'a) prog) \<Rightarrow> ('w, 'e, 'a) prog" where
  "catch m h = (\<lambda>w. case m w of (Inl e, w') \<Rightarrow> h e w' | (Inr x, w') \<Rightarrow> (Inr x, w'))"

definition query :: "('w \<Rightarrow> 'a) \<Rightarrow> ('w, 'e, 'a) prog" where
  "query q = (\<lambda>w. (Inr (q w), w))"

definition modify :: "('w \<Rightarrow> 'w) \<Rightarrow> ('w, 'e, unit) prog" where
  "modify g = (\<lambda>w. (Inr (), g w))"

definition require :: "bool \<Rightarrow> 'e \<Rightarrow> ('w, 'e, unit) prog" where
  "require b e = (if b then ret () else raise e)"

fun for_each :: "('a \<Rightarrow> ('w, 'e, unit) prog) \<Rightarrow> 'a list \<Rightarrow> ('w, 'e, unit) prog" where
  "for_each f [] = ret ()"
| "for_each f (x # xs) = seq (f x) (\<lambda>_. for_each f xs)"

lemma ret_apply [simp, prog_simps]: "ret x w = (Inr x, w)"
  by (simp add: ret_def)

lemma raise_apply [simp, prog_simps]: "raise e w = (Inl e, w)"
  by (simp add: raise_def)

lemma query_apply [simp, prog_simps]: "query q w = (Inr (q w), w)"
  by (simp add: query_def)

lemma modify_apply [simp, prog_simps]: "modify g w = (Inr (), g w)"
  by (simp add: modify_def)

lemma require_apply [prog_simps]: "require b e w = (if b then (Inr (), w) else (Inl e, w))"
  by (simp add: require_def)

lemma seq_ret [simp]: "seq (ret x) f = f x"
  by (simp add: seq_def)

lemma seq_raise [simp]: "seq (raise e) f = raise e"
  by (simp add: seq_def raise_def)

text \<open>The same two facts for the pair functions the simplifier turns them into.\<close>

lemma seq_Pair_Inr [simp]: "seq (Pair (Inr x)) f = f x"
  by (simp add: seq_def)

lemma seq_Pair_Inl [simp]: "seq (Pair (Inl e)) f = Pair (Inl e)"
  by (simp add: seq_def)

lemma seq_assoc [simp]: "seq (seq m f) g = seq m (\<lambda>x. seq (f x) g)"
  by (rule ext) (simp add: seq_def split: prod.split sum.split)

lemma seq_query [simp, prog_simps]: "seq (query q) f w = f (q w) w"
  by (simp add: seq_def)

lemma seq_modify [simp, prog_simps]: "seq (modify g) f w = f () (g w)"
  by (simp add: seq_def)

lemma seq_require [prog_simps]:
  "seq (require b e) f w = (if b then f () w else (Inl e, w))"
  by (simp add: seq_def require_def)

lemma seq_apply_Inr: "m w = (Inr x, w') \<Longrightarrow> seq m f w = f x w'"
  by (simp add: seq_def)

lemma seq_apply_Inl: "m w = (Inl e, w') \<Longrightarrow> seq m f w = (Inl e, w')"
  by (simp add: seq_def)

lemma seq_if [simp]: "seq (if b then m else n) f = (if b then seq m f else seq n f)"
  by simp

text \<open>The two ways a sequence ends: inversion rules for the proofs about whole handlers.\<close>

lemma seq_Inr_iff:
  "seq m f w = (Inr y, w2) \<longleftrightarrow> (\<exists>x w1. m w = (Inr x, w1) \<and> f x w1 = (Inr y, w2))"
  by (auto simp: seq_def split: prod.splits sum.splits)

lemma seq_Inl_iff:
  "seq m f w = (Inl e, w2) \<longleftrightarrow>
     m w = (Inl e, w2) \<or> (\<exists>x w1. m w = (Inr x, w1) \<and> f x w1 = (Inl e, w2))"
  by (auto simp: seq_def split: prod.splits sum.splits)

lemma seq_InrE:
  assumes "seq m f w = (Inr y, w2)"
  obtains x w1 where "m w = (Inr x, w1)" and "f x w1 = (Inr y, w2)"
  using assms by (auto simp: seq_Inr_iff)

lemma require_Inr_iff [simp]: "require b e w = (Inr x, w') \<longleftrightarrow> b \<and> w' = w"
  by (auto simp: require_def)

lemma require_Inl_iff [simp]: "require b e w = (Inl e', w') \<longleftrightarrow> \<not> b \<and> e' = e \<and> w' = w"
  by (auto simp: require_def)

lemma catch_Inr_iff:
  "catch m h w = (Inr y, w2) \<longleftrightarrow>
     m w = (Inr y, w2) \<or> (\<exists>e w1. m w = (Inl e, w1) \<and> h e w1 = (Inr y, w2))"
  by (auto simp: catch_def split: prod.splits sum.splits)

section \<open>Frames: what a program may change\<close>

definition framed :: "('w \<Rightarrow> 'w \<Rightarrow> bool) \<Rightarrow> ('w, 'e, 'a) prog \<Rightarrow> bool" where
  "framed R m \<longleftrightarrow> (\<forall>w. R w (snd (m w)))"

lemma framedI: "(\<And>w r w'. m w = (r, w') \<Longrightarrow> R w w') \<Longrightarrow> framed R m"
  unfolding framed_def by (metis prod.collapse)

lemma framedD: "framed R m \<Longrightarrow> m w = (r, w') \<Longrightarrow> R w w'"
  by (auto simp: framed_def dest: spec [of _ w])

text \<open>
  A frame relation is reflexive and transitive, so it passes through every combinator. One
  proof here serves every invariant of the development: tenant isolation, append-only
  ledger, unrevocable sessions and the table constraints are its interpretations.
\<close>

locale frame_relation =
  fixes R :: "'w \<Rightarrow> 'w \<Rightarrow> bool"
  assumes R_refl: "R w w"
    and R_trans: "R w1 w2 \<Longrightarrow> R w2 w3 \<Longrightarrow> R w1 w3"
begin

lemma framed_ret [framed_intros]: "framed R (ret x)"
  by (simp add: framed_def R_refl)

lemma framed_raise [framed_intros]: "framed R (raise e)"
  by (simp add: framed_def R_refl)

lemma framed_Pair [framed_intros]: "framed R (Pair r)"
  by (simp add: framed_def R_refl)

lemma framed_query [framed_intros]: "framed R (query q)"
  by (simp add: framed_def R_refl)

lemma framed_require [framed_intros]: "framed R (require b e)"
  by (simp add: framed_def require_def R_refl)

lemma framed_seq [framed_intros]:
  assumes "framed R m" and "\<And>x. framed R (f x)"
  shows "framed R (seq m f)"
  using assms by (auto simp: framed_def seq_def split: prod.split sum.split
      intro: R_trans) (metis R_trans snd_conv)+

lemma framed_catch [framed_intros]:
  assumes "framed R m" and "\<And>e. framed R (h e)"
  shows "framed R (catch m h)"
  using assms by (auto simp: framed_def catch_def split: prod.split sum.split
      intro: R_trans) (metis R_trans snd_conv)+

lemma framed_for_each [framed_intros]:
  assumes "\<And>x. framed R (f x)"
  shows "framed R (for_each f xs)"
  by (induction xs) (auto intro: framed_intros framed_seq assms)

end

lemma framed_if [framed_intros]:
  "(b \<Longrightarrow> framed R m) \<Longrightarrow> (\<not> b \<Longrightarrow> framed R n) \<Longrightarrow> framed R (if b then m else n)"
  by simp

lemma framed_option [framed_intros]:
  "framed R n \<Longrightarrow> (\<And>x. framed R (s x)) \<Longrightarrow>
     framed R (case v of None \<Rightarrow> n | Some x \<Rightarrow> s x)"
  by (cases v) simp_all

lemma framed_prod [framed_intros]:
  "(\<And>a b. framed R (f a b)) \<Longrightarrow> framed R (case p of (a, b) \<Rightarrow> f a b)"
  by (cases p) simp

section \<open>Rows of a table\<close>

definition update_where :: "('r \<Rightarrow> bool) \<Rightarrow> ('r \<Rightarrow> 'r) \<Rightarrow> 'r list \<Rightarrow> 'r list" where
  "update_where p f rows = map (\<lambda>r. if p r then f r else r) rows"

definition delete_where :: "('r \<Rightarrow> bool) \<Rightarrow> 'r list \<Rightarrow> 'r list" where
  "delete_where p rows = filter (\<lambda>r. \<not> p r) rows"

lemma find_Some_iff2: "find p xs = Some x \<Longrightarrow> x \<in> set xs \<and> p x"
  by (induction xs) (auto split: if_splits)

lemma find_SomeD [dest]: "find p xs = Some x \<Longrightarrow> p x"
  by (simp add: find_Some_iff2)

lemma find_append [simp]:
  "find p (xs @ ys) = (case find p xs of None \<Rightarrow> find p ys | Some x \<Rightarrow> Some x)"
  by (induction xs) auto

lemma find_cong_set: "(\<And>x. x \<in> set xs \<Longrightarrow> p x = q x) \<Longrightarrow> find p xs = find q xs"
  by (induction xs) auto

lemma find_update_where:
  assumes "\<And>x. q (f x) = q x"
  shows "find q (update_where p f xs) = map_option (\<lambda>r. if p r then f r else r) (find q xs)"
  by (induction xs) (auto simp: update_where_def assms)

lemma set_update_where: "set (update_where p f xs) = (\<lambda>r. if p r then f r else r) ` set xs"
  by (simp add: update_where_def)

lemma map_update_where:
  "(\<And>x. p x \<Longrightarrow> k (f x) = k x) \<Longrightarrow> map k (update_where p f xs) = map k xs"
  by (simp add: update_where_def)

lemma filter_update_where:
  assumes "\<And>x. q (f x) = q x" and "\<And>x. q x \<Longrightarrow> \<not> p x"
  shows "filter q (update_where p f xs) = filter q xs"
  using assms by (induction xs) (auto simp: update_where_def)

lemma filter_delete_where:
  "(\<And>x. q x \<Longrightarrow> \<not> p x) \<Longrightarrow> filter q (delete_where p xs) = filter q xs"
  by (induction xs) (auto simp: delete_where_def)

lemma distinct_map_filter_sub: "distinct (map k xs) \<Longrightarrow> distinct (map k (filter p xs))"
  by (induction xs) auto

lemma find_unique_key:
  assumes "distinct (map k xs)" and "x \<in> set xs"
  shows "find (\<lambda>y. k y = k x) xs = Some x"
  using assms by (induction xs) auto

end
