(* ===== verification/Pytext.thy ===== *)
theory Pytext
  imports Prelude "HOL-Library.Word" "HOL-Library.Char_ord" "HOL-Library.List_Lexorder"
begin

text \<open>
  The part of Python's \<open>str\<close>, \<open>bytes\<close>, \<open>uuid\<close> and \<open>datetime\<close> the backend uses. A \<open>str\<close> is a
  list of characters with code points below 256, a \<open>bytes\<close> value a list of octets, a UUID a
  128-bit word, and an aware UTC \<open>datetime\<close> the number of microseconds since the epoch.
\<close>

unbundle bit_operations_syntax

type_synonym byte = "8 word"
type_synonym bytes = "byte list"
type_synonym uuid = "128 word"
type_synonym time = int

section \<open>Case, white space, partition\<close>

definition lower_char :: "char \<Rightarrow> char" where
  "lower_char c = (let n = of_char c :: nat in
     if 65 \<le> n \<and> n \<le> 90 \<or> 192 \<le> n \<and> n \<le> 222 \<and> n \<noteq> 215 then char_of (n + 32) else c)"

definition str_lower :: "string \<Rightarrow> string" where
  "str_lower s = map lower_char s"

definition is_space :: "char \<Rightarrow> bool" where
  "is_space c = (let n = of_char c :: nat in
     9 \<le> n \<and> n \<le> 13 \<or> 28 \<le> n \<and> n \<le> 32 \<or> n = 133 \<or> n = 160)"

definition str_strip :: "string \<Rightarrow> string" where
  "str_strip s = rev (dropWhile is_space (rev (dropWhile is_space s)))"

definition str_partition :: "char \<Rightarrow> string \<Rightarrow> string \<times> string" where
  "str_partition c s = (takeWhile (\<lambda>x. x \<noteq> c) s, drop 1 (dropWhile (\<lambda>x. x \<noteq> c) s))"

text \<open>\<open>s.split(c)\<close>.\<close>

fun split_on :: "char \<Rightarrow> string \<Rightarrow> string list" where
  "split_on c [] = [[]]"
| "split_on c (x # xs) =
     (if x = c then [] # split_on c xs
      else case split_on c xs of [] \<Rightarrow> [[x]] | y # ys \<Rightarrow> (x # y) # ys)"

lemma split_on_word [simp]: "x \<notin> set t \<Longrightarrow> split_on x (t @ x # rest) = t # split_on x rest"
  by (induction t) auto

lemma split_on_last [simp]: "x \<notin> set t \<Longrightarrow> split_on x t = [t]"
  by (induction t) auto

lemma split_on_nonempty [simp]: "split_on x s \<noteq> []"
  by (induction s) (auto split: list.splits)

lemma split_on_prefix:
  "x \<notin> set t \<Longrightarrow>
     split_on x (t @ rest) = (case split_on x rest of [] \<Rightarrow> [t] | y # ys \<Rightarrow> (t @ y) # ys)"
  by (induction t) (auto split: list.splits)

lemma split_on_append:
  "split_on x (a @ x # b) = split_on x a @ split_on x b"
proof (induction a)
  case (Cons y a)
  then show ?case by (cases "split_on x a") auto
qed simp

lemma lower_char_idem [simp]: "lower_char (lower_char c) = lower_char c"
proof -
  let ?n = "of_char c :: nat"
  have sum: "of_char (char_of (?n + 32) :: char) = ?n + 32" if "?n \<le> 222"
    using that by simp
  show ?thesis
    by (cases "?n \<le> 222") (auto simp: lower_char_def Let_def sum)
qed

lemma str_lower_idem [simp]: "str_lower (str_lower s) = str_lower s"
  by (simp add: str_lower_def)

section \<open>Integers and identifiers as text\<close>

definition digit_char :: "nat \<Rightarrow> char" where
  "digit_char d = char_of (48 + d)"

fun nat_str :: "nat \<Rightarrow> string" where
  "nat_str n = (if n < 10 then [digit_char n] else nat_str (n div 10) @ [digit_char (n mod 10)])"

declare nat_str.simps [simp del]

definition int_str :: "int \<Rightarrow> string" where
  "int_str i = (if i < 0 then CHR ''-'' # nat_str (nat (- i)) else nat_str (nat i))"

definition hex_char :: "nat \<Rightarrow> char" where
  "hex_char d = (if d < 10 then char_of (48 + d) else char_of (87 + d))"

definition uuid_hex :: "uuid \<Rightarrow> string" where
  "uuid_hex u = map (\<lambda>i. hex_char (unat u div 16 ^ i mod 16)) (rev [0..<32])"

definition uuid_str :: "uuid \<Rightarrow> string" where
  "uuid_str u = (let h = uuid_hex u in
     take 8 h @ ''-'' @ take 4 (drop 8 h) @ ''-'' @ take 4 (drop 12 h) @ ''-'' @
     take 4 (drop 16 h) @ ''-'' @ drop 20 h)"

definition byte_hex :: "byte \<Rightarrow> string" where
  "byte_hex b = [hex_char (unat b div 16), hex_char (unat b mod 16)]"

definition hexdigest :: "bytes \<Rightarrow> string" where
  "hexdigest bs = concat (map byte_hex bs)"

section \<open>Encodings\<close>

definition utf8_char :: "char \<Rightarrow> bytes" where
  "utf8_char c = (let n = of_char c :: nat in
     if n < 128 then [of_nat n] else [of_nat (192 + n div 64), of_nat (128 + n mod 64)])"

definition utf8_encode :: "string \<Rightarrow> bytes" where
  "utf8_encode s = concat (map utf8_char s)"

text \<open>
  Decoding fails on octets that are no UTF-8, and on the code points beyond the model's
  characters (three- and four-octet sequences), which no encoded text of the model holds.
\<close>

fun utf8_decode :: "bytes \<Rightarrow> string option" where
  "utf8_decode [] = Some []"
| "utf8_decode (b # bs) =
     (if unat b < 128 then map_option (\<lambda>s. char_of (unat b) # s) (utf8_decode bs)
      else if unat b = 194 \<or> unat b = 195 then
        (case bs of
           [] \<Rightarrow> None
         | b2 # bs' \<Rightarrow>
             if 128 \<le> unat b2 \<and> unat b2 < 192
             then map_option (\<lambda>s. char_of ((unat b - 192) * 64 + (unat b2 - 128)) # s)
                    (utf8_decode bs')
             else None)
      else None)"

definition b64url_char :: "nat \<Rightarrow> char" where
  "b64url_char d =
     (if d < 26 then char_of (65 + d) else if d < 52 then char_of (71 + d)
      else if d < 62 then char_of (d - 4) else if d = 62 then CHR ''-'' else CHR ''_'')"

text \<open>\<open>base64.urlsafe_b64encode(...).rstrip(b"=")\<close>, the text of \<open>secrets.token_urlsafe\<close>.\<close>

fun b64url :: "bytes \<Rightarrow> string" where
  "b64url (a # b # c # rest) =
     (let n = unat a * 65536 + unat b * 256 + unat c in
      map b64url_char [n div 262144, n div 4096 mod 64, n div 64 mod 64, n mod 64] @ b64url rest)"
| "b64url [a, b] =
     (let n = unat a * 65536 + unat b * 256 in
      map b64url_char [n div 262144, n div 4096 mod 64, n div 64 mod 64])"
| "b64url [a] = (let n = unat a * 65536 in map b64url_char [n div 262144, n div 4096 mod 64])"
| "b64url [] = []"

section \<open>Time\<close>

definition micros_per_second :: int where
  "micros_per_second = 1000000"

definition seconds :: "int \<Rightarrow> time" where
  "seconds n = n * micros_per_second"

definition days :: "int \<Rightarrow> time" where
  "days n = seconds (n * 86400)"

text \<open>Proleptic Gregorian date of a day number (days since 1970-01-01): year, month, day.\<close>

definition civil_from_days :: "int \<Rightarrow> int \<times> int \<times> int" where
  "civil_from_days d0 =
     (let z = d0 + 719468;
          era = z div 146097;
          doe = z mod 146097;
          yoe = (doe - doe div 1460 + doe div 36524 - doe div 146096) div 365;
          doy = doe - (365 * yoe + yoe div 4 - yoe div 100);
          mp = (5 * doy + 2) div 153;
          day = doy - (153 * mp + 2) div 5 + 1;
          month = (if mp < 10 then mp + 3 else mp - 9);
          year = yoe + era * 400 + (if month \<le> 2 then 1 else 0)
      in (year, month, day))"

definition pad_int :: "nat \<Rightarrow> int \<Rightarrow> string" where
  "pad_int k i = (let s = int_str i in replicate (k - length s) (CHR ''0'') @ s)"

text \<open>\<open>strftime("%Y-%m-%dT%H:%M:%S.%f") + "Z"\<close> of a UTC instant.\<close>

definition iso_micros :: "time \<Rightarrow> string" where
  "iso_micros t =
     (let (y, m, d) = civil_from_days (t div 86400000000);
          us = t mod 86400000000
      in pad_int 4 y @ ''-'' @ pad_int 2 m @ ''-'' @ pad_int 2 d @ ''T'' @
         pad_int 2 (us div 3600000000) @ '':'' @ pad_int 2 (us div 60000000 mod 60) @ '':'' @
         pad_int 2 (us div 1000000 mod 60) @ ''.'' @ pad_int 6 (us mod 1000000) @ ''Z'')"

section \<open>Facts\<close>

lemma unat_of_nat_byte: "n < 256 \<Longrightarrow> unat (of_nat n :: byte) = n"
  by (simp add: unat_of_nat)

text \<open>Every text survives being encoded and decoded.\<close>

lemma utf8_decode_char:
  "utf8_decode (utf8_char c @ bs) = map_option (\<lambda>s. c # s) (utf8_decode bs)"
proof -
  let ?n = "of_char c :: nat"
  have n: "?n < 256" by (rule nat_of_char_less_256)
  show ?thesis
  proof (cases "?n < 128")
    case True
    then show ?thesis
      by (simp add: utf8_char_def Let_def unat_of_nat_byte del: of_nat_of_char)
  next
    case False
    have hi: "?n div 64 = 2 \<or> ?n div 64 = 3" using n False by arith
    have u1: "unat (of_nat (192 + ?n div 64) :: byte) = 192 + ?n div 64"
      using hi by (intro unat_of_nat_byte) arith
    have u2: "unat (of_nat (128 + ?n mod 64) :: byte) = 128 + ?n mod 64"
      by (intro unat_of_nat_byte) (simp add: less_le_trans [OF add_less_le_mono])
    have m: "?n mod 64 < 64" by simp
    have sum: "?n div 64 * 64 + ?n mod 64 = ?n" by simp
    show ?thesis
      using False hi m
      by (simp add: utf8_char_def Let_def u1 u2 sum
          del: of_nat_of_char of_nat_add of_nat_numeral word_of_nat_eq_0_iff)
  qed
qed

lemma utf8_decode_encode [simp]: "utf8_decode (utf8_encode s) = Some s"
  by (induction s) (simp_all add: utf8_encode_def utf8_decode_char)

lemma utf8_encode_inject [simp]: "utf8_encode s = utf8_encode t \<longleftrightarrow> s = t"
  by (metis option.inject utf8_decode_encode)

section \<open>The text of a UUID determines it\<close>

definition hex_value :: "char \<Rightarrow> nat" where
  "hex_value c = (let n = of_char c in if n \<le> 57 then n - 48 else n - 87)"

lemma hex_value_hex_char [simp]: "d < 16 \<Longrightarrow> hex_value (hex_char d) = d"
  by (auto simp: hex_value_def hex_char_def Let_def)

lemma hex_char_inject: "a < 16 \<Longrightarrow> b < 16 \<Longrightarrow> hex_char a = hex_char b \<longleftrightarrow> a = b"
  by (metis hex_value_hex_char)

lemma hex_char_no_dash: "d < 16 \<Longrightarrow> hex_char d \<noteq> CHR ''-''"
proof
  assume d: "d < 16" and "hex_char d = CHR ''-''"
  then have "(of_char (hex_char d) :: nat) = 45" by simp
  with d show False by (auto simp: hex_char_def split: if_splits)
qed

lemma mod16_Suc: "x mod 16 ^ Suc k = 16 ^ k * (x div 16 ^ k mod 16) + x mod 16 ^ k" for x :: nat
  by (simp add: mod_mult2_eq mult.commute [of 16])

lemma base16_digits:
  "(\<And>i. i < k \<Longrightarrow> n div 16 ^ i mod 16 = m div 16 ^ i mod 16) \<Longrightarrow> n mod 16 ^ k = m mod 16 ^ k"
  for n m :: nat
proof (induction k)
  case (Suc k)
  show ?case using Suc by (simp add: mod16_Suc del: power_Suc)
qed simp

lemma length_uuid_hex [simp]: "length (uuid_hex u) = 32"
  by (simp add: uuid_hex_def)

lemma uuid_hex_inject: "uuid_hex u = uuid_hex v \<longleftrightarrow> u = v"
proof
  assume eq: "uuid_hex u = uuid_hex v"
  have "unat u div 16 ^ i mod 16 = unat v div 16 ^ i mod 16" if "i < 32" for i
    using eq that by (auto simp: uuid_hex_def hex_char_inject)
  then have "unat u mod 16 ^ 32 = unat v mod 16 ^ 32" by (rule base16_digits)
  moreover have "unat x mod 16 ^ 32 = unat x" for x :: uuid
    using unsigned_less [of x, where 'a = nat] by simp
  ultimately have "unat u = unat v" by metis
  then show "u = v" by (rule unsigned_word_eqI)
qed simp

lemma length_uuid_str [simp]: "length (uuid_str u) = 36"
  by (simp add: uuid_str_def Let_def)

lemma take_drop_chunks:
  "take 8 h @ take 4 (drop 8 h) @ take 4 (drop 12 h) @ take 4 (drop 16 h) @ drop 20 h = h"
proof -
  have "take 4 (drop n h) @ drop (n + 4) h = drop n h" for n
    by (metis add.commute append_take_drop_id drop_drop)
  from this [of 8] this [of 12] this [of 16] show ?thesis by simp
qed

lemma uuid_hex_no_dash: "c \<in> set (uuid_hex u) \<Longrightarrow> c \<noteq> CHR ''-''"
  using hex_char_no_dash by (auto simp: uuid_hex_def)

lemma uuid_str_undashed: "filter (\<lambda>c. c \<noteq> CHR ''-'') (uuid_str u) = uuid_hex u"
proof -
  have keep: "filter (\<lambda>c. c \<noteq> CHR ''-'') xs = xs" if "set xs \<subseteq> set (uuid_hex u)" for xs
    using that uuid_hex_no_dash by (auto intro: filter_True)
  have sub: "set (take m (drop n h)) \<subseteq> set h" "set (take m h) \<subseteq> set h" for m n and h :: string
    by (auto dest: in_set_takeD in_set_dropD)
  show ?thesis
    by (simp add: uuid_str_def Let_def keep sub set_drop_subset take_drop_chunks)
qed

lemma uuid_str_inject [simp]: "uuid_str u = uuid_str v \<longleftrightarrow> u = v"
  by (metis uuid_hex_inject uuid_str_undashed)

lemma uuid_str_append_inject [simp]:
  "uuid_str u @ r = uuid_str v @ s \<longleftrightarrow> u = v \<and> r = s"
  by (simp add: append_eq_append_conv)

end
