(* ===== verification/Errors.thy ===== *)
theory Errors
  imports Pytext
begin

text \<open>
  The exceptions of the backend, one datatype per module that declares them, and their sum.
  The text an exception carries is kept, because the HTTP layer shows it.
\<close>

record forbidden =
  fb_message :: string
  audit_denial :: bool
  attempted_action :: "string option"
  audit_target_type :: "string option"
  audit_target_id :: "uuid option"

datatype access_error = ForbiddenError forbidden | NotFoundError string

datatype audit_error = AuditMetadataError "string list" | UnknownAuditActionError string

datatype identity_error =
    PasswordPolicyError string
  | RegistrationConflictError string
  | AuthenticationError string
  | TokenValidationError string
  | MfaEnrollmentError string
  | MfaVerificationError string
  | MfaEnrollmentRequiredError string
  | StepUpRequiredError string
  | ServiceUnavailableError string

datatype organization_error =
    InvitationError string
  | InvitationNotFoundError string
  | MemberConflictError string
  | MemberNotFoundError string

datatype secret_error =
    CryptoError string
  | NoActiveKeyError string
  | SecretConflictError string
  | TenantKeyProvisionError string

text \<open>
  \<open>System\<close> errors come from below the backend's own code: a violated table constraint, a write
  the row-level policy refuses, octets that are no text, the built-in exceptions it raises.
\<close>

datatype system_error =
    IntegrityError
  | RowSecurityError
  | UnicodeDecodeError
  | SeedDecryptionError
  | RedisError
  | InvalidHashError
  | MailError
  | IndexError
  | ValueError string
  | RuntimeError string

datatype exn =
    Access access_error
  | Audit audit_error
  | Identity identity_error
  | Organization organization_error
  | Secrets secret_error
  | System system_error

text \<open>\<open>ForbiddenError("...")\<close> with the keyword defaults.\<close>

definition forbidden_error :: "string \<Rightarrow> exn" where
  "forbidden_error msg =
     Access (ForbiddenError \<lparr>fb_message = msg, audit_denial = False, attempted_action = None,
       audit_target_type = None, audit_target_id = None\<rparr>)"

end
