(* ===== verification/Access.thy ===== *)
theory Access
  imports Errors
begin

text \<open>
  \<open>domain/access\<close>: roles, permissions, actions, and \<open>PolicyService\<close>, the single place where an
  authorization decision is made. The service reads memberships, vaults and grants through
  ports; it is translated over the record of those ports, and the locale \<open>policy_reads\<close> says
  what a provider of them promises.
\<close>

section \<open>Vocabulary\<close>

datatype org_role = OWNER | ADMIN | MEMBER | VIEWER

datatype vault_permission = PERM_READ | PERM_WRITE | PERM_ADMIN

datatype action =
    VAULT_LIST | VAULT_CREATE | VAULT_UPDATE | VAULT_DELETE | GRANT_MANAGE
  | SECRET_READ_META | SECRET_REVEAL | SECRET_WRITE | SECRET_DELETE
  | MEMBER_INVITE | MEMBER_REMOVE | AUDIT_READ

fun role_value :: "org_role \<Rightarrow> string" where
  "role_value OWNER = ''owner''"
| "role_value ADMIN = ''admin''"
| "role_value MEMBER = ''member''"
| "role_value VIEWER = ''viewer''"

fun permission_value :: "vault_permission \<Rightarrow> string" where
  "permission_value PERM_READ = ''read''"
| "permission_value PERM_WRITE = ''write''"
| "permission_value PERM_ADMIN = ''admin''"

fun permission_rank :: "vault_permission \<Rightarrow> int" where
  "permission_rank PERM_READ = 1"
| "permission_rank PERM_WRITE = 2"
| "permission_rank PERM_ADMIN = 3"

fun action_value :: "action \<Rightarrow> string" where
  "action_value VAULT_LIST = ''vault.list''"
| "action_value VAULT_CREATE = ''vault.create''"
| "action_value VAULT_UPDATE = ''vault.update''"
| "action_value VAULT_DELETE = ''vault.delete''"
| "action_value GRANT_MANAGE = ''grant.manage''"
| "action_value SECRET_READ_META = ''secret.read_meta''"
| "action_value SECRET_REVEAL = ''secret.reveal''"
| "action_value SECRET_WRITE = ''secret.write''"
| "action_value SECRET_DELETE = ''secret.delete''"
| "action_value MEMBER_INVITE = ''member.invite''"
| "action_value MEMBER_REMOVE = ''member.remove''"
| "action_value AUDIT_READ = ''audit.read''"

record access_context =
  ac_user_id :: uuid
  ac_tenant_id :: uuid
  ac_role :: org_role
  ac_vault_permission :: "vault_permission option"

text \<open>Roles and permissions are totally ordered, weakest first.\<close>

instantiation vault_permission :: linorder
begin

definition less_eq_vault_permission :: "vault_permission \<Rightarrow> vault_permission \<Rightarrow> bool" where
  "less_eq_vault_permission p q \<longleftrightarrow> permission_rank p \<le> permission_rank q"

definition less_vault_permission :: "vault_permission \<Rightarrow> vault_permission \<Rightarrow> bool" where
  "less_vault_permission p q \<longleftrightarrow> permission_rank p < permission_rank q"

instance
proof
  fix p q :: vault_permission
  show "p \<le> q \<Longrightarrow> q \<le> p \<Longrightarrow> p = q"
    by (cases p; cases q) (simp_all add: less_eq_vault_permission_def)
qed (auto simp: less_eq_vault_permission_def less_vault_permission_def)

end

section \<open>Decision tables\<close>

definition sensitive_vault_actions :: "action set" where
  "sensitive_vault_actions =
     {SECRET_REVEAL, SECRET_WRITE, SECRET_DELETE, VAULT_DELETE, GRANT_MANAGE}"

fun action_to_attempted_audit :: "action \<Rightarrow> string option" where
  "action_to_attempted_audit SECRET_REVEAL = Some ''secret.revealed''"
| "action_to_attempted_audit SECRET_DELETE = Some ''secret.deleted''"
| "action_to_attempted_audit SECRET_WRITE = Some ''secret.created''"
| "action_to_attempted_audit VAULT_DELETE = Some ''vault.deleted''"
| "action_to_attempted_audit GRANT_MANAGE = Some ''grant.created''"
| "action_to_attempted_audit _ = None"

definition forbidden_vault_action :: "action \<Rightarrow> uuid \<Rightarrow> exn" where
  "forbidden_vault_action action vault_id =
     (if action \<in> sensitive_vault_actions then
        Access (ForbiddenError \<lparr>fb_message = ''Access denied'', audit_denial = True,
          attempted_action = Some (case action_to_attempted_audit action of
            Some a \<Rightarrow> a | None \<Rightarrow> action_value action),
          audit_target_type = Some ''vault'', audit_target_id = Some vault_id\<rparr>)
      else forbidden_error ''Access denied'')"

definition org_allows :: "org_role \<Rightarrow> action \<Rightarrow> bool" where
  "org_allows role action =
     (case action of
        VAULT_LIST \<Rightarrow> True
      | SECRET_READ_META \<Rightarrow> True
      | VAULT_CREATE \<Rightarrow> role \<in> {OWNER, ADMIN}
      | VAULT_UPDATE \<Rightarrow> role \<in> {OWNER, ADMIN}
      | VAULT_DELETE \<Rightarrow> role \<in> {OWNER, ADMIN}
      | GRANT_MANAGE \<Rightarrow> role \<in> {OWNER, ADMIN}
      | MEMBER_INVITE \<Rightarrow> role \<in> {OWNER, ADMIN}
      | MEMBER_REMOVE \<Rightarrow> role \<in> {OWNER, ADMIN}
      | SECRET_WRITE \<Rightarrow> role \<in> {OWNER, ADMIN, MEMBER}
      | SECRET_DELETE \<Rightarrow> role \<in> {OWNER, ADMIN, MEMBER}
      | AUDIT_READ \<Rightarrow> role \<in> {OWNER, ADMIN}
      | _ \<Rightarrow> False)"

definition member_allows :: "action \<Rightarrow> bool" where
  "member_allows action \<longleftrightarrow>
     action \<in> {SECRET_READ_META, SECRET_REVEAL, SECRET_WRITE, SECRET_DELETE}"

definition viewer_allows :: "action \<Rightarrow> bool" where
  "viewer_allows action \<longleftrightarrow> action \<in> {SECRET_READ_META, SECRET_REVEAL}"

definition grant_allows :: "vault_permission option \<Rightarrow> action \<Rightarrow> org_role \<Rightarrow> bool" where
  "grant_allows permission action role =
     (case permission of
        None \<Rightarrow> False
      | Some p \<Rightarrow>
          if role = VIEWER \<and> action \<notin> {SECRET_READ_META, SECRET_REVEAL} then False
          else (case action of
              SECRET_READ_META \<Rightarrow> permission_rank p \<ge> permission_rank PERM_READ
            | SECRET_REVEAL \<Rightarrow> permission_rank p \<ge> permission_rank PERM_READ
            | SECRET_WRITE \<Rightarrow> permission_rank p \<ge> permission_rank PERM_WRITE
            | SECRET_DELETE \<Rightarrow> permission_rank p \<ge> permission_rank PERM_ADMIN
            | _ \<Rightarrow> False))"

section \<open>PolicyService\<close>

record 'w policy_ports =
  get_role :: "uuid \<Rightarrow> uuid \<Rightarrow> ('w, exn, org_role option) prog"
  exists_active :: "uuid \<Rightarrow> uuid \<Rightarrow> ('w, exn, bool) prog"
  get_permission :: "uuid \<Rightarrow> uuid \<Rightarrow> uuid \<Rightarrow> ('w, exn, vault_permission option) prog"
  list_vault_ids_for_user :: "uuid \<Rightarrow> uuid \<Rightarrow> ('w, exn, uuid list) prog"

definition require_org ::
    "'w policy_ports \<Rightarrow> uuid \<Rightarrow> uuid \<Rightarrow> action \<Rightarrow> ('w, exn, access_context) prog" where
  "require_org ports user_id tenant_id action =
     seq (get_role ports user_id tenant_id) (\<lambda>role.
     case role of
       None \<Rightarrow> raise (forbidden_error ''Access denied'')
     | Some r \<Rightarrow>
         if \<not> org_allows r action then raise (forbidden_error ''Access denied'')
         else ret \<lparr>ac_user_id = user_id, ac_tenant_id = tenant_id, ac_role = r,
                ac_vault_permission = None\<rparr>)"

definition require_vault ::
    "'w policy_ports \<Rightarrow> uuid \<Rightarrow> uuid \<Rightarrow> uuid \<Rightarrow> action \<Rightarrow> ('w, exn, access_context) prog" where
  "require_vault ports user_id tenant_id vault_id action =
     seq (exists_active ports vault_id tenant_id) (\<lambda>live.
     if \<not> live then raise (Access (NotFoundError ''Vault not found''))
     else seq (get_role ports user_id tenant_id) (\<lambda>role.
     let context = (\<lambda>r p. \<lparr>ac_user_id = user_id, ac_tenant_id = tenant_id, ac_role = r,
                       ac_vault_permission = p\<rparr>)
     in case role of
       None \<Rightarrow> raise (forbidden_vault_action action vault_id)
     | Some r \<Rightarrow>
         if r \<in> {OWNER, ADMIN} then ret (context r (Some PERM_ADMIN))
         else if r = MEMBER then
           (if \<not> member_allows action then raise (forbidden_vault_action action vault_id)
            else ret (context r (Some PERM_WRITE)))
         else if r = VIEWER then
           (if \<not> viewer_allows action then raise (forbidden_vault_action action vault_id)
            else ret (context r (Some PERM_READ)))
         else seq (get_permission ports user_id tenant_id vault_id) (\<lambda>permission.
           if \<not> grant_allows permission action r
           then raise (forbidden_vault_action action vault_id)
           else ret (context r permission))))"

definition list_accessible_vault_ids ::
    "'w policy_ports \<Rightarrow> uuid \<Rightarrow> uuid \<Rightarrow> ('w, exn, uuid list option) prog" where
  "list_accessible_vault_ids ports user_id tenant_id =
     seq (get_role ports user_id tenant_id) (\<lambda>role.
     case role of
       None \<Rightarrow> raise (forbidden_error ''Access denied'')
     | Some r \<Rightarrow>
         if r \<in> {OWNER, ADMIN, MEMBER, VIEWER} then ret None
         else seq (list_vault_ids_for_user ports user_id tenant_id) (\<lambda>ids. ret (Some ids)))"

record user_capabilities =
  can_create_vaults :: bool
  can_write_secrets :: bool
  can_manage_members :: bool
  can_manage_invitations :: bool
  can_read_audit :: bool

definition org_capabilities_for_role :: "org_role \<Rightarrow> user_capabilities" where
  "org_capabilities_for_role role =
     \<lparr>can_create_vaults = org_allows role VAULT_CREATE,
      can_write_secrets = org_allows role SECRET_WRITE,
      can_manage_members = org_allows role MEMBER_REMOVE,
      can_manage_invitations = org_allows role MEMBER_INVITE,
      can_read_audit = org_allows role AUDIT_READ\<rparr>"

section \<open>The permission matrix the README promises\<close>

text \<open>
  The documented contract, as a table: which roles may perform an action on a live vault of
  their organization, and which may perform an organization-level action.
\<close>

fun vault_matrix :: "org_role \<Rightarrow> action \<Rightarrow> bool" where
  "vault_matrix OWNER _ = True"
| "vault_matrix ADMIN _ = True"
| "vault_matrix MEMBER a =
     (a \<in> {SECRET_READ_META, SECRET_REVEAL, SECRET_WRITE, SECRET_DELETE})"
| "vault_matrix VIEWER a = (a \<in> {SECRET_READ_META, SECRET_REVEAL})"

fun permission_of_role :: "org_role \<Rightarrow> vault_permission" where
  "permission_of_role OWNER = PERM_ADMIN"
| "permission_of_role ADMIN = PERM_ADMIN"
| "permission_of_role MEMBER = PERM_WRITE"
| "permission_of_role VIEWER = PERM_READ"

text \<open>The decision as a pure function of what the service reads.\<close>

definition vault_decision ::
    "bool \<Rightarrow> org_role option \<Rightarrow> uuid \<Rightarrow> uuid \<Rightarrow> uuid \<Rightarrow> action \<Rightarrow> exn + access_context" where
  "vault_decision live role user_id tenant_id vault_id action =
     (if \<not> live then Inl (Access (NotFoundError ''Vault not found''))
      else case role of
        None \<Rightarrow> Inl (forbidden_vault_action action vault_id)
      | Some r \<Rightarrow>
          if vault_matrix r action
          then Inr \<lparr>ac_user_id = user_id, ac_tenant_id = tenant_id, ac_role = r,
                 ac_vault_permission = Some (permission_of_role r)\<rparr>
          else Inl (forbidden_vault_action action vault_id))"

definition org_decision ::
    "org_role option \<Rightarrow> uuid \<Rightarrow> uuid \<Rightarrow> action \<Rightarrow> exn + access_context" where
  "org_decision role user_id tenant_id action =
     (case role of
        None \<Rightarrow> Inl (forbidden_error ''Access denied'')
      | Some r \<Rightarrow>
          if org_allows r action
          then Inr \<lparr>ac_user_id = user_id, ac_tenant_id = tenant_id, ac_role = r,
                 ac_vault_permission = None\<rparr>
          else Inl (forbidden_error ''Access denied''))"

lemma forbidden_vault_action_shape:
  "\<exists>f. forbidden_vault_action a v = Access (ForbiddenError f) \<and> fb_message f = ''Access denied''
     \<and> (audit_denial f \<longleftrightarrow> a \<in> sensitive_vault_actions)"
  by (simp add: forbidden_vault_action_def forbidden_error_def)

section \<open>What the ports promise, and what the service makes of it\<close>

text \<open>
  A provider answers a read from the current world and leaves the world as it is. Grants are a
  port of the service too, but no law about them is needed: no decision consults them.
\<close>

locale policy_reads =
  fixes ports :: "'w policy_ports"
    and role_of :: "'w \<Rightarrow> uuid \<Rightarrow> uuid \<Rightarrow> org_role option"
    and live_vault :: "'w \<Rightarrow> uuid \<Rightarrow> uuid \<Rightarrow> bool"
  assumes get_role_reads: "get_role ports u t w = (Inr (role_of w u t), w)"
    and exists_active_reads: "exists_active ports v t w = (Inr (live_vault w v t), w)"
begin

lemma require_vault_decides:
  "require_vault ports u t v a w =
     (vault_decision (live_vault w v t) (role_of w u t) u t v a, w)"
proof (cases "role_of w u t")
  case None
  then show ?thesis
    by (simp add: require_vault_def vault_decision_def seq_def exists_active_reads get_role_reads)
next
  case (Some r)
  then show ?thesis
    by (cases r)
      (simp_all add: require_vault_def vault_decision_def seq_def exists_active_reads
        get_role_reads member_allows_def viewer_allows_def)
qed

lemma require_org_decides:
  "require_org ports u t a w = (org_decision (role_of w u t) u t a, w)"
  by (simp add: require_org_def org_decision_def seq_def get_role_reads split: option.split)

lemma require_vault_ok_iff:
  "(\<exists>ctx. require_vault ports u t v a w = (Inr ctx, w)) \<longleftrightarrow>
     live_vault w v t \<and> (\<exists>r. role_of w u t = Some r \<and> vault_matrix r a)"
  by (auto simp: require_vault_decides vault_decision_def split: option.split)

lemma require_vault_denied_frame: "snd (require_vault ports u t v a w) = w"
  by (simp add: require_vault_decides)

lemma list_accessible_unrestricted:
  "list_accessible_vault_ids ports u t w =
     ((case role_of w u t of None \<Rightarrow> Inl (forbidden_error ''Access denied'') | Some _ \<Rightarrow> Inr None), w)"
proof (cases "role_of w u t")
  case (Some r)
  then show ?thesis
    by (cases r) (simp_all add: list_accessible_vault_ids_def seq_def get_role_reads)
qed (simp add: list_accessible_vault_ids_def seq_def get_role_reads)

end

section \<open>Facts about the tables\<close>

text \<open>Where a role may act on a vault, so may every stronger one.\<close>

fun role_strength :: "org_role \<Rightarrow> nat" where
  "role_strength VIEWER = 0"
| "role_strength MEMBER = 1"
| "role_strength ADMIN = 2"
| "role_strength OWNER = 3"

lemma vault_matrix_mono:
  "vault_matrix r a \<Longrightarrow> role_strength r \<le> role_strength s \<Longrightarrow> vault_matrix s a"
  by (cases r; cases s) auto

lemma org_allows_mono:
  "org_allows r a \<Longrightarrow> role_strength r \<le> role_strength s \<Longrightarrow> org_allows s a"
  by (cases r; cases s; cases a) (simp_all add: org_allows_def)

lemma grant_allows_mono:
  "grant_allows (Some p) a r \<Longrightarrow> p \<le> q \<Longrightarrow> grant_allows (Some q) a r"
  by (cases a) (auto simp: grant_allows_def less_eq_vault_permission_def split: if_splits)

lemma grant_allows_viewer_cap:
  "grant_allows p a VIEWER \<Longrightarrow> a \<in> {SECRET_READ_META, SECRET_REVEAL}"
  by (auto simp: grant_allows_def split: option.splits if_splits)

end
