(* ===== verification/Json.thy ===== *)
theory Json
  imports Pytext
begin

text \<open>
  \<open>json.dumps(doc, sort_keys=True, separators=(",", ":"), ensure_ascii=False)\<close> on the values the
  audit metadata holds (null, booleans, integers, strings, lists, dictionaries with string
  keys), and the fact the hash chain rests on: the text determines the sorted document.
\<close>

datatype json =
    JNull
  | JBool bool
  | JInt int
  | JStr string
  | JList "json list"
  | JObj "(string \<times> json) list"

type_synonym metadata = "(string \<times> json) list"

definition esc_char :: "char \<Rightarrow> string" where
  "esc_char c =
     (let n = of_char c :: nat in
      if n = 34 then [CHR 0x5C, CHR 0x22]
      else if n = 92 then [CHR 0x5C, CHR 0x5C]
      else if n = 10 then [CHR 0x5C, CHR ''n'']
      else if n = 13 then [CHR 0x5C, CHR ''r'']
      else if n = 9 then [CHR 0x5C, CHR ''t'']
      else if n = 12 then [CHR 0x5C, CHR ''f'']
      else if n = 8 then [CHR 0x5C, CHR ''b'']
      else if n < 32 then [CHR 0x5C, CHR ''u'', CHR ''0'', CHR ''0'', hex_char (n div 16), hex_char (n mod 16)]
      else [c])"

definition json_str :: "string \<Rightarrow> string" where
  "json_str s = CHR 0x22 # concat (map esc_char s) @ [CHR 0x22]"

fun join_comma :: "string list \<Rightarrow> string" where
  "join_comma [] = []"
| "join_comma [x] = x"
| "join_comma (x # y # ys) = x @ CHR '','' # join_comma (y # ys)"

fun json_text :: "json \<Rightarrow> string" where
  "json_text JNull = ''null''"
| "json_text (JBool b) = (if b then ''true'' else ''false'')"
| "json_text (JInt i) = int_str i"
| "json_text (JStr s) = json_str s"
| "json_text (JList xs) = CHR ''['' # join_comma (map json_text xs) @ '']''"
| "json_text (JObj kvs) =
     CHR ''{'' # join_comma (map (\<lambda>(k, v). json_str k @ CHR '':'' # json_text v) kvs) @ ''}''"

fun json_sort :: "json \<Rightarrow> json" where
  "json_sort (JList xs) = JList (map json_sort xs)"
| "json_sort (JObj kvs) = JObj (sort_key fst (map (\<lambda>(k, v). (k, json_sort v)) kvs))"
| "json_sort j = j"

definition json_dumps :: "json \<Rightarrow> string" where
  "json_dumps j = json_text (json_sort j)"

section \<open>Decimal numerals\<close>

definition is_digit :: "char \<Rightarrow> bool" where
  "is_digit c \<longleftrightarrow> 48 \<le> (of_char c :: nat) \<and> (of_char c :: nat) \<le> 57"

definition digit_value :: "char \<Rightarrow> nat" where
  "digit_value c = of_char c - 48"

definition decimal_value :: "string \<Rightarrow> nat" where
  "decimal_value = foldl (\<lambda>a c. 10 * a + digit_value c) 0"

lemma of_digit_char [simp]: "d < 10 \<Longrightarrow> (of_char (digit_char d) :: nat) = 48 + d"
  by (simp add: digit_char_def)

lemma digit_value_digit_char [simp]: "d < 10 \<Longrightarrow> digit_value (digit_char d) = d"
  by (simp add: digit_value_def)

lemma is_digit_digit_char [simp]: "d < 10 \<Longrightarrow> is_digit (digit_char d)"
  by (simp add: is_digit_def)

lemma decimal_value_nat_str [simp]: "decimal_value (nat_str n) = n"
proof (induction n rule: nat_str.induct)
  case (1 n)
  show ?case
  proof (cases "n < 10")
    case True
    then show ?thesis by (simp add: nat_str.simps [of n] decimal_value_def)
  next
    case False
    with 1 show ?thesis by (simp add: nat_str.simps [of n] decimal_value_def)
  qed
qed

lemma nat_str_digits: "c \<in> set (nat_str n) \<Longrightarrow> is_digit c"
proof (induction n rule: nat_str.induct)
  case (1 n)
  then show ?case by (cases "n < 10") (auto simp: nat_str.simps [of n])
qed

lemma nat_str_nonempty [simp]: "nat_str n \<noteq> []"
  by (subst nat_str.simps) simp

text \<open>A numeral ends where no digit follows.\<close>

definition ends :: "string \<Rightarrow> bool" where
  "ends r \<longleftrightarrow> (case r of [] \<Rightarrow> True | c # _ \<Rightarrow> \<not> is_digit c)"

lemma nat_str_ends:
  assumes "ends r"
  shows "takeWhile is_digit (nat_str n @ r) = nat_str n" and "dropWhile is_digit (nat_str n @ r) = r"
proof -
  have a: "takeWhile is_digit r = []" "dropWhile is_digit r = r"
    using assms by (cases r; simp add: ends_def)+
  show "takeWhile is_digit (nat_str n @ r) = nat_str n"
    by (simp add: takeWhile_append2 nat_str_digits a)
  show "dropWhile is_digit (nat_str n @ r) = r"
    by (simp add: dropWhile_append2 nat_str_digits a)
qed

lemma nat_str_unique:
  assumes "nat_str n @ r = nat_str m @ s" and "ends r" and "ends s"
  shows "n = m \<and> r = s"
  by (metis assms decimal_value_nat_str nat_str_ends)

lemma nat_str_start: "\<exists>d t. nat_str n = d # t \<and> is_digit d"
  by (metis list.exhaust list.set_intros(1) nat_str_digits nat_str_nonempty)

lemma not_digit_minus [simp]: "\<not> is_digit (CHR ''-'')"
  by (simp add: is_digit_def)

lemma nat_str_not_minus: "nat_str n @ r \<noteq> CHR ''-'' # s"
  using nat_str_start [of n] by auto

lemma int_str_unique:
  assumes eq: "int_str i @ r = int_str j @ s" and "ends r" and "ends s"
  shows "i = j \<and> r = s"
proof -
  have "(i < 0) = (j < 0)"
    using eq by (auto simp: int_str_def nat_str_not_minus nat_str_not_minus [symmetric]
        split: if_splits)
  then consider "i < 0" "j < 0" | "0 \<le> i" "0 \<le> j" by linarith
  then show ?thesis
  proof cases
    case 1
    with eq have "nat_str (nat (- i)) @ r = nat_str (nat (- j)) @ s" by (simp add: int_str_def)
    from nat_str_unique [OF this assms(2,3)] 1 show ?thesis by auto
  next
    case 2
    with eq have "nat_str (nat i) @ r = nat_str (nat j) @ s" by (simp add: int_str_def)
    from nat_str_unique [OF this assms(2,3)] 2 show ?thesis by auto
  qed
qed

section \<open>Strings\<close>

fun unesc :: "string \<Rightarrow> (char \<times> string) option" where
  "unesc (c # s) =
     (if c \<noteq> CHR 0x5C then Some (c, s)
      else case s of
        [] \<Rightarrow> None
      | d # s' \<Rightarrow>
          if d = CHR ''n'' then Some (char_of (10::nat), s')
          else if d = CHR ''r'' then Some (char_of (13::nat), s')
          else if d = CHR ''t'' then Some (char_of (9::nat), s')
          else if d = CHR ''f'' then Some (char_of (12::nat), s')
          else if d = CHR ''b'' then Some (char_of (8::nat), s')
          else if d = CHR ''u'' then Some (char_of (hex_value (s' ! 2) * 16 + hex_value (s' ! 3)), drop 4 s')
          else Some (d, s'))"
| "unesc [] = None"

lemma unesc_esc_char [simp]: "unesc (esc_char c @ r) = Some (c, r)"
proof -
  let ?n = "of_char c :: nat"
  have c: "char_of k = c" if "?n = k" for k
    using that by auto
  have lit: "d = c" if "(of_char d :: nat) = ?n" for d
    using that by (simp only: of_char_eq_iff)
  have c34: "?n = 34 \<Longrightarrow> CHR 0x22 = c" and c92: "?n = 92 \<Longrightarrow> CHR 0x5C = c"
    by (rule lit, simp)+
  consider "c = CHR 0x22" | "c = CHR 0x5C" | "?n \<in> {8, 9, 10, 12, 13}" | "?n < 32" "?n \<notin> {8, 9, 10, 12, 13}"
    | "32 \<le> ?n" "?n \<noteq> 34" "?n \<noteq> 92"
    using c34 c92 by fastforce
  then show ?thesis
  proof cases
    case 1
    then show ?thesis by (simp add: esc_char_def)
  next
    case 2
    then show ?thesis by (simp add: esc_char_def)
  next
    case 3
    then show ?thesis
      by (elim insertE emptyE) (simp_all add: esc_char_def c)
  next
    case 4
    then have "?n div 16 < 16" by simp
    with 4 show ?thesis
      by (simp add: esc_char_def Let_def nth_Cons' mult.commute c)
  next
    case 5
    then have "c \<noteq> CHR 0x5C" by auto
    with 5 show ?thesis
      by (simp add: esc_char_def Let_def)
  qed
qed

lemma esc_char_nonempty [simp]: "esc_char c \<noteq> []"
  by (simp add: esc_char_def Let_def)

lemma esc_char_no_quote: "esc_char c = CHR 0x22 # x \<Longrightarrow> False"
  by (auto simp: esc_char_def Let_def split: if_splits)

lemma esc_chars_unique:
  "concat (map esc_char s) @ CHR 0x22 # r = concat (map esc_char t) @ CHR 0x22 # u \<Longrightarrow>
     s = t \<and> r = u"
proof (induction s arbitrary: t)
  case Nil
  then show ?case
    by (cases t) (auto simp: Cons_eq_append_conv dest: esc_char_no_quote
        esc_char_no_quote [OF sym])
next
  case (Cons c s)
  show ?case
  proof (cases t)
    case Nil
    with Cons.prems show ?thesis
      by (auto simp: append_eq_Cons_conv dest: esc_char_no_quote
        esc_char_no_quote [OF sym])
  next
    case (Cons d t')
    let ?x = "concat (map esc_char s) @ CHR 0x22 # r"
    let ?y = "concat (map esc_char t') @ CHR 0x22 # u"
    have "unesc (esc_char c @ ?x) = unesc (esc_char d @ ?y)"
      using Cons.prems Cons by simp
    then have "c = d" and "?x = ?y" by (simp_all del: unesc.simps)
    with Cons.IH [of t'] Cons show ?thesis by simp
  qed
qed

lemma json_str_unique: "json_str s @ r = json_str t @ u \<Longrightarrow> s = t \<and> r = u"
  using esc_chars_unique [of s r t u] by (simp add: json_str_def)

section \<open>The text determines the document\<close>

lemma ends_simps [simp]:
  "ends []" "ends (CHR '','' # r)" "ends (CHR '']'' # r)" "ends (CHR ''}'' # r)"
  by (simp_all add: ends_def is_digit_def)

lemma join_comma_Cons:
  "join_comma (x # xs) = x @ (if xs = [] then [] else CHR '','' # join_comma xs)"
  by (cases xs) simp_all

text \<open>
  Lists and dictionaries are comma-joined items before a closing bracket; if each item can be
  read back where it ends, so can the whole.
\<close>

lemma join_comma_unique:
  assumes item: "\<And>x y r s. x \<in> set xs \<Longrightarrow> ends r \<Longrightarrow> ends s \<Longrightarrow> T x @ r = T y @ s \<Longrightarrow> x = y \<and> r = s"
    and start: "\<And>x. \<exists>d t. T x = d # t \<and> d \<noteq> c"
    and c: "c = CHR '']'' \<or> c = CHR ''}''"
    and eq: "join_comma (map T xs) @ c # r = join_comma (map T ys) @ c # s"
  shows "xs = ys \<and> r = s"
  using item eq
proof (induction xs arbitrary: ys)
  case Nil
  then show ?case
    using start [of "hd ys"] by (cases ys) (auto simp: join_comma_Cons)
next
  case (Cons x xs)
  have ends_c: "ends (c # t)" for t using c by auto
  have comma: "c \<noteq> CHR '',''" using c by auto
  show ?case
  proof (cases ys)
    case Nil
    with Cons.prems(2) start [of x] show ?thesis by (auto simp: join_comma_Cons)
  next
    case (Cons y ys')
    let ?r = "(if xs = [] then [] else CHR '','' # join_comma (map T xs)) @ c # r"
    let ?s = "(if ys' = [] then [] else CHR '','' # join_comma (map T ys')) @ c # s"
    have "T x @ ?r = T y @ ?s"
      using Cons.prems(2) Cons by (simp add: join_comma_Cons)
    moreover have "ends ?r" "ends ?s" by (simp_all add: ends_c)
    ultimately have xy: "x = y" and rs: "?r = ?s"
      using Cons.prems(1) [of x ?r ?s y] by simp_all
    have "xs = ys' \<and> r = s"
    proof (cases "xs = []")
      case True
      with rs comma show ?thesis by (cases "ys' = []") auto
    next
      case False
      with rs comma have "ys' \<noteq> []" by auto
      with False rs have "join_comma (map T xs) @ c # r = join_comma (map T ys') @ c # s"
        by simp
      then show ?thesis using Cons.IH [of ys'] Cons.prems(1) by auto
    qed
    with xy Cons show ?thesis by simp
  qed
qed

lemma int_str_start: "\<exists>d t. int_str i = d # t \<and> (d = CHR ''-'' \<or> is_digit d)"
  using nat_str_start [of "nat i"] by (auto simp: int_str_def)

text \<open>The first character tells the kind of value.\<close>

definition json_kind :: "char \<Rightarrow> nat" where
  "json_kind c =
     (if c = CHR ''n'' then 0 else if c = CHR ''t'' then 1 else if c = CHR ''f'' then 2
      else if c = CHR 0x22 then 3 else if c = CHR ''['' then 4 else if c = CHR ''{'' then 5
      else if c = CHR ''-'' \<or> is_digit c then 6 else 7)"

fun json_tag :: "json \<Rightarrow> nat" where
  "json_tag JNull = 0"
| "json_tag (JBool b) = (if b then 1 else 2)"
| "json_tag (JStr s) = 3"
| "json_tag (JList xs) = 4"
| "json_tag (JObj kvs) = 5"
| "json_tag (JInt i) = 6"

lemma json_kind_digit: "is_digit d \<Longrightarrow> json_kind d = 6"
  by (auto simp: json_kind_def is_digit_def)

lemma json_kind_chars [simp]:
  "json_kind (CHR ''n'') = 0" "json_kind (CHR ''t'') = 1" "json_kind (CHR ''f'') = 2"
  "json_kind (CHR 0x22) = 3" "json_kind (CHR ''['') = 4" "json_kind (CHR ''{'') = 5"
  "json_kind (CHR ''-'') = 6"
  by (simp_all add: json_kind_def)

lemma json_text_start: "\<exists>d t. json_text j = d # t \<and> json_kind d = json_tag j"
proof (cases j)
  case (JInt i)
  then show ?thesis
    using int_str_start [of i] by (auto simp: json_kind_digit)
qed (auto simp: json_str_def)

lemma json_kind_close [simp]: "json_kind (CHR '']'') = 7" "json_kind (CHR ''}'') = 7"
  by (simp_all add: json_kind_def is_digit_def)

lemma json_tag_bound: "json_tag j < 7"
  by (cases j) simp_all

lemma json_text_unique:
  assumes "json_text a @ r = json_text b @ s" and "ends r" and "ends s"
  shows "a = b \<and> r = s"
  using assms
proof (induction a arbitrary: b r s)
  case (JList xs)
  have "json_tag b = 4"
    using JList.prems(1) json_text_start [of b] json_text_start [of "JList xs"] by auto
  then obtain ys where b: "b = JList ys" by (cases b) (auto split: if_splits)
  have "xs = ys \<and> r = s"
  proof (rule join_comma_unique [where T = json_text and c = "CHR '']''"])
    show "\<exists>d t. json_text x = d # t \<and> d \<noteq> CHR '']''" for x
      using json_text_start [of x] json_tag_bound [of x] by auto
    show "join_comma (map json_text xs) @ CHR '']'' # r = join_comma (map json_text ys) @ CHR '']'' # s"
      using JList.prems(1) b by simp
  qed (use JList.IH in auto)
  with b show ?case by simp
next
  case (JObj kvs)
  let ?T = "\<lambda>(k, v). json_str k @ CHR '':'' # json_text v"
  have "json_tag b = 5"
    using JObj.prems(1) json_text_start [of b] json_text_start [of "JObj kvs"] by auto
  then obtain kvs' where b: "b = JObj kvs'" by (cases b) (auto split: if_splits)
  have "kvs = kvs' \<and> r = s"
  proof (rule join_comma_unique [where T = ?T and c = "CHR ''}''"])
    show "\<exists>d t. ?T x = d # t \<and> d \<noteq> CHR ''}''" for x
      by (cases x) (simp add: json_str_def)
    show "join_comma (map ?T kvs) @ CHR ''}'' # r = join_comma (map ?T kvs') @ CHR ''}'' # s"
      using JObj.prems(1) b by simp
    show "x = y \<and> r = s"
      if x: "x \<in> set kvs" and e: "ends r" "ends s" and eq: "?T x @ r = ?T y @ s" for x y r s
    proof (cases x; cases y)
      fix k v k' v'
      assume xy: "x = (k, v)" "y = (k', v')"
      from eq xy have "json_str k @ (CHR '':'' # json_text v @ r) = json_str k' @ (CHR '':'' # json_text v' @ s)"
        by simp
      then have "k = k'" "json_text v @ r = json_text v' @ s"
        using json_str_unique by blast+
      moreover have "v \<in> Basic_BNFs.snds x" using xy by simp
      ultimately show ?thesis using JObj.IH [OF x] e xy by blast
    qed
  qed simp
  with b show ?case by simp
next
  case (JBool v)
  then show ?case
    using json_text_start [of b] by (cases b) (auto split: if_splits)
next
  case JNull
  then show ?case
    using json_text_start [of b] by (cases b) (auto split: if_splits)
next
  case (JInt i)
  have "json_tag b = 6"
    using JInt.prems(1) json_text_start [of b] json_text_start [of "JInt i"] by auto
  then obtain k where "b = JInt k" by (cases b) (auto split: if_splits)
  with JInt.prems show ?case by (auto dest: int_str_unique)
next
  case (JStr t)
  have "json_tag b = 3"
    using JStr.prems(1) json_text_start [of b] json_text_start [of "JStr t"] by auto
  then obtain k where "b = JStr k" by (cases b) (auto split: if_splits)
  with JStr.prems show ?case by (auto dest: json_str_unique)
qed

lemma json_text_inject: "json_text a = json_text b \<longleftrightarrow> a = b"
  using json_text_unique [of a "[]" b "[]"] by auto

end
