(* ===== verification/Sha256.thy ===== *)
theory Sha256
  imports Pytext
begin

text \<open>
  SHA-256 (FIPS 180-4), the \<open>hashlib.sha256\<close> of the audit chain, of the refresh tokens and of
  the invitation tokens. It is defined in full, so no property has to assume anything about
  it: where a theorem depends on collision resistance it exhibits the collision instead.
\<close>

type_synonym word32 = "32 word"

text \<open>
  The constants are computed from their definition rather than listed: the first 32 bits of
  the fractional parts of the square roots of the first eight primes and of the cube roots of
  the first sixty-four, all of them below \<open>18 ^ 2\<close>, so a divisor below 18 decides. Scaled by \<open>2 ^ 32\<close> the root is an integer, its bits are found from the
  top, and the word type keeps the fractional ones.
\<close>

definition floor_root :: "nat \<Rightarrow> nat \<Rightarrow> nat" where
  "floor_root e n =
     fold (\<lambda>b r. if (r + 2 ^ b) ^ e \<le> n then r + 2 ^ b else r) (rev [0..<40]) 0"

definition root_fraction :: "nat \<Rightarrow> nat \<Rightarrow> word32" where
  "root_fraction e p = of_nat (floor_root e (p * 2 ^ (32 * e)))"

definition first_primes :: "nat list" where
  "first_primes = filter (\<lambda>n. list_all (\<lambda>d. n \<le> d \<or> n mod d \<noteq> 0) [2..<18]) [2..<312]"

definition sha_k :: "word32 list" where
  "sha_k = map (root_fraction 3) first_primes"

definition sha_h0 :: "word32 list" where
  "sha_h0 = map (root_fraction 2) (take 8 first_primes)"

definition be32 :: "byte \<Rightarrow> byte \<Rightarrow> byte \<Rightarrow> byte \<Rightarrow> word32" where
  "be32 a b c d =
     push_bit 24 (ucast a) OR push_bit 16 (ucast b) OR push_bit 8 (ucast c) OR ucast d"

fun words_of :: "bytes \<Rightarrow> word32 list" where
  "words_of (a # b # c # d # rest) = be32 a b c d # words_of rest"
| "words_of _ = []"

definition bytes_of_word :: "word32 \<Rightarrow> bytes" where
  "bytes_of_word w =
     [ucast (drop_bit 24 w), ucast (drop_bit 16 w), ucast (drop_bit 8 w), ucast w]"

definition sha_pad :: "bytes \<Rightarrow> bytes" where
  "sha_pad m =
     (let n = length m in
      m @ [0x80] @ replicate ((119 - n mod 64) mod 64) 0 @
      map (\<lambda>i. of_nat (n * 8 div 256 ^ i mod 256)) (rev [0..<8]))"

definition small_sigma0 :: "word32 \<Rightarrow> word32" where
  "small_sigma0 x = word_rotr 7 x XOR word_rotr 18 x XOR drop_bit 3 x"

definition small_sigma1 :: "word32 \<Rightarrow> word32" where
  "small_sigma1 x = word_rotr 17 x XOR word_rotr 19 x XOR drop_bit 10 x"

definition big_sigma0 :: "word32 \<Rightarrow> word32" where
  "big_sigma0 x = word_rotr 2 x XOR word_rotr 13 x XOR word_rotr 22 x"

definition big_sigma1 :: "word32 \<Rightarrow> word32" where
  "big_sigma1 x = word_rotr 6 x XOR word_rotr 11 x XOR word_rotr 25 x"

text \<open>The message schedule, newest word first.\<close>

fun sha_extend :: "nat \<Rightarrow> word32 list \<Rightarrow> word32 list" where
  "sha_extend 0 ws = ws"
| "sha_extend (Suc n) ws =
     sha_extend n
       ((small_sigma1 (ws ! 1) + ws ! 6 + small_sigma0 (ws ! 14) + ws ! 15) # ws)"

definition sha_schedule :: "word32 list \<Rightarrow> word32 list" where
  "sha_schedule block = rev (sha_extend 48 (rev block))"

fun sha_round :: "word32 \<times> word32 \<Rightarrow> word32 list \<Rightarrow> word32 list" where
  "sha_round (k, w) [a, b, c, d, e, f, g, h] =
     (let t1 = h + big_sigma1 e + ((e AND f) XOR (NOT e AND g)) + k + w;
          t2 = big_sigma0 a + ((a AND b) XOR (a AND c) XOR (b AND c))
      in [t1 + t2, a, b, c, d + t1, e, f, g])"
| "sha_round _ st = st"

definition sha_block :: "word32 list \<Rightarrow> word32 list \<Rightarrow> word32 list" where
  "sha_block st block =
     map2 (+) st (fold sha_round (zip sha_k (sha_schedule block)) st)"

fun sha_blocks :: "nat \<Rightarrow> word32 list \<Rightarrow> word32 list \<Rightarrow> word32 list" where
  "sha_blocks 0 st ws = st"
| "sha_blocks (Suc n) st ws = sha_blocks n (sha_block st (take 16 ws)) (drop 16 ws)"

definition sha256 :: "bytes \<Rightarrow> bytes" where
  "sha256 m =
     (let ws = words_of (sha_pad m) in
      concat (map bytes_of_word (sha_blocks (length ws div 16) sha_h0 ws)))"

section \<open>The digest has 32 octets\<close>

lemma length_sha_round: "length (sha_round kw st) = length st"
  by (induction kw st rule: sha_round.induct) (simp_all add: Let_def)

lemma length_sha_rounds: "length (fold sha_round kws st) = length st"
  by (induction kws arbitrary: st) (simp_all add: length_sha_round)

lemma length_sha_block: "length (sha_block st b) = length st"
  by (simp add: sha_block_def length_sha_rounds)

lemma length_sha_blocks: "length (sha_blocks n st ws) = length st"
  by (induction n arbitrary: st ws) (simp_all add: length_sha_block)

lemma first_eight_primes: "take 8 first_primes = [2, 3, 5, 7, 11, 13, 17, 19]"
proof -
  have split: "[2..<312] = [2..<20] @ [20..<312]"
    using upt_add_eq_append [of 2 20 292] by (simp del: upt_rec_numeral)
  have small: "filter (\<lambda>n. list_all (\<lambda>d. n \<le> d \<or> n mod d \<noteq> 0) [2..<18]) [2..<20] =
      [2, 3, 5, 7, 11, 13, 17, 19]"
    by code_simp
  have eight: "take 8 ([2, 3, 5, 7, 11, 13, 17, 19] @ ps) = [2, 3, 5, 7, 11, 13, 17, 19]"
    for ps :: "nat list"
    by simp
  show ?thesis
    by (simp only: first_primes_def split filter_append small eight)
qed

lemma length_sha_h0 [simp]: "length sha_h0 = 8"
  by (simp add: sha_h0_def first_eight_primes)

lemma length_concat_words: "length (concat (map bytes_of_word ws)) = 4 * length ws"
  by (induction ws) (simp_all add: bytes_of_word_def)

lemma length_sha256 [simp]: "length (sha256 m) = 32"
  by (simp add: sha256_def Let_def length_concat_words length_sha_blocks)

text \<open>The hexadecimal digest stored for tokens has 64 characters, the width of its column.\<close>

lemma length_hexdigest: "length (hexdigest bs) = 2 * length bs"
  by (induction bs) (simp_all add: hexdigest_def byte_hex_def)

lemma length_hexdigest_sha256 [simp]: "length (hexdigest (sha256 m)) = 64"
  by (simp add: length_hexdigest)

end
