(* ===== verification/Audit_Chain.thy ===== *)
theory Audit_Chain
  imports Access Json Sha256
begin

text \<open>
  \<open>domain/audit\<close>: the hash-chained ledger. Canonical bytes and entry hash of an event,
  \<open>AuditService.record\<close> over the ledger port, \<open>AuditService.verify_chain\<close>, the event views and
  their enrichment with actors; the locale \<open>audit_ledger\<close> is the contract of the port.
\<close>

section \<open>Models\<close>

datatype audit_outcome = OUTCOME_SUCCESS | OUTCOME_FAILURE | OUTCOME_DENIED

fun outcome_value :: "audit_outcome \<Rightarrow> string" where
  "outcome_value OUTCOME_SUCCESS = ''success''"
| "outcome_value OUTCOME_FAILURE = ''failure''"
| "outcome_value OUTCOME_DENIED = ''denied''"

datatype audit_actor_status = STATUS_ACTIVE | STATUS_FORMER_MEMBER | STATUS_UNKNOWN

record actor_context =
  actor_user :: uuid
  actor_session :: uuid
  actor_tenant :: uuid

record chain_head =
  ch_tenant_id :: uuid
  ch_last_sequence :: int
  ch_last_hash :: "bytes option"

record audit_event =
  ev_id :: uuid
  ev_tenant_id :: uuid
  ev_sequence :: int
  ev_actor_user_id :: "uuid option"
  ev_session_id :: "uuid option"
  ev_action :: string
  ev_target_type :: string
  ev_target_id :: "uuid option"
  ev_outcome :: string
  ev_metadata :: metadata
  ev_occurred_at :: time
  ev_previous_hash :: "bytes option"
  ev_entry_hash :: bytes

record audit_actor_view =
  av_user_id :: uuid
  av_email :: "string option"
  av_role :: "string option"
  av_status :: audit_actor_status

record audit_event_view =
  vw_id :: uuid
  vw_tenant_id :: uuid
  vw_sequence :: int
  vw_actor_user_id :: "uuid option"
  vw_session_id :: "uuid option"
  vw_action :: string
  vw_target_type :: string
  vw_target_id :: "uuid option"
  vw_outcome :: string
  vw_metadata :: metadata
  vw_occurred_at :: time
  vw_actor :: "audit_actor_view option"

text \<open>Why verification failed; the source words each as a message.\<close>

datatype chain_fault =
    SequenceGap int int
  | PreviousLinkBroken
  | EntryHashMismatch
  | HeadInconsistent

record verification_result =
  vr_ok :: bool
  vr_events_checked :: int
  vr_failure_sequence :: "int option"
  vr_reason :: "chain_fault option"

section \<open>Vocabulary\<close>

definition audit_actions :: "string set" where
  "audit_actions =
     {''vault.created'', ''vault.deleted'', ''vault.updated'', ''grant.created'', ''grant.updated'',
      ''grant.revoked'', ''secret.created'', ''secret.revealed'', ''secret.rotated'',
      ''secret.deleted'', ''key.rotated'', ''member.invited'', ''member.removed'',
      ''member.role_changed'', ''mfa.enabled'', ''mfa.disabled'', ''stepup.issued'',
      ''access.denied''}"

definition forbidden_metadata_keys :: "string set" where
  "forbidden_metadata_keys =
     {''value'', ''plaintext'', ''password'', ''secret'', ''token'', ''code'', ''refresh_token'',
      ''access_token'', ''totp'', ''seed'', ''key'', ''dek''}"

section \<open>Hashing\<close>

definition genesis_domain :: bytes where
  "genesis_domain = utf8_encode ''vaultlog:audit:genesis:v1''"

definition opt_uuid :: "uuid option \<Rightarrow> json" where
  "opt_uuid u = (case u of None \<Rightarrow> JNull | Some x \<Rightarrow> JStr (uuid_str x))"

definition canonical_event_bytes ::
    "uuid \<Rightarrow> int \<Rightarrow> uuid option \<Rightarrow> uuid option \<Rightarrow> string \<Rightarrow> string \<Rightarrow> uuid option \<Rightarrow> string \<Rightarrow>
     metadata \<Rightarrow> time \<Rightarrow> bytes" where
  "canonical_event_bytes tenant_id sequence actor_user_id session_id action target_type target_id
       outcome metadata occurred_at =
     utf8_encode (json_dumps (JObj
       [(''tenant_id'', JStr (uuid_str tenant_id)),
        (''sequence'', JInt sequence),
        (''actor_user_id'', opt_uuid actor_user_id),
        (''session_id'', opt_uuid session_id),
        (''action'', JStr action),
        (''target_type'', JStr target_type),
        (''target_id'', opt_uuid target_id),
        (''outcome'', JStr outcome),
        (''metadata'', JObj metadata),
        (''occurred_at'', JStr (iso_micros occurred_at))]))"

definition chain_input :: "bytes option \<Rightarrow> bytes \<Rightarrow> bytes" where
  "chain_input previous_hash canonical =
     (case previous_hash of None \<Rightarrow> genesis_domain | Some h \<Rightarrow> h) @ canonical"

definition compute_entry_hash :: "bytes option \<Rightarrow> bytes \<Rightarrow> bytes" where
  "compute_entry_hash previous_hash canonical = sha256 (chain_input previous_hash canonical)"

definition event_bytes :: "audit_event \<Rightarrow> bytes" where
  "event_bytes e =
     canonical_event_bytes (ev_tenant_id e) (ev_sequence e) (ev_actor_user_id e) (ev_session_id e)
       (ev_action e) (ev_target_type e) (ev_target_id e) (ev_outcome e) (ev_metadata e)
       (ev_occurred_at e)"

section \<open>AuditService\<close>

fun walk_keys :: "metadata \<Rightarrow> string list" where
  "walk_keys [] = []"
| "walk_keys ((k, v) # kvs) =
     k # (case v of JObj doc \<Rightarrow> walk_keys doc | _ \<Rightarrow> []) @ walk_keys kvs"

definition offending_keys :: "metadata \<Rightarrow> string set" where
  "offending_keys metadata = forbidden_metadata_keys \<inter> set (map str_lower (walk_keys metadata))"

record 'w ledger_ports =
  lock_or_create_head :: "uuid \<Rightarrow> ('w, exn, chain_head) prog"
  insert_event :: "audit_event \<Rightarrow> ('w, exn, unit) prog"
  advance_head :: "uuid \<Rightarrow> int \<Rightarrow> bytes \<Rightarrow> ('w, exn, unit) prog"
  utc_now :: "('w, exn, time) prog"
  uuid4 :: "('w, exn, uuid) prog"

definition audit_record ::
    "'w ledger_ports \<Rightarrow> actor_context \<Rightarrow> string \<Rightarrow> string \<Rightarrow> uuid option \<Rightarrow> string \<Rightarrow>
     metadata option \<Rightarrow> ('w, exn, unit) prog" where
  "audit_record ports actor action target_type target_id outcome metadata =
     (if action \<notin> audit_actions then raise (Audit (UnknownAuditActionError action))
      else
        let safe_metadata = (case metadata of None \<Rightarrow> [] | Some m \<Rightarrow> m);
            offending = offending_keys safe_metadata
        in if offending \<noteq> {}
        then raise (Audit (AuditMetadataError (sorted_list_of_set offending)))
        else
          seq (lock_or_create_head ports (actor_tenant actor)) (\<lambda>head.
          let sequence = ch_last_sequence head + 1 in
          seq (utc_now ports) (\<lambda>occurred_at.
          let canonical = canonical_event_bytes (actor_tenant actor) sequence
                (Some (actor_user actor)) (Some (actor_session actor)) action target_type
                target_id outcome safe_metadata occurred_at;
              entry_hash = compute_entry_hash (ch_last_hash head) canonical
          in seq (uuid4 ports) (\<lambda>event_id.
          let event = \<lparr>ev_id = event_id, ev_tenant_id = actor_tenant actor,
                ev_sequence = sequence, ev_actor_user_id = Some (actor_user actor),
                ev_session_id = Some (actor_session actor), ev_action = action,
                ev_target_type = target_type, ev_target_id = target_id, ev_outcome = outcome,
                ev_metadata = safe_metadata, ev_occurred_at = occurred_at,
                ev_previous_hash = ch_last_hash head, ev_entry_hash = entry_hash\<rparr>
          in seq (insert_event ports event) (\<lambda>_.
          advance_head ports (actor_tenant actor) sequence entry_hash)))))"

fun verify_loop ::
    "bytes option \<Rightarrow> int \<Rightarrow> audit_event list \<Rightarrow> verification_result + bytes option \<times> int" where
  "verify_loop expected_previous expected_sequence [] = Inr (expected_previous, expected_sequence)"
| "verify_loop expected_previous expected_sequence (row # rows) =
     (if ev_sequence row \<noteq> expected_sequence then
        Inl \<lparr>vr_ok = False, vr_events_checked = expected_sequence - 1,
             vr_failure_sequence = Some (ev_sequence row),
             vr_reason = Some (SequenceGap expected_sequence (ev_sequence row))\<rparr>
      else if ev_previous_hash row \<noteq> expected_previous then
        Inl \<lparr>vr_ok = False, vr_events_checked = ev_sequence row - 1,
             vr_failure_sequence = Some (ev_sequence row), vr_reason = Some PreviousLinkBroken\<rparr>
      else if compute_entry_hash expected_previous (event_bytes row) \<noteq> ev_entry_hash row then
        Inl \<lparr>vr_ok = False, vr_events_checked = ev_sequence row - 1,
             vr_failure_sequence = Some (ev_sequence row), vr_reason = Some EntryHashMismatch\<rparr>
      else verify_loop (Some (ev_entry_hash row)) (expected_sequence + 1) rows)"

definition verify_chain :: "audit_event list \<Rightarrow> chain_head option \<Rightarrow> verification_result" where
  "verify_chain events head =
     (case verify_loop None 1 events of
        Inl failure \<Rightarrow> failure
      | Inr (expected_previous, expected_sequence) \<Rightarrow>
          if (case head of None \<Rightarrow> False
              | Some h \<Rightarrow> ch_last_hash h \<noteq> expected_previous \<or>
                         ch_last_sequence h \<noteq> expected_sequence - 1)
          then \<lparr>vr_ok = False, vr_events_checked = expected_sequence - 1,
                vr_failure_sequence = None, vr_reason = Some HeadInconsistent\<rparr>
          else \<lparr>vr_ok = True, vr_events_checked = expected_sequence - 1,
                vr_failure_sequence = None, vr_reason = None\<rparr>)"

definition to_event_view :: "audit_event \<Rightarrow> audit_event_view" where
  "to_event_view e =
     \<lparr>vw_id = ev_id e, vw_tenant_id = ev_tenant_id e, vw_sequence = ev_sequence e,
      vw_actor_user_id = ev_actor_user_id e, vw_session_id = ev_session_id e,
      vw_action = ev_action e, vw_target_type = ev_target_type e, vw_target_id = ev_target_id e,
      vw_outcome = ev_outcome e, vw_metadata = ev_metadata e, vw_occurred_at = ev_occurred_at e,
      vw_actor = None\<rparr>"

section \<open>Enrichment\<close>

definition build_actor_view ::
    "uuid \<Rightarrow> string option \<Rightarrow> org_role option \<Rightarrow> audit_actor_view" where
  "build_actor_view user_id email role =
     \<lparr>av_user_id = user_id, av_email = email, av_role = map_option role_value role,
      av_status = (if email = None then STATUS_UNKNOWN
                   else if role \<noteq> None then STATUS_ACTIVE else STATUS_FORMER_MEMBER)\<rparr>"

definition enrich_events_with_actors ::
    "audit_event_view list \<Rightarrow> (uuid \<rightharpoonup> audit_actor_view) \<Rightarrow> audit_event_view list" where
  "enrich_events_with_actors events actors =
     map (\<lambda>event. case vw_actor_user_id event of
            None \<Rightarrow> event
          | Some u \<Rightarrow>
              event\<lparr>vw_actor := Some (case actors u of
                Some actor \<Rightarrow> actor | None \<Rightarrow> build_actor_view u None None)\<rparr>) events"

section \<open>What a valid chain is\<close>

text \<open>
  The abstract specification of verification, by position: the \<open>i\<close>-th event has sequence
  \<open>i + 1\<close>, points at the entry hash of its predecessor and carries the hash of its own content.
\<close>

definition link_of :: "audit_event list \<Rightarrow> nat \<Rightarrow> bytes option" where
  "link_of es i = (if i = 0 then None else Some (ev_entry_hash (es ! (i - 1))))"

definition valid_link :: "audit_event list \<Rightarrow> nat \<Rightarrow> bool" where
  "valid_link es i \<longleftrightarrow>
     ev_sequence (es ! i) = int i + 1 \<and>
     ev_previous_hash (es ! i) = link_of es i \<and>
     ev_entry_hash (es ! i) = compute_entry_hash (link_of es i) (event_bytes (es ! i))"

definition valid_chain :: "audit_event list \<Rightarrow> bool" where
  "valid_chain es \<longleftrightarrow> (\<forall>i < length es. valid_link es i)"

definition head_matches :: "audit_event list \<Rightarrow> chain_head \<Rightarrow> bool" where
  "head_matches es h \<longleftrightarrow>
     ch_last_hash h = link_of es (length es) \<and> ch_last_sequence h = int (length es)"

lemma link_of_append: "i \<le> length es \<Longrightarrow> link_of (es @ fs) i = link_of es i"
  by (auto simp: link_of_def nth_append)

lemma valid_link_append: "i < length es \<Longrightarrow> valid_link (es @ fs) i = valid_link es i"
  by (simp add: valid_link_def link_of_append nth_append)

lemma valid_chain_Nil [simp]: "valid_chain []"
  by (simp add: valid_chain_def)

lemma valid_chain_snoc:
  "valid_chain (es @ [e]) \<longleftrightarrow>
     valid_chain es \<and> ev_sequence e = int (length es) + 1 \<and>
     ev_previous_hash e = link_of es (length es) \<and>
     ev_entry_hash e = compute_entry_hash (link_of es (length es)) (event_bytes e)"
proof -
  have "valid_link (es @ [e]) (length es) \<longleftrightarrow>
      ev_sequence e = int (length es) + 1 \<and> ev_previous_hash e = link_of es (length es) \<and>
      ev_entry_hash e = compute_entry_hash (link_of es (length es)) (event_bytes e)"
    by (simp add: valid_link_def link_of_append)
  then show ?thesis
    by (auto simp: valid_chain_def less_Suc_eq valid_link_append)
qed

lemma valid_chain_prefix: "valid_chain (es @ fs) \<Longrightarrow> valid_chain es"
  unfolding valid_chain_def by (metis length_append trans_less_add1 valid_link_append)

lemma head_matches_snoc:
  "head_matches (es @ [e]) h \<longleftrightarrow>
     ch_last_hash h = Some (ev_entry_hash e) \<and> ch_last_sequence h = int (length es) + 1"
  by (auto simp: head_matches_def link_of_def)

text \<open>The loop, started anywhere inside a chain, agrees with the positional specification.\<close>

lemma verify_loop_step:
  "verify_loop (link_of done (length done)) (int (length done) + 1) (e # es) =
     (if valid_link (done @ e # es) (length done)
      then verify_loop (link_of (done @ [e]) (length (done @ [e])))
             (int (length (done @ [e])) + 1) es
      else verify_loop (link_of done (length done)) (int (length done) + 1) (e # es))"
  by (auto simp: valid_link_def link_of_append link_of_def [of "done @ [e]"])

lemma verify_loop_fails:
  assumes "\<not> valid_link (done @ e # es) (length done)"
  shows "\<exists>r. verify_loop (link_of done (length done)) (int (length done) + 1) (e # es) = Inl r
           \<and> \<not> vr_ok r \<and> vr_events_checked r = int (length done)
           \<and> vr_failure_sequence r = Some (ev_sequence e)"
  using assms by (auto simp: valid_link_def link_of_append)

lemma verify_loop_ok:
  "(\<And>i. i < length es \<Longrightarrow> valid_link (done @ es) (length done + i)) \<Longrightarrow>
   verify_loop (link_of done (length done)) (int (length done) + 1) es =
     Inr (link_of (done @ es) (length (done @ es)), int (length (done @ es)) + 1)"
proof (induction es arbitrary: "done")
  case (Cons e es)
  have "valid_link (done @ e # es) (length done)"
    using Cons.prems [of 0] by simp
  moreover have "valid_link ((done @ [e]) @ es) (length (done @ [e]) + i)" if "i < length es" for i
    using Cons.prems [of "Suc i"] that by simp
  ultimately show ?case
    using Cons.IH [of "done @ [e]"] by (subst verify_loop_step) simp
qed simp

lemma verify_loop_first_fault:
  assumes "n < length es" and "\<And>i. i < n \<Longrightarrow> valid_link (done @ es) (length done + i)"
    and "\<not> valid_link (done @ es) (length done + n)"
  shows "\<exists>r. verify_loop (link_of done (length done)) (int (length done) + 1) es = Inl r
           \<and> \<not> vr_ok r \<and> vr_events_checked r = int (length done + n)
           \<and> vr_failure_sequence r = Some (ev_sequence (es ! n))"
  using assms
proof (induction es arbitrary: "done" n)
  case (Cons e es)
  show ?case
  proof (cases n)
    case 0
    with Cons.prems(3) show ?thesis by (auto dest: verify_loop_fails)
  next
    case (Suc m)
    have v: "valid_link (done @ e # es) (length done)"
      using Cons.prems(2) [of 0] Suc by simp
    have "\<exists>r. verify_loop (link_of (done @ [e]) (length (done @ [e])))
             (int (length (done @ [e])) + 1) es = Inl r
           \<and> \<not> vr_ok r \<and> vr_events_checked r = int (length (done @ [e]) + m)
           \<and> vr_failure_sequence r = Some (ev_sequence (es ! m))"
      using Cons.prems(2) [of "Suc i" for i] Cons.prems(1,3) Suc
      by (intro Cons.IH) simp_all
    with v Suc show ?thesis by (subst verify_loop_step) simp
  qed
qed simp

lemma verify_chain_iff:
  "vr_ok (verify_chain es head) \<longleftrightarrow>
     valid_chain es \<and> (case head of None \<Rightarrow> True | Some h \<Rightarrow> head_matches es h)"
proof (cases "valid_chain es")
  case True
  then have "verify_loop None 1 es = Inr (link_of es (length es), int (length es) + 1)"
    using verify_loop_ok [of es "[]"] by (simp add: valid_chain_def link_of_def)
  with True show ?thesis
    by (auto simp: verify_chain_def head_matches_def split: option.split)
next
  case False
  define n where "n = (LEAST i. i < length es \<and> \<not> valid_link es i)"
  have "n < length es \<and> \<not> valid_link es n"
    using False unfolding n_def valid_chain_def by (metis (mono_tags, lifting) LeastI)
  moreover have "valid_link es i" if "i < n" for i
    using that not_less_Least [of i "\<lambda>i. i < length es \<and> \<not> valid_link es i"] calculation
    by (auto simp: n_def [symmetric])
  ultimately show ?thesis
    using verify_loop_first_fault [of n es "[]"] False
    by (auto simp: verify_chain_def link_of_def)
qed

lemma verify_chain_first_fault:
  assumes "n < length es" and "\<And>i. i < n \<Longrightarrow> valid_link es i" and "\<not> valid_link es n"
  shows "\<not> vr_ok (verify_chain es head)"
    and "vr_events_checked (verify_chain es head) = int n"
    and "vr_failure_sequence (verify_chain es head) = Some (ev_sequence (es ! n))"
  using verify_loop_first_fault [of n es "[]"] assms
  by (auto simp: verify_chain_def link_of_def)

section \<open>The hash covers the content\<close>

text \<open>The canonical bytes determine every field they encode, metadata up to key order.\<close>

lemma sort_doc:
  "sort_key fst
     [(''tenant_id'', a), (''sequence'', b), (''actor_user_id'', c), (''session_id'', d),
      (''action'', e), (''target_type'', f), (''target_id'', g), (''outcome'', h),
      (''metadata'', i), (''occurred_at'', j)] =
     [(''action'', e), (''actor_user_id'', c), (''metadata'', i), (''occurred_at'', j),
      (''outcome'', h), (''sequence'', b), (''session_id'', d), (''target_id'', g),
      (''target_type'', f), (''tenant_id'', a)]"
  by simp

definition metadata_normal :: "metadata \<Rightarrow> json" where
  "metadata_normal m = json_sort (JObj m)"

lemma opt_uuid_inject [simp]: "opt_uuid a = opt_uuid b \<longleftrightarrow> a = b"
  by (auto simp: opt_uuid_def split: option.splits)

lemma json_sort_opt_uuid [simp]: "json_sort (opt_uuid a) = opt_uuid a"
  by (simp add: opt_uuid_def split: option.split)

lemma json_sort_doc:
  "json_sort (JObj
     [(''tenant_id'', JStr a), (''sequence'', JInt b), (''actor_user_id'', opt_uuid c),
      (''session_id'', opt_uuid d), (''action'', JStr e), (''target_type'', JStr f),
      (''target_id'', opt_uuid g), (''outcome'', JStr h), (''metadata'', JObj i),
      (''occurred_at'', JStr j)]) =
   JObj
     [(''action'', JStr e), (''actor_user_id'', opt_uuid c), (''metadata'', metadata_normal i),
      (''occurred_at'', JStr j), (''outcome'', JStr h), (''sequence'', JInt b),
      (''session_id'', opt_uuid d), (''target_id'', opt_uuid g), (''target_type'', JStr f),
      (''tenant_id'', JStr a)]"
  by (simp add: sort_doc metadata_normal_def del: sort_key_simps)

lemma canonical_event_bytes_inject:
  "canonical_event_bytes t n a s ac tt ti ou m oc = canonical_event_bytes t' n' a' s' ac' tt' ti' ou' m' oc' \<longleftrightarrow>
     t = t' \<and> n = n' \<and> a = a' \<and> s = s' \<and> ac = ac' \<and> tt = tt' \<and> ti = ti' \<and> ou = ou' \<and>
     metadata_normal m = metadata_normal m' \<and> iso_micros oc = iso_micros oc'"
  unfolding canonical_event_bytes_def json_dumps_def utf8_encode_inject json_text_inject json_sort_doc
  by auto

text \<open>Two events agree on everything the chain protects: all fields but the row identifier.\<close>

definition same_content :: "audit_event \<Rightarrow> audit_event \<Rightarrow> bool" where
  "same_content e f \<longleftrightarrow>
     ev_tenant_id e = ev_tenant_id f \<and> ev_sequence e = ev_sequence f \<and>
     ev_actor_user_id e = ev_actor_user_id f \<and> ev_session_id e = ev_session_id f \<and>
     ev_action e = ev_action f \<and> ev_target_type e = ev_target_type f \<and>
     ev_target_id e = ev_target_id f \<and> ev_outcome e = ev_outcome f \<and>
     metadata_normal (ev_metadata e) = metadata_normal (ev_metadata f) \<and>
     iso_micros (ev_occurred_at e) = iso_micros (ev_occurred_at f)"

lemma event_bytes_same_content: "event_bytes e = event_bytes f \<longleftrightarrow> same_content e f"
  by (auto simp: event_bytes_def same_content_def canonical_event_bytes_inject)

definition hash_input :: "audit_event list \<Rightarrow> nat \<Rightarrow> bytes" where
  "hash_input es i = chain_input (link_of es i) (event_bytes (es ! i))"

text \<open>A collision of the two ledgers' own hash inputs at one position.\<close>

definition collision_at :: "audit_event list \<Rightarrow> audit_event list \<Rightarrow> nat \<Rightarrow> bool" where
  "collision_at es fs i \<longleftrightarrow>
     hash_input es i \<noteq> hash_input fs i \<and> sha256 (hash_input es i) = sha256 (hash_input fs i)"

lemma valid_link_hash: "valid_link es i \<Longrightarrow> ev_entry_hash (es ! i) = sha256 (hash_input es i)"
  by (simp add: valid_link_def compute_entry_hash_def hash_input_def)

lemma hash_input_split:
  assumes "valid_chain es" and "valid_chain fs" and "i < length es" and "i < length fs"
    and "hash_input es i = hash_input fs i"
  shows "link_of es i = link_of fs i \<and> event_bytes (es ! i) = event_bytes (fs ! i)"
proof (cases i)
  case 0
  with assms(5) show ?thesis by (simp add: hash_input_def chain_input_def link_of_def)
next
  case (Suc j)
  with assms have "valid_link es j" "valid_link fs j" by (simp_all add: valid_chain_def)
  then have "length (ev_entry_hash (es ! j)) = 32" "length (ev_entry_hash (fs ! j)) = 32"
    by (simp_all add: valid_link_hash)
  with assms(5) Suc show ?thesis
    by (simp add: hash_input_def chain_input_def link_of_def)
qed

text \<open>
  Backwards from the head: either a collision, or the entry at each position and everything
  before it is the same in both ledgers.
\<close>

lemma chain_agrees_from:
  assumes "valid_chain es" and "valid_chain fs" and "length es = length fs"
    and "\<And>i. i < length es \<Longrightarrow> \<not> collision_at es fs i"
  shows "k \<le> length es \<Longrightarrow> link_of es k = link_of fs k \<Longrightarrow> i < k \<Longrightarrow>
           same_content (es ! i) (fs ! i) \<and>
           ev_previous_hash (es ! i) = ev_previous_hash (fs ! i) \<and>
           ev_entry_hash (es ! i) = ev_entry_hash (fs ! i)"
proof (induction k arbitrary: i)
  case (Suc k)
  have k: "k < length es" "k < length fs" using Suc.prems(1) assms(3) by simp_all
  then have v: "valid_link es k" "valid_link fs k" using assms(1,2) by (simp_all add: valid_chain_def)
  have eq: "ev_entry_hash (es ! k) = ev_entry_hash (fs ! k)"
    using Suc.prems(2) by (simp add: link_of_def)
  then have "hash_input es k = hash_input fs k"
    using v assms(4) [OF k(1)] by (auto simp: valid_link_hash collision_at_def)
  then have s: "link_of es k = link_of fs k" "event_bytes (es ! k) = event_bytes (fs ! k)"
    using hash_input_split [OF assms(1,2) k] by simp_all
  show ?case
  proof (cases "i = k")
    case True
    with s v eq show ?thesis by (simp add: event_bytes_same_content valid_link_def)
  next
    case False
    with Suc.prems Suc.IH s k show ?thesis by simp
  qed
qed simp

section \<open>The ledger port\<close>

text \<open>
  What \<open>record\<close> needs of the repository behind the port. A call that raises promises nothing
  but is undone by the unit of work. A head that is handed out is the tenant's head, created
  empty when there was none; an event with a fresh highest sequence number is appended to its
  tenant's ledger; no call touches another tenant.
\<close>

definition fresh_head :: "uuid \<Rightarrow> chain_head" where
  "fresh_head t = \<lparr>ch_tenant_id = t, ch_last_sequence = 0, ch_last_hash = None\<rparr>"

definition next_sequence_free :: "audit_event list \<Rightarrow> audit_event \<Rightarrow> bool" where
  "next_sequence_free es e \<longleftrightarrow> (\<forall>x \<in> set es. ev_sequence x < ev_sequence e)"

definition ledger_valid :: "audit_event list \<Rightarrow> chain_head option \<Rightarrow> bool" where
  "ledger_valid es h \<longleftrightarrow> vr_ok (verify_chain es h) \<and> (h = None \<longrightarrow> es = [])"

lemma ledger_valid_None [simp]: "ledger_valid [] None"
  by (simp add: ledger_valid_def verify_chain_iff)

lemma ledger_valid_Some: "ledger_valid es (Some h) \<longleftrightarrow> valid_chain es \<and> head_matches es h"
  by (simp add: ledger_valid_def verify_chain_iff)

lemma ledger_valid_head:
  "ledger_valid es h \<Longrightarrow> (case h of None \<Rightarrow> fresh_head t | Some h' \<Rightarrow> h') = hd' \<Longrightarrow>
     valid_chain es \<and> head_matches es hd'"
  by (cases h) (auto simp: ledger_valid_def verify_chain_iff fresh_head_def head_matches_def link_of_def)

lemma valid_chain_sequences:
  "valid_chain es \<Longrightarrow> x \<in> set es \<Longrightarrow> ev_sequence x \<le> int (length es)"
  by (auto simp: valid_chain_def valid_link_def in_set_conv_nth)

locale audit_ledger =
  fixes ports :: "'w ledger_ports"
    and events_of :: "'w \<Rightarrow> uuid \<Rightarrow> audit_event list"
    and head_of :: "'w \<Rightarrow> uuid \<Rightarrow> chain_head option"
    and ready :: "'w \<Rightarrow> uuid \<Rightarrow> bool"
  assumes lock_law:
    "ready w t \<Longrightarrow> lock_or_create_head ports t w = (Inr h, w') \<Longrightarrow>
       h = (case head_of w t of None \<Rightarrow> fresh_head t | Some h \<Rightarrow> h) \<and> ready w' t \<and>
       head_of w' = (head_of w)(t := Some h) \<and> events_of w' = events_of w"
    and insert_law:
    "ready w (ev_tenant_id e) \<Longrightarrow> next_sequence_free (events_of w (ev_tenant_id e)) e \<Longrightarrow>
       insert_event ports e w = (Inr u, w') \<Longrightarrow>
       ready w' (ev_tenant_id e) \<and> head_of w' = head_of w \<and>
       events_of w' = (events_of w)(ev_tenant_id e := events_of w (ev_tenant_id e) @ [e])"
    and advance_law:
    "ready w t \<Longrightarrow> advance_head ports t n hsh w = (Inr u, w') \<Longrightarrow>
       ready w' t \<and> events_of w' = events_of w \<and>
       head_of w' = (head_of w)(t := Some \<lparr>ch_tenant_id = t, ch_last_sequence = n, ch_last_hash = Some hsh\<rparr>)"
    and now_law:
    "utc_now ports w = (Inr n, w') \<Longrightarrow> ready w t \<Longrightarrow>
       ready w' t \<and> head_of w' = head_of w \<and> events_of w' = events_of w"
    and uuid4_law:
    "uuid4 ports w = (Inr i, w') \<Longrightarrow> ready w t \<Longrightarrow>
       ready w' t \<and> head_of w' = head_of w \<and> events_of w' = events_of w"
begin

lemma record_extends:
  assumes rec: "audit_record ports actor action tt tid outcome md w = (Inr u, w')"
    and ready: "ready w (actor_tenant actor)"
    and valid: "ledger_valid (events_of w (actor_tenant actor)) (head_of w (actor_tenant actor))"
  shows "\<exists>e. events_of w' = (events_of w)(actor_tenant actor := events_of w (actor_tenant actor) @ [e])
    \<and> ev_tenant_id e = actor_tenant actor \<and> ev_actor_user_id e = Some (actor_user actor)
    \<and> ev_session_id e = Some (actor_session actor) \<and> ev_action e = action
    \<and> ev_target_type e = tt \<and> ev_target_id e = tid \<and> ev_outcome e = outcome
    \<and> ev_metadata e = (case md of None \<Rightarrow> [] | Some m \<Rightarrow> m)
    \<and> ledger_valid (events_of w' (actor_tenant actor)) (head_of w' (actor_tenant actor))
    \<and> (\<forall>t. t \<noteq> actor_tenant actor \<longrightarrow> head_of w' t = head_of w t)
    \<and> ready w' (actor_tenant actor)"
proof -
  let ?t = "actor_tenant actor"
  let ?m = "case md of None \<Rightarrow> [] | Some m \<Rightarrow> m"
  from rec obtain h w1 oc w2 i w3 w4 u1 e where
      lock: "lock_or_create_head ports ?t w = (Inr h, w1)"
    and now: "utc_now ports w1 = (Inr oc, w2)"
    and idr: "uuid4 ports w2 = (Inr i, w3)"
    and e: "e = \<lparr>ev_id = i, ev_tenant_id = ?t, ev_sequence = ch_last_sequence h + 1,
        ev_actor_user_id = Some (actor_user actor), ev_session_id = Some (actor_session actor),
        ev_action = action, ev_target_type = tt, ev_target_id = tid, ev_outcome = outcome,
        ev_metadata = ?m, ev_occurred_at = oc, ev_previous_hash = ch_last_hash h,
        ev_entry_hash = compute_entry_hash (ch_last_hash h)
          (canonical_event_bytes ?t (ch_last_sequence h + 1) (Some (actor_user actor))
            (Some (actor_session actor)) action tt tid outcome ?m oc)\<rparr>"
    and ins: "insert_event ports e w3 = (Inr u1, w4)"
    and adv: "advance_head ports ?t (ch_last_sequence h + 1) (ev_entry_hash e) w4 = (Inr u, w')"
    unfolding audit_record_def Let_def
    by (auto simp: seq_Inr_iff split: if_splits)
  note l1 = lock_law [OF ready lock]
  note l2 = now_law [OF now] and l3 = uuid4_law [OF idr]
  have r3: "ready w3 ?t" "head_of w3 = head_of w1" "events_of w3 = events_of w"
    using l1 l2 [of ?t] l3 [of ?t] by simp_all
  have vc: "valid_chain (events_of w ?t)" and hm: "head_matches (events_of w ?t) h"
    using ledger_valid_head [OF valid] l1 by simp_all
  have free: "next_sequence_free (events_of w3 (ev_tenant_id e)) e"
    using valid_chain_sequences [OF vc] hm e r3
    by (fastforce simp: next_sequence_free_def head_matches_def)
  have ti: "ev_tenant_id e = ?t" using e by simp
  have l4: "ready w4 ?t \<and> head_of w4 = head_of w3 \<and> events_of w4 = (events_of w3)(?t := events_of w3 ?t @ [e])"
    using insert_law [OF _ free ins] r3 ti by simp
  then have l5: "ready w' ?t \<and> events_of w' = events_of w4 \<and>
      head_of w' = (head_of w4)(?t := Some \<lparr>ch_tenant_id = ?t, ch_last_sequence = ch_last_sequence h + 1,
        ch_last_hash = Some (ev_entry_hash e)\<rparr>)"
    using advance_law [OF _ adv] by simp
  have "valid_chain (events_of w ?t @ [e])"
    using vc hm e by (simp add: valid_chain_snoc head_matches_def event_bytes_def)
  then have "ledger_valid (events_of w' ?t) (head_of w' ?t)"
    using l4 l5 r3 hm by (simp add: ledger_valid_Some head_matches_snoc) (simp add: head_matches_def)
  with l1 l4 l5 r3 e show ?thesis
    by (intro exI [of _ e]) auto
qed

end

section \<open>Metadata keys\<close>

text \<open>
  The guard looks at the keys of a dictionary and of the dictionaries nested directly in it.
\<close>

lemma walk_keys_top: "k \<in> fst ` set md \<Longrightarrow> k \<in> set (walk_keys md)"
  by (induction md rule: walk_keys.induct) auto

lemma walk_keys_nested: "(k, JObj d) \<in> set md \<Longrightarrow> k' \<in> set (walk_keys d) \<Longrightarrow> k' \<in> set (walk_keys md)"
  by (induction md rule: walk_keys.induct) auto

lemma audit_record_guard:
  assumes "audit_record ports actor action tt tid outcome md w = (Inr u, w')"
  shows "action \<in> audit_actions" and "offending_keys (case md of None \<Rightarrow> [] | Some m \<Rightarrow> m) = {}"
  using assms by (auto simp: audit_record_def Let_def split: if_splits)

end
