(* ===== verification/Chain_Laws.thy ===== *)
theory Chain_Laws
  imports Audit_Chain
begin

text \<open>
  What the hash chain guarantees (\<open>domain/audit/services.py\<close>, \<open>domain/audit/hashing.py\<close>): the
  verification loop against its positional specification, tampering and truncation, the
  canonical bytes, and the guard on metadata keys. A collision of SHA-256 is never assumed
  away: where it would break the guarantee the theorem exhibits it.
\<close>

section \<open>Verification\<close>

text \<open>The verdict by position: the first event whose link is broken, else the head.\<close>

definition chain_verdict :: "audit_event list \<Rightarrow> chain_head option \<Rightarrow> bool \<times> int \<times> int option" where
  "chain_verdict es head =
     (case find (\<lambda>i. \<not> valid_link es i) [0..<length es] of
        Some i \<Rightarrow> (False, int i, Some (ev_sequence (es ! i)))
      | None \<Rightarrow> ((case head of None \<Rightarrow> True | Some h \<Rightarrow> head_matches es h), int (length es), None))"

lemma verify_chain_valid:
  "valid_chain es \<Longrightarrow>
     verify_chain es head =
       (if (case head of None \<Rightarrow> True | Some h \<Rightarrow> head_matches es h)
        then \<lparr>vr_ok = True, vr_events_checked = int (length es), vr_failure_sequence = None, vr_reason = None\<rparr>
        else \<lparr>vr_ok = False, vr_events_checked = int (length es), vr_failure_sequence = None,
              vr_reason = Some HeadInconsistent\<rparr>)"
  using verify_loop_ok [of es "[]"]
  by (auto simp: verify_chain_def valid_chain_def link_of_def [of _ 0] head_matches_def split: option.split)

text \<open>
  The loop of \<open>verify_chain\<close> gives exactly the positional verdict: it stops at the first event
  whose sequence number, back link or hash is wrong, counts the events before it, and when all
  links hold decides by the head.
\<close>

theorem verification_by_position:
  "(vr_ok (verify_chain es head), vr_events_checked (verify_chain es head),
    vr_failure_sequence (verify_chain es head)) = chain_verdict es head"
proof (cases "find (\<lambda>i. \<not> valid_link es i) [0..<length es]")
  case None
  then have "valid_chain es" by (auto simp: find_None_iff valid_chain_def)
  with None show ?thesis by (simp add: chain_verdict_def verify_chain_valid split: option.split)
next
  case (Some i)
  then obtain j where j: "j < length [0..<length es]" "\<not> valid_link es ([0..<length es] ! j)"
      "i = [0..<length es] ! j" "\<forall>k<j. valid_link es ([0..<length es] ! k)"
    by (auto simp: find_Some_iff)
  then have "i < length es" "\<not> valid_link es i" "\<And>k. k < i \<Longrightarrow> valid_link es k"
    by auto
  from verify_chain_first_fault [OF this(1,3,2)] Some show ?thesis
    by (simp add: chain_verdict_def)
qed

section \<open>Tampering\<close>

definition sample_event :: "bytes option \<Rightarrow> int \<Rightarrow> string \<Rightarrow> audit_event" where
  "sample_event previous n action =
     \<lparr>ev_id = of_int (50 + n), ev_tenant_id = 3, ev_sequence = n, ev_actor_user_id = Some 1,
      ev_session_id = Some 2, ev_action = action, ev_target_type = ''vault'', ev_target_id = None,
      ev_outcome = ''success'', ev_metadata = [], ev_occurred_at = 0, ev_previous_hash = previous,
      ev_entry_hash = compute_entry_hash previous
        (canonical_event_bytes 3 n (Some 1) (Some 2) action ''vault'' None ''success'' [] 0)\<rparr>"

definition sample_chain :: "audit_event list" where
  "sample_chain =
     (let e = sample_event None 1 ''vault.created''
      in [e, sample_event (Some (ev_entry_hash e)) 2 ''vault.deleted''])"

definition sample_head :: chain_head where
  "sample_head = \<lparr>ch_tenant_id = 3, ch_last_sequence = 2,
     ch_last_hash = Some (ev_entry_hash (sample_chain ! 1))\<rparr>"

lemma sample_verifies: "vr_ok (verify_chain sample_chain (Some sample_head))"
  by (simp add: verify_chain_iff valid_chain_def valid_link_def head_matches_def link_of_def
      sample_chain_def sample_head_def sample_event_def event_bytes_def All_less_Suc numeral_2_eq_2)

text \<open>
  C9. Tampering. Two histories that verify against the same head have the same content, event
  by event, or the two themselves contain a collision of SHA-256: an event cannot be changed,
  dropped, added or reordered behind an unchanged head.
\<close>

theorem tampering_needs_a_collision:
  assumes "vr_ok (verify_chain es (Some h))" and "vr_ok (verify_chain fs (Some h))"
  shows "list_all2 same_content es fs \<or> (\<exists>i < length es. collision_at es fs i)"
proof (rule disjCI)
  assume no: "\<not> (\<exists>i < length es. collision_at es fs i)"
  have v: "valid_chain es" "valid_chain fs" "head_matches es h" "head_matches fs h"
    using assms by (simp_all add: verify_chain_iff)
  then have len: "length es = length fs" by (simp add: head_matches_def)
  have "link_of es (length es) = link_of fs (length es)"
    using v len by (simp add: head_matches_def)
  then have "same_content (es ! i) (fs ! i)" if "i < length es" for i
    using chain_agrees_from [OF v(1,2) len, of "length es" i] no that by auto
  then show "list_all2 same_content es fs"
    using len by (simp add: list_all2_conv_all_nth)
qed

theorem tampering_needs_a_collision_witness:
  "list_all2 same_content sample_chain sample_chain \<or>
     (\<exists>i < length sample_chain. collision_at sample_chain sample_chain i)"
  by (rule tampering_needs_a_collision [OF sample_verifies sample_verifies])

text \<open>
  C18. Truncation. Dropping events from the end of a history that verified is reported as an
  inconsistent head, after all the remaining events have been checked.
\<close>

theorem truncation_detected:
  assumes "vr_ok (verify_chain (es @ fs) (Some h))" and "fs \<noteq> []"
  shows "verify_chain es (Some h) =
    \<lparr>vr_ok = False, vr_events_checked = int (length es), vr_failure_sequence = None,
     vr_reason = Some HeadInconsistent\<rparr>"
proof -
  have "valid_chain (es @ fs)" "head_matches (es @ fs) h"
    using assms(1) by (simp_all add: verify_chain_iff)
  then have "valid_chain es" and "\<not> head_matches es h"
    using assms(2) by (auto simp: head_matches_def dest: valid_chain_prefix)
  then show ?thesis by (simp add: verify_chain_valid)
qed

theorem truncation_detected_witness:
  "verify_chain [hd sample_chain] (Some sample_head) =
    \<lparr>vr_ok = False, vr_events_checked = 1, vr_failure_sequence = None, vr_reason = Some HeadInconsistent\<rparr>"
  using truncation_detected [of "[hd sample_chain]" "tl sample_chain" sample_head] sample_verifies
  by (simp add: sample_chain_def Let_def)

section \<open>Canonical bytes\<close>

text \<open>
  The canonical bytes determine every field they encode: two argument lists give the same
  bytes only if all fields agree, the metadata as JSON objects up to the order of their keys.
\<close>

theorem canonical_bytes_determine_event:
  "canonical_event_bytes t n a s ac tt ti ou m oc = canonical_event_bytes t' n' a' s' ac' tt' ti' ou' m' oc' \<longleftrightarrow>
     t = t' \<and> n = n' \<and> a = a' \<and> s = s' \<and> ac = ac' \<and> tt = tt' \<and> ti = ti' \<and> ou = ou' \<and>
     json_sort (JObj m) = json_sort (JObj m') \<and> iso_micros oc = iso_micros oc'"
  by (simp add: canonical_event_bytes_inject metadata_normal_def)

section \<open>Metadata\<close>

text \<open>A key of a document or of a dictionary nested in it; lists are not entered.\<close>

inductive holds_key :: "metadata \<Rightarrow> string \<Rightarrow> bool" where
  top: "(k, v) \<in> set md \<Longrightarrow> holds_key md k"
| nested: "(k, JObj d) \<in> set md \<Longrightarrow> holds_key d k' \<Longrightarrow> holds_key md k'"

lemma holds_key_walk: "holds_key md k \<Longrightarrow> k \<in> set (walk_keys md)"
proof (induction rule: holds_key.induct)
  case (top k v md)
  then show ?case by (force intro: walk_keys_top)
next
  case (nested k d md k')
  then show ?case by (blast intro: walk_keys_nested)
qed

lemma finite_offending: "finite (offending_keys md)"
  by (simp add: offending_keys_def)

text \<open>
  No secret material in the ledger: an event whose metadata has, at any depth of nested
  dictionaries, a key that is forbidden in some letter case is refused, the offending keys are
  named, and nothing was read or written.
\<close>

theorem forbidden_metadata_refused:
  assumes "action \<in> audit_actions" and "holds_key md k" and "str_lower k \<in> forbidden_metadata_keys"
  shows "\<exists>ks. audit_record ports actor action tt tid outcome (Some md) w =
      (Inl (Audit (AuditMetadataError ks)), w) \<and> str_lower k \<in> set ks \<and> sorted ks"
proof -
  have "str_lower k \<in> offending_keys md"
    using assms(3) holds_key_walk [OF assms(2)] by (simp add: offending_keys_def)
  then show ?thesis
    using assms(1) finite_offending by (auto simp: audit_record_def Let_def)
qed

definition sample_ports :: "nat ledger_ports" where
  "sample_ports = \<lparr>lock_or_create_head = (\<lambda>t. ret (fresh_head t)), insert_event = (\<lambda>_. ret ()),
     advance_head = (\<lambda>_ _ _. ret ()), utc_now = ret 0, uuid4 = ret 0\<rparr>"

theorem forbidden_metadata_refused_witness:
  "\<exists>ks. audit_record sample_ports \<lparr>actor_user = 1, actor_session = 2, actor_tenant = 3\<rparr>
      ''secret.created'' ''secret'' None ''success'' (Some [(''ctx'', JObj [(''Password'', JStr ''x'')])]) 0 =
      (Inl (Audit (AuditMetadataError ks)), 0) \<and> str_lower ''Password'' \<in> set ks \<and> sorted ks"
proof (rule forbidden_metadata_refused)
  show "''secret.created'' \<in> audit_actions" by (simp add: audit_actions_def)
  show "holds_key [(''ctx'', JObj [(''Password'', JStr ''x'')])] ''Password''"
    by (rule holds_key.nested [of "''ctx''" "[(''Password'', JStr ''x'')]"])
      (auto intro: holds_key.top)
  show "str_lower ''Password'' \<in> forbidden_metadata_keys" by code_simp
qed

end
