(* ===== verification/Store.thy ===== *)
theory Store
  imports Audit_Chain
begin

text \<open>
  The database as the backend sees it: the rows of every table, the constraints the schema
  declares, row-level security, and the unit of work that runs a use case as one transaction.

  A repository statement is a select, insert, update or delete over the rows of a table. Under
  the application role a statement on a tenant-owned table sees only the rows of the tenant the
  unit of work pinned (the policy \<open>tenant_isolation\<close> of \<open>scripts/rls/policies\<close>); an insert of another
  tenant's row is refused. The identity unit of work runs as the owner role, which bypasses the
  policies. Unique and foreign-key checks look at all rows, as PostgreSQL does. A violation
  raises where the row is inserted: an insert the code leaves pending until the commit
  (\<open>autoflush=False\<close>) is checked at the insert, which changes neither the outcome of the use case
  nor the committed rows. Column widths are not modelled.
\<close>

section \<open>Rows\<close>

record user =
  u_id :: uuid
  u_email :: string
  u_password_hash :: string
  u_is_active :: bool
  u_mfa_enabled :: bool

record membership =
  m_id :: uuid
  m_tenant_id :: uuid
  m_user_id :: uuid
  m_role :: org_role
  m_created_at :: time

record organization =
  o_id :: uuid
  o_name :: string

record auth_session =
  as_id :: uuid
  as_user_id :: uuid
  as_revoked_at :: "time option"
  as_revocation_reason :: "string option"
  as_user_agent :: "string option"
  as_last_used_at :: time
  as_amr :: "string list"

record refresh_token =
  rt_id :: uuid
  rt_session_id :: uuid
  rt_token_hash :: string
  rt_expires_at :: time
  rt_used_at :: "time option"
  rt_revoked_at :: "time option"
  rt_replaced_by_id :: "uuid option"

record totp_secret =
  ts_id :: uuid
  ts_user_id :: uuid
  ts_encrypted_seed :: bytes
  ts_seed_nonce :: bytes
  ts_confirmed :: bool
  ts_confirmed_at :: "time option"

record recovery_code =
  rc_id :: uuid
  rc_user_id :: uuid
  rc_code_hash :: string
  rc_used_at :: "time option"

record invitation =
  i_id :: uuid
  i_tenant_id :: uuid
  i_email :: string
  i_role :: org_role
  i_token_hash :: string
  i_invited_by_user_id :: uuid
  i_expires_at :: time
  i_accepted_at :: "time option"
  i_revoked_at :: "time option"
  i_created_at :: time

record vault =
  v_id :: uuid
  v_tenant_id :: uuid
  v_name :: string
  v_description :: "string option"
  v_created_by_user_id :: uuid
  v_created_at :: time
  v_updated_at :: time
  v_deleted_at :: "time option"

record vault_grant =
  g_id :: uuid
  g_tenant_id :: uuid
  g_vault_id :: uuid
  g_membership_id :: uuid
  g_permission :: vault_permission
  g_granted_by_user_id :: uuid
  g_created_at :: time

record secret =
  s_id :: uuid
  s_tenant_id :: uuid
  s_vault_id :: uuid
  s_name :: string
  s_description :: "string option"
  s_current_version :: int
  s_created_by_user_id :: uuid
  s_created_at :: time
  s_updated_at :: time
  s_deleted_at :: "time option"

record secret_version =
  sv_id :: uuid
  sv_tenant_id :: uuid
  sv_secret_id :: uuid
  sv_version :: int
  sv_ciphertext :: bytes
  sv_nonce :: bytes
  sv_dek_version :: int
  sv_created_by_user_id :: uuid
  sv_created_at :: time

record tenant_key_version =
  tk_tenant_id :: uuid
  tk_version :: int
  tk_wrapped_dek :: bytes
  tk_wrap_nonce :: bytes
  tk_wrapping_key_id :: string
  tk_status :: string

record db =
  t_users :: "user list"
  t_memberships :: "membership list"
  t_organizations :: "organization list"
  t_sessions :: "auth_session list"
  t_refresh_tokens :: "refresh_token list"
  t_totp_secrets :: "totp_secret list"
  t_recovery_codes :: "recovery_code list"
  t_invitations :: "invitation list"
  t_vaults :: "vault list"
  t_grants :: "vault_grant list"
  t_secrets :: "secret list"
  t_secret_versions :: "secret_version list"
  t_tenant_keys :: "tenant_key_version list"
  t_audit_events :: "audit_event list"
  t_chain_heads :: "chain_head list"

definition empty_db :: db where
  "empty_db =
     \<lparr>t_users = [], t_memberships = [], t_organizations = [], t_sessions = [],
      t_refresh_tokens = [], t_totp_secrets = [], t_recovery_codes = [], t_invitations = [],
      t_vaults = [], t_grants = [], t_secrets = [], t_secret_versions = [], t_tenant_keys = [],
      t_audit_events = [], t_chain_heads = []\<rparr>"

section \<open>The world of a process\<close>

text \<open>
  The clock and the random source are read in order: the \<open>n\<close>-th reading of the process is
  \<open>tick n\<close>, the \<open>n\<close>-th identifier \<open>uuid_at n\<close>, the \<open>n\<close>-th random string of octets
  \<open>byte_at n 0, byte_at n 1, \<dots>\<close>. \<open>collation\<close> is the sort key the database gives a text. \<open>store\<close> is what the open transaction sees, \<open>committed\<close> what
  every later transaction will; mail that was sent and the rate limiter's counters are outside
  the transaction.
\<close>

record environment =
  tick :: "nat \<Rightarrow> time"
  uuid_at :: "nat \<Rightarrow> uuid"
  byte_at :: "nat \<Rightarrow> nat \<Rightarrow> byte"
  collation :: "string \<Rightarrow> nat list"

datatype session_role = OwnerRole | AppRole uuid

record email =
  em_to :: string
  em_invite_url :: string
  em_organization_name :: string
  em_role :: org_role

record world =
  store :: db
  committed :: db
  db_role :: session_role
  tx_time :: time
  env :: environment
  draws :: nat
  zsets :: "string \<Rightarrow> (string \<times> time) list"
  outbox :: "email list"

type_synonym 'a op = "(world, exn, 'a) prog"

definition now :: "time op" where
  "now = (\<lambda>w. (Inr (tick (env w) (draws w)), w\<lparr>draws := Suc (draws w)\<rparr>))"

definition fresh_uuid :: "uuid op" where
  "fresh_uuid = (\<lambda>w. (Inr (uuid_at (env w) (draws w)), w\<lparr>draws := Suc (draws w)\<rparr>))"

definition urandom :: "nat \<Rightarrow> bytes op" where
  "urandom n = (\<lambda>w. (Inr (map (byte_at (env w) (draws w)) [0..<n]), w\<lparr>draws := Suc (draws w)\<rparr>))"

definition token_urlsafe :: "nat \<Rightarrow> string op" where
  "token_urlsafe n = seq (urandom n) (\<lambda>bs. ret (b64url bs))"

definition server_now :: "time op" where
  "server_now = query tx_time"

section \<open>Tables\<close>

definition visible :: "session_role \<Rightarrow> uuid option \<Rightarrow> bool" where
  "visible r tenant =
     (case r of OwnerRole \<Rightarrow> True
      | AppRole t \<Rightarrow> (case tenant of None \<Rightarrow> True | Some t' \<Rightarrow> t' = t))"

record 'r table =
  rows_of :: "db \<Rightarrow> 'r list"
  rows_upd :: "('r list \<Rightarrow> 'r list) \<Rightarrow> db \<Rightarrow> db"
  tenant_col :: "'r \<Rightarrow> uuid option"
  admits :: "db \<Rightarrow> 'r \<Rightarrow> bool"

definition absent :: "('r \<Rightarrow> 'k) \<Rightarrow> 'k \<Rightarrow> 'r list \<Rightarrow> bool" where
  "absent key k rows \<longleftrightarrow> k \<notin> key ` set rows"

definition present :: "('r \<Rightarrow> 'k) \<Rightarrow> 'k \<Rightarrow> 'r list \<Rightarrow> bool" where
  "present key k rows \<longleftrightarrow> k \<in> key ` set rows"

definition users :: "user table" where
  "users = \<lparr>rows_of = t_users, rows_upd = t_users_update, tenant_col = (\<lambda>_. None),
     admits = (\<lambda>d r. absent u_id (u_id r) (t_users d) \<and> absent u_email (u_email r) (t_users d))\<rparr>"

definition memberships :: "membership table" where
  "memberships = \<lparr>rows_of = t_memberships, rows_upd = t_memberships_update,
     tenant_col = (\<lambda>r. Some (m_tenant_id r)),
     admits = (\<lambda>d r. absent m_id (m_id r) (t_memberships d) \<and>
       absent m_user_id (m_user_id r) (t_memberships d) \<and>
       present o_id (m_tenant_id r) (t_organizations d) \<and> present u_id (m_user_id r) (t_users d))\<rparr>"

definition organizations :: "organization table" where
  "organizations = \<lparr>rows_of = t_organizations, rows_upd = t_organizations_update,
     tenant_col = (\<lambda>r. Some (o_id r)),
     admits = (\<lambda>d r. absent o_id (o_id r) (t_organizations d))\<rparr>"

definition sessions :: "auth_session table" where
  "sessions = \<lparr>rows_of = t_sessions, rows_upd = t_sessions_update, tenant_col = (\<lambda>_. None),
     admits = (\<lambda>d r. absent as_id (as_id r) (t_sessions d) \<and> present u_id (as_user_id r) (t_users d))\<rparr>"

definition refresh_tokens :: "refresh_token table" where
  "refresh_tokens = \<lparr>rows_of = t_refresh_tokens, rows_upd = t_refresh_tokens_update,
     tenant_col = (\<lambda>_. None),
     admits = (\<lambda>d r. absent rt_id (rt_id r) (t_refresh_tokens d) \<and>
       absent rt_token_hash (rt_token_hash r) (t_refresh_tokens d) \<and>
       present as_id (rt_session_id r) (t_sessions d))\<rparr>"

definition totp_secrets :: "totp_secret table" where
  "totp_secrets = \<lparr>rows_of = t_totp_secrets, rows_upd = t_totp_secrets_update,
     tenant_col = (\<lambda>_. None),
     admits = (\<lambda>d r. absent ts_id (ts_id r) (t_totp_secrets d) \<and>
       absent ts_user_id (ts_user_id r) (t_totp_secrets d) \<and> present u_id (ts_user_id r) (t_users d))\<rparr>"

definition recovery_codes :: "recovery_code table" where
  "recovery_codes = \<lparr>rows_of = t_recovery_codes, rows_upd = t_recovery_codes_update,
     tenant_col = (\<lambda>_. None),
     admits = (\<lambda>d r. absent rc_id (rc_id r) (t_recovery_codes d) \<and>
       absent rc_code_hash (rc_code_hash r) (t_recovery_codes d) \<and>
       present u_id (rc_user_id r) (t_users d))\<rparr>"

definition pending :: "invitation \<Rightarrow> bool" where
  "pending i \<longleftrightarrow> i_accepted_at i = None \<and> i_revoked_at i = None"

definition invitations :: "invitation table" where
  "invitations = \<lparr>rows_of = t_invitations, rows_upd = t_invitations_update,
     tenant_col = (\<lambda>r. Some (i_tenant_id r)),
     admits = (\<lambda>d r. absent i_id (i_id r) (t_invitations d) \<and>
       absent i_token_hash (i_token_hash r) (t_invitations d) \<and>
       (pending r \<longrightarrow> absent (\<lambda>i. (i_tenant_id i, i_email i)) (i_tenant_id r, i_email r)
                       (filter pending (t_invitations d))) \<and>
       i_role r \<noteq> OWNER \<and> present o_id (i_tenant_id r) (t_organizations d))\<rparr>"

definition vaults :: "vault table" where
  "vaults = \<lparr>rows_of = t_vaults, rows_upd = t_vaults_update,
     tenant_col = (\<lambda>r. Some (v_tenant_id r)),
     admits = (\<lambda>d r. absent v_id (v_id r) (t_vaults d) \<and>
       absent (\<lambda>v. (v_tenant_id v, v_name v)) (v_tenant_id r, v_name r) (t_vaults d) \<and>
       1 \<le> length (v_name r) \<and> present o_id (v_tenant_id r) (t_organizations d))\<rparr>"

definition grants :: "vault_grant table" where
  "grants = \<lparr>rows_of = t_grants, rows_upd = t_grants_update,
     tenant_col = (\<lambda>r. Some (g_tenant_id r)),
     admits = (\<lambda>d r. absent g_id (g_id r) (t_grants d) \<and>
       absent (\<lambda>g. (g_vault_id g, g_membership_id g)) (g_vault_id r, g_membership_id r) (t_grants d) \<and>
       present o_id (g_tenant_id r) (t_organizations d) \<and> present v_id (g_vault_id r) (t_vaults d) \<and>
       present m_id (g_membership_id r) (t_memberships d))\<rparr>"

definition secrets :: "secret table" where
  "secrets = \<lparr>rows_of = t_secrets, rows_upd = t_secrets_update,
     tenant_col = (\<lambda>r. Some (s_tenant_id r)),
     admits = (\<lambda>d r. absent s_id (s_id r) (t_secrets d) \<and>
       absent (\<lambda>s. (s_vault_id s, s_name s)) (s_vault_id r, s_name r) (t_secrets d) \<and>
       present o_id (s_tenant_id r) (t_organizations d) \<and> present v_id (s_vault_id r) (t_vaults d))\<rparr>"

definition secret_versions :: "secret_version table" where
  "secret_versions = \<lparr>rows_of = t_secret_versions, rows_upd = t_secret_versions_update,
     tenant_col = (\<lambda>r. Some (sv_tenant_id r)),
     admits = (\<lambda>d r. absent sv_id (sv_id r) (t_secret_versions d) \<and>
       absent (\<lambda>v. (sv_secret_id v, sv_version v)) (sv_secret_id r, sv_version r) (t_secret_versions d) \<and>
       present o_id (sv_tenant_id r) (t_organizations d) \<and> present s_id (sv_secret_id r) (t_secrets d))\<rparr>"

definition tenant_keys :: "tenant_key_version table" where
  "tenant_keys = \<lparr>rows_of = t_tenant_keys, rows_upd = t_tenant_keys_update,
     tenant_col = (\<lambda>r. Some (tk_tenant_id r)),
     admits = (\<lambda>d r. absent (\<lambda>k. (tk_tenant_id k, tk_version k)) (tk_tenant_id r, tk_version r) (t_tenant_keys d) \<and>
       (tk_status r = ''active'' \<longrightarrow>
          absent tk_tenant_id (tk_tenant_id r) (filter (\<lambda>k. tk_status k = ''active'') (t_tenant_keys d))) \<and>
       tk_status r \<in> {''active'', ''retired''} \<and> present o_id (tk_tenant_id r) (t_organizations d))\<rparr>"

definition audit_events :: "audit_event table" where
  "audit_events = \<lparr>rows_of = t_audit_events, rows_upd = t_audit_events_update,
     tenant_col = (\<lambda>r. Some (ev_tenant_id r)),
     admits = (\<lambda>d r. absent ev_id (ev_id r) (t_audit_events d) \<and>
       absent (\<lambda>e. (ev_tenant_id e, ev_sequence e)) (ev_tenant_id r, ev_sequence r) (t_audit_events d) \<and>
       absent (\<lambda>e. (ev_tenant_id e, ev_entry_hash e)) (ev_tenant_id r, ev_entry_hash r) (t_audit_events d) \<and>
       ev_outcome r \<in> {''success'', ''failure'', ''denied''} \<and>
       present o_id (ev_tenant_id r) (t_organizations d))\<rparr>"

definition chain_heads :: "chain_head table" where
  "chain_heads = \<lparr>rows_of = t_chain_heads, rows_upd = t_chain_heads_update,
     tenant_col = (\<lambda>r. Some (ch_tenant_id r)),
     admits = (\<lambda>d r. absent ch_tenant_id (ch_tenant_id r) (t_chain_heads d) \<and>
       present o_id (ch_tenant_id r) (t_organizations d))\<rparr>"

lemmas table_defs = users_def memberships_def organizations_def sessions_def refresh_tokens_def
  totp_secrets_def recovery_codes_def invitations_def vaults_def grants_def secrets_def
  secret_versions_def tenant_keys_def audit_events_def chain_heads_def

lemma rows_of_simps [simp]:
  "rows_of users = t_users"
  "rows_of memberships = t_memberships"
  "rows_of organizations = t_organizations"
  "rows_of sessions = t_sessions"
  "rows_of refresh_tokens = t_refresh_tokens"
  "rows_of totp_secrets = t_totp_secrets"
  "rows_of recovery_codes = t_recovery_codes"
  "rows_of invitations = t_invitations"
  "rows_of vaults = t_vaults"
  "rows_of grants = t_grants"
  "rows_of secrets = t_secrets"
  "rows_of secret_versions = t_secret_versions"
  "rows_of tenant_keys = t_tenant_keys"
  "rows_of audit_events = t_audit_events"
  "rows_of chain_heads = t_chain_heads"
  by (simp_all add: table_defs)

lemma rows_upd_simps [simp]:
  "rows_upd users = t_users_update"
  "rows_upd memberships = t_memberships_update"
  "rows_upd organizations = t_organizations_update"
  "rows_upd sessions = t_sessions_update"
  "rows_upd refresh_tokens = t_refresh_tokens_update"
  "rows_upd totp_secrets = t_totp_secrets_update"
  "rows_upd recovery_codes = t_recovery_codes_update"
  "rows_upd invitations = t_invitations_update"
  "rows_upd vaults = t_vaults_update"
  "rows_upd grants = t_grants_update"
  "rows_upd secrets = t_secrets_update"
  "rows_upd secret_versions = t_secret_versions_update"
  "rows_upd tenant_keys = t_tenant_keys_update"
  "rows_upd audit_events = t_audit_events_update"
  "rows_upd chain_heads = t_chain_heads_update"
  by (simp_all add: table_defs)

lemma tenant_col_simps [simp]:
  "tenant_col users = (\<lambda>_. None)"
  "tenant_col memberships = (\<lambda>r. Some (m_tenant_id r))"
  "tenant_col organizations = (\<lambda>r. Some (o_id r))"
  "tenant_col sessions = (\<lambda>_. None)"
  "tenant_col refresh_tokens = (\<lambda>_. None)"
  "tenant_col totp_secrets = (\<lambda>_. None)"
  "tenant_col recovery_codes = (\<lambda>_. None)"
  "tenant_col invitations = (\<lambda>r. Some (i_tenant_id r))"
  "tenant_col vaults = (\<lambda>r. Some (v_tenant_id r))"
  "tenant_col grants = (\<lambda>r. Some (g_tenant_id r))"
  "tenant_col secrets = (\<lambda>r. Some (s_tenant_id r))"
  "tenant_col secret_versions = (\<lambda>r. Some (sv_tenant_id r))"
  "tenant_col tenant_keys = (\<lambda>r. Some (tk_tenant_id r))"
  "tenant_col audit_events = (\<lambda>r. Some (ev_tenant_id r))"
  "tenant_col chain_heads = (\<lambda>r. Some (ch_tenant_id r))"
  by (simp_all add: table_defs)

section \<open>Statements\<close>

definition seen :: "'r table \<Rightarrow> session_role \<Rightarrow> 'r \<Rightarrow> bool" where
  "seen T r row \<longleftrightarrow> visible r (tenant_col T row)"

text \<open>\<open>select(...).where(p)\<close>: all matching rows, or the first one (\<open>session.scalar\<close>).\<close>

definition rows_where :: "'r table \<Rightarrow> ('r \<Rightarrow> bool) \<Rightarrow> world \<Rightarrow> 'r list" where
  "rows_where T p w = filter (\<lambda>r. seen T (db_role w) r \<and> p r) (rows_of T (store w))"

definition row_where :: "'r table \<Rightarrow> ('r \<Rightarrow> bool) \<Rightarrow> world \<Rightarrow> 'r option" where
  "row_where T p w = find (\<lambda>r. seen T (db_role w) r \<and> p r) (rows_of T (store w))"

definition select_all :: "'r table \<Rightarrow> ('r \<Rightarrow> bool) \<Rightarrow> 'r list op" where
  "select_all T p = query (rows_where T p)"

definition select_one :: "'r table \<Rightarrow> ('r \<Rightarrow> bool) \<Rightarrow> 'r option op" where
  "select_one T p = query (row_where T p)"

definition exists_one :: "'r table \<Rightarrow> ('r \<Rightarrow> bool) \<Rightarrow> bool op" where
  "exists_one T p = query (\<lambda>w. row_where T p w \<noteq> None)"

definition set_rows :: "'r table \<Rightarrow> ('r list \<Rightarrow> 'r list) \<Rightarrow> world \<Rightarrow> world" where
  "set_rows T f w = w\<lparr>store := rows_upd T f (store w)\<rparr>"

text \<open>\<open>session.add(row); session.flush()\<close>.\<close>

definition insert_row :: "'r table \<Rightarrow> 'r \<Rightarrow> unit op" where
  "insert_row T row = (\<lambda>w.
     if \<not> seen T (db_role w) row then (Inl (System RowSecurityError), w)
     else if \<not> admits T (store w) row then (Inl (System IntegrityError), w)
     else (Inr (), set_rows T (\<lambda>rows. rows @ [row]) w))"

text \<open>Assigning attributes of loaded rows, or \<open>update(...).where(p)\<close>.\<close>

definition update_rows :: "'r table \<Rightarrow> ('r \<Rightarrow> bool) \<Rightarrow> ('r \<Rightarrow> 'r) \<Rightarrow> unit op" where
  "update_rows T p f = modify (\<lambda>w. set_rows T (update_where (\<lambda>r. seen T (db_role w) r \<and> p r) f) w)"

definition delete_rows :: "'r table \<Rightarrow> ('r \<Rightarrow> bool) \<Rightarrow> unit op" where
  "delete_rows T p = modify (\<lambda>w. set_rows T (delete_where (\<lambda>r. seen T (db_role w) r \<and> p r)) w)"

text \<open>
  Flushing a loaded row whose attributes were assigned: the policy and the constraints are checked
  (the latter against the other rows), then the row replaces the one with its key.
\<close>

definition save_row :: "'r table \<Rightarrow> ('r \<Rightarrow> uuid) \<Rightarrow> 'r \<Rightarrow> unit op" where
  "save_row T key row = (\<lambda>w.
     if \<not> seen T (db_role w) row then (Inl (System RowSecurityError), w)
     else if \<not> admits T (rows_upd T (delete_where (\<lambda>r. key r = key row)) (store w)) row
     then (Inl (System IntegrityError), w)
     else (Inr (), set_rows T (update_where (\<lambda>r. seen T (db_role w) r \<and> key r = key row) (\<lambda>_. row)) w))"

text \<open>\<open>order_by\<close> a text column.\<close>

definition order_by_text :: "('r \<Rightarrow> string) \<Rightarrow> 'r list \<Rightarrow> 'r list op" where
  "order_by_text key rows = query (\<lambda>w. sort_key (\<lambda>r. collation (env w) (key r)) rows)"

text \<open>The number of rows a bulk statement reports (\<open>CursorResult.rowcount\<close>), before it runs.\<close>

definition rowcount :: "'r table \<Rightarrow> ('r \<Rightarrow> bool) \<Rightarrow> nat op" where
  "rowcount T p = query (\<lambda>w. length (rows_where T p w))"

section \<open>Unit of work\<close>

definition commit :: "unit op" where
  "commit = modify (\<lambda>w. w\<lparr>committed := store w\<rparr>)"

text \<open>
  \<open>async with uow: body\<close>: a transaction on the committed rows under the given role. Whether the
  body returns or raises, closing the session drops what was not committed.
\<close>

definition with_uow :: "session_role \<Rightarrow> 'a op \<Rightarrow> 'a op" where
  "with_uow r body = (\<lambda>w.
     let w0 = w\<lparr>store := committed w, db_role := r, tx_time := tick (env w) (draws w),
                draws := Suc (draws w)\<rparr>;
         (res, w1) = body w0
     in (res, w1\<lparr>store := committed w1, db_role := db_role w\<rparr>))"

definition with_tenant_uow :: "uuid \<Rightarrow> 'a op \<Rightarrow> 'a op" where
  "with_tenant_uow tenant_id body = with_uow (AppRole tenant_id) body"

definition with_identity_uow :: "'a op \<Rightarrow> 'a op" where
  "with_identity_uow body = with_uow OwnerRole body"

section \<open>How statements compute in a sequence\<close>

lemma seq_now [prog_simps]:
  "seq now f w = f (tick (env w) (draws w)) (w\<lparr>draws := Suc (draws w)\<rparr>)"
  by (simp add: now_def seq_def)

lemma seq_fresh_uuid [prog_simps]:
  "seq fresh_uuid f w = f (uuid_at (env w) (draws w)) (w\<lparr>draws := Suc (draws w)\<rparr>)"
  by (simp add: fresh_uuid_def seq_def)

lemma seq_urandom [prog_simps]:
  "seq (urandom n) f w =
     f (map (byte_at (env w) (draws w)) [0..<n]) (w\<lparr>draws := Suc (draws w)\<rparr>)"
  by (simp add: urandom_def seq_def)

lemma seq_server_now [prog_simps]: "seq server_now f w = f (tx_time w) w"
  by (simp add: server_now_def)

lemma seq_select_all [prog_simps]: "seq (select_all T p) f w = f (rows_where T p w) w"
  by (simp add: select_all_def)

lemma seq_select_one [prog_simps]: "seq (select_one T p) f w = f (row_where T p w) w"
  by (simp add: select_one_def)

lemma seq_exists_one [prog_simps]: "seq (exists_one T p) f w = f (row_where T p w \<noteq> None) w"
  by (simp add: exists_one_def)

lemma seq_rowcount [prog_simps]: "seq (rowcount T p) f w = f (length (rows_where T p w)) w"
  by (simp add: rowcount_def)

lemma seq_insert_row [prog_simps]:
  "seq (insert_row T row) f w =
     (if \<not> seen T (db_role w) row then (Inl (System RowSecurityError), w)
      else if \<not> admits T (store w) row then (Inl (System IntegrityError), w)
      else f () (set_rows T (\<lambda>rows. rows @ [row]) w))"
  by (simp add: insert_row_def seq_def)

lemma seq_update_rows [prog_simps]:
  "seq (update_rows T p g) f w =
     f () (set_rows T (update_where (\<lambda>r. seen T (db_role w) r \<and> p r) g) w)"
  by (simp add: update_rows_def)

lemma seq_delete_rows [prog_simps]:
  "seq (delete_rows T p) f w = f () (set_rows T (delete_where (\<lambda>r. seen T (db_role w) r \<and> p r)) w)"
  by (simp add: delete_rows_def)

lemma seq_save_row [prog_simps]:
  "seq (save_row T key row) f w =
     (if \<not> seen T (db_role w) row then (Inl (System RowSecurityError), w)
      else if \<not> admits T (rows_upd T (delete_where (\<lambda>r. key r = key row)) (store w)) row
      then (Inl (System IntegrityError), w)
      else f () (set_rows T (update_where (\<lambda>r. seen T (db_role w) r \<and> key r = key row) (\<lambda>_. row)) w))"
  by (simp add: save_row_def seq_def)

lemma seq_order_by_text [prog_simps]:
  "seq (order_by_text key rows) f w = f (sort_key (\<lambda>r. collation (env w) (key r)) rows) w"
  by (simp add: order_by_text_def)

lemma seq_commit [prog_simps]: "seq commit f w = f () (w\<lparr>committed := store w\<rparr>)"
  by (simp add: commit_def)

lemma set_rows_frame [simp]:
  "db_role (set_rows T f w) = db_role w" "committed (set_rows T f w) = committed w"
  "env (set_rows T f w) = env w" "draws (set_rows T f w) = draws w"
  "tx_time (set_rows T f w) = tx_time w" "zsets (set_rows T f w) = zsets w"
  "outbox (set_rows T f w) = outbox w"
  by (simp_all add: set_rows_def)

lemma store_set_rows: "store (set_rows T f w) = rows_upd T f (store w)"
  by (simp add: set_rows_def)

end
