(* ===== verification/Frames.thy ===== *)
theory Frames
  imports Store
begin

text \<open>
  What a transaction may do to the database. A preorder on databases (one per session role)
  lifts to programs inside a unit of work and, once the unit of work is closed, to the committed
  rows; the tables promise that a statement changes only its own table. Tenant isolation is the
  first instance: the rows of a tenant the session role does not see stay as they are.
\<close>

section \<open>From an order on databases to a frame on programs\<close>

definition within :: "(session_role \<Rightarrow> db \<Rightarrow> db \<Rightarrow> bool) \<Rightarrow> world \<Rightarrow> world \<Rightarrow> bool" where
  "within D w w' \<longleftrightarrow>
     db_role w' = db_role w \<and> D (db_role w) (store w) (store w') \<and>
     (D (db_role w) (committed w) (committed w') \<or> D (db_role w) (store w) (committed w'))"

definition across :: "(db \<Rightarrow> db \<Rightarrow> bool) \<Rightarrow> world \<Rightarrow> world \<Rightarrow> bool" where
  "across D w w' \<longleftrightarrow> D (committed w) (committed w')"

text \<open>The parts of the world that no statement on the database reads or writes.\<close>

lemma within_outside:
  "(\<And>r d. D r d d) \<Longrightarrow> db_role w' = db_role w \<Longrightarrow> store w' = store w \<Longrightarrow> committed w' = committed w \<Longrightarrow>
     within D w w'"
  by (simp add: within_def)

locale db_order =
  fixes D :: "session_role \<Rightarrow> db \<Rightarrow> db \<Rightarrow> bool"
  assumes D_refl: "D r d d"
    and D_trans: "D r d1 d2 \<Longrightarrow> D r d2 d3 \<Longrightarrow> D r d1 d3"
begin

lemma within_refl: "within D w w"
  by (simp add: within_def D_refl)

lemma within_trans: "within D w1 w2 \<Longrightarrow> within D w2 w3 \<Longrightarrow> within D w1 w3"
  unfolding within_def by (metis D_trans)

lemma across_refl: "across (D r) w w"
  by (simp add: across_def D_refl)

lemma across_trans: "across (D r) w1 w2 \<Longrightarrow> across (D r) w2 w3 \<Longrightarrow> across (D r) w1 w3"
  unfolding across_def by (rule D_trans)

lemma framed_now [framed_intros]: "framed (within D) now"
  by (simp add: framed_def now_def within_outside D_refl)

lemma framed_fresh_uuid [framed_intros]: "framed (within D) fresh_uuid"
  by (simp add: framed_def fresh_uuid_def within_outside D_refl)

lemma framed_urandom [framed_intros]: "framed (within D) (urandom n)"
  by (simp add: framed_def urandom_def within_outside D_refl)

lemma framed_server_now [framed_intros]: "framed (within D) server_now"
  by (simp add: framed_def server_now_def within_outside D_refl)

lemma framed_select_all [framed_intros]: "framed (within D) (select_all T p)"
  by (simp add: framed_def select_all_def within_refl)

lemma framed_select_one [framed_intros]: "framed (within D) (select_one T p)"
  by (simp add: framed_def select_one_def within_refl)

lemma framed_exists_one [framed_intros]: "framed (within D) (exists_one T p)"
  by (simp add: framed_def exists_one_def within_refl)

lemma framed_rowcount [framed_intros]: "framed (within D) (rowcount T p)"
  by (simp add: framed_def rowcount_def within_refl)

lemma framed_commit [framed_intros]: "framed (within D) commit"
  by (simp add: framed_def commit_def within_def D_refl)

lemma framed_insert_row:
  "(\<And>r d. visible r (tenant_col T row) \<Longrightarrow> admits T d row \<Longrightarrow>
      D r d (rows_upd T (\<lambda>rows. rows @ [row]) d)) \<Longrightarrow>
   framed (within D) (insert_row T row)"
  by (auto simp: framed_def insert_row_def set_rows_def within_def seen_def D_refl)

lemma framed_update_rows:
  "(\<And>r d. D r d (rows_upd T (update_where (\<lambda>x. seen T r x \<and> p x) f) d)) \<Longrightarrow>
   framed (within D) (update_rows T p f)"
  by (auto simp: framed_def update_rows_def set_rows_def within_def D_refl)

lemma framed_delete_rows:
  "(\<And>r d. D r d (rows_upd T (delete_where (\<lambda>x. seen T r x \<and> p x)) d)) \<Longrightarrow>
   framed (within D) (delete_rows T p)"
  by (auto simp: framed_def delete_rows_def set_rows_def within_def D_refl)

lemma framed_save_row:
  "(\<And>r d. seen T r row \<Longrightarrow> admits T (rows_upd T (delete_where (\<lambda>x. key x = key row)) d) row \<Longrightarrow>
      D r d (rows_upd T (update_where (\<lambda>x. seen T r x \<and> key x = key row) (\<lambda>_. row)) d)) \<Longrightarrow>
   framed (within D) (save_row T key row)"
  by (auto simp: framed_def save_row_def set_rows_def within_def D_refl)

lemma framed_order_by_text [framed_intros]: "framed (within D) (order_by_text key rows)"
  by (simp add: framed_def order_by_text_def within_refl)

lemma framed_with_uow:
  assumes "framed (within D) body"
  shows "framed (across (D r)) (with_uow r body)"
proof (rule framedI)
  fix w w' :: world and res
  let ?w0 = "w\<lparr>store := committed w, db_role := r, tx_time := tick (env w) (draws w), draws := Suc (draws w)\<rparr>"
  assume "with_uow r body w = (res, w')"
  then have "\<exists>w1. body ?w0 = (res, w1) \<and> committed w' = committed w1"
    by (auto simp: with_uow_def Let_def split: prod.splits)
  then obtain w1 where w1: "body ?w0 = (res, w1)" "committed w' = committed w1"
    by blast
  from framedD [OF assms w1(1)] have "D r (committed w) (committed w1)"
    by (auto simp: within_def)
  then show "across (D r) w w'"
    by (simp add: across_def w1(2))
qed

end

text \<open>Both liftings are frame relations, so the combinator rules of the prelude apply.\<close>

sublocale db_order \<subseteq> within: frame_relation "within D"
  by unfold_locales (fact within_refl, rule within_trans)

sublocale db_order \<subseteq> across: frame_relation "across (D r)" for r
  by unfold_locales (fact across_refl, rule across_trans)

section \<open>Closing a unit of work\<close>

definition uow_start :: "session_role \<Rightarrow> world \<Rightarrow> world" where
  "uow_start r w = w\<lparr>store := committed w, db_role := r, tx_time := tick (env w) (draws w),
     draws := Suc (draws w)\<rparr>"

lemma uow_start_simps [simp]:
  "store (uow_start r w) = committed w" "committed (uow_start r w) = committed w"
  "db_role (uow_start r w) = r" "env (uow_start r w) = env w"
  "draws (uow_start r w) = Suc (draws w)" "tx_time (uow_start r w) = tick (env w) (draws w)"
  by (simp_all add: uow_start_def)

lemma with_uow_apply:
  "with_uow r body w =
     (fst (body (uow_start r w)),
      (snd (body (uow_start r w)))\<lparr>store := committed (snd (body (uow_start r w))), db_role := db_role w\<rparr>)"
  by (simp add: with_uow_def uow_start_def Let_def split: prod.split)

lemma with_uowE:
  assumes "with_uow r body w = (res, w')"
  obtains w1 where "body (uow_start r w) = (res, w1)" and "committed w' = committed w1"
    and "store w' = committed w1" and "env w' = env w1" and "draws w' = draws w1"
  using assms by (cases "body (uow_start r w)") (auto simp: with_uow_apply)

text \<open>A body that does not commit leaves the committed rows alone, whatever it did to its own.\<close>

definition uncommitted :: "world \<Rightarrow> world \<Rightarrow> bool" where
  "uncommitted w w' \<longleftrightarrow> committed w' = committed w"

interpretation uncommitted: frame_relation uncommitted
  by unfold_locales (simp_all add: uncommitted_def)

lemma uncommitted_statements [framed_intros]:
  "framed uncommitted now" "framed uncommitted fresh_uuid" "framed uncommitted (urandom n)"
  "framed uncommitted server_now" "framed uncommitted (select_all T p)"
  "framed uncommitted (select_one T p)" "framed uncommitted (exists_one T p)"
  "framed uncommitted (rowcount T p)" "framed uncommitted (insert_row T row)"
  "framed uncommitted (update_rows T p f)" "framed uncommitted (delete_rows T p)"
  "framed uncommitted (save_row T key row)" "framed uncommitted (order_by_text k rows)"
  by (simp_all add: framed_def uncommitted_def now_def fresh_uuid_def urandom_def server_now_def
      select_all_def select_one_def exists_one_def rowcount_def insert_row_def update_rows_def
      delete_rows_def save_row_def order_by_text_def set_rows_def)


section \<open>Tables\<close>

definition tenant_rows :: "'r table \<Rightarrow> uuid \<Rightarrow> db \<Rightarrow> 'r list" where
  "tenant_rows T t d = filter (\<lambda>r. tenant_col T r = Some t) (rows_of T d)"

text \<open>The rows of one tenant, in all tables that belong to tenants, are the same.\<close>

definition same_tenant :: "uuid \<Rightarrow> db \<Rightarrow> db \<Rightarrow> bool" where
  "same_tenant t d d' \<longleftrightarrow>
     tenant_rows memberships t d' = tenant_rows memberships t d \<and>
     tenant_rows organizations t d' = tenant_rows organizations t d \<and>
     tenant_rows invitations t d' = tenant_rows invitations t d \<and>
     tenant_rows vaults t d' = tenant_rows vaults t d \<and>
     tenant_rows grants t d' = tenant_rows grants t d \<and>
     tenant_rows secrets t d' = tenant_rows secrets t d \<and>
     tenant_rows secret_versions t d' = tenant_rows secret_versions t d \<and>
     tenant_rows tenant_keys t d' = tenant_rows tenant_keys t d \<and>
     tenant_rows audit_events t d' = tenant_rows audit_events t d \<and>
     tenant_rows chain_heads t d' = tenant_rows chain_heads t d"

definition isolation :: "session_role \<Rightarrow> db \<Rightarrow> db \<Rightarrow> bool" where
  "isolation r d d' \<longleftrightarrow> (\<forall>t. \<not> visible r (Some t) \<longrightarrow> same_tenant t d d')"

interpretation isolation: db_order isolation
  by unfold_locales (simp_all add: isolation_def same_tenant_def)

lemma isolation_owner [simp]: "isolation OwnerRole d d'"
  by (simp add: isolation_def visible_def)

lemma isolation_app: "isolation (AppRole t) d d' \<longleftrightarrow> (\<forall>u. u \<noteq> t \<longrightarrow> same_tenant u d d')"
  by (auto simp: isolation_def visible_def)

text \<open>
  A table of the schema: what is written is read back, and no other tenant's rows change when
  the table's own rows of that tenant do not.
\<close>

locale stored_table =
  fixes T :: "'r table"
  assumes get_put: "rows_of T (rows_upd T f d) = f (rows_of T d)"
    and put_local: "filter (\<lambda>r. tenant_col T r = Some t) (f (rows_of T d)) = tenant_rows T t d \<Longrightarrow>
      same_tenant t d (rows_upd T f d)"
begin

lemma isolation_insert [framed_intros]: "framed (within isolation) (insert_row T row)"
  by (rule isolation.framed_insert_row)
    (auto simp: isolation_def tenant_rows_def visible_def split: session_role.splits option.splits
      intro!: put_local)

lemma isolation_update [framed_intros]:
  assumes "\<And>x. tenant_col T (f x) = tenant_col T x"
  shows "framed (within isolation) (update_rows T p f)"
  using assms
  by (intro isolation.framed_update_rows)
    (auto simp: isolation_def tenant_rows_def seen_def intro!: put_local filter_update_where)

lemma isolation_delete [framed_intros]: "framed (within isolation) (delete_rows T p)"
  by (rule isolation.framed_delete_rows)
    (auto simp: isolation_def tenant_rows_def seen_def intro!: put_local filter_delete_where)

lemma isolation_save [framed_intros]: "framed (within isolation) (save_row T key row)"
proof (rule isolation.framed_save_row)
  fix r d
  assume s: "seen T r row"
  have "filter (\<lambda>x. tenant_col T x = Some t)
      (update_where (\<lambda>x. seen T r x \<and> key x = key row) (\<lambda>_. row) xs) =
    filter (\<lambda>x. tenant_col T x = Some t) xs" if "\<not> visible r (Some t)" for t xs
    using that s by (induction xs) (auto simp: update_where_def seen_def)
  then show "isolation r d (rows_upd T (update_where (\<lambda>x. seen T r x \<and> key x = key row) (\<lambda>_. row)) d)"
    by (auto simp: isolation_def tenant_rows_def intro!: put_local)
qed

text \<open>An inserted row is the first match of anything only it satisfies; a select of what is there.\<close>

lemma select_after_insert:
  assumes "row_where T p w = None" and "seen T (db_role w) row" and "p row"
  shows "row_where T p (set_rows T (\<lambda>rows. rows @ [row]) w) = Some row"
  using assms by (simp add: row_where_def set_rows_def get_put)

lemma row_where_set_rows:
  "row_where T p (set_rows T f w) = find (\<lambda>r. seen T (db_role w) r \<and> p r) (f (rows_of T (store w)))"
  by (simp add: row_where_def set_rows_def get_put)

end

interpretation users_t: stored_table users
  by unfold_locales (simp_all add: table_defs same_tenant_def tenant_rows_def)

interpretation memberships_t: stored_table memberships
  by unfold_locales (simp_all add: table_defs same_tenant_def tenant_rows_def)

interpretation organizations_t: stored_table organizations
  by unfold_locales (simp_all add: table_defs same_tenant_def tenant_rows_def)

interpretation sessions_t: stored_table sessions
  by unfold_locales (simp_all add: table_defs same_tenant_def tenant_rows_def)

interpretation refresh_tokens_t: stored_table refresh_tokens
  by unfold_locales (simp_all add: table_defs same_tenant_def tenant_rows_def)

interpretation totp_secrets_t: stored_table totp_secrets
  by unfold_locales (simp_all add: table_defs same_tenant_def tenant_rows_def)

interpretation recovery_codes_t: stored_table recovery_codes
  by unfold_locales (simp_all add: table_defs same_tenant_def tenant_rows_def)

interpretation invitations_t: stored_table invitations
  by unfold_locales (simp_all add: table_defs same_tenant_def tenant_rows_def)

interpretation vaults_t: stored_table vaults
  by unfold_locales (simp_all add: table_defs same_tenant_def tenant_rows_def)

interpretation grants_t: stored_table grants
  by unfold_locales (simp_all add: table_defs same_tenant_def tenant_rows_def)

interpretation secrets_t: stored_table secrets
  by unfold_locales (simp_all add: table_defs same_tenant_def tenant_rows_def)

interpretation secret_versions_t: stored_table secret_versions
  by unfold_locales (simp_all add: table_defs same_tenant_def tenant_rows_def)

interpretation tenant_keys_t: stored_table tenant_keys
  by unfold_locales (simp_all add: table_defs same_tenant_def tenant_rows_def)

interpretation audit_events_t: stored_table audit_events
  by unfold_locales (simp_all add: table_defs same_tenant_def tenant_rows_def)

interpretation chain_heads_t: stored_table chain_heads
  by unfold_locales (simp_all add: table_defs same_tenant_def tenant_rows_def)

end
