(* ===== verification/Ledger.thy ===== *)
theory Ledger
  imports Frames "HOL-Library.Sublist"
begin

text \<open>
  \<open>infrastructure/database/repositories/audit.py\<close>: the ledger in the database, and the proof that
  it is the ledger \<open>AuditService.record\<close> was verified against. On top of it the frame every
  transaction obeys: a valid ledger stays valid and only grows.
\<close>

section \<open>SqlAlchemyAuditRepository\<close>

definition audit_lock_or_create_head :: "uuid \<Rightarrow> chain_head op" where
  "audit_lock_or_create_head tenant_id =
     seq (select_one chain_heads (\<lambda>h. ch_tenant_id h = tenant_id)) (\<lambda>row.
     case row of
       Some h \<Rightarrow> ret h
     | None \<Rightarrow>
         let h = \<lparr>ch_tenant_id = tenant_id, ch_last_sequence = 0, ch_last_hash = None\<rparr>
         in seq (insert_row chain_heads h) (\<lambda>_. ret h))"

definition audit_insert_event :: "audit_event \<Rightarrow> unit op" where
  "audit_insert_event event = insert_row audit_events event"

definition audit_advance_head :: "uuid \<Rightarrow> int \<Rightarrow> bytes \<Rightarrow> unit op" where
  "audit_advance_head tenant_id last_sequence last_hash =
     seq (select_one chain_heads (\<lambda>h. ch_tenant_id h = tenant_id)) (\<lambda>row.
     case row of
       None \<Rightarrow> raise (System (RuntimeError ''audit chain head missing after lock''))
     | Some _ \<Rightarrow>
         update_rows chain_heads (\<lambda>h. ch_tenant_id h = tenant_id)
           (\<lambda>h. h\<lparr>ch_last_sequence := last_sequence, ch_last_hash := Some last_hash\<rparr>))"

definition audit_list_events ::
    "uuid \<Rightarrow> string option \<Rightarrow> uuid option \<Rightarrow> int option \<Rightarrow> nat \<Rightarrow> audit_event list op" where
  "audit_list_events tenant_id action target_id before_sequence limit =
     seq (select_all audit_events (\<lambda>e.
            ev_tenant_id e = tenant_id \<and>
            (case action of None \<Rightarrow> True | Some a \<Rightarrow> ev_action e = a) \<and>
            (case target_id of None \<Rightarrow> True | Some i \<Rightarrow> ev_target_id e = Some i) \<and>
            (case before_sequence of None \<Rightarrow> True | Some n \<Rightarrow> ev_sequence e < n))) (\<lambda>rows.
     ret (take limit (rev (sort_key ev_sequence rows))))"

definition audit_list_all_ordered :: "uuid \<Rightarrow> audit_event list op" where
  "audit_list_all_ordered tenant_id =
     seq (select_all audit_events (\<lambda>e. ev_tenant_id e = tenant_id)) (\<lambda>rows.
     ret (sort_key ev_sequence rows))"

definition audit_get_head :: "uuid \<Rightarrow> chain_head option op" where
  "audit_get_head tenant_id = select_one chain_heads (\<lambda>h. ch_tenant_id h = tenant_id)"

text \<open>The port \<open>AuditService\<close> is given by \<open>build_audit_service(uow)\<close>.\<close>

definition audit_ports :: "world ledger_ports" where
  "audit_ports =
     \<lparr>lock_or_create_head = audit_lock_or_create_head, insert_event = audit_insert_event,
      advance_head = audit_advance_head, utc_now = now, uuid4 = fresh_uuid\<rparr>"

definition record_event ::
    "actor_context \<Rightarrow> string \<Rightarrow> string \<Rightarrow> uuid option \<Rightarrow> string \<Rightarrow> metadata option \<Rightarrow> unit op" where
  "record_event actor action target_type target_id outcome md =
     audit_record audit_ports actor action target_type target_id outcome md"

section \<open>The ledger of a tenant\<close>

definition events_in :: "db \<Rightarrow> uuid \<Rightarrow> audit_event list" where
  "events_in d t = sort_key ev_sequence (filter (\<lambda>e. ev_tenant_id e = t) (t_audit_events d))"

definition head_in :: "db \<Rightarrow> uuid \<Rightarrow> chain_head option" where
  "head_in d t = find (\<lambda>h. ch_tenant_id h = t) (t_chain_heads d)"

definition ledger_ok :: "db \<Rightarrow> uuid \<Rightarrow> bool" where
  "ledger_ok d t \<longleftrightarrow> ledger_valid (events_in d t) (head_in d t)"

definition sees_tenant :: "world \<Rightarrow> uuid \<Rightarrow> bool" where
  "sees_tenant w t \<longleftrightarrow> visible (db_role w) (Some t)"

lemma insort_key_snoc: "f x \<le> f e \<Longrightarrow> insort_key f x (ys @ [e]) = insort_key f x ys @ [e]"
  by (induction ys) auto

lemma sort_key_snoc:
  "(\<And>x. x \<in> set xs \<Longrightarrow> f x \<le> f e) \<Longrightarrow> sort_key f (xs @ [e]) = sort_key f xs @ [e]"
  by (induction xs) (simp_all add: insort_key_snoc)

lemma events_in_snoc:
  assumes "next_sequence_free (events_in d (ev_tenant_id e)) e"
  shows "events_in (d\<lparr>t_audit_events := t_audit_events d @ [e]\<rparr>) =
    (events_in d)(ev_tenant_id e := events_in d (ev_tenant_id e) @ [e])"
proof
  fix t
  show "events_in (d\<lparr>t_audit_events := t_audit_events d @ [e]\<rparr>) t =
    ((events_in d)(ev_tenant_id e := events_in d (ev_tenant_id e) @ [e])) t"
    using assms
    by (fastforce simp: events_in_def next_sequence_free_def intro!: sort_key_snoc)
qed

lemma find_head_update:
  "head_in (t_chain_heads_update (update_where (\<lambda>h. p h \<and> ch_tenant_id h = t)
       (\<lambda>h. h\<lparr>ch_last_sequence := n, ch_last_hash := Some hsh\<rparr>)) d) u =
   map_option (\<lambda>h. if p h \<and> u = t then h\<lparr>ch_last_sequence := n, ch_last_hash := Some hsh\<rparr> else h) (head_in d u)"
  unfolding head_in_def
  by (cases "find (\<lambda>h. ch_tenant_id h = u) (t_chain_heads d)") (auto simp: find_update_where)

lemma head_in_tenant: "head_in d t = Some h \<Longrightarrow> ch_tenant_id h = t"
  by (auto simp: head_in_def)

lemma row_where_head:
  "row_where chain_heads (\<lambda>h. ch_tenant_id h = t) w = (if sees_tenant w t then head_in (store w) t else None)"
proof -
  have "row_where chain_heads (\<lambda>h. ch_tenant_id h = t) w =
      find (\<lambda>h. sees_tenant w t \<and> ch_tenant_id h = t) (t_chain_heads (store w))"
    unfolding row_where_def seen_def sees_tenant_def rows_of_simps tenant_col_simps
    by (rule find_cong_set) auto
  then show ?thesis
    by (auto simp: head_in_def find_None_iff)
qed

lemma admits_chain_heads:
  "admits chain_heads d r \<longleftrightarrow>
     absent ch_tenant_id (ch_tenant_id r) (t_chain_heads d) \<and> present o_id (ch_tenant_id r) (t_organizations d)"
  by (simp add: chain_heads_def)

lemma lock_apply:
  "audit_lock_or_create_head t w =
     (if \<not> sees_tenant w t then (Inl (System RowSecurityError), w)
      else case head_in (store w) t of
        Some h \<Rightarrow> (Inr h, w)
      | None \<Rightarrow>
          if present o_id t (t_organizations (store w))
          then (Inr (fresh_head t), w\<lparr>store := (store w)\<lparr>t_chain_heads := t_chain_heads (store w) @ [fresh_head t]\<rparr>\<rparr>)
          else (Inl (System IntegrityError), w))"
proof (cases "head_in (store w) t")
  case None
  then have "absent ch_tenant_id t (t_chain_heads (store w))"
    by (auto simp: head_in_def absent_def find_None_iff)
  with None show ?thesis
    by (simp add: audit_lock_or_create_head_def prog_simps row_where_head Let_def
        set_rows_def seen_def sees_tenant_def admits_chain_heads fresh_head_def)
next
  case (Some h)
  then have "\<not> absent ch_tenant_id t (t_chain_heads (store w))"
    by (auto simp: head_in_def absent_def dest: find_Some_iff2)
  with Some show ?thesis
    by (simp add: audit_lock_or_create_head_def prog_simps row_where_head Let_def
        set_rows_def seen_def sees_tenant_def admits_chain_heads)
qed

lemma insert_event_apply:
  "audit_insert_event e w =
     (if \<not> sees_tenant w (ev_tenant_id e) then (Inl (System RowSecurityError), w)
      else if \<not> admits audit_events (store w) e then (Inl (System IntegrityError), w)
      else (Inr (), w\<lparr>store := (store w)\<lparr>t_audit_events := t_audit_events (store w) @ [e]\<rparr>\<rparr>))"
  by (simp add: audit_insert_event_def insert_row_def set_rows_def seen_def sees_tenant_def)

lemma advance_apply:
  assumes "sees_tenant w t" and "head_in (store w) t = Some h"
  shows "\<exists>w'. audit_advance_head t n hsh w = (Inr (), w') \<and> db_role w' = db_role w \<and>
    committed w' = committed w \<and> events_in (store w') = events_in (store w) \<and>
    head_in (store w') = (head_in (store w))(t := Some \<lparr>ch_tenant_id = t, ch_last_sequence = n, ch_last_hash = Some hsh\<rparr>)"
proof -
  let ?w' = "set_rows chain_heads (update_where (\<lambda>h. seen chain_heads (db_role w) h \<and> ch_tenant_id h = t)
       (\<lambda>h. h\<lparr>ch_last_sequence := n, ch_last_hash := Some hsh\<rparr>)) w"
  have run: "audit_advance_head t n hsh w = (Inr (), ?w')"
    using assms by (simp add: audit_advance_head_def select_one_def row_where_head update_rows_def)
  have hd: "ch_tenant_id h = t" using assms(2) by (rule head_in_tenant)
  have st: "store ?w' = t_chain_heads_update (update_where (\<lambda>h. seen chain_heads (db_role w) h \<and> ch_tenant_id h = t)
       (\<lambda>h. h\<lparr>ch_last_sequence := n, ch_last_hash := Some hsh\<rparr>)) (store w)"
    by (simp add: set_rows_def)
  have "head_in (store ?w') = (head_in (store w))(t := Some \<lparr>ch_tenant_id = t, ch_last_sequence = n, ch_last_hash = Some hsh\<rparr>)"
    unfolding st find_head_update fun_eq_iff using assms hd
    by (auto simp: sees_tenant_def seen_def option.map_ident cong: option.map_cong)
  moreover have "events_in (store ?w') = events_in (store w)"
    unfolding st by (simp add: events_in_def fun_eq_iff)
  ultimately show ?thesis
    using run by (simp add: set_rows_def)
qed

section \<open>The ledger port, failures included\<close>

text \<open>
  A stricter contract: a call that raises leaves every ledger as it is, a head that was handed
  out can be advanced, and an insert concerns one tenant only. It gives what a client may rely
  on when \<open>record\<close> does not return.
\<close>

locale total_ledger = audit_ledger +
  assumes lock_ready: "lock_or_create_head ports t w = (Inr h, w') \<Longrightarrow> ready w t"
    and lock_fails: "lock_or_create_head ports t w = (Inl x, w') \<Longrightarrow>
      events_of w' = events_of w \<and> head_of w' = head_of w"
    and insert_fails: "insert_event ports e w = (Inl x, w') \<Longrightarrow>
      events_of w' = events_of w \<and> head_of w' = head_of w"
    and insert_other: "insert_event ports e w = (r, w') \<Longrightarrow> t \<noteq> ev_tenant_id e \<Longrightarrow>
      events_of w' t = events_of w t \<and> head_of w' t = head_of w t"
    and advance_runs: "ready w t \<Longrightarrow> head_of w t \<noteq> None \<Longrightarrow> \<exists>u w'. advance_head ports t n hsh w = (Inr u, w')"
    and advance_other: "advance_head ports t n hsh w = (r, w') \<Longrightarrow> u \<noteq> t \<Longrightarrow>
      events_of w' u = events_of w u \<and> head_of w' u = head_of w u"
    and now_frame: "utc_now ports w = (rn, w') \<Longrightarrow> events_of w' = events_of w \<and> head_of w' = head_of w"
    and uuid4_frame: "uuid4 ports w = (ri, w') \<Longrightarrow> events_of w' = events_of w \<and> head_of w' = head_of w"
begin

text \<open>Where \<open>record\<close> can stop: before the insert, or having run to its end.\<close>

lemma record_stops:
  assumes "audit_record ports actor action tt tid outcome md w = (Inl x, w')"
    and ok: "ledger_valid (events_of w (actor_tenant actor)) (head_of w (actor_tenant actor))"
  shows "events_of w' = events_of w \<and>
    (head_of w' = head_of w \<or> (\<exists>h. head_of w' = (head_of w)(actor_tenant actor := Some h) \<and>
        h = (case head_of w (actor_tenant actor) of None \<Rightarrow> fresh_head (actor_tenant actor) | Some g \<Rightarrow> g)))"
proof -
  let ?t = "actor_tenant actor"
  consider
      "w' = w"
    | "lock_or_create_head ports ?t w = (Inl x, w')"
    | h w1 where "lock_or_create_head ports ?t w = (Inr h, w1)" "utc_now ports w1 = (Inl x, w')"
    | h w1 oc w2 where "lock_or_create_head ports ?t w = (Inr h, w1)" "utc_now ports w1 = (Inr oc, w2)"
        "uuid4 ports w2 = (Inl x, w')"
    | h w1 oc w2 i w3 e where "lock_or_create_head ports ?t w = (Inr h, w1)" "utc_now ports w1 = (Inr oc, w2)"
        "uuid4 ports w2 = (Inr i, w3)" "insert_event ports e w3 = (Inl x, w')"
    | h w1 oc w2 i w3 e u w4 n hsh where "lock_or_create_head ports ?t w = (Inr h, w1)"
        "utc_now ports w1 = (Inr oc, w2)" "uuid4 ports w2 = (Inr i, w3)"
        "insert_event ports e w3 = (Inr u, w4)" "advance_head ports ?t n hsh w4 = (Inl x, w')"
        "ev_tenant_id e = ?t" "ev_sequence e = ch_last_sequence h + 1"
    using assms(1) unfolding audit_record_def Let_def
    by (auto simp: seq_Inl_iff split: if_splits)
  then show ?thesis
  proof cases
    case 1
    then show ?thesis by simp
  next
    case 2
    then show ?thesis using lock_fails by blast
  next
    case 3
    then show ?thesis
      using lock_law [OF lock_ready [OF 3(1)] 3(1)] now_frame [OF 3(2)] by auto
  next
    case 4
    then show ?thesis
      using lock_law [OF lock_ready [OF 4(1)] 4(1)] now_frame [OF 4(2)] uuid4_frame [OF 4(3)] by auto
  next
    case 5
    then show ?thesis
      using lock_law [OF lock_ready [OF 5(1)] 5(1)] now_frame [OF 5(2)] uuid4_frame [OF 5(3)]
        insert_fails [OF 5(4)] by auto
  next
    case 6
    note l = lock_law [OF lock_ready [OF 6(1)] 6(1)]
    have r: "ready w3 ?t" using l now_law [OF 6(2), of ?t] uuid4_law [OF 6(3), of ?t] by blast
    have f: "events_of w3 = events_of w" "head_of w3 = (head_of w)(?t := Some h)"
      using l now_frame [OF 6(2)] uuid4_frame [OF 6(3)] by auto
    have vc: "valid_chain (events_of w ?t)" "head_matches (events_of w ?t) h"
      using ledger_valid_head [OF ok] l by simp_all
    then have "next_sequence_free (events_of w3 (ev_tenant_id e)) e"
      using valid_chain_sequences [OF vc(1)] f 6(6,7)
      by (fastforce simp: next_sequence_free_def head_matches_def)
    then have "ready w4 ?t" "head_of w4 = head_of w3"
      using insert_law [OF _ _ 6(4)] r 6(6) by auto
    then show ?thesis
      using advance_runs [of w4 ?t n hsh] f 6(5) by auto
  qed
qed

text \<open>What holds however \<open>record\<close> ends: other tenants are untouched, valid ledgers stay valid.\<close>

lemma record_other:
  assumes "audit_record ports actor action tt tid outcome md w = (r, w')" and "t \<noteq> actor_tenant actor"
  shows "events_of w' t = events_of w t \<and> head_of w' t = head_of w t"
proof -
  let ?R = "\<lambda>w w'. events_of w' t = events_of w t \<and> head_of w' t = head_of w t"
  have fr: "frame_relation ?R" by unfold_locales auto
  have lock: "framed ?R (lock_or_create_head ports (actor_tenant actor))"
  proof (rule framedI)
    fix w1 q w2
    assume q: "lock_or_create_head ports (actor_tenant actor) w1 = (q, w2)"
    show "?R w1 w2"
    proof (cases q)
      case (Inl x)
      with q show ?thesis using lock_fails by metis
    next
      case (Inr h)
      with lock_law [OF lock_ready [OF q [unfolded Inr]] q [unfolded Inr]] assms(2) show ?thesis by auto
    qed
  qed
  have ins: "framed ?R (insert_event ports e)" if "ev_tenant_id e = actor_tenant actor" for e
    using insert_other that assms(2) by (intro framedI) metis
  have adv: "framed ?R (advance_head ports (actor_tenant actor) n h)" for n h
    using advance_other assms(2) by (intro framedI) metis
  have clk: "framed ?R (utc_now ports)" "framed ?R (uuid4 ports)"
    using now_frame uuid4_frame by (auto intro!: framedI)
  have "framed ?R (audit_record ports actor action tt tid outcome md)"
    unfolding audit_record_def Let_def
    by (intro framed_if frame_relation.framed_raise [OF fr] frame_relation.framed_seq [OF fr] lock clk ins adv)
      simp
  then show ?thesis using assms(1) by (rule framedD)
qed

lemma record_keeps_valid:
  assumes rec: "audit_record ports actor action tt tid outcome md w = (r, w')"
    and ok: "ledger_valid (events_of w t) (head_of w t)"
  shows "ledger_valid (events_of w' t) (head_of w' t) \<and> prefix (events_of w t) (events_of w' t)"
proof (cases "t = actor_tenant actor")
  case False
  then show ?thesis using record_other [OF rec] ok by simp
next
  case True
  note ok' = ok [unfolded True]
  show ?thesis
  proof (cases r)
    case (Inr u)
    show ?thesis
    proof (cases "ready w t")
      case R: True
      from record_extends [OF rec [unfolded Inr] R [unfolded True] ok'] True show ?thesis by auto
    next
      case False
      from rec Inr True obtain h w1 where "lock_or_create_head ports t w = (Inr h, w1)"
        unfolding audit_record_def Let_def by (auto simp: seq_Inr_iff split: if_splits)
      with False show ?thesis using lock_ready by blast
    qed
  next
    case (Inl x)
    from record_stops [OF rec [unfolded Inl] ok'] ok True
    have "events_of w' t = events_of w t" and
      "head_of w' t = head_of w t \<or> head_of w' t =
        Some (case head_of w t of None \<Rightarrow> fresh_head t | Some g \<Rightarrow> g)"
      by auto
    moreover have "ledger_valid (events_of w t) (Some (case head_of w t of None \<Rightarrow> fresh_head t | Some g \<Rightarrow> g))"
      using ledger_valid_head [OF ok refl, of t] by (simp add: ledger_valid_Some)
    ultimately show ?thesis using ok by auto
  qed
qed

end

section \<open>The repository provides the port\<close>

lemma events_in_other:
  "t \<noteq> ev_tenant_id e \<Longrightarrow> events_in (d\<lparr>t_audit_events := t_audit_events d @ [e]\<rparr>) t = events_in d t"
  by (simp add: events_in_def)

lemma head_in_events [simp]: "head_in (t_audit_events_update f d) = head_in d"
  by (simp add: head_in_def fun_eq_iff)

lemma events_in_heads [simp]: "events_in (t_chain_heads_update f d) = events_in d"
  by (simp add: events_in_def fun_eq_iff)

lemma head_in_new:
  "head_in d t = None \<Longrightarrow>
     head_in (d\<lparr>t_chain_heads := t_chain_heads d @ [fresh_head t]\<rparr>) = (head_in d)(t := Some (fresh_head t))"
  by (auto simp: head_in_def fresh_head_def fun_eq_iff split: option.split)

lemma lock_success:
  assumes "audit_lock_or_create_head t w = (Inr h, w')"
  shows "sees_tenant w t \<and> sees_tenant w' t \<and>
    h = (case head_in (store w) t of None \<Rightarrow> fresh_head t | Some g \<Rightarrow> g) \<and>
    head_in (store w') = (head_in (store w))(t := Some h) \<and> events_in (store w') = events_in (store w)"
  using assms
  by (auto simp: lock_apply sees_tenant_def head_in_new fun_upd_idem split: if_splits option.splits)

lemma lock_failure: "audit_lock_or_create_head t w = (Inl x, w') \<Longrightarrow> w' = w"
  by (auto simp: lock_apply split: if_splits option.splits)

lemma advance_other_tenant:
  assumes "audit_advance_head t n hsh w = (r, w')" and "u \<noteq> t"
  shows "events_in (store w') u = events_in (store w) u \<and> head_in (store w') u = head_in (store w) u"
  using assms
  by (auto simp: audit_advance_head_def prog_simps update_rows_def set_rows_def find_head_update
      option.map_ident split: option.splits)

interpretation repo: total_ledger audit_ports "\<lambda>w. events_in (store w)" "\<lambda>w. head_in (store w)" sees_tenant
proof unfold_locales
  fix w w' :: world and t t' :: uuid and h :: chain_head and x :: exn
  show "sees_tenant w t \<Longrightarrow> lock_or_create_head audit_ports t w = (Inr h, w') \<Longrightarrow>
    h = (case head_in (store w) t of None \<Rightarrow> fresh_head t | Some h \<Rightarrow> h) \<and> sees_tenant w' t \<and>
    head_in (store w') = (head_in (store w))(t := Some h) \<and> events_in (store w') = events_in (store w)"
    by (simp add: audit_ports_def lock_success)
  show "lock_or_create_head audit_ports t w = (Inr h, w') \<Longrightarrow> sees_tenant w t"
    by (simp add: audit_ports_def lock_success)
  show "lock_or_create_head audit_ports t w = (Inl x, w') \<Longrightarrow>
    events_in (store w') = events_in (store w) \<and> head_in (store w') = head_in (store w)"
    using lock_failure by (fastforce simp: audit_ports_def)
next
  fix w w' :: world and e :: audit_event and u :: unit
  assume "next_sequence_free (events_in (store w) (ev_tenant_id e)) e"
    and "insert_event audit_ports e w = (Inr u, w')" and "sees_tenant w (ev_tenant_id e)"
  then show "sees_tenant w' (ev_tenant_id e) \<and> head_in (store w') = head_in (store w) \<and>
    events_in (store w') = (events_in (store w))(ev_tenant_id e := events_in (store w) (ev_tenant_id e) @ [e])"
    by (auto simp: audit_ports_def insert_event_apply sees_tenant_def events_in_snoc split: if_splits)
next
  fix w w' :: world and e :: audit_event and x :: exn and r :: "exn + unit" and t :: uuid
  show "insert_event audit_ports e w = (Inl x, w') \<Longrightarrow>
    events_in (store w') = events_in (store w) \<and> head_in (store w') = head_in (store w)"
    by (auto simp: audit_ports_def insert_event_apply split: if_splits)
  show "insert_event audit_ports e w = (r, w') \<Longrightarrow> t \<noteq> ev_tenant_id e \<Longrightarrow>
    events_in (store w') t = events_in (store w) t \<and> head_in (store w') t = head_in (store w) t"
    by (auto simp: audit_ports_def insert_event_apply events_in_other split: if_splits)
next
  fix w w' :: world and t u :: uuid and n :: int and hsh :: bytes and r :: "exn + unit" and v :: unit
  {
    assume s: "sees_tenant w t" and a: "advance_head audit_ports t n hsh w = (Inr v, w')"
    from a obtain h where "head_in (store w) t = Some h"
      by (auto simp: audit_ports_def audit_advance_head_def prog_simps row_where_head
          split: option.splits if_splits)
    from advance_apply [OF s this, of n hsh] s a
    show "sees_tenant w' t \<and> events_in (store w') = events_in (store w) \<and>
      head_in (store w') = (head_in (store w))(t := Some \<lparr>ch_tenant_id = t, ch_last_sequence = n, ch_last_hash = Some hsh\<rparr>)"
      by (auto simp: audit_ports_def sees_tenant_def)
  }
  show "sees_tenant w t \<Longrightarrow> head_in (store w) t \<noteq> None \<Longrightarrow>
      \<exists>u w'. advance_head audit_ports t n hsh w = (Inr u, w')"
    using advance_apply by (fastforce simp: audit_ports_def)
  show "advance_head audit_ports t n hsh w = (r, w') \<Longrightarrow> u \<noteq> t \<Longrightarrow>
    events_in (store w') u = events_in (store w) u \<and> head_in (store w') u = head_in (store w) u"
    by (simp add: audit_ports_def advance_other_tenant)
qed (auto simp: audit_ports_def now_def fresh_uuid_def sees_tenant_def)

lemmas record_event_valid = repo.record_keeps_valid [folded record_event_def]
lemmas record_event_extends = repo.record_extends [folded record_event_def]

section \<open>When a record returns\<close>

text \<open>With a known action and clean metadata only a constraint of the ledger can stop a record.\<close>

lemma advance_total:
  assumes "audit_advance_head t n hsh w = (Inl e, w')" and "sees_tenant w t"
  shows "head_in (store w) t = None"
proof (rule ccontr)
  assume "head_in (store w) t \<noteq> None"
  then obtain h where "head_in (store w) t = Some h" by blast
  from advance_apply [OF assms(2) this, of n hsh] assms(1) show False by auto
qed

lemma record_event_clash:
  assumes "sees_tenant w (actor_tenant actor)" and "action \<in> audit_actions"
    and "offending_keys (case md of None \<Rightarrow> [] | Some m \<Rightarrow> m) = {}"
    and "record_event actor action tt tid oc md w = (Inl e, w')"
  shows "e = System IntegrityError"
proof -
  let ?t = "actor_tenant actor"
  obtain r1 w1 where lock: "audit_lock_or_create_head ?t w = (r1, w1)" by fastforce
  show ?thesis
  proof (cases r1)
    case (Inl x)
    with lock assms show ?thesis
      by (auto simp: record_event_def audit_record_def audit_ports_def seq_def lock_apply
          split: if_splits option.splits)
  next
    case (Inr h)
    with lock_success [of ?t w h w1] lock
    have w1: "sees_tenant w1 ?t" "head_in (store w1) ?t = Some h" by simp_all
    then show ?thesis
      using assms lock Inr
      by (auto simp: record_event_def audit_record_def audit_ports_def Let_def seq_def now_def
          fresh_uuid_def insert_event_apply sees_tenant_def dest!: advance_total split: if_splits)
  qed
qed

text \<open>How a record of the ledger runs on a tenant that has none yet.\<close>

lemma first_record:
  assumes "action \<in> audit_actions" and "offending_keys (case md of None \<Rightarrow> [] | Some m \<Rightarrow> m) = {}"
    and "db_role w = AppRole t" and "actor_tenant actor = t" and "t_audit_events (store w) = []"
    and "t_chain_heads (store w) = []" and "present o_id t (t_organizations (store w))"
    and "oc \<in> {''success'', ''failure'', ''denied''}"
  shows "\<exists>w'. record_event actor action tt tid oc md w = (Inr (), w')"
  using assms
  by (simp add: record_event_def audit_record_def audit_ports_def Let_def prog_simps seq_def lock_apply
      head_in_def sees_tenant_def visible_def now_def fresh_uuid_def insert_event_apply audit_events_def
      absent_def advance_apply audit_advance_head_def row_where_def seen_def fresh_head_def select_one_def
      update_rows_def)

section \<open>The ledger frame\<close>

definition ledger_order :: "session_role \<Rightarrow> db \<Rightarrow> db \<Rightarrow> bool" where
  "ledger_order r d d' \<longleftrightarrow>
     (\<forall>t. ledger_ok d t \<longrightarrow> ledger_ok d' t \<and> prefix (events_in d t) (events_in d' t))"

interpretation ledger: db_order ledger_order
  by unfold_locales (auto simp: ledger_order_def intro: prefix_order.trans)

text \<open>A table other than the two of the ledger.\<close>

definition apart_from_ledger :: "'r table \<Rightarrow> bool" where
  "apart_from_ledger T \<longleftrightarrow> (\<forall>f d. t_audit_events (rows_upd T f d) = t_audit_events d \<and>
     t_chain_heads (rows_upd T f d) = t_chain_heads d)"

lemma apart_from_ledger_simps [simp]:
  "apart_from_ledger users" "apart_from_ledger memberships" "apart_from_ledger organizations"
  "apart_from_ledger sessions" "apart_from_ledger refresh_tokens" "apart_from_ledger totp_secrets"
  "apart_from_ledger recovery_codes" "apart_from_ledger invitations" "apart_from_ledger vaults"
  "apart_from_ledger grants" "apart_from_ledger secrets" "apart_from_ledger secret_versions"
  "apart_from_ledger tenant_keys"
  by (simp_all add: apart_from_ledger_def)

lemma apart_ledger_same:
  "apart_from_ledger T \<Longrightarrow> events_in (rows_upd T f d) = events_in d \<and> head_in (rows_upd T f d) = head_in d"
  by (simp add: apart_from_ledger_def events_in_def head_in_def fun_eq_iff)

lemma apart_ledger_order: "apart_from_ledger T \<Longrightarrow> ledger_order r d (rows_upd T f d)"
  by (simp add: ledger_order_def ledger_ok_def apart_ledger_same)

lemma ledger_statements [framed_intros]:
  assumes "apart_from_ledger T"
  shows "framed (within ledger_order) (insert_row T row)"
    and "framed (within ledger_order) (update_rows T p f)"
    and "framed (within ledger_order) (delete_rows T p)"
    and "framed (within ledger_order) (save_row T key row)"
  using assms
  by (auto intro: ledger.framed_insert_row ledger.framed_update_rows ledger.framed_delete_rows
      ledger.framed_save_row
      apart_ledger_order)

text \<open>Nothing inside \<open>record\<close> commits or changes the role.\<close>

definition session_kept :: "world \<Rightarrow> world \<Rightarrow> bool" where
  "session_kept w w' \<longleftrightarrow> db_role w' = db_role w \<and> committed w' = committed w \<and> env w' = env w"

interpretation session_kept: frame_relation session_kept
  by unfold_locales (simp_all add: session_kept_def)

lemma session_kept_statements [framed_intros]:
  "framed session_kept now" "framed session_kept fresh_uuid" "framed session_kept (urandom n)"
  "framed session_kept server_now" "framed session_kept (select_all T p)"
  "framed session_kept (select_one T p)" "framed session_kept (exists_one T p)"
  "framed session_kept (rowcount T p)" "framed session_kept (insert_row T row)"
  "framed session_kept (update_rows T p f)" "framed session_kept (delete_rows T p)"
  "framed session_kept (save_row T key row)" "framed session_kept (order_by_text k rows)"
  by (simp_all add: framed_def session_kept_def now_def fresh_uuid_def urandom_def server_now_def
      select_all_def select_one_def exists_one_def rowcount_def insert_row_def update_rows_def
      delete_rows_def save_row_def order_by_text_def)

lemmas audit_repo_defs = record_event_def audit_record_def audit_ports_def
  audit_lock_or_create_head_def audit_insert_event_def audit_advance_head_def

lemma session_kept_record [framed_intros]: "framed session_kept (record_event actor a tt tid oc md)"
  by (auto simp: audit_repo_defs Let_def intro!: framed_intros)

lemma isolation_record [framed_intros]: "framed (within isolation) (record_event actor a tt tid oc md)"
  by (auto simp: audit_repo_defs Let_def intro!: framed_intros)

lemma ledger_record [framed_intros]: "framed (within ledger_order) (record_event actor a tt tid oc md)"
proof (rule framedI)
  fix w w' and r
  assume r: "record_event actor a tt tid oc md w = (r, w')"
  have "session_kept w w'" using session_kept_record r by (rule framedD)
  then show "within ledger_order w w'"
    using record_event_valid [OF r]
    by (auto simp: within_def session_kept_def ledger_order_def ledger_ok_def)
qed

section \<open>Orders the tenant use cases respect\<close>

text \<open>
  The statements a tenant's unit of work runs, as the contract an order on databases has to meet
  for its frame to hold of every use case below: the component theories prove the frame of each
  operation once, in this locale. An update may not move a row to another tenant nor change what
  identifies it, and a settled invitation does not become pending again.
\<close>

locale tenant_order = db_order +
  assumes insert_vaults: "framed (within D) (insert_row vaults v)"
    and update_vaults: "(\<And>x. v_tenant_id (fv x) = v_tenant_id x \<and> v_id (fv x) = v_id x \<and> v_name (fv x) = v_name x) \<Longrightarrow>
      framed (within D) (update_rows vaults pv fv)"
    and save_vaults: "framed (within D) (save_row vaults v_id v)"
    and update_grants: "(\<And>x. g_tenant_id (fg x) = g_tenant_id x \<and> g_id (fg x) = g_id x \<and>
        g_vault_id (fg x) = g_vault_id x \<and> g_membership_id (fg x) = g_membership_id x) \<Longrightarrow>
      framed (within D) (update_rows grants pg fg)"
    and delete_grants: "framed (within D) (delete_rows grants pg)"
    and insert_secrets: "framed (within D) (insert_row secrets s)"
    and update_secrets: "(\<And>x. s_tenant_id (fs x) = s_tenant_id x \<and> s_id (fs x) = s_id x \<and>
        s_vault_id (fs x) = s_vault_id x \<and> s_name (fs x) = s_name x) \<Longrightarrow>
      framed (within D) (update_rows secrets ps fs)"
    and save_secrets: "framed (within D) (save_row secrets s_id s)"
    and insert_versions: "framed (within D) (insert_row secret_versions sv)"
    and insert_keys: "framed (within D) (insert_row tenant_keys k)"
    and insert_invitations: "framed (within D) (insert_row invitations i)"
    and update_invitations: "(\<And>x. i_tenant_id (fi x) = i_tenant_id x \<and> i_id (fi x) = i_id x \<and>
        i_email (fi x) = i_email x \<and> i_token_hash (fi x) = i_token_hash x \<and> (pending (fi x) \<longrightarrow> pending x)) \<Longrightarrow>
      framed (within D) (update_rows invitations pi fi)"
    and insert_memberships: "framed (within D) (insert_row memberships m)"
    and record_events: "framed (within D) (record_event actor a tt tid oc md)"
begin

lemmas tenant_statements [framed_intros] = insert_vaults update_vaults save_vaults
  update_grants delete_grants insert_secrets update_secrets save_secrets insert_versions insert_keys
  insert_invitations update_invitations insert_memberships record_events

end

text \<open>
  Most orders admit any grant; the one that ties a grant to a membership of its tenant does not,
  and is met by the services that write grants instead (theory Vaults).
\<close>

locale grant_order = tenant_order +
  assumes insert_grants [framed_intros]: "framed (within D) (insert_row grants g)"

interpretation isolation: grant_order isolation
  by unfold_locales (auto intro!: framed_intros)

interpretation ledger: grant_order ledger_order
  by unfold_locales (auto intro!: framed_intros)

end
