(* ===== verification/Identity_Repo.thy ===== *)
theory Identity_Repo
  imports Ledger
begin

text \<open>
  \<open>infrastructure/database/repositories/identity.py\<close>: users, memberships, sessions, refresh
  tokens, organizations, TOTP secrets and recovery codes, as the owner-role unit of work reads
  and writes them.
\<close>

section \<open>SqlAlchemyUserRepository\<close>

definition user_get_by_email :: "string \<Rightarrow> user option op" where
  "user_get_by_email email = select_one users (\<lambda>u. u_email u = email)"

definition user_get :: "uuid \<Rightarrow> user option op" where
  "user_get user_id = select_one users (\<lambda>u. u_id u = user_id)"

definition user_add :: "string \<Rightarrow> string \<Rightarrow> user op" where
  "user_add email password_hash =
     seq fresh_uuid (\<lambda>i.
     let row = \<lparr>u_id = i, u_email = email, u_password_hash = password_hash, u_is_active = True,
           u_mfa_enabled = False\<rparr>
     in seq (insert_row users row) (\<lambda>_. ret row))"

definition user_set_mfa_enabled :: "uuid \<Rightarrow> bool \<Rightarrow> unit op" where
  "user_set_mfa_enabled user_id enabled =
     update_rows users (\<lambda>u. u_id u = user_id) (\<lambda>u. u\<lparr>u_mfa_enabled := enabled\<rparr>)"

section \<open>SqlAlchemyMembershipRepository and SqlAlchemyOrganizationRepository\<close>

definition idm_add :: "uuid \<Rightarrow> uuid \<Rightarrow> org_role \<Rightarrow> unit op" where
  "idm_add tenant_id user_id role =
     seq fresh_uuid (\<lambda>i.
     seq server_now (\<lambda>t.
     insert_row memberships \<lparr>m_id = i, m_tenant_id = tenant_id, m_user_id = user_id,
       m_role = role, m_created_at = t\<rparr>))"

definition idm_get_tenant_id :: "uuid \<Rightarrow> uuid option op" where
  "idm_get_tenant_id user_id =
     seq (select_one memberships (\<lambda>m. m_user_id m = user_id)) (\<lambda>row. ret (map_option m_tenant_id row))"

definition idm_get_role :: "uuid \<Rightarrow> string option op" where
  "idm_get_role user_id =
     seq (select_one memberships (\<lambda>m. m_user_id m = user_id)) (\<lambda>row.
     ret (map_option (\<lambda>m. role_value (m_role m)) row))"

definition idm_has_membership :: "uuid \<Rightarrow> bool op" where
  "idm_has_membership user_id =
     seq (idm_get_tenant_id user_id) (\<lambda>result. ret (result \<noteq> None))"

definition idm_has_membership_for_email :: "string \<Rightarrow> bool op" where
  "idm_has_membership_for_email email =
     seq (select_all users (\<lambda>u. u_email u = email)) (\<lambda>us.
     exists_one memberships (\<lambda>m. m_user_id m \<in> u_id ` set us))"

definition ido_add :: "string \<Rightarrow> uuid op" where
  "ido_add name =
     seq fresh_uuid (\<lambda>i.
     seq (insert_row organizations \<lparr>o_id = i, o_name = name\<rparr>) (\<lambda>_. ret i))"

section \<open>SqlAlchemySessionRepository\<close>

definition session_add :: "uuid \<Rightarrow> string option \<Rightarrow> string list \<Rightarrow> auth_session op" where
  "session_add user_id user_agent amr =
     seq fresh_uuid (\<lambda>i.
     seq server_now (\<lambda>t.
     let row = \<lparr>as_id = i, as_user_id = user_id, as_revoked_at = None, as_revocation_reason = None,
           as_user_agent = user_agent, as_last_used_at = t, as_amr = amr\<rparr>
     in seq (insert_row sessions row) (\<lambda>_. ret row)))"

definition session_get :: "uuid \<Rightarrow> auth_session option op" where
  "session_get session_id = select_one sessions (\<lambda>s. as_id s = session_id)"

definition session_revoke :: "uuid \<Rightarrow> time \<Rightarrow> string \<Rightarrow> unit op" where
  "session_revoke session_id revoked_at reason =
     update_rows sessions (\<lambda>s. as_id s = session_id)
       (\<lambda>s. s\<lparr>as_revoked_at := Some revoked_at, as_revocation_reason := Some reason\<rparr>)"

definition session_touch :: "uuid \<Rightarrow> time \<Rightarrow> unit op" where
  "session_touch session_id last_used_at =
     update_rows sessions (\<lambda>s. as_id s = session_id) (\<lambda>s. s\<lparr>as_last_used_at := last_used_at\<rparr>)"

section \<open>SqlAlchemyRefreshTokenRepository\<close>

definition refresh_add :: "uuid \<Rightarrow> string \<Rightarrow> time \<Rightarrow> refresh_token op" where
  "refresh_add session_id token_hash expires_at =
     seq fresh_uuid (\<lambda>i.
     let row = \<lparr>rt_id = i, rt_session_id = session_id, rt_token_hash = token_hash,
           rt_expires_at = expires_at, rt_used_at = None, rt_revoked_at = None,
           rt_replaced_by_id = None\<rparr>
     in seq (insert_row refresh_tokens row) (\<lambda>_. ret row))"

definition refresh_get_by_hash_for_update :: "string \<Rightarrow> refresh_token option op" where
  "refresh_get_by_hash_for_update token_hash =
     select_one refresh_tokens (\<lambda>r. rt_token_hash r = token_hash)"

definition refresh_get_by_hash :: "string \<Rightarrow> refresh_token option op" where
  "refresh_get_by_hash token_hash = select_one refresh_tokens (\<lambda>r. rt_token_hash r = token_hash)"

definition refresh_mark_used :: "uuid \<Rightarrow> time \<Rightarrow> uuid \<Rightarrow> unit op" where
  "refresh_mark_used token_id used_at replaced_by_id =
     update_rows refresh_tokens (\<lambda>r. rt_id r = token_id)
       (\<lambda>r. r\<lparr>rt_used_at := Some used_at, rt_replaced_by_id := Some replaced_by_id\<rparr>)"

section \<open>SqlAlchemyTotpSecretRepository\<close>

definition totp_delete_for_user :: "uuid \<Rightarrow> unit op" where
  "totp_delete_for_user user_id = delete_rows totp_secrets (\<lambda>t. ts_user_id t = user_id)"

definition totp_add :: "uuid \<Rightarrow> bytes \<Rightarrow> bytes \<Rightarrow> bool \<Rightarrow> totp_secret op" where
  "totp_add user_id encrypted_seed seed_nonce confirmed =
     seq fresh_uuid (\<lambda>i.
     let row = \<lparr>ts_id = i, ts_user_id = user_id, ts_encrypted_seed = encrypted_seed,
           ts_seed_nonce = seed_nonce, ts_confirmed = confirmed, ts_confirmed_at = None\<rparr>
     in seq (insert_row totp_secrets row) (\<lambda>_. ret row))"

definition totp_get_unconfirmed :: "uuid \<Rightarrow> totp_secret option op" where
  "totp_get_unconfirmed user_id =
     select_one totp_secrets (\<lambda>t. ts_user_id t = user_id \<and> \<not> ts_confirmed t)"

definition totp_get_confirmed :: "uuid \<Rightarrow> totp_secret option op" where
  "totp_get_confirmed user_id =
     select_one totp_secrets (\<lambda>t. ts_user_id t = user_id \<and> ts_confirmed t)"

definition totp_confirm :: "uuid \<Rightarrow> time \<Rightarrow> unit op" where
  "totp_confirm user_id confirmed_at =
     update_rows totp_secrets (\<lambda>t. ts_user_id t = user_id)
       (\<lambda>t. t\<lparr>ts_confirmed := True, ts_confirmed_at := Some confirmed_at\<rparr>)"

section \<open>SqlAlchemyRecoveryCodeRepository\<close>

definition recovery_delete_for_user :: "uuid \<Rightarrow> unit op" where
  "recovery_delete_for_user user_id = delete_rows recovery_codes (\<lambda>c. rc_user_id c = user_id)"

definition recovery_add_batch :: "uuid \<Rightarrow> string list \<Rightarrow> unit op" where
  "recovery_add_batch user_id code_hashes =
     for_each (\<lambda>code_hash.
       seq fresh_uuid (\<lambda>i.
       insert_row recovery_codes \<lparr>rc_id = i, rc_user_id = user_id, rc_code_hash = code_hash,
         rc_used_at = None\<rparr>)) code_hashes"

definition unused_code :: "uuid \<Rightarrow> string \<Rightarrow> recovery_code \<Rightarrow> bool" where
  "unused_code user_id code_hash c \<longleftrightarrow>
     rc_user_id c = user_id \<and> rc_code_hash c = code_hash \<and> rc_used_at c = None"

definition recovery_redeem_for_update :: "uuid \<Rightarrow> string \<Rightarrow> bool op" where
  "recovery_redeem_for_update user_id code_hash =
     seq (select_one recovery_codes (unused_code user_id code_hash)) (\<lambda>row.
     case row of
       None \<Rightarrow> ret False
     | Some c \<Rightarrow>
         seq now (\<lambda>at.
         seq (update_rows recovery_codes (\<lambda>r. rc_id r = rc_id c) (\<lambda>r. r\<lparr>rc_used_at := Some at\<rparr>)) (\<lambda>_.
         ret True)))"

lemmas identity_repo_defs = user_get_by_email_def user_get_def user_add_def user_set_mfa_enabled_def
  idm_add_def idm_get_tenant_id_def idm_get_role_def idm_has_membership_def
  idm_has_membership_for_email_def ido_add_def session_add_def session_get_def session_revoke_def
  session_touch_def refresh_add_def refresh_get_by_hash_for_update_def refresh_get_by_hash_def
  refresh_mark_used_def totp_delete_for_user_def totp_add_def totp_get_unconfirmed_def
  totp_get_confirmed_def totp_confirm_def recovery_delete_for_user_def recovery_add_batch_def
  recovery_redeem_for_update_def

section \<open>Frames\<close>

text \<open>
  The contract for the owner's unit of work: an order that the statements on the identity tables
  respect. A session may be revoked but not revived, a refresh token and a recovery code are
  marked used by exactly the updates written above, so the updates are assumed as the
  repository runs them.
\<close>

locale identity_order = db_order +
  assumes insert_users: "framed (within D) (insert_row users u)"
    and insert_organizations: "framed (within D) (insert_row organizations orow)"
    and own_memberships: "framed (within D) (insert_row memberships m)"
    and insert_sessions: "as_revoked_at s = None \<Longrightarrow> framed (within D) (insert_row sessions s)"
    and insert_refresh: "framed (within D) (insert_row refresh_tokens rt)"
    and insert_totp: "framed (within D) (insert_row totp_secrets ts)"
    and insert_recovery: "framed (within D) (insert_row recovery_codes rc)"
    and delete_totp: "framed (within D) (delete_rows totp_secrets pt)"
    and delete_recovery: "framed (within D) (delete_rows recovery_codes pr)"
    and set_mfa: "framed (within D) (user_set_mfa_enabled uid b)"
    and revoke_session: "framed (within D) (session_revoke sid at reason)"
    and touch_session: "framed (within D) (session_touch sid at)"
    and mark_refresh: "framed (within D) (refresh_mark_used rid at nid)"
    and confirm_totp: "framed (within D) (totp_confirm uid at)"
    and redeem_recovery: "framed (within D) (recovery_redeem_for_update uid h)"
begin

lemmas identity_statements [framed_intros] = insert_users insert_organizations own_memberships
  insert_sessions insert_refresh insert_totp insert_recovery delete_totp delete_recovery set_mfa
  revoke_session touch_session mark_refresh confirm_totp redeem_recovery

lemma identity_repo_frames [framed_intros]:
  "framed (within D) (user_get_by_email e)"
  "framed (within D) (user_get uid)"
  "framed (within D) (user_add e h)"
  "framed (within D) (idm_add t uid orole)"
  "framed (within D) (idm_get_tenant_id uid)"
  "framed (within D) (idm_get_role uid)"
  "framed (within D) (idm_has_membership uid)"
  "framed (within D) (idm_has_membership_for_email e)"
  "framed (within D) (ido_add n)"
  "framed (within D) (session_add uid ua amr)"
  "framed (within D) (session_get sid)"
  "framed (within D) (refresh_add sid h x)"
  "framed (within D) (refresh_get_by_hash_for_update h)"
  "framed (within D) (refresh_get_by_hash h)"
  "framed (within D) (totp_delete_for_user uid)"
  "framed (within D) (totp_add uid c nn b)"
  "framed (within D) (totp_get_unconfirmed uid)"
  "framed (within D) (totp_get_confirmed uid)"
  "framed (within D) (recovery_delete_for_user uid)"
  "framed (within D) (recovery_add_batch uid hs)"
  unfolding user_get_by_email_def user_get_def user_add_def idm_add_def idm_get_tenant_id_def
    idm_get_role_def idm_has_membership_def idm_has_membership_for_email_def ido_add_def
    session_add_def session_get_def refresh_add_def refresh_get_by_hash_for_update_def
    refresh_get_by_hash_def totp_delete_for_user_def totp_add_def totp_get_unconfirmed_def
    totp_get_confirmed_def recovery_delete_for_user_def recovery_add_batch_def Let_def
  by (auto intro!: framed_intros)

end

text \<open>Identity use cases leave every ledger as it is.\<close>

interpretation ledger: identity_order ledger_order
  by unfold_locales
    (auto simp: user_set_mfa_enabled_def session_revoke_def session_touch_def refresh_mark_used_def
      totp_confirm_def recovery_redeem_for_update_def intro!: framed_intros)

section \<open>Sessions and tokens only ever age\<close>

text \<open>
  The order of the identity tables: a user stays the same user, a session stays and a revoked one
  is never revived, a refresh token stays and a used one is never unused.
\<close>

definition session_ages :: "auth_session \<Rightarrow> auth_session \<Rightarrow> bool" where
  "session_ages s s' \<longleftrightarrow>
     as_id s' = as_id s \<and> as_user_id s' = as_user_id s \<and> as_amr s' = as_amr s \<and>
     (as_revoked_at s \<noteq> None \<longrightarrow> as_revoked_at s' \<noteq> None)"

definition token_ages :: "refresh_token \<Rightarrow> refresh_token \<Rightarrow> bool" where
  "token_ages r r' \<longleftrightarrow>
     rt_id r' = rt_id r \<and> rt_session_id r' = rt_session_id r \<and> rt_token_hash r' = rt_token_hash r \<and>
     rt_expires_at r' = rt_expires_at r \<and> (rt_used_at r \<noteq> None \<longrightarrow> rt_used_at r' \<noteq> None)"

definition identity_ages :: "session_role \<Rightarrow> db \<Rightarrow> db \<Rightarrow> bool" where
  "identity_ages r d d' \<longleftrightarrow>
     (\<forall>s \<in> set (t_sessions d). \<exists>s' \<in> set (t_sessions d'). session_ages s s') \<and>
     (\<forall>t \<in> set (t_refresh_tokens d). \<exists>t' \<in> set (t_refresh_tokens d'). token_ages t t')"

lemma session_ages_refl [simp]: "session_ages s s"
  by (simp add: session_ages_def)

lemma token_ages_refl [simp]: "token_ages t t"
  by (simp add: token_ages_def)

lemma self_ages [simp]:
  "s \<in> S \<Longrightarrow> \<exists>s' \<in> S. session_ages s s'" "t \<in> U \<Longrightarrow> \<exists>t' \<in> U. token_ages t t'"
  using session_ages_refl token_ages_refl by blast+

lemma insert_ages [simp]:
  "s \<in> S \<Longrightarrow> session_ages s n \<or> (\<exists>s' \<in> S. session_ages s s')"
  "t \<in> U \<Longrightarrow> token_ages t n' \<or> (\<exists>t' \<in> U. token_ages t t')"
  by simp_all

interpretation ages: db_order identity_ages
proof unfold_locales
  show "identity_ages r d d" for r d
    unfolding identity_ages_def using session_ages_refl token_ages_refl by blast
  show "identity_ages r d1 d2 \<Longrightarrow> identity_ages r d2 d3 \<Longrightarrow> identity_ages r d1 d3" for r d1 d2 d3
    unfolding identity_ages_def session_ages_def token_ages_def by (metis (no_types, lifting))
qed

lemma ages_same:
  "t_sessions d' = t_sessions d \<Longrightarrow> t_refresh_tokens d' = t_refresh_tokens d \<Longrightarrow> identity_ages r d d'"
  unfolding identity_ages_def using session_ages_refl token_ages_refl by metis

text \<open>A table other than the two.\<close>

definition apart_from_sessions :: "'r table \<Rightarrow> bool" where
  "apart_from_sessions T \<longleftrightarrow> (\<forall>f d. t_sessions (rows_upd T f d) = t_sessions d \<and>
     t_refresh_tokens (rows_upd T f d) = t_refresh_tokens d)"

lemma apart_from_sessions_simps [simp]:
  "apart_from_sessions users" "apart_from_sessions memberships" "apart_from_sessions organizations"
  "apart_from_sessions totp_secrets" "apart_from_sessions recovery_codes"
  "apart_from_sessions invitations" "apart_from_sessions vaults" "apart_from_sessions grants"
  "apart_from_sessions secrets" "apart_from_sessions secret_versions"
  "apart_from_sessions tenant_keys" "apart_from_sessions audit_events"
  "apart_from_sessions chain_heads"
  by (simp_all add: apart_from_sessions_def)

lemma ages_statements [framed_intros]:
  assumes "apart_from_sessions T"
  shows "framed (within identity_ages) (insert_row T row)"
    and "framed (within identity_ages) (update_rows T p f)"
    and "framed (within identity_ages) (delete_rows T p)"
    and "framed (within identity_ages) (save_row T key row)"
  using assms
  by (auto simp: apart_from_sessions_def intro!: ages.framed_insert_row ages.framed_update_rows
      ages.framed_delete_rows ages.framed_save_row ages_same)

lemma ages_image: "(\<And>x. R x (f x)) \<Longrightarrow> (\<And>x. R x x) \<Longrightarrow>
    x \<in> set xs \<Longrightarrow> \<exists>y \<in> set (update_where p f xs). R x y"
  unfolding set_update_where by (rule bexI [of _ "if p x then f x else x"]) auto

lemma ages_session_update:
  "(\<And>s. session_ages s (f s)) \<Longrightarrow> framed (within identity_ages) (update_rows sessions p f)"
  by (rule ages.framed_update_rows)
    (simp add: identity_ages_def ages_image)

lemma ages_token_update:
  "(\<And>t. token_ages t (f t)) \<Longrightarrow> framed (within identity_ages) (update_rows refresh_tokens p f)"
  by (rule ages.framed_update_rows)
    (simp add: identity_ages_def ages_image)

lemma ages_inserts [framed_intros]:
  "framed (within identity_ages) (insert_row sessions s)"
  "framed (within identity_ages) (insert_row refresh_tokens t)"
  by (auto simp: identity_ages_def intro!: ages.framed_insert_row)

interpretation ages: identity_order identity_ages
  by unfold_locales
    (auto simp: user_set_mfa_enabled_def session_revoke_def session_touch_def refresh_mark_used_def
      totp_confirm_def recovery_redeem_for_update_def session_ages_def token_ages_def
      intro!: framed_intros ages_session_update ages_token_update)

end
