(* ===== verification/Tokens.thy ===== *)
theory Tokens
  imports Frames Json Sha256
begin

text \<open>
  \<open>infrastructure/security/tokens.py\<close>: access, challenge and step-up tokens, and refresh tokens.

  Signing and verifying a JWT is PyJWT's: \<open>jwt\<close> is its parameter, and \<open>jwt_ok\<close> says what its
  documentation promises of a token this process signed (RS256 with the configured key pair):
  decoding gives the payload back when every required claim is there, issuer and audience agree
  and the time claims admit the moment, and raises otherwise.
\<close>

section \<open>uuid.UUID(text)\<close>

text \<open>The \<open>urn:\<close> prefix and the braces the constructor also accepts, which no token here carries, are refused.\<close>

definition hex_digit :: "char \<Rightarrow> bool" where
  "hex_digit c \<longleftrightarrow> (let n = of_char (lower_char c) :: nat in 48 \<le> n \<and> n \<le> 57 \<or> 97 \<le> n \<and> n \<le> 102)"

definition uuid_of_text :: "string \<Rightarrow> uuid option" where
  "uuid_of_text s =
     (let h = filter (\<lambda>c. c \<noteq> CHR ''-'') s
      in if length h = 32 \<and> list_all hex_digit h
         then Some (of_nat (foldl (\<lambda>n c. n * 16 + hex_value (lower_char c)) 0 h))
         else None)"

section \<open>Settings and the JWT library\<close>

record token_settings =
  jwt_issuer :: string
  jwt_audience :: string
  access_token_ttl_seconds :: int
  challenge_token_ttl_seconds :: int
  step_up_token_ttl_seconds :: int

type_synonym payload = "(string \<times> json) list"

record jwt =
  jwt_encode :: "payload \<Rightarrow> string"
  jwt_decode :: "string \<Rightarrow> string \<Rightarrow> string \<Rightarrow> string list \<Rightarrow> time \<Rightarrow> payload option"

text \<open>The registered claims PyJWT checks by itself, on a payload and at a time.\<close>

definition claim_before :: "payload \<Rightarrow> string \<Rightarrow> time \<Rightarrow> bool" where
  "claim_before p c t \<longleftrightarrow> (case map_of p c of Some (JInt n) \<Rightarrow> seconds n \<le> t | _ \<Rightarrow> True)"

definition not_expired :: "payload \<Rightarrow> time \<Rightarrow> bool" where
  "not_expired p t \<longleftrightarrow> (case map_of p ''exp'' of Some (JInt n) \<Rightarrow> t < seconds n | _ \<Rightarrow> True)"

definition jwt_valid :: "payload \<Rightarrow> string \<Rightarrow> string \<Rightarrow> string list \<Rightarrow> time \<Rightarrow> bool" where
  "jwt_valid p issuer audience required t \<longleftrightarrow>
     list_all (\<lambda>c. map_of p c \<noteq> None) required \<and>
     map_of p ''iss'' = Some (JStr issuer) \<and> map_of p ''aud'' = Some (JStr audience) \<and>
     not_expired p t \<and> claim_before p ''nbf'' t \<and> claim_before p ''iat'' t"

definition jwt_ok :: "jwt \<Rightarrow> bool" where
  "jwt_ok J \<longleftrightarrow> (\<forall>p issuer audience required t.
     jwt_decode J (jwt_encode J p) issuer audience required t =
       (if jwt_valid p issuer audience required t then Some p else None))"

section \<open>TokenService\<close>

record token_service =
  tk_settings :: token_settings
  tk_jwt :: jwt

record access_token_claims =
  cl_user_id :: uuid
  cl_tenant_id :: uuid
  cl_session_id :: uuid
  cl_amr :: "string list"

text \<open>\<open>int(now.timestamp())\<close>, for times after the epoch.\<close>

definition timestamp :: "time \<Rightarrow> int" where
  "timestamp t = t div micros_per_second"

definition access_payload ::
    "token_settings \<Rightarrow> uuid \<Rightarrow> uuid \<Rightarrow> uuid \<Rightarrow> string list \<Rightarrow> time \<Rightarrow> uuid \<Rightarrow> payload" where
  "access_payload s user_id tenant_id session_id amr t jti =
     [(''iss'', JStr (jwt_issuer s)), (''aud'', JStr (jwt_audience s)),
      (''sub'', JStr (uuid_str user_id)), (''tid'', JStr (uuid_str tenant_id)),
      (''sid'', JStr (uuid_str session_id)), (''amr'', JList (map JStr amr)),
      (''iat'', JInt (timestamp t)), (''nbf'', JInt (timestamp t)),
      (''exp'', JInt (timestamp (t + seconds (access_token_ttl_seconds s)))),
      (''jti'', JStr (uuid_str jti))]"

definition mint_access_token ::
    "token_service \<Rightarrow> uuid \<Rightarrow> uuid \<Rightarrow> uuid \<Rightarrow> string list \<Rightarrow> string op" where
  "mint_access_token ts user_id tenant_id session_id amr =
     seq now (\<lambda>t.
     seq fresh_uuid (\<lambda>jti.
     ret (jwt_encode (tk_jwt ts) (access_payload (tk_settings ts) user_id tenant_id session_id amr t jti))))"

text \<open>\<open>uuid.UUID(payload[claim])\<close>; a claim that is no text is no UUID.\<close>

definition uuid_claim :: "payload \<Rightarrow> string \<Rightarrow> uuid op" where
  "uuid_claim p c =
     (case map_of p c of
        Some (JStr s) \<Rightarrow> (case uuid_of_text s of
            Some u \<Rightarrow> ret u | None \<Rightarrow> raise (System (ValueError ''badly formed hexadecimal UUID string'')))
      | _ \<Rightarrow> raise (System (ValueError ''badly formed hexadecimal UUID string'')))"

definition amr_claim :: "payload \<Rightarrow> string list" where
  "amr_claim p =
     (case map_of p ''amr'' of
        Some (JList xs) \<Rightarrow> List.map_filter (\<lambda>j. case j of JStr s \<Rightarrow> Some s | _ \<Rightarrow> None) xs
      | _ \<Rightarrow> [])"

definition decode_token :: "token_service \<Rightarrow> string \<Rightarrow> string list \<Rightarrow> payload op" where
  "decode_token ts token required =
     seq now (\<lambda>t.
     case jwt_decode (tk_jwt ts) token (jwt_issuer (tk_settings ts)) (jwt_audience (tk_settings ts)) required t of
       None \<Rightarrow> raise (Identity (TokenValidationError ''Invalid token''))
     | Some p \<Rightarrow> ret p)"

definition verify_access_token :: "token_service \<Rightarrow> string \<Rightarrow> access_token_claims op" where
  "verify_access_token ts token =
     seq (decode_token ts token [''exp'', ''iat'', ''sub'', ''tid'', ''sid'', ''iss'', ''aud'']) (\<lambda>p.
     seq (uuid_claim p ''sub'') (\<lambda>user_id.
     seq (uuid_claim p ''tid'') (\<lambda>tenant_id.
     seq (uuid_claim p ''sid'') (\<lambda>session_id.
     ret \<lparr>cl_user_id = user_id, cl_tenant_id = tenant_id, cl_session_id = session_id,
          cl_amr = amr_claim p\<rparr>))))"

definition challenge_payload :: "token_settings \<Rightarrow> uuid \<Rightarrow> time \<Rightarrow> uuid \<Rightarrow> payload" where
  "challenge_payload s user_id t jti =
     [(''iss'', JStr (jwt_issuer s)), (''aud'', JStr (jwt_audience s)),
      (''sub'', JStr (uuid_str user_id)), (''purpose'', JStr ''mfa-challenge''),
      (''amr'', JList [JStr ''pwd'']), (''iat'', JInt (timestamp t)),
      (''exp'', JInt (timestamp (t + seconds (challenge_token_ttl_seconds s)))),
      (''jti'', JStr (uuid_str jti))]"

definition mint_challenge_token :: "token_service \<Rightarrow> uuid \<Rightarrow> string op" where
  "mint_challenge_token ts user_id =
     seq now (\<lambda>t.
     seq fresh_uuid (\<lambda>jti.
     ret (jwt_encode (tk_jwt ts) (challenge_payload (tk_settings ts) user_id t jti))))"

definition verify_challenge_token :: "token_service \<Rightarrow> string \<Rightarrow> uuid op" where
  "verify_challenge_token ts token =
     seq (decode_token ts token [''exp'', ''sub'', ''purpose'']) (\<lambda>p.
     if map_of p ''purpose'' \<noteq> Some (JStr ''mfa-challenge'')
     then raise (Identity (TokenValidationError ''Invalid token''))
     else uuid_claim p ''sub'')"

definition step_up_payload ::
    "token_settings \<Rightarrow> uuid \<Rightarrow> uuid \<Rightarrow> string \<Rightarrow> time \<Rightarrow> uuid \<Rightarrow> payload" where
  "step_up_payload s user_id session_id purpose t jti =
     [(''iss'', JStr (jwt_issuer s)), (''aud'', JStr (jwt_audience s)),
      (''sub'', JStr (uuid_str user_id)), (''sid'', JStr (uuid_str session_id)),
      (''purpose'', JStr purpose), (''iat'', JInt (timestamp t)),
      (''exp'', JInt (timestamp (t + seconds (step_up_token_ttl_seconds s)))),
      (''jti'', JStr (uuid_str jti))]"

definition mint_step_up_token :: "token_service \<Rightarrow> uuid \<Rightarrow> uuid \<Rightarrow> string \<Rightarrow> string op" where
  "mint_step_up_token ts user_id session_id purpose =
     seq now (\<lambda>t.
     seq fresh_uuid (\<lambda>jti.
     ret (jwt_encode (tk_jwt ts) (step_up_payload (tk_settings ts) user_id session_id purpose t jti))))"

definition verify_step_up_token :: "token_service \<Rightarrow> string \<Rightarrow> uuid \<Rightarrow> uuid \<Rightarrow> string \<Rightarrow> unit op" where
  "verify_step_up_token ts token user_id session_id purpose =
     seq (decode_token ts token [''exp'', ''sub'', ''sid'', ''purpose'']) (\<lambda>p.
     seq (uuid_claim p ''sub'') (\<lambda>sub.
     if sub \<noteq> user_id then raise (Identity (TokenValidationError ''Invalid token''))
     else seq (uuid_claim p ''sid'') (\<lambda>sid.
       if sid \<noteq> session_id \<or> map_of p ''purpose'' \<noteq> Some (JStr purpose)
       then raise (Identity (TokenValidationError ''Invalid token''))
       else ret ())))"

definition generate_refresh_token :: "string op" where
  "generate_refresh_token = token_urlsafe 48"

definition hash_refresh_token :: "string \<Rightarrow> string" where
  "hash_refresh_token raw_token = hexdigest (sha256 (utf8_encode raw_token))"

section \<open>Frames\<close>

context db_order
begin

lemma tokens_framed [framed_intros]:
  "framed (within D) (mint_access_token ts u t s amr)"
  "framed (within D) (verify_access_token ts tok)"
  "framed (within D) (mint_challenge_token ts u)"
  "framed (within D) (verify_challenge_token ts tok)"
  "framed (within D) (mint_step_up_token ts u s pur)"
  "framed (within D) (verify_step_up_token ts tok u s pur)"
  "framed (within D) generate_refresh_token"
  unfolding mint_access_token_def verify_access_token_def mint_challenge_token_def
    verify_challenge_token_def mint_step_up_token_def verify_step_up_token_def decode_token_def
    uuid_claim_def generate_refresh_token_def token_urlsafe_def
  by (auto intro!: framed_intros split: json.split option.split)

end

section \<open>What is minted is accepted, as what it was minted for\<close>

lemma hex_value_inverse: "d < 16 \<Longrightarrow> hex_value (lower_char (hex_char d)) = d"
  by (auto simp: hex_char_def hex_value_def lower_char_def Let_def)

lemma hex_digit_hex_char: "d < 16 \<Longrightarrow> hex_digit (hex_char d)"
  by (auto simp: hex_char_def hex_digit_def lower_char_def Let_def)

lemma foldl_digits:
  "foldl (\<lambda>n d. n * 16 + d) a (map (\<lambda>i. m div 16 ^ i mod 16) (rev [0..<k])) = a * 16 ^ k + m mod 16 ^ k"
  for a m :: nat
proof (induction k arbitrary: a)
  case (Suc k)
  show ?case
    unfolding mod16_Suc by (simp add: Suc [simplified]) (simp add: distrib_right)
qed simp

lemma foldl_hex:
  "list_all (\<lambda>d. d < 16) ds \<Longrightarrow>
     foldl (\<lambda>n c. n * 16 + hex_value (lower_char c)) a (map hex_char ds) = foldl (\<lambda>n d. n * 16 + d) a ds"
  by (induction ds arbitrary: a) (simp_all add: hex_value_inverse)

lemma uuid_of_uuid_str [simp]: "uuid_of_text (uuid_str u) = Some u"
proof -
  let ?ds = "map (\<lambda>i. unat u div 16 ^ i mod 16) (rev [0..<32])"
  have hex: "uuid_hex u = map hex_char ?ds"
    by (simp add: uuid_hex_def)
  have small: "list_all (\<lambda>d. d < 16) ?ds"
    by (simp only: list_all_iff set_map) auto
  have "unat u < 16 ^ 32"
    using unsigned_less [of u, where 'a = nat] by simp
  then have "foldl (\<lambda>n c. n * 16 + hex_value (lower_char c)) 0 (uuid_hex u) = unat u"
    unfolding hex foldl_hex [OF small] foldl_digits by simp
  moreover have "list_all hex_digit (uuid_hex u)"
    unfolding hex using small hex_digit_hex_char by (simp only: list_all_iff set_map) auto
  ultimately show ?thesis
    unfolding uuid_of_text_def Let_def uuid_str_undashed by simp
qed

end
