(* ===== verification/Rate_Limit.thy ===== *)
theory Rate_Limit
  imports Frames
begin

text \<open>
  \<open>infrastructure/security/rate_limit.py\<close> and \<open>domain/identity/rate_limits.py\<close>: the sliding-window
  limiter. Redis is a service outside the repository: its four sorted-set commands and whether a
  round trip fails are the parameter \<open>redis\<close>, and \<open>zset_ok\<close> states what their documentation says.
  \<open>EXPIRE\<close> is left out: when it fires, every entry of the key is older than the window and the
  next check would drop it anyway.
\<close>

type_synonym zset = "(string \<times> time) list"

record redis =
  zremrangebyscore :: "zset \<Rightarrow> time \<Rightarrow> time \<Rightarrow> zset"
  zcard :: "zset \<Rightarrow> nat"
  zadd :: "zset \<Rightarrow> string \<Rightarrow> time \<Rightarrow> zset"
  zrem :: "zset \<Rightarrow> string \<Rightarrow> zset"
  round_trip_fails :: "nat \<Rightarrow> bool"

definition zset_ok :: "redis \<Rightarrow> bool" where
  "zset_ok R \<longleftrightarrow>
     (\<forall>z a b. zremrangebyscore R z a b = filter (\<lambda>e. \<not> (a \<le> snd e \<and> snd e \<le> b)) z) \<and>
     (\<forall>z. zcard R z = length z) \<and>
     (\<forall>z m s. zadd R z m s = filter (\<lambda>e. fst e \<noteq> m) z @ [(m, s)]) \<and>
     (\<forall>z m. zrem R z m = filter (\<lambda>e. fst e \<noteq> m) z)"

section \<open>Policy constants\<close>

definition LOGIN_ACCOUNT_CAPACITY :: nat where "LOGIN_ACCOUNT_CAPACITY = 20"
definition LOGIN_ACCOUNT_WINDOW_SECONDS :: int where "LOGIN_ACCOUNT_WINDOW_SECONDS = 900"
definition MFA_VERIFY_CAPACITY :: nat where "MFA_VERIFY_CAPACITY = 5"
definition MFA_VERIFY_WINDOW_SECONDS :: int where "MFA_VERIFY_WINDOW_SECONDS = 300"

section \<open>RedisRateLimiter\<close>

definition redis_call :: "redis \<Rightarrow> unit op" where
  "redis_call R = (\<lambda>w.
     (if round_trip_fails R (draws w) then Inl (System RedisError) else Inr (),
      w\<lparr>draws := Suc (draws w)\<rparr>))"

definition put_zset :: "string \<Rightarrow> zset \<Rightarrow> unit op" where
  "put_zset key z = modify (\<lambda>w. w\<lparr>zsets := (zsets w)(key := z)\<rparr>)"

definition limiter_check_once :: "redis \<Rightarrow> string \<Rightarrow> nat \<Rightarrow> int \<Rightarrow> bool op" where
  "limiter_check_once R key capacity window_seconds =
     seq now (\<lambda>t.
     seq fresh_uuid (\<lambda>u.
     let window_start = t - seconds window_seconds;
         member = int_str t @ '':'' @ uuid_str u
     in seq (redis_call R) (\<lambda>_.
        seq (query (\<lambda>w. zsets w key)) (\<lambda>z.
        let kept = zremrangebyscore R z 0 window_start;
            count = zcard R kept;
            added = zadd R kept member t
        in seq (put_zset key added) (\<lambda>_.
           if count \<ge> capacity then
             seq (redis_call R) (\<lambda>_.
             seq (put_zset key (zrem R added member)) (\<lambda>_. ret False))
           else ret True)))))"

definition limiter_check :: "redis \<Rightarrow> string \<Rightarrow> nat \<Rightarrow> int \<Rightarrow> bool \<Rightarrow> bool op" where
  "limiter_check R key capacity window_seconds fail_closed =
     catch (limiter_check_once R key capacity window_seconds) (\<lambda>e.
       if e = System RedisError then
         (if fail_closed then raise (Identity (ServiceUnavailableError ''Service unavailable''))
          else ret True)
       else raise e)"

section \<open>Frames\<close>

context db_order
begin

lemma framed_redis [framed_intros]:
  "framed (within D) (redis_call R)" "framed (within D) (put_zset key z)"
  by (simp_all add: framed_def redis_call_def put_zset_def within_outside D_refl)

lemma framed_limiter [framed_intros]: "framed (within D) (limiter_check R key cap win fc)"
  unfolding limiter_check_def limiter_check_once_def Let_def
  by (auto intro!: framed_intros)

end

section \<open>The window\<close>

text \<open>
  One check as a function of the key's sorted set: whether it is allowed, and the set after it.
  This is the abstract counter the command sequence implements.
\<close>

definition window_step :: "nat \<Rightarrow> time \<Rightarrow> zset \<Rightarrow> string \<times> time \<Rightarrow> bool \<times> zset" where
  "window_step capacity window z e =
     (let kept = filter (\<lambda>x. \<not> (0 \<le> snd x \<and> snd x \<le> snd e - window)) z
      in if length kept \<ge> capacity then (False, filter (\<lambda>x. fst x \<noteq> fst e) kept)
         else (True, filter (\<lambda>x. fst x \<noteq> fst e) kept @ [e]))"

lemma seq_redis_call [prog_simps]:
  "seq (redis_call R) f w =
     (if round_trip_fails R (draws w) then (Inl (System RedisError), w\<lparr>draws := Suc (draws w)\<rparr>)
      else f () (w\<lparr>draws := Suc (draws w)\<rparr>))"
  by (simp add: redis_call_def seq_def)

lemma seq_put_zset [prog_simps]: "seq (put_zset key z) f w = f () (w\<lparr>zsets := (zsets w)(key := z)\<rparr>)"
  by (simp add: put_zset_def)

lemma limiter_refines:
  assumes "zset_ok R" and "\<not> round_trip_fails R (Suc (Suc (draws w)))"
    and "\<not> round_trip_fails R (Suc (Suc (Suc (draws w))))"
  defines "e \<equiv> (int_str (tick (env w) (draws w)) @ '':'' @ uuid_str (uuid_at (env w) (Suc (draws w))),
                tick (env w) (draws w))"
  shows "\<exists>w'. limiter_check R key cap win fc w = (Inr (fst (window_step cap (seconds win) (zsets w key) e)), w') \<and>
    zsets w' = (zsets w)(key := snd (window_step cap (seconds win) (zsets w key) e)) \<and> store w' = store w"
  using assms(1-3)
  by (auto simp: limiter_check_def limiter_check_once_def catch_def prog_simps Let_def zset_ok_def
      window_step_def e_def)

text \<open>A run of checks: the times of those allowed, latest first.\<close>

fun window_run :: "nat \<Rightarrow> time \<Rightarrow> zset \<Rightarrow> (string \<times> time) list \<Rightarrow> (string \<times> time) list" where
  "window_run capacity window z [] = []"
| "window_run capacity window z (e # es) =
     (let (ok, z') = window_step capacity window z e
      in if ok then e # window_run capacity window z' es else window_run capacity window z' es)"

text \<open>What the set holds: the allowed requests that are still inside the window.\<close>

definition in_window :: "time \<Rightarrow> time \<Rightarrow> (string \<times> time) list \<Rightarrow> zset" where
  "in_window window t log = filter (\<lambda>x. snd x > t - window) log"

lemma window_step_tracks:
  assumes "z = in_window window t log" and "t \<le> snd e" and "0 \<le> window"
    and "\<forall>x \<in> set log. 0 \<le> snd x" and "fst e \<notin> fst ` set log"
  shows "window_step cap window z e =
    (if length (in_window window (snd e) log) \<ge> cap then (False, in_window window (snd e) log)
     else (True, in_window window (snd e) log @ [e]))"
proof -
  have "filter (\<lambda>x. \<not> (0 \<le> snd x \<and> snd x \<le> snd e - window)) z = in_window window (snd e) log"
    unfolding assms(1) in_window_def using assms(2,4) by (auto intro!: filter_cong)
  moreover have "filter (\<lambda>x. fst x \<noteq> fst e) (in_window window (snd e) log) = in_window window (snd e) log"
    unfolding in_window_def filter_filter using assms(5) by (intro filter_cong refl) (metis image_eqI)
  ultimately show ?thesis
    by (simp add: window_step_def Let_def)
qed

text \<open>The number of allowed requests in the window that ends at \<open>t\<close>.\<close>

definition allowed_in :: "time \<Rightarrow> time \<Rightarrow> (string \<times> time) list \<Rightarrow> nat" where
  "allowed_in window t log = length (filter (\<lambda>x. t - window < snd x \<and> snd x \<le> t) log)"

lemma allowed_in_snoc:
  assumes "\<forall>x \<in> set log. snd x \<le> snd e" and "allowed_in window t log \<le> cap"
    and "length (in_window window (snd e) log) < cap"
  shows "allowed_in window t (log @ [e]) \<le> cap"
proof (cases "t - window < snd e \<and> snd e \<le> t")
  case True
  have "length (filter (\<lambda>x. t - window < snd x \<and> snd x \<le> t) log) \<le> length (in_window window (snd e) log)"
  proof -
    have "filter (\<lambda>x. t - window < snd x \<and> snd x \<le> t) log =
        filter (\<lambda>x. t - window < snd x) (in_window window (snd e) log)"
      unfolding in_window_def filter_filter using assms(1) True by (intro filter_cong refl) auto
    then show ?thesis by simp
  qed
  with assms(3) True show ?thesis by (simp add: allowed_in_def)
next
  case False
  with assms(2) show ?thesis by (auto simp: allowed_in_def)
qed

lemma window_run_bound:
  assumes "z = in_window window t0 log" and "0 \<le> window"
    and "\<forall>x \<in> set log. 0 \<le> snd x \<and> snd x \<le> t0" and "\<forall>e \<in> set es. t0 \<le> snd e"
    and "0 \<le> t0" and "sorted (map snd es)" and "distinct (map fst (log @ es))"
    and "allowed_in window t log \<le> cap"
  shows "allowed_in window t (log @ window_run cap window z es) \<le> cap"
  using assms
proof (induction es arbitrary: z t0 log)
  case (Cons e es)
  have step: "window_step cap window z e =
    (if length (in_window window (snd e) log) \<ge> cap then (False, in_window window (snd e) log)
     else (True, in_window window (snd e) log @ [e]))"
    using Cons.prems by (intro window_step_tracks) auto
  have log: "\<forall>x \<in> set log. snd x \<le> snd e" using Cons.prems by fastforce
  show ?case
  proof (cases "length (in_window window (snd e) log) \<ge> cap")
    case True
    have "allowed_in window t (log @ window_run cap window (in_window window (snd e) log) es) \<le> cap"
      using Cons.prems log by (intro Cons.IH [of _ "snd e"]) auto
    with True step show ?thesis by simp
  next
    case False
    show ?thesis
    proof (cases "window > 0")
      case pos: True
      have eq: "in_window window (snd e) log @ [e] = in_window window (snd e) (log @ [e])"
        using pos by (simp add: in_window_def)
      have "allowed_in window t (log @ [e]) \<le> cap"
        using Cons.prems log False by (intro allowed_in_snoc) auto
      then have "allowed_in window t ((log @ [e]) @ window_run cap window (in_window window (snd e) (log @ [e])) es) \<le> cap"
        using Cons.prems log by (intro Cons.IH [of _ "snd e"]) auto
      with False step eq show ?thesis by simp
    next
      case False
      with Cons.prems show ?thesis by (simp add: allowed_in_def)
    qed
  qed
qed simp

end
