(* ===== verification/Crypto.thy ===== *)
theory Crypto
  imports Frames
begin

text \<open>
  \<open>infrastructure/security/vault_crypto.py\<close> and \<open>seed_encryption.py\<close>.

  AES-GCM belongs to the package \<open>cryptography\<close>, not to the repository: it is the parameter
  \<open>aead\<close> of every definition that encrypts or decrypts. What the backend relies on is stated as
  \<open>aead_roundtrip\<close> (decryption inverts encryption under the same key, nonce and associated data)
  and \<open>aead_binds\<close> (another associated data is rejected).
\<close>

section \<open>vault_crypto.py\<close>

definition DEK_SIZE :: nat where "DEK_SIZE = 32"

definition GCM_NONCE_SIZE :: nat where "GCM_NONCE_SIZE = 12"

definition KEY_ID :: string where "KEY_ID = ''local-kek-v1''"

text \<open>\<open>AESGCM(key).encrypt(nonce, data, aad)\<close> and \<open>.decrypt\<close>, which raises (None) on a bad tag.\<close>

record aead =
  aead_encrypt :: "bytes \<Rightarrow> bytes \<Rightarrow> bytes \<Rightarrow> bytes \<Rightarrow> bytes"
  aead_decrypt :: "bytes \<Rightarrow> bytes \<Rightarrow> bytes \<Rightarrow> bytes \<Rightarrow> bytes option"

definition aead_roundtrip :: "aead \<Rightarrow> bool" where
  "aead_roundtrip A \<longleftrightarrow>
     (\<forall>k n p a. length k = 32 \<longrightarrow> length n = 12 \<longrightarrow> aead_decrypt A k n (aead_encrypt A k n p a) a = Some p)"

definition aead_binds :: "aead \<Rightarrow> bool" where
  "aead_binds A \<longleftrightarrow>
     (\<forall>k n p a b. a \<noteq> b \<longrightarrow> aead_decrypt A k n (aead_encrypt A k n p a) b = None)"

text \<open>What a process holds: the primitive and the decoded master key.\<close>

record keyring =
  kr_aead :: aead
  kr_kek :: bytes

definition local_kek_provider :: "aead \<Rightarrow> bytes \<Rightarrow> secret_error + keyring" where
  "local_kek_provider A kek =
     (if length kek \<noteq> DEK_SIZE then Inl (CryptoError ''MASTER_KEY_B64 must decode to 32 bytes'')
      else Inr \<lparr>kr_aead = A, kr_kek = kek\<rparr>)"

definition generate_dek :: "bytes op" where
  "generate_dek = urandom DEK_SIZE"

definition encrypt_secret :: "keyring \<Rightarrow> bytes \<Rightarrow> bytes \<Rightarrow> bytes \<Rightarrow> (bytes \<times> bytes) op" where
  "encrypt_secret kr dek plaintext aad =
     (if length dek \<noteq> DEK_SIZE then raise (Secrets (CryptoError ''Invalid DEK size''))
      else seq (urandom GCM_NONCE_SIZE) (\<lambda>nonce.
        ret (nonce, aead_encrypt (kr_aead kr) dek nonce plaintext aad)))"

definition decrypt_secret :: "keyring \<Rightarrow> bytes \<Rightarrow> bytes \<Rightarrow> bytes \<Rightarrow> bytes \<Rightarrow> bytes op" where
  "decrypt_secret kr dek nonce ciphertext aad =
     (case aead_decrypt (kr_aead kr) dek nonce ciphertext aad of
        None \<Rightarrow> raise (Secrets (CryptoError ''Decryption failed''))
      | Some p \<Rightarrow> ret p)"

definition kek_wrap :: "keyring \<Rightarrow> bytes \<Rightarrow> bytes \<Rightarrow> (bytes \<times> bytes \<times> string) op" where
  "kek_wrap kr dek aad =
     seq (urandom GCM_NONCE_SIZE) (\<lambda>nonce.
     ret (nonce, aead_encrypt (kr_aead kr) (kr_kek kr) nonce dek aad, KEY_ID))"

definition kek_unwrap :: "keyring \<Rightarrow> bytes \<Rightarrow> bytes \<Rightarrow> bytes \<Rightarrow> string \<Rightarrow> bytes op" where
  "kek_unwrap kr nonce wrapped_dek aad wrapping_key_id =
     (if wrapping_key_id \<noteq> KEY_ID then raise (Secrets (CryptoError ''Unknown wrapping key''))
      else case aead_decrypt (kr_aead kr) (kr_kek kr) nonce wrapped_dek aad of
        None \<Rightarrow> raise (Secrets (CryptoError ''DEK unwrap failed''))
      | Some dek \<Rightarrow> ret dek)"

text \<open>\<open>bytes.decode()\<close>.\<close>

definition decode :: "bytes \<Rightarrow> string op" where
  "decode bs = (case utf8_decode bs of None \<Rightarrow> raise (System UnicodeDecodeError) | Some s \<Rightarrow> ret s)"

section \<open>seed_encryption.py\<close>

text \<open>\<open>AesGcmSeedEncryptor\<close>, the same primitive under a key of its own.\<close>

record seed_encryptor =
  se_aead :: aead
  se_kek :: bytes

definition seed_encryptor_init :: "aead \<Rightarrow> bytes \<Rightarrow> system_error + seed_encryptor" where
  "seed_encryptor_init A key =
     (if length key \<noteq> 32 then Inl (ValueError ''MFA_KEK_B64 must decode to exactly 32 bytes'')
      else Inr \<lparr>se_aead = A, se_kek = key\<rparr>)"

definition seed_aad :: "uuid \<Rightarrow> bytes" where
  "seed_aad user_id = utf8_encode (''vaultlog:totp-seed:v1:'' @ uuid_str user_id)"

definition seed_encrypt :: "seed_encryptor \<Rightarrow> uuid \<Rightarrow> string \<Rightarrow> (bytes \<times> bytes) op" where
  "seed_encrypt se user_id seed =
     seq (urandom 12) (\<lambda>nonce.
     ret (nonce, aead_encrypt (se_aead se) (se_kek se) nonce (utf8_encode seed) (seed_aad user_id)))"

definition seed_decrypt :: "seed_encryptor \<Rightarrow> uuid \<Rightarrow> bytes \<Rightarrow> bytes \<Rightarrow> string op" where
  "seed_decrypt se user_id nonce ciphertext =
     (case aead_decrypt (se_aead se) (se_kek se) nonce ciphertext (seed_aad user_id) of
        None \<Rightarrow> raise (System SeedDecryptionError)
      | Some octets \<Rightarrow>
          (case utf8_decode octets of
             None \<Rightarrow> raise (System SeedDecryptionError)
           | Some seed \<Rightarrow> ret seed))"

section \<open>Frames\<close>

lemmas crypto_defs = generate_dek_def encrypt_secret_def decrypt_secret_def kek_wrap_def
  kek_unwrap_def decode_def seed_encrypt_def seed_decrypt_def

context db_order
begin

lemma crypto_framed [framed_intros]:
  "framed (within D) generate_dek"
  "framed (within D) (encrypt_secret kr k p x)"
  "framed (within D) (decrypt_secret kr k n c x)"
  "framed (within D) (kek_wrap kr k x)"
  "framed (within D) (kek_unwrap kr n k x wid)"
  "framed (within D) (decode b)"
  "framed (within D) (seed_encrypt se u seed)"
  "framed (within D) (seed_decrypt se u n c)"
  unfolding crypto_defs
  by (auto intro!: framed_intros)

end

end
