(* ===== verification/Secret_Repo.thy ===== *)
theory Secret_Repo
  imports Ledger
begin

text \<open>
  \<open>infrastructure/database/repositories/secrets.py\<close>: tenant keys, secrets and their versions. The
  two \<open>add\<close> methods that flush inside \<open>try ... except IntegrityError\<close> turn a violated constraint
  into \<open>SecretConflictError\<close>.
\<close>

definition conflict_as :: "string \<Rightarrow> unit op \<Rightarrow> unit op" where
  "conflict_as msg m =
     catch m (\<lambda>e. if e = System IntegrityError then raise (Secrets (SecretConflictError msg)) else raise e)"

section \<open>SqlAlchemyTenantKeyRepository\<close>

definition key_get_active :: "uuid \<Rightarrow> tenant_key_version option op" where
  "key_get_active tenant_id =
     select_one tenant_keys (\<lambda>k. tk_tenant_id k = tenant_id \<and> tk_status k = ''active'')"

definition key_get_by_version :: "uuid \<Rightarrow> int \<Rightarrow> tenant_key_version option op" where
  "key_get_by_version tenant_id version =
     select_one tenant_keys (\<lambda>k. tk_tenant_id k = tenant_id \<and> tk_version k = version)"

definition key_add ::
    "uuid \<Rightarrow> int \<Rightarrow> bytes \<Rightarrow> bytes \<Rightarrow> string \<Rightarrow> string \<Rightarrow> tenant_key_version op" where
  "key_add tenant_id version wrapped_dek wrap_nonce wrapping_key_id status =
     (let row = \<lparr>tk_tenant_id = tenant_id, tk_version = version, tk_wrapped_dek = wrapped_dek,
           tk_wrap_nonce = wrap_nonce, tk_wrapping_key_id = wrapping_key_id, tk_status = status\<rparr>
      in seq (conflict_as ''Tenant key already provisioned'' (insert_row tenant_keys row)) (\<lambda>_.
         ret row))"

section \<open>SqlAlchemySecretRepository\<close>

definition active_secret :: "uuid \<Rightarrow> uuid \<Rightarrow> uuid \<Rightarrow> secret \<Rightarrow> bool" where
  "active_secret secret_id vault_id tenant_id s \<longleftrightarrow>
     s_id s = secret_id \<and> s_vault_id s = vault_id \<and> s_tenant_id s = tenant_id \<and> s_deleted_at s = None"

definition secret_add ::
    "uuid \<Rightarrow> uuid \<Rightarrow> string \<Rightarrow> string option \<Rightarrow> uuid \<Rightarrow> int \<Rightarrow> secret op" where
  "secret_add tenant_id vault_id name description created_by_user_id current_version =
     seq fresh_uuid (\<lambda>i.
     seq server_now (\<lambda>t.
     let row = \<lparr>s_id = i, s_tenant_id = tenant_id, s_vault_id = vault_id, s_name = name,
           s_description = description, s_current_version = current_version,
           s_created_by_user_id = created_by_user_id, s_created_at = t, s_updated_at = t,
           s_deleted_at = None\<rparr>
     in seq (conflict_as ''Secret name already exists in this vault'' (insert_row secrets row)) (\<lambda>_.
        ret row)))"

definition secret_get_active :: "uuid \<Rightarrow> uuid \<Rightarrow> uuid \<Rightarrow> secret option op" where
  "secret_get_active secret_id vault_id tenant_id =
     select_one secrets (active_secret secret_id vault_id tenant_id)"

definition secret_get_active_for_update :: "uuid \<Rightarrow> uuid \<Rightarrow> uuid \<Rightarrow> secret option op" where
  "secret_get_active_for_update secret_id vault_id tenant_id =
     select_one secrets (active_secret secret_id vault_id tenant_id)"

definition secret_list_active :: "uuid \<Rightarrow> uuid \<Rightarrow> secret list op" where
  "secret_list_active vault_id tenant_id =
     seq (select_all secrets (\<lambda>s. s_vault_id s = vault_id \<and> s_tenant_id s = tenant_id \<and>
            s_deleted_at s = None)) (\<lambda>rows.
     order_by_text s_name rows)"

definition tenant_secret :: "uuid \<Rightarrow> uuid \<Rightarrow> secret \<Rightarrow> bool" where
  "tenant_secret secret_id tenant_id s \<longleftrightarrow>
     s_id s = secret_id \<and> s_tenant_id s = tenant_id \<and> s_deleted_at s = None"

definition secret_soft_delete :: "uuid \<Rightarrow> uuid \<Rightarrow> bool op" where
  "secret_soft_delete secret_id tenant_id =
     seq now (\<lambda>at.
     seq server_now (\<lambda>t.
     seq (rowcount secrets (tenant_secret secret_id tenant_id)) (\<lambda>n.
     seq (update_rows secrets (tenant_secret secret_id tenant_id)
            (\<lambda>s. s\<lparr>s_deleted_at := Some at, s_updated_at := t\<rparr>)) (\<lambda>_.
     ret (n > 0)))))"

definition secret_update_current_version :: "uuid \<Rightarrow> uuid \<Rightarrow> int \<Rightarrow> secret op" where
  "secret_update_current_version secret_id tenant_id current_version =
     seq (select_one secrets (tenant_secret secret_id tenant_id)) (\<lambda>found.
     case found of
       None \<Rightarrow> raise (System (ValueError ''Secret not found''))
     | Some row \<Rightarrow>
         seq now (\<lambda>at.
         let row1 = row\<lparr>s_current_version := current_version, s_updated_at := at\<rparr>
         in seq (save_row secrets s_id row1) (\<lambda>_. ret row1)))"

section \<open>SqlAlchemySecretVersionRepository\<close>

definition version_add ::
    "uuid \<Rightarrow> uuid \<Rightarrow> int \<Rightarrow> bytes \<Rightarrow> bytes \<Rightarrow> int \<Rightarrow> uuid \<Rightarrow> secret_version op" where
  "version_add tenant_id secret_id version ciphertext nonce dek_version created_by_user_id =
     seq fresh_uuid (\<lambda>i.
     seq server_now (\<lambda>t.
     let row = \<lparr>sv_id = i, sv_tenant_id = tenant_id, sv_secret_id = secret_id, sv_version = version,
           sv_ciphertext = ciphertext, sv_nonce = nonce, sv_dek_version = dek_version,
           sv_created_by_user_id = created_by_user_id, sv_created_at = t\<rparr>
     in seq (insert_row secret_versions row) (\<lambda>_. ret row)))"

definition version_row :: "uuid \<Rightarrow> int \<Rightarrow> uuid \<Rightarrow> secret_version \<Rightarrow> bool" where
  "version_row secret_id version tenant_id v \<longleftrightarrow>
     sv_secret_id v = secret_id \<and> sv_version v = version \<and> sv_tenant_id v = tenant_id"

definition version_get :: "uuid \<Rightarrow> int \<Rightarrow> uuid \<Rightarrow> secret_version option op" where
  "version_get secret_id version tenant_id =
     select_one secret_versions (version_row secret_id version tenant_id)"

lemmas secret_repo_defs = conflict_as_def key_get_active_def key_get_by_version_def key_add_def
  secret_add_def secret_get_active_def secret_get_active_for_update_def secret_list_active_def
  secret_soft_delete_def secret_update_current_version_def version_add_def version_get_def

lemma seq_conflict_insert [prog_simps]:
  "seq (conflict_as msg (insert_row T row)) f w =
     (if \<not> seen T (db_role w) row then (Inl (System RowSecurityError), w)
      else if \<not> admits T (store w) row then (Inl (Secrets (SecretConflictError msg)), w)
      else f () (set_rows T (\<lambda>rows. rows @ [row]) w))"
  by (simp add: conflict_as_def catch_def seq_def insert_row_def)

section \<open>Frames\<close>

context tenant_order
begin

lemma secret_repo_frames [framed_intros]:
  "framed (within D) (key_get_active t)"
  "framed (within D) (key_get_by_version t n)"
  "framed (within D) (key_add t n x y z kst)"
  "framed (within D) (secret_add t vid nm d u n)"
  "framed (within D) (secret_get_active j vid t)"
  "framed (within D) (secret_get_active_for_update j vid t)"
  "framed (within D) (secret_list_active vid t)"
  "framed (within D) (secret_soft_delete j t)"
  "framed (within D) (secret_update_current_version j t n)"
  "framed (within D) (version_add t j n x y q u)"
  "framed (within D) (version_get j n t)"
  unfolding secret_repo_defs Let_def
  by (auto intro!: framed_intros)

end

end
