(* ===== verification/Org_Repo.thy ===== *)
theory Org_Repo
  imports Ledger
begin

text \<open>
  \<open>infrastructure/database/repositories/organizations.py\<close>: invitations, members, the organization
  reader and the pre-tenant lookup of an invitation by its token. Deleting a membership cascades
  to its grants (\<open>ondelete="CASCADE"\<close>), which the database does without the row-level policies.
\<close>

section \<open>SqlAlchemyInvitationRepository\<close>

definition invitation_add ::
    "uuid \<Rightarrow> string \<Rightarrow> org_role \<Rightarrow> string \<Rightarrow> uuid \<Rightarrow> time \<Rightarrow> invitation op" where
  "invitation_add tenant_id email role token_hash invited_by_user_id expires_at =
     seq fresh_uuid (\<lambda>i.
     seq server_now (\<lambda>t.
     let row = \<lparr>i_id = i, i_tenant_id = tenant_id, i_email = email, i_role = role,
           i_token_hash = token_hash, i_invited_by_user_id = invited_by_user_id,
           i_expires_at = expires_at, i_accepted_at = None, i_revoked_at = None,
           i_created_at = t\<rparr>
     in seq (insert_row invitations row) (\<lambda>_. ret row)))"

definition invitation_get_by_id :: "uuid \<Rightarrow> uuid \<Rightarrow> invitation option op" where
  "invitation_get_by_id invitation_id tenant_id =
     select_one invitations (\<lambda>i. i_id i = invitation_id \<and> i_tenant_id i = tenant_id)"

definition invitation_get_pending_by_token_hash :: "string \<Rightarrow> invitation option op" where
  "invitation_get_pending_by_token_hash token_hash =
     select_one invitations (\<lambda>i. i_token_hash i = token_hash \<and> pending i)"

definition invitation_has_pending_for_email :: "uuid \<Rightarrow> string \<Rightarrow> bool op" where
  "invitation_has_pending_for_email tenant_id email =
     exists_one invitations (\<lambda>i. i_tenant_id i = tenant_id \<and> i_email i = email \<and> pending i)"

definition invitation_list_pending :: "uuid \<Rightarrow> invitation list op" where
  "invitation_list_pending tenant_id =
     seq (select_all invitations (\<lambda>i. i_tenant_id i = tenant_id \<and> pending i)) (\<lambda>rows.
     ret (sort_key (\<lambda>i. - i_created_at i) rows))"

definition invitation_mark_accepted :: "uuid \<Rightarrow> uuid \<Rightarrow> time \<Rightarrow> unit op" where
  "invitation_mark_accepted invitation_id tenant_id accepted_at =
     update_rows invitations (\<lambda>i. i_id i = invitation_id \<and> i_tenant_id i = tenant_id)
       (\<lambda>i. i\<lparr>i_accepted_at := Some accepted_at\<rparr>)"

definition invitation_mark_revoked :: "uuid \<Rightarrow> uuid \<Rightarrow> time \<Rightarrow> unit op" where
  "invitation_mark_revoked invitation_id tenant_id revoked_at =
     update_rows invitations (\<lambda>i. i_id i = invitation_id \<and> i_tenant_id i = tenant_id)
       (\<lambda>i. i\<lparr>i_revoked_at := Some revoked_at\<rparr>)"

section \<open>SqlAlchemyMemberRepository\<close>

definition member_add :: "uuid \<Rightarrow> uuid \<Rightarrow> org_role \<Rightarrow> uuid op" where
  "member_add tenant_id user_id role =
     seq fresh_uuid (\<lambda>i.
     seq server_now (\<lambda>t.
     seq (insert_row memberships \<lparr>m_id = i, m_tenant_id = tenant_id, m_user_id = user_id,
            m_role = role, m_created_at = t\<rparr>) (\<lambda>_.
     ret i)))"

record member_view =
  mv_membership_id :: uuid
  mv_user_id :: uuid
  mv_email :: string
  mv_role :: org_role
  mv_created_at :: time

definition member_views :: "user list \<Rightarrow> membership list \<Rightarrow> member_view list" where
  "member_views us ms =
     concat (map (\<lambda>m.
       map (\<lambda>u. \<lparr>mv_membership_id = m_id m, mv_user_id = m_user_id m, mv_email = u_email u,
                mv_role = m_role m, mv_created_at = m_created_at m\<rparr>)
         (filter (\<lambda>u. u_id u = m_user_id m) us)) ms)"

definition member_list_members :: "uuid \<Rightarrow> member_view list op" where
  "member_list_members tenant_id =
     seq (select_all memberships (\<lambda>m. m_tenant_id m = tenant_id)) (\<lambda>ms.
     seq (select_all users (\<lambda>_. True)) (\<lambda>us.
     ret (sort_key mv_created_at (member_views us ms))))"

definition member_get_by_id :: "uuid \<Rightarrow> uuid \<Rightarrow> member_view option op" where
  "member_get_by_id membership_id tenant_id =
     seq (select_all memberships (\<lambda>m. m_id m = membership_id \<and> m_tenant_id m = tenant_id)) (\<lambda>ms.
     seq (select_all users (\<lambda>_. True)) (\<lambda>us.
     ret (case member_views us ms of [] \<Rightarrow> None | v # _ \<Rightarrow> Some v)))"

definition cascade_grants :: "uuid set \<Rightarrow> unit op" where
  "cascade_grants removed =
     modify (set_rows grants (delete_where (\<lambda>g. g_membership_id g \<in> removed)))"

definition member_remove :: "uuid \<Rightarrow> uuid \<Rightarrow> bool op" where
  "member_remove membership_id tenant_id =
     (let p = (\<lambda>m. m_id m = membership_id \<and> m_tenant_id m = tenant_id)
      in seq (select_all memberships p) (\<lambda>removed.
         seq (delete_rows memberships p) (\<lambda>_.
         seq (cascade_grants (m_id ` set removed)) (\<lambda>_.
         ret (removed \<noteq> [])))))"

definition member_count_by_role :: "uuid \<Rightarrow> org_role \<Rightarrow> int op" where
  "member_count_by_role tenant_id role =
     seq (rowcount memberships (\<lambda>m. m_tenant_id m = tenant_id \<and> m_role m = role)) (\<lambda>n. ret (int n))"

text \<open>
  An outer join: one row per user and membership, or one with no role. A later row of the same
  user replaces an earlier one in the dictionary.
\<close>

definition member_resolve_actors ::
    "uuid \<Rightarrow> uuid set \<Rightarrow> (uuid \<rightharpoonup> string \<times> org_role option) op" where
  "member_resolve_actors tenant_id user_ids =
     (if user_ids = {} then ret Map.empty
      else
        seq (select_all users (\<lambda>u. u_id u \<in> user_ids)) (\<lambda>us.
        seq (select_all memberships (\<lambda>m. m_tenant_id m = tenant_id)) (\<lambda>ms.
        ret (map_of (rev (concat (map (\<lambda>u.
              case filter (\<lambda>m. m_user_id m = u_id u) ms of
                [] \<Rightarrow> [(u_id u, (u_email u, None))]
              | joined \<Rightarrow> map (\<lambda>m. (u_id u, (u_email u, Some (m_role m)))) joined) us)))))))"

section \<open>SqlAlchemyOrganizationReader and SqlAlchemyInvitationTokenLookup\<close>

definition organization_get_name :: "uuid \<Rightarrow> string option op" where
  "organization_get_name tenant_id =
     seq (select_one organizations (\<lambda>o'. o_id o' = tenant_id)) (\<lambda>row. ret (map_option o_name row))"

definition lookup_get_pending_by_token_hash :: "string \<Rightarrow> invitation option op" where
  "lookup_get_pending_by_token_hash token_hash =
     select_one invitations (\<lambda>i. i_token_hash i = token_hash \<and> pending i)"

definition lookup_get_organization_name :: "uuid \<Rightarrow> string option op" where
  "lookup_get_organization_name tenant_id =
     seq (select_one organizations (\<lambda>o'. o_id o' = tenant_id)) (\<lambda>row. ret (map_option o_name row))"

lemmas org_repo_defs = invitation_add_def invitation_get_by_id_def
  invitation_get_pending_by_token_hash_def invitation_has_pending_for_email_def
  invitation_list_pending_def invitation_mark_accepted_def invitation_mark_revoked_def
  member_add_def member_list_members_def member_get_by_id_def member_count_by_role_def
  member_resolve_actors_def organization_get_name_def lookup_get_pending_by_token_hash_def
  lookup_get_organization_name_def

section \<open>Frames\<close>

context tenant_order
begin

lemma org_repo_frames [framed_intros]:
  "framed (within D) (invitation_add t e r h u x)"
  "framed (within D) (invitation_get_by_id j t)"
  "framed (within D) (invitation_get_pending_by_token_hash h)"
  "framed (within D) (invitation_has_pending_for_email t e)"
  "framed (within D) (invitation_list_pending t)"
  "framed (within D) (invitation_mark_accepted j t x)"
  "framed (within D) (invitation_mark_revoked j t x)"
  "framed (within D) (member_add t u r)"
  "framed (within D) (member_list_members t)"
  "framed (within D) (member_get_by_id j t)"
  "framed (within D) (member_count_by_role t r)"
  "framed (within D) (member_resolve_actors t ids)"
  "framed (within D) (organization_get_name t)"
  "framed (within D) (lookup_get_pending_by_token_hash h)"
  "framed (within D) (lookup_get_organization_name t)"
  unfolding org_repo_defs Let_def
  by (auto simp: pending_def intro!: framed_intros)

end

lemma ledger_member_remove [framed_intros]: "framed (within ledger_order) (member_remove j t)"
proof -
  have "framed (within ledger_order) (cascade_grants ids)" for ids
    by (simp add: framed_def cascade_grants_def within_def store_set_rows
        apart_ledger_order [of grants, simplified] ledger.D_refl)
  then show ?thesis
    unfolding member_remove_def Let_def by (auto intro!: framed_intros)
qed

end
