(* ===== verification/Vault_Repo.thy ===== *)
theory Vault_Repo
  imports Ledger
begin

text \<open>
  \<open>infrastructure/database/repositories/vaults.py\<close>: memberships, vaults and grants as the
  authorization policy and the vault service read and write them. The interpretation at the end
  discharges what \<open>PolicyService\<close> was verified against.
\<close>

section \<open>SqlAlchemyMembershipAccessRepository\<close>

definition membership_get_role :: "uuid \<Rightarrow> uuid \<Rightarrow> org_role option op" where
  "membership_get_role user_id tenant_id =
     seq (select_one memberships (\<lambda>m. m_user_id m = user_id \<and> m_tenant_id m = tenant_id)) (\<lambda>row.
     ret (map_option m_role row))"

definition membership_get_membership_id :: "uuid \<Rightarrow> uuid \<Rightarrow> uuid option op" where
  "membership_get_membership_id user_id tenant_id =
     seq (select_one memberships (\<lambda>m. m_user_id m = user_id \<and> m_tenant_id m = tenant_id)) (\<lambda>row.
     ret (map_option m_id row))"

definition membership_get_membership_tenant :: "uuid \<Rightarrow> uuid option op" where
  "membership_get_membership_tenant membership_id =
     seq (select_one memberships (\<lambda>m. m_id m = membership_id)) (\<lambda>row. ret (map_option m_tenant_id row))"

section \<open>SqlAlchemyVaultAccessRepository and SqlAlchemyVaultGrantAccessRepository\<close>

definition live_vault_row :: "uuid \<Rightarrow> uuid \<Rightarrow> vault \<Rightarrow> bool" where
  "live_vault_row vault_id tenant_id v \<longleftrightarrow>
     v_id v = vault_id \<and> v_tenant_id v = tenant_id \<and> v_deleted_at v = None"

definition vault_exists_active :: "uuid \<Rightarrow> uuid \<Rightarrow> bool op" where
  "vault_exists_active vault_id tenant_id = exists_one vaults (live_vault_row vault_id tenant_id)"

text \<open>\<open>select(...).join(MembershipModel, ...)\<close>: the memberships a statement sees.\<close>

definition joined_user :: "membership list \<Rightarrow> vault_grant \<Rightarrow> uuid \<Rightarrow> bool" where
  "joined_user ms g user_id \<longleftrightarrow> (\<exists>m \<in> set ms. m_id m = g_membership_id g \<and> m_user_id m = user_id)"

definition grant_get_permission :: "uuid \<Rightarrow> uuid \<Rightarrow> uuid \<Rightarrow> vault_permission option op" where
  "grant_get_permission user_id tenant_id vault_id =
     seq (select_all memberships (\<lambda>_. True)) (\<lambda>ms.
     seq (select_one grants (\<lambda>g. g_vault_id g = vault_id \<and> g_tenant_id g = tenant_id \<and>
            joined_user ms g user_id)) (\<lambda>row.
     ret (map_option g_permission row)))"

definition grant_list_vault_ids_for_user :: "uuid \<Rightarrow> uuid \<Rightarrow> uuid list op" where
  "grant_list_vault_ids_for_user user_id tenant_id =
     seq (select_all memberships (\<lambda>_. True)) (\<lambda>ms.
     seq (select_all grants (\<lambda>g. g_tenant_id g = tenant_id \<and> joined_user ms g user_id)) (\<lambda>rows.
     ret (map g_vault_id rows)))"

definition policy :: "world policy_ports" where
  "policy =
     \<lparr>get_role = membership_get_role, exists_active = vault_exists_active,
      get_permission = grant_get_permission,
      list_vault_ids_for_user = grant_list_vault_ids_for_user\<rparr>"

section \<open>SqlAlchemyVaultRepository\<close>

definition vault_add :: "uuid \<Rightarrow> string \<Rightarrow> string option \<Rightarrow> uuid \<Rightarrow> vault op" where
  "vault_add tenant_id name description created_by_user_id =
     seq fresh_uuid (\<lambda>i.
     seq server_now (\<lambda>t.
     let row = \<lparr>v_id = i, v_tenant_id = tenant_id, v_name = name, v_description = description,
           v_created_by_user_id = created_by_user_id, v_created_at = t, v_updated_at = t,
           v_deleted_at = None\<rparr>
     in seq (insert_row vaults row) (\<lambda>_. ret row)))"

definition vault_get_active :: "uuid \<Rightarrow> uuid \<Rightarrow> vault option op" where
  "vault_get_active vault_id tenant_id = select_one vaults (live_vault_row vault_id tenant_id)"

definition vault_list_active :: "uuid \<Rightarrow> uuid list option \<Rightarrow> vault list op" where
  "vault_list_active tenant_id vault_ids =
     seq (select_all vaults (\<lambda>v. v_tenant_id v = tenant_id \<and> v_deleted_at v = None \<and>
            (case vault_ids of None \<Rightarrow> True | Some ids \<Rightarrow> v_id v \<in> set ids))) (\<lambda>rows.
     order_by_text v_name rows)"

text \<open>The column default \<open>onupdate=func.now()\<close> of \<open>updated_at\<close> applies to the bulk update.\<close>

definition vault_soft_delete :: "uuid \<Rightarrow> uuid \<Rightarrow> unit op" where
  "vault_soft_delete vault_id tenant_id =
     seq now (\<lambda>at.
     seq server_now (\<lambda>t.
     update_rows vaults (live_vault_row vault_id tenant_id)
       (\<lambda>v. v\<lparr>v_deleted_at := Some at, v_updated_at := t\<rparr>)))"

definition vault_update ::
    "uuid \<Rightarrow> uuid \<Rightarrow> string option \<Rightarrow> string option \<Rightarrow> bool \<Rightarrow> vault op" where
  "vault_update vault_id tenant_id name description clear_description =
     seq (select_one vaults (live_vault_row vault_id tenant_id)) (\<lambda>found.
     case found of
       None \<Rightarrow> raise (System (ValueError ''Vault not found''))
     | Some row \<Rightarrow>
         seq now (\<lambda>at.
         let row1 = (case name of None \<Rightarrow> row | Some n \<Rightarrow> row\<lparr>v_name := n\<rparr>);
             row2 = (if clear_description then row1\<lparr>v_description := None\<rparr>
                     else case description of None \<Rightarrow> row1 | Some x \<Rightarrow> row1\<lparr>v_description := Some x\<rparr>);
             row3 = row2\<lparr>v_updated_at := at\<rparr>
         in seq (save_row vaults v_id row3) (\<lambda>_. ret row3)))"

section \<open>SqlAlchemyVaultGrantRepository\<close>

text \<open>The existing grant is looked up without the tenant; row-level security narrows it.\<close>

definition grant_upsert ::
    "uuid \<Rightarrow> uuid \<Rightarrow> uuid \<Rightarrow> vault_permission \<Rightarrow> uuid \<Rightarrow> bool op" where
  "grant_upsert tenant_id vault_id membership_id permission granted_by_user_id =
     seq (exists_one grants (\<lambda>g. g_vault_id g = vault_id \<and> g_membership_id g = membership_id)) (\<lambda>existing.
     if existing then
       seq (update_rows grants (\<lambda>g. g_vault_id g = vault_id \<and> g_membership_id g = membership_id)
              (\<lambda>g. g\<lparr>g_permission := permission, g_granted_by_user_id := granted_by_user_id\<rparr>)) (\<lambda>_.
       ret False)
     else
       seq fresh_uuid (\<lambda>i.
       seq server_now (\<lambda>t.
       seq (insert_row grants \<lparr>g_id = i, g_tenant_id = tenant_id, g_vault_id = vault_id,
              g_membership_id = membership_id, g_permission = permission,
              g_granted_by_user_id = granted_by_user_id, g_created_at = t\<rparr>) (\<lambda>_.
       ret True))))"

definition grant_delete :: "uuid \<Rightarrow> uuid \<Rightarrow> uuid \<Rightarrow> bool op" where
  "grant_delete vault_id membership_id tenant_id =
     (let p = (\<lambda>g. g_vault_id g = vault_id \<and> g_membership_id g = membership_id \<and>
                   g_tenant_id g = tenant_id)
      in seq (rowcount grants p) (\<lambda>n.
         seq (delete_rows grants p) (\<lambda>_. ret (n > 0))))"

record grant_view =
  gv_membership_id :: uuid
  gv_user_id :: uuid
  gv_email :: string
  gv_org_role :: org_role
  gv_permission :: vault_permission
  gv_granted_at :: time

definition grant_list_for_vault :: "uuid \<Rightarrow> uuid \<Rightarrow> grant_view list op" where
  "grant_list_for_vault vault_id tenant_id =
     seq (select_all grants (\<lambda>g. g_vault_id g = vault_id \<and> g_tenant_id g = tenant_id)) (\<lambda>gs.
     seq (select_all memberships (\<lambda>_. True)) (\<lambda>ms.
     seq (select_all users (\<lambda>_. True)) (\<lambda>us.
     order_by_text gv_email
       (concat (map (\<lambda>g.
          concat (map (\<lambda>m.
            map (\<lambda>u. \<lparr>gv_membership_id = g_membership_id g, gv_user_id = m_user_id m,
                     gv_email = u_email u, gv_org_role = m_role m,
                     gv_permission = g_permission g, gv_granted_at = g_created_at g\<rparr>)
              (filter (\<lambda>u. u_id u = m_user_id m) us))
            (filter (\<lambda>m. m_id m = g_membership_id g) ms))) gs)))))"

section \<open>The repositories provide the policy's ports\<close>

definition role_in :: "world \<Rightarrow> uuid \<Rightarrow> uuid \<Rightarrow> org_role option" where
  "role_in w user_id tenant_id =
     map_option m_role (row_where memberships (\<lambda>m. m_user_id m = user_id \<and> m_tenant_id m = tenant_id) w)"

definition vault_live :: "world \<Rightarrow> uuid \<Rightarrow> uuid \<Rightarrow> bool" where
  "vault_live w vault_id tenant_id \<longleftrightarrow> row_where vaults (live_vault_row vault_id tenant_id) w \<noteq> None"

interpretation policy: policy_reads policy role_in vault_live
  by unfold_locales
    (simp_all add: policy_def membership_get_role_def vault_exists_active_def prog_simps role_in_def
      vault_live_def exists_one_def)

lemma require_vault_apply:
  "seq (require_vault policy u t v a) f w =
     (case vault_decision (vault_live w v t) (role_in w u t) u t v a of
        Inl e \<Rightarrow> (Inl e, w) | Inr ctx \<Rightarrow> f ctx w)"
  by (simp add: seq_def policy.require_vault_decides split: sum.split)

lemma require_org_apply:
  "seq (require_org policy u t a) f w =
     (case org_decision (role_in w u t) u t a of Inl e \<Rightarrow> (Inl e, w) | Inr ctx \<Rightarrow> f ctx w)"
  by (simp add: seq_def policy.require_org_decides split: sum.split)

section \<open>Frames\<close>

lemmas vault_repo_defs = membership_get_role_def membership_get_membership_id_def
  membership_get_membership_tenant_def vault_exists_active_def grant_get_permission_def
  grant_list_vault_ids_for_user_def vault_add_def vault_get_active_def vault_list_active_def
  vault_soft_delete_def vault_update_def grant_upsert_def grant_delete_def grant_list_for_vault_def

text \<open>The policy decides without touching the world.\<close>

lemma policy_frames [framed_intros]:
  assumes "\<And>w. R w w"
  shows "framed R (require_vault policy u t v a)"
    and "framed R (require_org policy u t a)"
    and "framed R (list_accessible_vault_ids policy u t)"
  by (simp_all add: framed_def policy.require_vault_decides policy.require_org_decides
      policy.list_accessible_unrestricted assms)

context tenant_order
begin

lemma policy_framed [framed_intros]:
  "framed (within D) (require_vault policy u t v a)" "framed (within D) (require_org policy u t a)"
  "framed (within D) (list_accessible_vault_ids policy u t)"
  by (rule policy_frames, rule within_refl)+

lemma vault_repo_frames [framed_intros]:
  "framed (within D) (membership_get_role u t)"
  "framed (within D) (membership_get_membership_id u t)"
  "framed (within D) (membership_get_membership_tenant j)"
  "framed (within D) (vault_exists_active j t)"
  "framed (within D) (grant_get_permission u t j)"
  "framed (within D) (grant_list_vault_ids_for_user u t)"
  "framed (within D) (vault_add t n d u)"
  "framed (within D) (vault_get_active j t)"
  "framed (within D) (vault_list_active t js)"
  "framed (within D) (vault_soft_delete j t)"
  "framed (within D) (vault_update j t nm d c)"
  "framed (within D) (grant_delete j m t)"
  "framed (within D) (grant_list_for_vault j t)"
  unfolding vault_repo_defs Let_def
  by (auto intro!: framed_intros)

end

context grant_order
begin

lemma upsert_framed [framed_intros]: "framed (within D) (grant_upsert t j m p u)"
  unfolding grant_upsert_def by (auto intro!: framed_intros)

end

end
