(* ===== verification/Audit_Cases.thy ===== *)
theory Audit_Cases
  imports Org_Repo Vault_Repo
begin

text \<open>
  \<open>application/audit/use_cases.py\<close>: recording a denied access, reading the ledger and verifying
  it. The unit of work of a use case pins the tenant of the caller's token, which is the tenant
  of its \<open>ActorContext\<close>.
\<close>

section \<open>RecordAccessDenial\<close>

definition denial_metadata :: "forbidden \<Rightarrow> metadata" where
  "denial_metadata exc =
     (case attempted_action exc of
        None \<Rightarrow> [] | Some a \<Rightarrow> [(''attempted_action'', JStr a)])"

definition denial_target_type :: "forbidden \<Rightarrow> string" where
  "denial_target_type exc =
     (case audit_target_type exc of
        None \<Rightarrow> ''vault'' | Some t \<Rightarrow> if t = '''' then ''vault'' else t)"

definition record_access_denial :: "actor_context \<Rightarrow> forbidden \<Rightarrow> unit op" where
  "record_access_denial actor exc =
     (if \<not> audit_denial exc then ret ()
      else with_tenant_uow (actor_tenant actor)
        (seq (record_event actor ''access.denied'' (denial_target_type exc) (audit_target_id exc)
               ''denied'' (Some (denial_metadata exc))) (\<lambda>_.
         commit)))"

definition record_denial_if_needed :: "actor_context \<Rightarrow> forbidden \<Rightarrow> unit op" where
  "record_denial_if_needed actor exc =
     (if audit_denial exc then record_access_denial actor exc else ret ())"

text \<open>\<open>try: body except ForbiddenError as exc: await record_denial_if_needed(...); raise\<close>.\<close>

definition recording_denials :: "actor_context \<Rightarrow> 'a op \<Rightarrow> 'a op" where
  "recording_denials actor body =
     catch body (\<lambda>e. case e of
         Access (ForbiddenError exc) \<Rightarrow> seq (record_denial_if_needed actor exc) (\<lambda>_. raise e)
       | _ \<Rightarrow> raise e)"

section \<open>ListAuditEvents and VerifyTenantChain\<close>

definition audit_service_list_events ::
    "uuid \<Rightarrow> string option \<Rightarrow> uuid option \<Rightarrow> int option \<Rightarrow> nat \<Rightarrow> audit_event_view list op" where
  "audit_service_list_events tenant_id action target_id before_sequence limit =
     seq (audit_list_events tenant_id action target_id before_sequence limit) (\<lambda>events.
     ret (map to_event_view events))"

definition enrich_with_actors :: "uuid \<Rightarrow> audit_event_view list \<Rightarrow> audit_event_view list op" where
  "enrich_with_actors tenant_id events =
     (let user_ids = set (List.map_filter vw_actor_user_id events)
      in if user_ids = {} then ret events
         else seq (member_resolve_actors tenant_id user_ids) (\<lambda>lookups.
           ret (enrich_events_with_actors events (\<lambda>user_id.
             map_option (\<lambda>(email, r). build_actor_view user_id (Some email) r) (lookups user_id)))))"

definition list_audit_events ::
    "actor_context \<Rightarrow> string option \<Rightarrow> uuid option \<Rightarrow> int option \<Rightarrow> nat \<Rightarrow> audit_event_view list op" where
  "list_audit_events actor action target_id before_sequence limit =
     with_tenant_uow (actor_tenant actor)
       (seq (require_org policy (actor_user actor) (actor_tenant actor) AUDIT_READ) (\<lambda>_.
        seq (audit_service_list_events (actor_tenant actor) action target_id before_sequence limit) (\<lambda>events.
        enrich_with_actors (actor_tenant actor) events)))"

definition verify_tenant_chain :: "uuid \<Rightarrow> verification_result op" where
  "verify_tenant_chain tenant_id =
     with_tenant_uow tenant_id
       (seq (audit_list_all_ordered tenant_id) (\<lambda>events.
        seq (audit_get_head tenant_id) (\<lambda>head.
        ret (verify_chain events head))))"

section \<open>Runs of an audited use case\<close>

lemma recording_denials_returns:
  "recording_denials actor m w = (Inr y, w') \<longleftrightarrow> m w = (Inr y, w')"
proof -
  have "(case e of Access (ForbiddenError exc) \<Rightarrow> seq (record_denial_if_needed actor exc) (\<lambda>_. raise e)
       | _ \<Rightarrow> raise e) w1 \<noteq> (Inr y, w')" for e w1
    by (auto simp: seq_Inr_iff split: exn.splits access_error.splits)
  then show ?thesis
    by (auto simp: recording_denials_def catch_Inr_iff)
qed

lemma audited_returns:
  assumes "recording_denials actor (with_tenant_uow (actor_tenant actor)
      (seq svc (\<lambda>x. seq (rec x) (\<lambda>_. seq commit (\<lambda>_. ret (g x)))))) w = (Inr y, w1)"
  obtains x wa u wb where "svc (uow_start (AppRole (actor_tenant actor)) w) = (Inr x, wa)"
    and "rec x wa = (Inr u, wb)" and "y = g x" and "committed w1 = store wb"
proof -
  have "with_tenant_uow (actor_tenant actor)
      (seq svc (\<lambda>x. seq (rec x) (\<lambda>_. seq commit (\<lambda>_. ret (g x))))) w = (Inr y, w1)"
    using assms by (simp add: recording_denials_returns)
  then show ?thesis
    unfolding with_tenant_uow_def
    by (elim with_uowE seq_InrE) (auto simp: commit_def intro: that)
qed

lemma audited_runs:
  assumes "svc (uow_start (AppRole (actor_tenant actor)) w) = (Inr x, wa)" and "rec x wa = (Inr u, wb)"
  shows "\<exists>w1. recording_denials actor (with_tenant_uow (actor_tenant actor)
      (seq svc (\<lambda>x. seq (rec x) (\<lambda>_. seq commit (\<lambda>_. ret (g x)))))) w = (Inr (g x), w1) \<and>
    committed w1 = store wb"
  using assms
  by (simp add: recording_denials_def catch_def with_tenant_uow_def with_uow_apply seq_apply_Inr seq_commit)

section \<open>Frames\<close>

context tenant_order
begin

lemma tenant_uow_framed [framed_intros]:
  "framed (within D) body \<Longrightarrow> framed (across (D (AppRole t))) (with_tenant_uow t body)"
  unfolding with_tenant_uow_def by (rule framed_with_uow)

lemma audit_denial_framed [framed_intros]:
  "framed (across (D (AppRole (actor_tenant actor)))) (record_access_denial actor exc)"
  unfolding record_access_denial_def by (auto intro!: framed_intros)

lemma recording_denials_framed [framed_intros]:
  assumes "framed (across (D (AppRole (actor_tenant actor)))) body"
  shows "framed (across (D (AppRole (actor_tenant actor)))) (recording_denials actor body)"
  using assms unfolding recording_denials_def record_denial_if_needed_def
  by (auto intro!: framed_intros split: exn.split access_error.split)

lemma audit_cases_framed:
  "framed (across (D (AppRole (actor_tenant actor)))) (list_audit_events actor a i n lim)"
  "framed (across (D (AppRole t))) (verify_tenant_chain t)"
  unfolding list_audit_events_def audit_service_list_events_def enrich_with_actors_def
    verify_tenant_chain_def audit_list_events_def audit_list_all_ordered_def audit_get_head_def Let_def
  by (auto intro!: framed_intros)

end

section \<open>An audited use case\<close>

text \<open>What the service inside a use case may do before the event is recorded: anything but touch the ledger or commit.\<close>

definition quiet :: "world \<Rightarrow> world \<Rightarrow> bool" where
  "quiet w w' \<longleftrightarrow> session_kept w w' \<and>
     events_in (store w') = events_in (store w) \<and> head_in (store w') = head_in (store w)"

interpretation quiet: frame_relation quiet
  by unfold_locales (simp_all add: quiet_def session_kept_def)

lemma quiet_statements [framed_intros]:
  "framed quiet now" "framed quiet fresh_uuid" "framed quiet (urandom n)"
  "framed quiet server_now" "framed quiet (select_all T p)"
  "framed quiet (select_one T p)" "framed quiet (exists_one T p)"
  "framed quiet (rowcount T p)" "framed quiet (order_by_text k rows)"
  by (simp_all add: framed_def quiet_def session_kept_def now_def fresh_uuid_def urandom_def
      server_now_def select_all_def select_one_def exists_one_def rowcount_def order_by_text_def)

lemma quiet_writes [framed_intros]:
  assumes "apart_from_ledger T"
  shows "framed quiet (insert_row T row)" "framed quiet (update_rows T p f)"
    "framed quiet (delete_rows T p)" "framed quiet (save_row T key row)"
  using assms
  by (simp_all add: framed_def quiet_def session_kept_def insert_row_def update_rows_def
      delete_rows_def save_row_def store_set_rows apart_ledger_same)

lemma quiet_policy [framed_intros]:
  "framed quiet (require_vault policy u t v a)" "framed quiet (require_org policy u t a)"
  by (rule policy_frames, rule quiet.R_refl)+

text \<open>Two databases that differ at most in the ledger.\<close>

definition ledger_only :: "session_role \<Rightarrow> db \<Rightarrow> db \<Rightarrow> bool" where
  "ledger_only r d d' \<longleftrightarrow>
     d' = d\<lparr>t_audit_events := t_audit_events d', t_chain_heads := t_chain_heads d'\<rparr>"

interpretation ledger_only: db_order ledger_only
proof unfold_locales
  show "ledger_only r d d" for r d by (simp add: ledger_only_def)
  show "ledger_only r d1 d2 \<Longrightarrow> ledger_only r d2 d3 \<Longrightarrow> ledger_only r d1 d3" for r d1 d2 d3
    by (cases d1, cases d2, cases d3) (simp add: ledger_only_def)
qed

lemma ledger_only_writes [framed_intros]:
  "framed (within ledger_only) (insert_row audit_events e)"
  "framed (within ledger_only) (insert_row chain_heads h)"
  "framed (within ledger_only) (update_rows chain_heads p f)"
  by (rule ledger_only.framed_insert_row ledger_only.framed_update_rows; simp add: ledger_only_def)+

lemma ledger_only_record [framed_intros]:
  "framed (within ledger_only) (record_event actor a tt tid oc md)"
  by (auto simp: audit_repo_defs Let_def intro!: framed_intros)

definition event_by :: "actor_context \<Rightarrow> string \<Rightarrow> audit_event \<Rightarrow> bool" where
  "event_by actor outcome e \<longleftrightarrow>
     ev_tenant_id e = actor_tenant actor \<and> ev_actor_user_id e = Some (actor_user actor) \<and>
     ev_session_id e = Some (actor_session actor) \<and> ev_outcome e = outcome"

text \<open>The ledger of the actor's tenant after exactly one more event.\<close>

definition appends_one :: "actor_context \<Rightarrow> string set \<Rightarrow> string \<Rightarrow> db \<Rightarrow> db \<Rightarrow> bool" where
  "appends_one actor actions outcome d d' \<longleftrightarrow>
     (\<exists>e. events_in d' = (events_in d)(actor_tenant actor := events_in d (actor_tenant actor) @ [e]) \<and>
          ev_action e \<in> actions \<and> event_by actor outcome e)"

lemma commit_ret: "seq commit (\<lambda>_. ret ()) = commit" "seq commit ret = commit"
  by (rule ext, simp add: seq_commit, simp add: commit_def)+

lemma audited_success:
  assumes "framed quiet body" and "ledger_ok (committed w) (actor_tenant actor)"
    and "with_tenant_uow (actor_tenant actor)
      (seq body (\<lambda>x. seq (record_event actor (a x) tt (tid x) oc (md x)) (\<lambda>_.
         seq commit (\<lambda>_. ret (g x))))) w = (Inr y, w')"
    and "\<And>x. a x \<in> actions"
  shows "appends_one actor actions oc (committed w) (committed w')"
proof -
  let ?w0 = "uow_start (AppRole (actor_tenant actor)) w"
  from assms(3) obtain x w1 u w2 where body: "body ?w0 = (Inr x, w1)"
    and rec: "record_event actor (a x) tt (tid x) oc (md x) w1 = (Inr u, w2)"
    and w': "committed w' = store w2"
    unfolding with_tenant_uow_def by (elim with_uowE seq_InrE) (auto simp: commit_def)
  have q: "quiet ?w0 w1" using assms(1) body by (rule framedD)
  have "sees_tenant w1 (actor_tenant actor)"
    using q by (simp add: quiet_def session_kept_def sees_tenant_def visible_def)
  moreover have "ledger_valid (events_in (store w1) (actor_tenant actor)) (head_in (store w1) (actor_tenant actor))"
    using q assms(2) by (simp add: quiet_def ledger_ok_def)
  ultimately show ?thesis
    using record_event_extends [OF rec] q w' assms(4)
    by (fastforce simp: appends_one_def event_by_def quiet_def)
qed

lemma audited_failure:
  assumes "framed quiet body"
    and "with_tenant_uow (actor_tenant actor)
      (seq body (\<lambda>x. seq (record_event actor (a x) tt (tid x) oc (md x)) (\<lambda>_.
         seq commit (\<lambda>_. ret (g x))))) w = (Inl e, w')"
  shows "committed w' = committed w"
proof -
  let ?w0 = "uow_start (AppRole (actor_tenant actor)) w"
  let ?rec = "\<lambda>x. record_event actor (a x) tt (tid x) oc (md x)"
  from assms(2) obtain w1 where w1: "committed w' = committed w1" and
    stop: "body ?w0 = (Inl e, w1) \<or> (\<exists>x w2. body ?w0 = (Inr x, w2) \<and> ?rec x w2 = (Inl e, w1))"
    unfolding with_tenant_uow_def by (elim with_uowE) (auto simp: seq_Inl_iff seq_commit)
  have body: "committed w2 = committed ?w0" if "body ?w0 = (r, w2)" for r w2
    using framedD [OF assms(1) that] by (simp add: quiet_def session_kept_def)
  have rec: "committed w3 = committed w2" if "?rec x w2 = (r, w3)" for x r w2 w3
    using framedD [OF session_kept_record that] by (simp add: session_kept_def)
  show ?thesis
    using stop body rec w1 by fastforce
qed

text \<open>\<open>RecordAccessDenial\<close> on its own: nothing, or one event and nothing else.\<close>

lemma denial_effect:
  assumes "record_denial_if_needed actor exc w = (r, w')"
    and ok: "ledger_ok (committed w) (actor_tenant actor)"
  shows "committed w' = committed w \<or>
    (audit_denial exc \<and> ledger_only OwnerRole (committed w) (committed w') \<and>
     appends_one actor {''access.denied''} ''denied'' (committed w) (committed w'))"
proof (cases "audit_denial exc")
  case False
  with assms(1) show ?thesis by (simp add: record_denial_if_needed_def)
next
  case True
  let ?m = "with_tenant_uow (actor_tenant actor)
    (seq (ret ()) (\<lambda>x. seq (record_event actor ''access.denied'' (denial_target_type exc) (audit_target_id exc)
       ''denied'' (Some (denial_metadata exc))) (\<lambda>_. seq commit (\<lambda>_. ret ()))))"
  have m: "?m w = (r, w')"
    using assms(1) True by (simp add: record_denial_if_needed_def record_access_denial_def commit_ret)
  show ?thesis
  proof (cases r)
    case (Inl e)
    from audited_failure [where body = "ret ()" and a = "\<lambda>_. ''access.denied''" and tid = "\<lambda>_. audit_target_id exc"
      and md = "\<lambda>_. Some (denial_metadata exc)" and g = "\<lambda>_. ()", OF quiet.framed_ret m [unfolded Inl]]
    show ?thesis by blast
  next
    case (Inr u)
    have "framed (across (ledger_only (AppRole (actor_tenant actor)))) ?m"
      unfolding with_tenant_uow_def
      by (intro ledger_only.framed_with_uow) (auto intro!: framed_intros)
    from framedD [OF this m] have "ledger_only OwnerRole (committed w) (committed w')"
      by (simp add: across_def ledger_only_def)
    moreover have "appends_one actor {''access.denied''} ''denied'' (committed w) (committed w')"
      by (rule audited_success [where body = "ret ()" and a = "\<lambda>_. ''access.denied''" and tid = "\<lambda>_. audit_target_id exc"
      and md = "\<lambda>_. Some (denial_metadata exc)" and g = "\<lambda>_. ()", OF quiet.framed_ret ok m [unfolded Inr]]) simp
    ultimately show ?thesis using True by simp
  qed
qed

text \<open>
  The contract of every audited use case: when it returns, the ledger has exactly one event of
  it; when it raises, no business row changed and the ledger has at most the denial.
\<close>

definition audit_or_nothing ::
    "actor_context \<Rightarrow> string set \<Rightarrow> exn + 'a \<Rightarrow> db \<Rightarrow> db \<Rightarrow> bool" where
  "audit_or_nothing actor actions r d d' \<longleftrightarrow>
     (case r of
        Inr _ \<Rightarrow> appends_one actor actions ''success'' d d'
      | Inl _ \<Rightarrow> d' = d \<or>
          (ledger_only OwnerRole d d' \<and> appends_one actor {''access.denied''} ''denied'' d d'))"

lemma audited_case:
  assumes "framed quiet body" and ok: "ledger_ok (committed w) (actor_tenant actor)"
    and run: "recording_denials actor (with_tenant_uow (actor_tenant actor)
      (seq body (\<lambda>x. seq (record_event actor (a x) tt (tid x) ''success'' (md x)) (\<lambda>_.
         seq commit (\<lambda>_. ret (g x)))))) w = (r, w')"
    and "\<And>x. a x \<in> actions"
  shows "audit_or_nothing actor actions r (committed w) (committed w')"
proof -
  let ?m = "with_tenant_uow (actor_tenant actor)
      (seq body (\<lambda>x. seq (record_event actor (a x) tt (tid x) ''success'' (md x)) (\<lambda>_.
         seq commit (\<lambda>_. ret (g x)))))"
  obtain r1 w1 where m: "?m w = (r1, w1)" by fastforce
  show ?thesis
  proof (cases r1)
    case (Inr y)
    then have "r = Inr y" "w' = w1"
      using run m by (simp_all add: recording_denials_def catch_def)
    then show ?thesis
      using audited_success [where body = body and a = a and tid = tid and md = md and g = g,
          OF assms(1) ok m [unfolded Inr] assms(4)] Inr
      by (simp add: audit_or_nothing_def)
  next
    case (Inl e)
    have same: "committed w1 = committed w"
      by (rule audited_failure [where body = body and a = a and tid = tid and md = md and g = g,
            OF assms(1) m [unfolded Inl]])
    show ?thesis
    proof (cases "\<exists>exc. e = Access (ForbiddenError exc)")
      case True
      then obtain exc where e: "e = Access (ForbiddenError exc)" by blast
      obtain r2 w2 where d: "record_denial_if_needed actor exc w1 = (r2, w2)" by fastforce
      have "w' = w2 \<and> (\<exists>x. r = Inl x)"
        using run m Inl d e by (cases r2) (auto simp: recording_denials_def catch_def seq_def)
      then show ?thesis
        using denial_effect [OF d] same ok by (auto simp: audit_or_nothing_def)
    next
      case False
      then have "w' = w1 \<and> r = Inl e"
        using run m Inl
        by (auto simp: recording_denials_def catch_def split: exn.splits access_error.splits)
      then show ?thesis using same by (simp add: audit_or_nothing_def)
    qed
  qed
qed

lemmas audited_unit_case = audited_case [where g = "\<lambda>_. ()", unfolded commit_ret]

end
