(* ===== verification/Secrets.thy ===== *)
theory Secrets
  imports Crypto Secret_Repo Audit_Cases
begin

text \<open>
  \<open>domain/secrets\<close> and \<open>application/secrets\<close>: envelope encryption of secrets under per-tenant
  keys, over the parameter \<open>aead\<close> of theory Crypto.
\<close>

section \<open>Associated data\<close>

definition secret_aad :: "uuid \<Rightarrow> uuid \<Rightarrow> uuid \<Rightarrow> int \<Rightarrow> bytes" where
  "secret_aad tenant_id vault_id secret_id version =
     utf8_encode (''vaultlog:secret:v1:'' @ uuid_str tenant_id @ '':'' @ uuid_str vault_id @ '':'' @
       uuid_str secret_id @ '':'' @ int_str version)"

definition dek_wrap_aad :: "uuid \<Rightarrow> int \<Rightarrow> bytes" where
  "dek_wrap_aad tenant_id key_version =
     utf8_encode (''vaultlog:dek-wrap:v1:'' @ uuid_str tenant_id @ '':'' @ int_str key_version)"

section \<open>TenantKeyService\<close>

definition provision :: "keyring \<Rightarrow> uuid \<Rightarrow> int op" where
  "provision kr tenant_id =
     seq (key_get_active tenant_id) (\<lambda>existing.
     case existing of
       Some k \<Rightarrow> ret (tk_version k)
     | None \<Rightarrow>
         seq generate_dek (\<lambda>dek.
         let version = 1 in
         seq (kek_wrap kr dek (dek_wrap_aad tenant_id version)) (\<lambda>(wrap_nonce, wrapped, key_id).
         seq (key_add tenant_id version wrapped wrap_nonce key_id ''active'') (\<lambda>_.
         ret version))))"

definition load_active_dek :: "keyring \<Rightarrow> uuid \<Rightarrow> (bytes \<times> int) op" where
  "load_active_dek kr tenant_id =
     seq (key_get_active tenant_id) (\<lambda>row.
     case row of
       None \<Rightarrow> raise (Secrets (NoActiveKeyError ''Tenant has no active encryption key''))
     | Some k \<Rightarrow>
         seq (kek_unwrap kr (tk_wrap_nonce k) (tk_wrapped_dek k) (dek_wrap_aad tenant_id (tk_version k))
                (tk_wrapping_key_id k)) (\<lambda>dek.
         ret (dek, tk_version k)))"

definition load_dek_version :: "keyring \<Rightarrow> uuid \<Rightarrow> int \<Rightarrow> bytes op" where
  "load_dek_version kr tenant_id version =
     seq (key_get_by_version tenant_id version) (\<lambda>row.
     case row of
       None \<Rightarrow> raise (Secrets (CryptoError ''Unknown key version''))
     | Some k \<Rightarrow>
         kek_unwrap kr (tk_wrap_nonce k) (tk_wrapped_dek k) (dek_wrap_aad tenant_id version)
           (tk_wrapping_key_id k))"

section \<open>SecretService\<close>

record secret_meta_view =
  sm_id :: uuid
  sm_name :: string
  sm_description :: "string option"
  sm_current_version :: int
  sm_created_at :: time
  sm_updated_at :: time

definition meta :: "secret \<Rightarrow> secret_meta_view" where
  "meta s =
     \<lparr>sm_id = s_id s, sm_name = s_name s, sm_description = s_description s,
      sm_current_version = s_current_version s, sm_created_at = s_created_at s,
      sm_updated_at = s_updated_at s\<rparr>"

definition secret_service_create ::
    "keyring \<Rightarrow> uuid \<Rightarrow> uuid \<Rightarrow> uuid \<Rightarrow> string \<Rightarrow> string \<Rightarrow> string option \<Rightarrow> secret_meta_view op" where
  "secret_service_create kr user_id tenant_id vault_id name plaintext description =
     seq (require_vault policy user_id tenant_id vault_id SECRET_WRITE) (\<lambda>_.
     seq (secret_add tenant_id vault_id name description user_id 1) (\<lambda>secret.
     seq (load_active_dek kr tenant_id) (\<lambda>(dek, dek_version).
     let aad = secret_aad tenant_id vault_id (s_id secret) 1 in
     seq (encrypt_secret kr dek (utf8_encode plaintext) aad) (\<lambda>(nonce, ciphertext).
     seq (version_add tenant_id (s_id secret) 1 ciphertext nonce dek_version user_id) (\<lambda>_.
     ret (meta secret))))))"

definition secret_service_list :: "uuid \<Rightarrow> uuid \<Rightarrow> uuid \<Rightarrow> secret_meta_view list op" where
  "secret_service_list user_id tenant_id vault_id =
     seq (require_vault policy user_id tenant_id vault_id SECRET_READ_META) (\<lambda>_.
     seq (secret_list_active vault_id tenant_id) (\<lambda>rows.
     ret (map meta rows)))"

definition secret_service_reveal ::
    "keyring \<Rightarrow> uuid \<Rightarrow> uuid \<Rightarrow> uuid \<Rightarrow> uuid \<Rightarrow> int option \<Rightarrow> (secret_meta_view \<times> string \<times> int) op" where
  "secret_service_reveal kr user_id tenant_id vault_id secret_id version =
     seq (require_vault policy user_id tenant_id vault_id SECRET_REVEAL) (\<lambda>_.
     seq (secret_get_active secret_id vault_id tenant_id) (\<lambda>found.
     case found of
       None \<Rightarrow> raise (Access (NotFoundError ''Secret not found''))
     | Some secret \<Rightarrow>
         let wanted = (case version of Some v \<Rightarrow> v | None \<Rightarrow> s_current_version secret) in
         seq (version_get (s_id secret) wanted tenant_id) (\<lambda>found_row.
         case found_row of
           None \<Rightarrow> raise (Access (NotFoundError ''Secret version not found''))
         | Some row \<Rightarrow>
             seq (load_dek_version kr tenant_id (sv_dek_version row)) (\<lambda>dek.
             let aad = secret_aad tenant_id vault_id (s_id secret) (sv_version row) in
             seq (decrypt_secret kr dek (sv_nonce row) (sv_ciphertext row) aad) (\<lambda>octets.
             seq (decode octets) (\<lambda>plaintext.
             ret (meta secret, plaintext, wanted)))))))"

definition secret_service_rotate ::
    "keyring \<Rightarrow> uuid \<Rightarrow> uuid \<Rightarrow> uuid \<Rightarrow> uuid \<Rightarrow> string \<Rightarrow> (secret_meta_view \<times> int) op" where
  "secret_service_rotate kr user_id tenant_id vault_id secret_id new_plaintext =
     seq (require_vault policy user_id tenant_id vault_id SECRET_WRITE) (\<lambda>_.
     seq (secret_get_active_for_update secret_id vault_id tenant_id) (\<lambda>found.
     case found of
       None \<Rightarrow> raise (Access (NotFoundError ''Secret not found''))
     | Some secret \<Rightarrow>
         let new_version = s_current_version secret + 1 in
         seq (load_active_dek kr tenant_id) (\<lambda>(dek, dek_version).
         let aad = secret_aad tenant_id vault_id (s_id secret) new_version in
         seq (encrypt_secret kr dek (utf8_encode new_plaintext) aad) (\<lambda>(nonce, ciphertext).
         seq (version_add tenant_id (s_id secret) new_version ciphertext nonce dek_version user_id) (\<lambda>_.
         seq (secret_update_current_version (s_id secret) tenant_id new_version) (\<lambda>updated.
         ret (meta updated, dek_version)))))))"

definition secret_service_delete :: "uuid \<Rightarrow> uuid \<Rightarrow> uuid \<Rightarrow> uuid \<Rightarrow> bool \<Rightarrow> unit op" where
  "secret_service_delete user_id tenant_id vault_id secret_id step_up_proven =
     (if \<not> step_up_proven then raise (forbidden_error ''Step-up authentication required'')
      else
        seq (require_vault policy user_id tenant_id vault_id SECRET_DELETE) (\<lambda>_.
        seq (secret_get_active secret_id vault_id tenant_id) (\<lambda>secret.
        case secret of
          None \<Rightarrow> raise (Access (NotFoundError ''Secret not found''))
        | Some _ \<Rightarrow>
            seq (secret_soft_delete secret_id tenant_id) (\<lambda>deleted.
            if \<not> deleted then raise (Access (NotFoundError ''Secret not found'')) else ret ()))))"

section \<open>Use cases\<close>

definition provision_tenant_key :: "keyring \<Rightarrow> uuid \<Rightarrow> int op" where
  "provision_tenant_key kr tenant_id =
     with_tenant_uow tenant_id
       (seq (provision kr tenant_id) (\<lambda>version. seq commit (\<lambda>_. ret version)))"

definition create_secret ::
    "keyring \<Rightarrow> actor_context \<Rightarrow> uuid \<Rightarrow> string \<Rightarrow> string \<Rightarrow> string option \<Rightarrow> secret_meta_view op" where
  "create_secret kr actor vault_id name plaintext description =
     recording_denials actor (with_tenant_uow (actor_tenant actor)
       (seq (secret_service_create kr (actor_user actor) (actor_tenant actor) vault_id name plaintext
               description) (\<lambda>view.
        seq (record_event actor ''secret.created'' ''secret'' (Some (sm_id view)) ''success''
               (Some [(''vault_id'', JStr (uuid_str vault_id))])) (\<lambda>_.
        seq commit (\<lambda>_. ret view)))))"

definition list_secrets :: "uuid \<Rightarrow> uuid \<Rightarrow> uuid \<Rightarrow> secret_meta_view list op" where
  "list_secrets user_id tenant_id vault_id =
     with_tenant_uow tenant_id (secret_service_list user_id tenant_id vault_id)"

definition reveal_secret ::
    "keyring \<Rightarrow> actor_context \<Rightarrow> uuid \<Rightarrow> uuid \<Rightarrow> int option \<Rightarrow> (secret_meta_view \<times> string \<times> int) op" where
  "reveal_secret kr actor vault_id secret_id version =
     recording_denials actor (with_tenant_uow (actor_tenant actor)
       (seq (secret_service_reveal kr (actor_user actor) (actor_tenant actor) vault_id secret_id
               version) (\<lambda>(view, plaintext, revealed_version).
        seq (record_event actor ''secret.revealed'' ''secret'' (Some secret_id) ''success''
               (Some [(''vault_id'', JStr (uuid_str vault_id)),
                      (''version'', JInt revealed_version)])) (\<lambda>_.
        seq commit (\<lambda>_. ret (view, plaintext, revealed_version))))))"

definition rotate_secret ::
    "keyring \<Rightarrow> actor_context \<Rightarrow> uuid \<Rightarrow> uuid \<Rightarrow> string \<Rightarrow> secret_meta_view op" where
  "rotate_secret kr actor vault_id secret_id new_plaintext =
     recording_denials actor (with_tenant_uow (actor_tenant actor)
       (seq (secret_service_rotate kr (actor_user actor) (actor_tenant actor) vault_id secret_id
               new_plaintext) (\<lambda>(view, dek_version).
        seq (record_event actor ''secret.rotated'' ''secret'' (Some secret_id) ''success''
               (Some [(''vault_id'', JStr (uuid_str vault_id)),
                      (''new_version'', JInt (sm_current_version view)),
                      (''dek_version'', JInt dek_version)])) (\<lambda>_.
        seq commit (\<lambda>_. ret view)))))"

definition delete_secret :: "actor_context \<Rightarrow> uuid \<Rightarrow> uuid \<Rightarrow> bool \<Rightarrow> unit op" where
  "delete_secret actor vault_id secret_id step_up_proven =
     recording_denials actor (with_tenant_uow (actor_tenant actor)
       (seq (secret_service_delete (actor_user actor) (actor_tenant actor) vault_id secret_id
               step_up_proven) (\<lambda>_.
        seq (record_event actor ''secret.deleted'' ''secret'' (Some secret_id) ''success''
               (Some [(''vault_id'', JStr (uuid_str vault_id))])) (\<lambda>_.
        commit))))"

section \<open>Frames\<close>

lemmas secret_service_defs = secret_service_create_def secret_service_list_def
  secret_service_reveal_def secret_service_rotate_def secret_service_delete_def

lemmas secret_case_defs = provision_tenant_key_def create_secret_def list_secrets_def
  reveal_secret_def rotate_secret_def delete_secret_def

context tenant_order
begin

lemma keys_framed [framed_intros]:
  "framed (within D) (provision kr t)"
  "framed (within D) (load_active_dek kr t)"
  "framed (within D) (load_dek_version kr t n)"
  unfolding provision_def load_active_dek_def load_dek_version_def Let_def
  by (auto intro!: framed_intros)

lemma secret_services_framed [framed_intros]:
  "framed (within D) (secret_service_create kr u t j n p d)"
  "framed (within D) (secret_service_list u t j)"
  "framed (within D) (secret_service_reveal kr u t j sid n')"
  "framed (within D) (secret_service_rotate kr u t j sid p)"
  "framed (within D) (secret_service_delete u t j sid b)"
  unfolding secret_service_defs Let_def
  by (auto intro!: framed_intros)

lemma secret_cases_framed:
  "framed (across (D (AppRole t))) (provision_tenant_key kr t)"
  "framed (across (D (AppRole (actor_tenant actor)))) (create_secret kr actor j n p d)"
  "framed (across (D (AppRole t))) (list_secrets u t j)"
  "framed (across (D (AppRole (actor_tenant actor)))) (reveal_secret kr actor j sid n')"
  "framed (across (D (AppRole (actor_tenant actor)))) (rotate_secret kr actor j sid p)"
  "framed (across (D (AppRole (actor_tenant actor)))) (delete_secret actor j sid b)"
  unfolding secret_case_defs
  by (auto intro!: framed_intros)

end

section \<open>Audited or undone\<close>

lemma secret_services_quiet [framed_intros]:
  "framed quiet (secret_service_create kr u t j n p d)"
  "framed quiet (secret_service_reveal kr u t j sid n')"
  "framed quiet (secret_service_rotate kr u t j sid p)"
  "framed quiet (secret_service_delete u t j sid b)"
  unfolding secret_service_defs secret_repo_defs crypto_defs load_active_dek_def load_dek_version_def Let_def
  by (auto intro!: framed_intros)

lemma secret_cases_audited:
  assumes "ledger_ok (committed w) (actor_tenant actor)"
  shows "create_secret kr actor j n p d w = (r1, w') \<Longrightarrow>
      audit_or_nothing actor {''secret.created''} r1 (committed w) (committed w')"
    and "reveal_secret kr actor j sid n' w = (r3, w') \<Longrightarrow>
      audit_or_nothing actor {''secret.revealed''} r3 (committed w) (committed w')"
    and "rotate_secret kr actor j sid p w = (r1, w') \<Longrightarrow>
      audit_or_nothing actor {''secret.rotated''} r1 (committed w) (committed w')"
    and "delete_secret actor j sid b w = (r2, w') \<Longrightarrow>
      audit_or_nothing actor {''secret.deleted''} r2 (committed w) (committed w')"
  unfolding secret_case_defs case_prod_unfold
  by ((rule audited_case [OF _ assms] audited_unit_case [OF _ assms]; assumption?; (rule framed_intros | simp))+)

end
