(* ===== verification/Identity.thy ===== *)
theory Identity
  imports Identity_Repo Tokens Rate_Limit Mfa_Codes Secrets Org_Repo
begin

text \<open>
  \<open>domain/identity\<close> and \<open>application/identity/use_cases.py\<close>: registration, login, refresh rotation,
  logout, TOTP enrolment, login with a second factor, step-up and the current user.
\<close>

section \<open>What the services are built with\<close>

record auth_env =
  au_tokens :: token_service
  au_redis :: redis
  au_seeds :: seed_encryptor
  au_totp :: pyotp
  au_argon :: argon2
  au_refresh_ttl_days :: int

record token_pair =
  tp_access :: string
  tp_refresh :: string

datatype login_result = LoginTokens token_pair | MfaRequired string

definition validate_password_strength :: "string \<Rightarrow> unit op" where
  "validate_password_strength plaintext =
     (if \<not> (12 \<le> length plaintext \<and> length plaintext \<le> 128)
      then raise (Identity (PasswordPolicyError ''Password must be between 12 and 128 characters''))
      else ret ())"

definition dummy_password_hash :: string where
  "dummy_password_hash =
     ''$argon2id$v=19$m=65536,t=3,p=4$AAAAAAAAAAA$AAAAAAAAAAAAAAAAAAAAAAAAAAAAAAAAAAAAAAAAAAA''"

definition auth_failed :: "string \<Rightarrow> exn" where
  "auth_failed msg = Identity (AuthenticationError msg)"

section \<open>IdentityService\<close>

definition issue_credentials ::
    "auth_env \<Rightarrow> uuid \<Rightarrow> string option \<Rightarrow> string list \<Rightarrow> token_pair op" where
  "issue_credentials au user_id user_agent amr =
     seq (idm_get_tenant_id user_id) (\<lambda>tenant.
     case tenant of
       None \<Rightarrow> raise (auth_failed ''Invalid email or password'')
     | Some tenant_id \<Rightarrow>
         seq (session_add user_id user_agent amr) (\<lambda>session.
         seq generate_refresh_token (\<lambda>raw_refresh.
         seq now (\<lambda>t.
         seq (refresh_add (as_id session) (hash_refresh_token raw_refresh)
                (t + days (au_refresh_ttl_days au))) (\<lambda>_.
         seq (mint_access_token (au_tokens au) user_id tenant_id (as_id session) amr) (\<lambda>access.
         ret \<lparr>tp_access = access, tp_refresh = raw_refresh\<rparr>))))))"

definition register :: "auth_env \<Rightarrow> string \<Rightarrow> string \<Rightarrow> string \<Rightarrow> (uuid \<times> uuid) op" where
  "register au email password organization_name =
     seq (validate_password_strength password) (\<lambda>_.
     let normalized = str_lower (str_strip email) in
     seq (user_get_by_email normalized) (\<lambda>existing.
     if existing \<noteq> None then raise (Identity (RegistrationConflictError ''Registration failed''))
     else seq (idm_has_membership_for_email normalized) (\<lambda>member.
       if member then raise (Identity (RegistrationConflictError ''Registration failed''))
       else seq (password_hash (au_argon au) password) (\<lambda>h.
         seq (user_add normalized h) (\<lambda>user.
         seq (ido_add organization_name) (\<lambda>org_id.
         seq (idm_add org_id (u_id user) OWNER) (\<lambda>_.
         ret (u_id user, org_id))))))))"

definition login :: "auth_env \<Rightarrow> string \<Rightarrow> string \<Rightarrow> string option \<Rightarrow> login_result op" where
  "login au email password user_agent =
     (let normalized = str_lower (str_strip email) in
     seq (limiter_check (au_redis au) (''rl:login:acct:'' @ normalized) LOGIN_ACCOUNT_CAPACITY
            LOGIN_ACCOUNT_WINDOW_SECONDS True) (\<lambda>allowed.
     if \<not> allowed then raise (auth_failed ''Invalid email or password'')
     else seq (user_get_by_email normalized) (\<lambda>found.
     case (case found of None \<Rightarrow> None | Some u \<Rightarrow> if u_is_active u then Some u else None) of
       None \<Rightarrow>
         seq (password_verify (au_argon au) password dummy_password_hash) (\<lambda>_.
         raise (auth_failed ''Invalid email or password''))
     | Some user \<Rightarrow>
         seq (password_verify (au_argon au) password (u_password_hash user)) (\<lambda>ok.
         if \<not> ok then raise (auth_failed ''Invalid email or password'')
         else if u_mfa_enabled user then
           seq (mint_challenge_token (au_tokens au) (u_id user)) (\<lambda>challenge.
           ret (MfaRequired challenge))
         else
           seq (issue_credentials au (u_id user) user_agent [''pwd'']) (\<lambda>pair.
           ret (LoginTokens pair))))))"

definition refresh :: "auth_env \<Rightarrow> string \<Rightarrow> token_pair op" where
  "refresh au raw_refresh_token =
     seq (refresh_get_by_hash_for_update (hash_refresh_token raw_refresh_token)) (\<lambda>found.
     seq now (\<lambda>t.
     case found of
       None \<Rightarrow> raise (auth_failed ''Invalid refresh token'')
     | Some stored \<Rightarrow>
         seq (session_get (rt_session_id stored)) (\<lambda>session.
         case session of
           None \<Rightarrow> raise (auth_failed ''Invalid refresh token'')
         | Some s \<Rightarrow>
             if as_revoked_at s \<noteq> None then raise (auth_failed ''Invalid refresh token'')
             else if rt_used_at stored \<noteq> None \<or> rt_revoked_at stored \<noteq> None then
               seq (session_revoke (as_id s) t ''refresh_reuse_detected'') (\<lambda>_.
               raise (auth_failed ''Invalid refresh token''))
             else if rt_expires_at stored \<le> t then
               seq (session_revoke (as_id s) t ''refresh_expired'') (\<lambda>_.
               raise (auth_failed ''Invalid refresh token''))
             else
               seq generate_refresh_token (\<lambda>raw_new.
               seq (refresh_add (as_id s) (hash_refresh_token raw_new)
                      (t + days (au_refresh_ttl_days au))) (\<lambda>new_token.
               seq (refresh_mark_used (rt_id stored) t (rt_id new_token)) (\<lambda>_.
               seq (session_touch (as_id s) t) (\<lambda>_.
               seq (idm_get_tenant_id (as_user_id s)) (\<lambda>tenant.
               case tenant of
                 None \<Rightarrow> raise (auth_failed ''Invalid refresh token'')
               | Some tenant_id \<Rightarrow>
                   seq (mint_access_token (au_tokens au) (as_user_id s) tenant_id (as_id s) (as_amr s)) (\<lambda>access.
                   ret \<lparr>tp_access = access, tp_refresh = raw_new\<rparr>)))))))))"

definition logout :: "string \<Rightarrow> unit op" where
  "logout raw_refresh_token =
     seq (refresh_get_by_hash (hash_refresh_token raw_refresh_token)) (\<lambda>found.
     case found of
       None \<Rightarrow> ret ()
     | Some stored \<Rightarrow>
         seq (session_get (rt_session_id stored)) (\<lambda>session.
         case session of
           None \<Rightarrow> ret ()
         | Some s \<Rightarrow>
             if as_revoked_at s = None then
               seq now (\<lambda>t. session_revoke (as_id s) t ''user_logout'')
             else ret ()))"

section \<open>MfaService\<close>

definition start_enrollment :: "auth_env \<Rightarrow> uuid \<Rightarrow> string \<Rightarrow> string op" where
  "start_enrollment au user_id email =
     seq (totp_delete_for_user user_id) (\<lambda>_.
     seq (generate_seed (au_totp au)) (\<lambda>seed.
     seq (seed_encrypt (au_seeds au) user_id seed) (\<lambda>(nonce, ciphertext).
     seq (totp_add user_id ciphertext nonce False) (\<lambda>_.
     ret (provisioning_uri (au_totp au) seed email)))))"

definition confirm_enrollment :: "auth_env \<Rightarrow> uuid \<Rightarrow> string \<Rightarrow> string list op" where
  "confirm_enrollment au user_id code =
     seq (totp_get_unconfirmed user_id) (\<lambda>found.
     case found of
       None \<Rightarrow> raise (Identity (MfaEnrollmentError ''No pending enrollment''))
     | Some row \<Rightarrow>
         seq (seed_decrypt (au_seeds au) user_id (ts_seed_nonce row) (ts_encrypted_seed row)) (\<lambda>seed.
         seq (verify_totp (au_totp au) seed code) (\<lambda>ok.
         if \<not> ok then raise (Identity (MfaEnrollmentError ''Invalid code''))
         else
           seq now (\<lambda>t.
           seq (totp_confirm user_id t) (\<lambda>_.
           seq (user_set_mfa_enabled user_id True) (\<lambda>_.
           seq (recovery_delete_for_user user_id) (\<lambda>_.
           seq generate_recovery_codes (\<lambda>codes.
           seq (recovery_add_batch user_id (map hash_recovery_code codes)) (\<lambda>_.
           ret codes)))))))))"

definition verify_totp_code :: "auth_env \<Rightarrow> uuid \<Rightarrow> string \<Rightarrow> bool op" where
  "verify_totp_code au user_id code =
     seq (totp_get_confirmed user_id) (\<lambda>found.
     case found of
       None \<Rightarrow> ret False
     | Some row \<Rightarrow>
         seq (seed_decrypt (au_seeds au) user_id (ts_seed_nonce row) (ts_encrypted_seed row)) (\<lambda>seed.
         verify_totp (au_totp au) seed code))"

definition redeem_recovery_code :: "uuid \<Rightarrow> string \<Rightarrow> bool op" where
  "redeem_recovery_code user_id code = recovery_redeem_for_update user_id (hash_recovery_code code)"

definition complete_login :: "auth_env \<Rightarrow> string \<Rightarrow> string \<Rightarrow> string option \<Rightarrow> token_pair op" where
  "complete_login au challenge_token code user_agent =
     seq (catch (verify_challenge_token (au_tokens au) challenge_token) (\<lambda>e.
            case e of
              Identity (TokenValidationError _) \<Rightarrow>
                raise (Identity (MfaVerificationError ''Invalid or expired challenge''))
            | _ \<Rightarrow> raise e)) (\<lambda>user_id.
     seq (limiter_check (au_redis au) (''rl:mfa:'' @ uuid_str user_id) MFA_VERIFY_CAPACITY
            MFA_VERIFY_WINDOW_SECONDS True) (\<lambda>allowed.
     if \<not> allowed then raise (Identity (MfaVerificationError ''Invalid code''))
     else seq (user_get user_id) (\<lambda>found.
     if (case found of None \<Rightarrow> True | Some u \<Rightarrow> \<not> u_is_active u \<or> \<not> u_mfa_enabled u)
     then raise (Identity (MfaVerificationError ''Invalid or expired challenge''))
     else seq (verify_totp_code au user_id code) (\<lambda>totp_ok.
       seq (if totp_ok then ret True else redeem_recovery_code user_id code) (\<lambda>ok.
       if \<not> ok then raise (Identity (MfaVerificationError ''Invalid code''))
       else issue_credentials au user_id user_agent [''pwd'', ''totp''])))))"

definition step_up :: "auth_env \<Rightarrow> uuid \<Rightarrow> uuid \<Rightarrow> string \<Rightarrow> string \<Rightarrow> string op" where
  "step_up au user_id session_id code purpose =
     seq (verify_totp_code au user_id code) (\<lambda>ok.
     if \<not> ok then raise (Identity (MfaVerificationError ''Invalid code''))
     else mint_step_up_token (au_tokens au) user_id session_id purpose)"

definition disable_mfa :: "uuid \<Rightarrow> unit op" where
  "disable_mfa user_id =
     seq (totp_delete_for_user user_id) (\<lambda>_.
     seq (recovery_delete_for_user user_id) (\<lambda>_.
     user_set_mfa_enabled user_id False))"

section \<open>Use cases\<close>

definition provision_or_fail :: "keyring \<Rightarrow> uuid \<Rightarrow> unit op" where
  "provision_or_fail kr tenant_id =
     (let once = seq (provision_tenant_key kr tenant_id) (\<lambda>_. ret ())
      in catch once (\<lambda>_. catch once (\<lambda>_.
           raise (Secrets (TenantKeyProvisionError ''Tenant encryption key could not be provisioned'')))))"

definition register_user ::
    "auth_env \<Rightarrow> keyring option \<Rightarrow> string \<Rightarrow> string \<Rightarrow> string \<Rightarrow> uuid op" where
  "register_user au provisioner email password organization_name =
     seq (with_identity_uow
       (seq (register au email password organization_name) (\<lambda>ids. seq commit (\<lambda>_. ret ids))))
       (\<lambda>(user_id, tenant_id).
     seq (case provisioner of None \<Rightarrow> ret () | Some kr \<Rightarrow> provision_or_fail kr tenant_id) (\<lambda>_.
     ret user_id))"

definition login_user :: "auth_env \<Rightarrow> string \<Rightarrow> string \<Rightarrow> string option \<Rightarrow> login_result op" where
  "login_user au email password user_agent =
     with_identity_uow
       (seq (login au email password user_agent) (\<lambda>result. seq commit (\<lambda>_. ret result)))"

text \<open>An \<open>AuthenticationError\<close> is kept, the work committed, and the error raised after it.\<close>

definition refresh_tokens_case :: "auth_env \<Rightarrow> string \<Rightarrow> token_pair op" where
  "refresh_tokens_case au raw_refresh_token =
     seq (with_identity_uow
       (seq
         (catch
           (seq (refresh au raw_refresh_token) (\<lambda>pair. ret (Inr pair)))
           (\<lambda>e. case e of Identity (AuthenticationError _) \<Rightarrow> ret (Inl e) | _ \<Rightarrow> raise e))
         (\<lambda>outcome. seq commit (\<lambda>_. ret outcome))))
       (\<lambda>outcome. case outcome of Inl auth_error \<Rightarrow> raise auth_error | Inr pair \<Rightarrow> ret pair)"

definition logout_session :: "string \<Rightarrow> unit op" where
  "logout_session raw_refresh_token =
     with_identity_uow (seq (logout raw_refresh_token) (\<lambda>_. commit))"

definition start_totp_enrollment :: "auth_env \<Rightarrow> uuid \<Rightarrow> string \<Rightarrow> string op" where
  "start_totp_enrollment au user_id email =
     with_identity_uow (seq (start_enrollment au user_id email) (\<lambda>uri. seq commit (\<lambda>_. ret uri)))"

definition confirm_totp_enrollment :: "auth_env \<Rightarrow> uuid \<Rightarrow> string \<Rightarrow> string list op" where
  "confirm_totp_enrollment au user_id code =
     with_identity_uow (seq (confirm_enrollment au user_id code) (\<lambda>codes. seq commit (\<lambda>_. ret codes)))"

definition complete_mfa_login :: "auth_env \<Rightarrow> string \<Rightarrow> string \<Rightarrow> string option \<Rightarrow> token_pair op" where
  "complete_mfa_login au challenge_token code user_agent =
     with_identity_uow
       (seq (complete_login au challenge_token code user_agent) (\<lambda>pair. seq commit (\<lambda>_. ret pair)))"

definition step_up_verify :: "auth_env \<Rightarrow> uuid \<Rightarrow> uuid \<Rightarrow> string \<Rightarrow> string \<Rightarrow> string op" where
  "step_up_verify au user_id session_id code purpose =
     with_identity_uow
       (seq (step_up au user_id session_id code purpose) (\<lambda>token. seq commit (\<lambda>_. ret token)))"

definition disable_mfa_case :: "uuid \<Rightarrow> unit op" where
  "disable_mfa_case user_id = with_identity_uow (seq (disable_mfa user_id) (\<lambda>_. commit))"

record session_principal =
  pr_user_id :: uuid
  pr_tenant_id :: uuid
  pr_session_id :: uuid
  pr_amr :: "string list"

record current_user_view =
  cu_user_id :: uuid
  cu_email :: string
  cu_mfa_enabled :: bool
  cu_mfa_enrollment_required :: bool
  cu_membership_id :: uuid
  cu_role :: org_role
  cu_organization_id :: uuid
  cu_organization_name :: string
  cu_session_id :: uuid
  cu_amr :: "string list"
  cu_capabilities :: user_capabilities

definition get_current_user :: "session_principal \<Rightarrow> current_user_view op" where
  "get_current_user caller =
     seq (with_identity_uow
       (seq (user_get (pr_user_id caller)) (\<lambda>found.
        case (case found of None \<Rightarrow> None | Some u \<Rightarrow> if u_is_active u then Some u else None) of
          None \<Rightarrow> raise (auth_failed ''Not authenticated'')
        | Some user \<Rightarrow> ret user))) (\<lambda>user.
     seq (with_tenant_uow (pr_tenant_id caller)
       (seq (membership_get_role (pr_user_id caller) (pr_tenant_id caller)) (\<lambda>found_role.
        seq (membership_get_membership_id (pr_user_id caller) (pr_tenant_id caller)) (\<lambda>mid.
        seq (organization_get_name (pr_tenant_id caller)) (\<lambda>org_name.
        case (found_role, mid, org_name) of
          (Some r, Some m, Some n) \<Rightarrow> ret (r, m, n)
        | _ \<Rightarrow> raise (auth_failed ''Not authenticated'')))))) (\<lambda>(r, m, n).
     ret \<lparr>cu_user_id = pr_user_id caller, cu_email = u_email user,
          cu_mfa_enabled = u_mfa_enabled user,
          cu_mfa_enrollment_required = (r = OWNER \<and> \<not> u_mfa_enabled user),
          cu_membership_id = m, cu_role = r, cu_organization_id = pr_tenant_id caller,
          cu_organization_name = n, cu_session_id = pr_session_id caller,
          cu_amr = pr_amr caller, cu_capabilities = org_capabilities_for_role r\<rparr>))"

section \<open>Frames\<close>

lemmas identity_service_defs = validate_password_strength_def issue_credentials_def register_def
  login_def refresh_def logout_def start_enrollment_def confirm_enrollment_def
  verify_totp_code_def redeem_recovery_code_def complete_login_def step_up_def disable_mfa_def

lemmas identity_case_defs = register_user_def login_user_def refresh_tokens_case_def
  logout_session_def start_totp_enrollment_def confirm_totp_enrollment_def complete_mfa_login_def
  step_up_verify_def disable_mfa_case_def

context identity_order
begin

lemma issue_credentials_framed [framed_intros]: "framed (within D) (issue_credentials au u ua amr)"
  unfolding issue_credentials_def by (auto intro!: framed_intros)

lemma verify_code_framed [framed_intros]:
  "framed (within D) (verify_totp_code au u c)" "framed (within D) (redeem_recovery_code u c)"
  unfolding verify_totp_code_def redeem_recovery_code_def by (auto intro!: framed_intros)

lemma identity_services_framed [framed_intros]:
  "framed (within D) (register au e p n)"
  "framed (within D) (login au e p ua)"
  "framed (within D) (refresh au tok)"
  "framed (within D) (logout tok)"
  "framed (within D) (start_enrollment au u e)"
  "framed (within D) (confirm_enrollment au u c)"
  "framed (within D) (complete_login au tok c ua)"
  "framed (within D) (step_up au u s c pur)"
  "framed (within D) (disable_mfa u)"
  unfolding identity_service_defs Let_def
  by (auto intro!: framed_intros split: exn.split identity_error.split)

lemma identity_uow_framed [framed_intros]:
  "framed (within D) body \<Longrightarrow> framed (across (D OwnerRole)) (with_identity_uow body)"
  unfolding with_identity_uow_def by (rule framed_with_uow)

lemma identity_cases_framed [framed_intros]:
  "framed (across (D OwnerRole)) (login_user au e p ua)"
  "framed (across (D OwnerRole)) (refresh_tokens_case au tok)"
  "framed (across (D OwnerRole)) (logout_session tok)"
  "framed (across (D OwnerRole)) (start_totp_enrollment au u e)"
  "framed (across (D OwnerRole)) (confirm_totp_enrollment au u c)"
  "framed (across (D OwnerRole)) (complete_mfa_login au tok c ua)"
  "framed (across (D OwnerRole)) (step_up_verify au u s c pur)"
  "framed (across (D OwnerRole)) (disable_mfa_case u)"
  unfolding identity_case_defs
  by (auto intro!: framed_intros split: exn.split identity_error.split sum.split)

end

end
