(* ===== verification/Organizations.thy ===== *)
theory Organizations
  imports Identity
begin

text \<open>
  \<open>domain/organizations/services.py\<close> and \<open>application/organizations/use_cases.py\<close>: invitations and
  members. Mail leaves through the outbox; whether the mail server takes a message is the
  parameter \<open>mailer\<close>. A message that was sent stays sent when the transaction is undone.
\<close>

section \<open>Helpers\<close>

definition INVITABLE_ROLES :: "org_role set" where
  "INVITABLE_ROLES = {ADMIN, MEMBER, VIEWER}"

definition INVITE_TTL_DAYS :: int where "INVITE_TTL_DAYS = 7"

definition hash_invite_token :: "string \<Rightarrow> string" where
  "hash_invite_token raw_token = hexdigest (sha256 (utf8_encode raw_token))"

text \<open>\<open>local[0]\<close> of an empty text raises \<open>IndexError\<close>.\<close>

definition mask_email :: "string \<Rightarrow> system_error + string" where
  "mask_email email =
     (let (local, domain) = str_partition (CHR ''@'') email
      in if local = '''' then Inl IndexError
         else
           let masked_local =
             (if length local \<le> 2 then [hd local] @ ''*''
              else [hd local] @ replicate (length local - 2) (CHR ''*'') @ [last local])
           in Inr (masked_local @ ''@'' @ domain))"

definition normalize_email :: "string \<Rightarrow> string" where
  "normalize_email email = str_lower (str_strip email)"

definition rstrip_slash :: "string \<Rightarrow> string" where
  "rstrip_slash s = rev (dropWhile (\<lambda>c. c = CHR ''/'') (rev s))"

record mailer =
  ml_refuses :: "email \<Rightarrow> nat \<Rightarrow> bool"
  ml_invite_base_url :: string

definition send_invitation :: "mailer \<Rightarrow> email \<Rightarrow> unit op" where
  "send_invitation ml message = (\<lambda>w.
     if ml_refuses ml message (draws w) then (Inl (System MailError), w\<lparr>draws := Suc (draws w)\<rparr>)
     else (Inr (), w\<lparr>draws := Suc (draws w), outbox := outbox w @ [message]\<rparr>))"

section \<open>OrganizationService\<close>

record organization_view =
  ov_id :: uuid
  ov_name :: string
  ov_caller_role :: org_role

record invitation_preview =
  ip_organization_name :: string
  ip_role :: org_role
  ip_email_masked :: string

definition invitation_failed :: exn where
  "invitation_failed = Organization (InvitationError ''Invitation failed'')"

definition invitation_not_found :: exn where
  "invitation_not_found = Organization (InvitationNotFoundError ''Invitation not found'')"

definition org_service_get_organization :: "uuid \<Rightarrow> uuid \<Rightarrow> organization_view op" where
  "org_service_get_organization user_id tenant_id =
     seq (require_org policy user_id tenant_id VAULT_LIST) (\<lambda>ctx.
     seq (organization_get_name tenant_id) (\<lambda>name.
     case name of
       None \<Rightarrow> raise (Organization (MemberNotFoundError ''Organization not found''))
     | Some n \<Rightarrow> ret \<lparr>ov_id = tenant_id, ov_name = n, ov_caller_role = ac_role ctx\<rparr>))"

definition org_service_create_invitation ::
    "mailer \<Rightarrow> actor_context \<Rightarrow> string \<Rightarrow> org_role \<Rightarrow> (invitation \<times> string) op" where
  "org_service_create_invitation ml actor email role =
     seq (require_org policy (actor_user actor) (actor_tenant actor) MEMBER_INVITE) (\<lambda>ctx.
     let inviter_role = ac_role ctx;
         normalized = normalize_email email
     in if role \<notin> INVITABLE_ROLES then raise invitation_failed
     else if inviter_role = ADMIN \<and> role = ADMIN then raise invitation_failed
     else seq (invitation_has_pending_for_email (actor_tenant actor) normalized) (\<lambda>is_pending.
     if is_pending then raise invitation_failed
     else
       seq (token_urlsafe 32) (\<lambda>raw_token.
       let token_hash = hash_invite_token raw_token in
       seq now (\<lambda>t.
       let expires_at = t + days INVITE_TTL_DAYS in
       seq (invitation_add (actor_tenant actor) normalized role token_hash (actor_user actor) expires_at) (\<lambda>invite.
       seq (organization_get_name (actor_tenant actor)) (\<lambda>org_name.
       case org_name of
         None \<Rightarrow> raise invitation_failed
       | Some name \<Rightarrow>
           let invite_url = rstrip_slash (ml_invite_base_url ml) @ ''?token='' @ raw_token in
           seq (send_invitation ml \<lparr>em_to = normalized, em_invite_url = invite_url,
                  em_organization_name = name, em_role = role\<rparr>) (\<lambda>_.
           seq (record_event actor ''member.invited'' ''invitation'' (Some (i_id invite)) ''success''
                  (Some [(''email'', JStr normalized), (''role'', JStr (role_value role))])) (\<lambda>_.
           ret (invite, raw_token)))))))))"

definition org_service_list_invitations :: "uuid \<Rightarrow> uuid \<Rightarrow> invitation list op" where
  "org_service_list_invitations user_id tenant_id =
     seq (require_org policy user_id tenant_id MEMBER_INVITE) (\<lambda>_. invitation_list_pending tenant_id)"

definition org_service_revoke_invitation :: "actor_context \<Rightarrow> uuid \<Rightarrow> unit op" where
  "org_service_revoke_invitation actor invitation_id =
     seq (require_org policy (actor_user actor) (actor_tenant actor) MEMBER_INVITE) (\<lambda>_.
     seq (invitation_get_by_id invitation_id (actor_tenant actor)) (\<lambda>found.
     if (case found of None \<Rightarrow> True | Some invite \<Rightarrow> i_accepted_at invite \<noteq> None \<or> i_revoked_at invite \<noteq> None)
     then raise invitation_not_found
     else seq now (\<lambda>t. invitation_mark_revoked invitation_id (actor_tenant actor) t)))"

definition org_service_list_members :: "uuid \<Rightarrow> uuid \<Rightarrow> member_view list op" where
  "org_service_list_members user_id tenant_id =
     seq (require_org policy user_id tenant_id MEMBER_INVITE) (\<lambda>_. member_list_members tenant_id)"

definition org_service_remove_member :: "actor_context \<Rightarrow> uuid \<Rightarrow> bool \<Rightarrow> unit op" where
  "org_service_remove_member actor membership_id step_up_proven =
     (if \<not> step_up_proven then raise (forbidden_error ''Step-up authentication required'')
      else
        seq (require_org policy (actor_user actor) (actor_tenant actor) MEMBER_REMOVE) (\<lambda>ctx.
        let actor_role = ac_role ctx in
        seq (member_get_by_id membership_id (actor_tenant actor)) (\<lambda>found.
        case found of
          None \<Rightarrow> raise (Organization (MemberNotFoundError ''Member not found''))
        | Some target \<Rightarrow>
            if mv_user_id target = actor_user actor
            then raise (Organization (MemberConflictError ''Cannot remove yourself''))
            else if mv_role target = OWNER
            then raise (Organization (MemberConflictError ''Cannot remove owner''))
            else if actor_role = ADMIN \<and> mv_role target \<in> {OWNER, ADMIN}
            then raise (Organization (MemberConflictError ''Cannot remove this member''))
            else
              seq (member_remove membership_id (actor_tenant actor)) (\<lambda>removed.
              if \<not> removed then raise (Organization (MemberNotFoundError ''Member not found''))
              else
                record_event actor ''member.removed'' ''membership'' (Some membership_id) ''success''
                  (Some [(''user_id'', JStr (uuid_str (mv_user_id target))),
                         (''role'', JStr (role_value (mv_role target)))])))))"

section \<open>Use cases\<close>

definition get_organization :: "actor_context \<Rightarrow> organization_view op" where
  "get_organization actor =
     with_tenant_uow (actor_tenant actor)
       (seq (org_service_get_organization (actor_user actor) (actor_tenant actor)) (\<lambda>view.
        seq commit (\<lambda>_. ret view)))"

definition create_invitation :: "mailer \<Rightarrow> actor_context \<Rightarrow> string \<Rightarrow> org_role \<Rightarrow> invitation op" where
  "create_invitation ml actor email role =
     seq (with_identity_uow
       (seq (idm_has_membership_for_email (normalize_email email)) (\<lambda>member.
        if member then raise invitation_failed else ret ()))) (\<lambda>_.
     with_tenant_uow (actor_tenant actor)
       (seq (org_service_create_invitation ml actor email role) (\<lambda>(invite, raw).
        seq commit (\<lambda>_. ret invite))))"

definition list_invitations :: "uuid \<Rightarrow> uuid \<Rightarrow> invitation list op" where
  "list_invitations user_id tenant_id =
     with_tenant_uow tenant_id
       (seq (org_service_list_invitations user_id tenant_id) (\<lambda>rows. seq commit (\<lambda>_. ret rows)))"

definition revoke_invitation :: "actor_context \<Rightarrow> uuid \<Rightarrow> unit op" where
  "revoke_invitation actor invitation_id =
     with_tenant_uow (actor_tenant actor)
       (seq (org_service_revoke_invitation actor invitation_id) (\<lambda>_. commit))"

definition preview_invitation :: "string \<Rightarrow> invitation_preview op" where
  "preview_invitation raw_token =
     with_identity_uow
       (seq (lookup_get_pending_by_token_hash (hash_invite_token raw_token)) (\<lambda>found.
        case found of
          None \<Rightarrow> raise invitation_not_found
        | Some invite \<Rightarrow>
            seq now (\<lambda>t.
            if i_expires_at invite \<le> t then raise invitation_not_found
            else seq (lookup_get_organization_name (i_tenant_id invite)) (\<lambda>org_name.
              case org_name of
                None \<Rightarrow> raise invitation_not_found
              | Some name \<Rightarrow>
                  (case mask_email (i_email invite) of
                     Inl e \<Rightarrow> raise (System e)
                   | Inr masked \<Rightarrow>
                       ret \<lparr>ip_organization_name = name, ip_role = i_role invite,
                            ip_email_masked = masked\<rparr>)))))"

text \<open>The first unit of work of accepting: who joins, found or created, and the invitation.\<close>

definition accept_identity :: "auth_env \<Rightarrow> string \<Rightarrow> string \<Rightarrow> (invitation \<times> uuid) op" where
  "accept_identity au raw_token password =
     seq (lookup_get_pending_by_token_hash (hash_invite_token raw_token)) (\<lambda>found.
     case found of
       None \<Rightarrow> raise invitation_not_found
     | Some invite \<Rightarrow>
         seq now (\<lambda>t.
         if i_expires_at invite \<le> t then raise invitation_not_found
         else seq (idm_has_membership_for_email (i_email invite)) (\<lambda>member.
           if member then raise (Organization (MemberConflictError ''Invitation failed''))
           else seq (user_get_by_email (i_email invite)) (\<lambda>existing.
             seq (case existing of
                 None \<Rightarrow>
                   seq (validate_password_strength password) (\<lambda>_.
                   seq (password_hash (au_argon au) password) (\<lambda>h.
                   seq (user_add (i_email invite) h) (\<lambda>user.
                   ret (u_id user))))
               | Some user \<Rightarrow>
                   seq (password_verify (au_argon au) password (u_password_hash user)) (\<lambda>ok.
                   if \<not> ok then raise invitation_failed else ret (u_id user))) (\<lambda>user_id.
             seq (idm_has_membership user_id) (\<lambda>has.
             if has then raise (Organization (MemberConflictError ''Invitation failed''))
             else seq commit (\<lambda>_. ret (invite, user_id))))))))"

definition accept_membership :: "invitation \<Rightarrow> uuid \<Rightarrow> unit op" where
  "accept_membership invite user_id =
     seq (member_add (i_tenant_id invite) user_id (i_role invite)) (\<lambda>_.
     seq now (\<lambda>t.
     seq (invitation_mark_accepted (i_id invite) (i_tenant_id invite) t) (\<lambda>_.
     commit)))"

definition accept_invitation :: "auth_env \<Rightarrow> string \<Rightarrow> string \<Rightarrow> unit op" where
  "accept_invitation au raw_token password =
     seq (with_identity_uow (accept_identity au raw_token password)) (\<lambda>(invite, user_id).
     with_tenant_uow (i_tenant_id invite) (accept_membership invite user_id))"

definition list_members :: "uuid \<Rightarrow> uuid \<Rightarrow> member_view list op" where
  "list_members user_id tenant_id =
     with_tenant_uow tenant_id
       (seq (org_service_list_members user_id tenant_id) (\<lambda>rows. seq commit (\<lambda>_. ret rows)))"

definition remove_member :: "actor_context \<Rightarrow> uuid \<Rightarrow> bool \<Rightarrow> unit op" where
  "remove_member actor membership_id step_up_proven =
     with_tenant_uow (actor_tenant actor)
       (seq (org_service_remove_member actor membership_id step_up_proven) (\<lambda>_. commit))"

section \<open>Frames\<close>

lemmas org_service_defs = org_service_get_organization_def org_service_create_invitation_def
  org_service_list_invitations_def org_service_revoke_invitation_def org_service_list_members_def

context db_order
begin

lemma send_framed [framed_intros]: "framed (within D) (send_invitation ml e)"
  by (simp add: framed_def send_invitation_def within_outside D_refl)

end

context tenant_order
begin

lemma token_urlsafe_framed [framed_intros]: "framed (within D) (token_urlsafe n)"
  unfolding token_urlsafe_def by (auto intro!: framed_intros)

lemma org_services_framed [framed_intros]:
  "framed (within D) (org_service_get_organization u t)"
  "framed (within D) (org_service_create_invitation ml actor e orole)"
  "framed (within D) (org_service_list_invitations u t)"
  "framed (within D) (org_service_revoke_invitation actor j)"
  "framed (within D) (org_service_list_members u t)"
  "framed (within D) (accept_membership invite u)"
  unfolding org_service_defs accept_membership_def Let_def
  by (auto intro!: framed_intros)

lemma org_cases_framed:
  "framed (across (D (AppRole (actor_tenant actor)))) (get_organization actor)"
  "framed (across (D (AppRole t))) (list_invitations u t)"
  "framed (across (D (AppRole (actor_tenant actor)))) (revoke_invitation actor j)"
  "framed (across (D (AppRole t))) (list_members u t)"
  unfolding get_organization_def list_invitations_def revoke_invitation_def list_members_def
  by (auto intro!: framed_intros)

end

section \<open>Audited or undone\<close>

text \<open>
  The organization service records the event itself, at the end of a branching body: a program
  that, whenever it returns, has appended one event to the ledger it was started on.
\<close>

definition records_one :: "actor_context \<Rightarrow> string set \<Rightarrow> 'a op \<Rightarrow> bool" where
  "records_one actor actions m \<longleftrightarrow>
     (\<forall>w y w'. sees_tenant w (actor_tenant actor) \<longrightarrow> ledger_ok (store w) (actor_tenant actor) \<longrightarrow>
        m w = (Inr y, w') \<longrightarrow> appends_one actor actions ''success'' (store w) (store w'))"

lemma records_oneD:
  "records_one actor actions m \<Longrightarrow> m w = (Inr y, w') \<Longrightarrow> sees_tenant w (actor_tenant actor) \<Longrightarrow>
     ledger_ok (store w) (actor_tenant actor) \<Longrightarrow> appends_one actor actions ''success'' (store w) (store w')"
  by (auto simp: records_one_def)

lemma records_raise: "records_one actor actions (raise e)"
  by (simp add: records_one_def)

lemma records_raise_Pair: "records_one actor actions (Pair (Inl e))"
  by (simp add: records_one_def)

lemma records_after:
  assumes "framed quiet q" and "\<And>x. records_one actor actions (f x)"
  shows "records_one actor actions (seq q f)"
  unfolding records_one_def
proof (intro allI impI)
  fix w y w'
  assume w: "sees_tenant w (actor_tenant actor)" "ledger_ok (store w) (actor_tenant actor)"
    and run: "seq q f w = (Inr y, w')"
  from run obtain x w1 where x: "q w = (Inr x, w1)" "f x w1 = (Inr y, w')" by (rule seq_InrE)
  have "quiet w w1" using assms(1) x(1) by (rule framedD)
  then have "appends_one actor actions ''success'' (store w1) (store w')"
    using w by (intro records_oneD [OF assms(2) x(2)])
      (simp_all add: quiet_def session_kept_def sees_tenant_def ledger_ok_def)
  with \<open>quiet w w1\<close> show "appends_one actor actions ''success'' (store w) (store w')"
    by (simp add: appends_one_def quiet_def)
qed

lemma records_event:
  assumes "a \<in> actions"
  shows "records_one actor actions (record_event actor a tt tid ''success'' md)"
  unfolding records_one_def
proof (intro allI impI)
  fix w y w'
  assume "sees_tenant w (actor_tenant actor)" and "ledger_ok (store w) (actor_tenant actor)"
    and "record_event actor a tt tid ''success'' md w = (Inr y, w')"
  from record_event_extends [OF this(3) this(1) this(2) [unfolded ledger_ok_def]]
  show "appends_one actor actions ''success'' (store w) (store w')"
    using assms by (fastforce simp: appends_one_def event_by_def)
qed

lemma records_event_ret:
  assumes "a \<in> actions"
  shows "records_one actor actions (seq (record_event actor a tt tid ''success'' md) (\<lambda>_. ret x))"
  using records_event [OF assms] by (fastforce simp: records_one_def seq_Inr_iff)

lemma records_if:
  "(b \<Longrightarrow> records_one actor actions m) \<Longrightarrow> (\<not> b \<Longrightarrow> records_one actor actions n) \<Longrightarrow>
     records_one actor actions (if b then m else n)"
  by simp

lemma records_option:
  "records_one actor actions m \<Longrightarrow> (\<And>x. records_one actor actions (f x)) \<Longrightarrow>
     records_one actor actions (case v of None \<Rightarrow> m | Some x \<Rightarrow> f x)"
  by (cases v) simp_all

lemmas records_intros = records_raise records_raise_Pair records_after records_event
  records_event_ret records_if records_option

lemma quiet_org [framed_intros]:
  "framed quiet (send_invitation ml e)" "framed quiet (cascade_grants ids)"
  by (simp_all add: framed_def quiet_def session_kept_def send_invitation_def cascade_grants_def
      store_set_rows apart_ledger_same [of grants, simplified])

lemma quiet_org_repo [framed_intros]:
  "framed quiet (invitation_has_pending_for_email t e)" "framed quiet (token_urlsafe n)"
  "framed quiet (invitation_add t e orole h u x)" "framed quiet (organization_get_name t)"
  "framed quiet (member_get_by_id j t)" "framed quiet (member_remove j t)"
  unfolding org_repo_defs member_remove_def token_urlsafe_def Let_def
  by (auto intro!: framed_intros)

lemma org_services_record:
  "records_one actor {''member.invited''} (org_service_create_invitation ml actor e orole)"
  "records_one actor {''member.removed''} (org_service_remove_member actor j b)"
  unfolding org_service_create_invitation_def org_service_remove_member_def Let_def
  by (intro records_intros framed_intros; simp)+

lemma org_services_kept [framed_intros]:
  "framed session_kept (org_service_create_invitation ml actor e orole)"
  "framed session_kept (org_service_remove_member actor j b)"
proof -
  have send: "framed session_kept (send_invitation ml m)" for m
    by (simp add: framed_def session_kept_def send_invitation_def)
  have cascade: "framed session_kept (cascade_grants ids)" for ids
    by (simp add: framed_def session_kept_def cascade_grants_def)
  have pol: "framed session_kept (require_org policy u t a)" for u t a
    by (rule policy_frames(2), rule session_kept.R_refl)
  show "framed session_kept (org_service_create_invitation ml actor e orole)"
    "framed session_kept (org_service_remove_member actor j b)"
    unfolding org_service_create_invitation_def org_service_remove_member_def org_repo_defs
      member_remove_def token_urlsafe_def Let_def
    by (auto intro!: framed_intros send cascade pol)
qed

lemma recorded_uow:
  assumes rec: "records_one actor actions body" and kept: "framed session_kept body"
    and ok: "ledger_ok (committed w) (actor_tenant actor)"
    and run: "with_tenant_uow (actor_tenant actor) (seq body (\<lambda>x. seq commit (\<lambda>_. ret (g x)))) w = (r, w')"
  shows "audit_or_nothing actor actions r (committed w) (committed w')"
proof -
  let ?w0 = "uow_start (AppRole (actor_tenant actor)) w"
  from run obtain w1 where w1: "seq body (\<lambda>x. seq commit (\<lambda>_. ret (g x))) ?w0 = (r, w1)"
    and w': "committed w' = committed w1"
    unfolding with_tenant_uow_def by (rule with_uowE)
  obtain r2 w2 where b: "body ?w0 = (r2, w2)" by fastforce
  have k: "session_kept ?w0 w2" using kept b by (rule framedD)
  show ?thesis
  proof (cases r2)
    case (Inl e)
    then show ?thesis
      using w1 b w' k by (auto simp: seq_def audit_or_nothing_def session_kept_def)
  next
    case (Inr x)
    then have "r = Inr (g x)" "committed w1 = store w2"
      using w1 b by (auto simp: seq_apply_Inr seq_commit)
    moreover have "appends_one actor actions ''success'' (committed w) (store w2)"
      using records_oneD [OF rec b [unfolded Inr]] ok by (simp add: sees_tenant_def visible_def)
    ultimately show ?thesis using w' by (simp add: audit_or_nothing_def)
  qed
qed

lemmas recorded_unit_uow = recorded_uow [where g = "\<lambda>_. ()", unfolded commit_ret]

lemma remove_member_audited:
  "ledger_ok (committed w) (actor_tenant actor) \<Longrightarrow> remove_member actor j b w = (r, w') \<Longrightarrow>
     audit_or_nothing actor {''member.removed''} r (committed w) (committed w')"
  unfolding remove_member_def by (rule recorded_unit_uow [OF org_services_record(2) org_services_kept(2)])

lemma create_invitation_audited:
  assumes ok: "ledger_ok (committed w) (actor_tenant actor)"
    and run: "create_invitation ml actor e orole w = (r, w')"
  shows "audit_or_nothing actor {''member.invited''} r (committed w) (committed w')"
proof -
  let ?check = "with_identity_uow
     (seq (idm_has_membership_for_email (normalize_email e)) (\<lambda>member.
        if member then raise invitation_failed else ret ()))"
  obtain r1 w1 where c: "?check w = (r1, w1)" by fastforce
  have same: "committed w1 = committed w"
  proof -
    have "framed uncommitted (seq (idm_has_membership_for_email (normalize_email e)) (\<lambda>member.
        if member then raise invitation_failed else ret ()))"
      unfolding idm_has_membership_for_email_def by (auto intro!: framed_intros)
    with c show ?thesis
      unfolding with_identity_uow_def
      by (elim with_uowE) (auto dest: framedD simp: uncommitted_def)
  qed
  show ?thesis
  proof (cases r1)
    case (Inl x)
    then show ?thesis
      using run c same by (auto simp: create_invitation_def seq_apply_Inl audit_or_nothing_def)
  next
    case (Inr u)
    then have "with_tenant_uow (actor_tenant actor)
       (seq (org_service_create_invitation ml actor e orole) (\<lambda>x. seq commit (\<lambda>_. ret (fst x)))) w1 = (r, w')"
      using run c by (simp add: create_invitation_def seq_apply_Inr case_prod_unfold)
    from recorded_uow [OF org_services_record(1) org_services_kept(1) _ this] same ok
    show ?thesis by simp
  qed
qed

end
