(* ===== verification/Vaults.thy ===== *)
theory Vaults
  imports Audit_Cases
begin

text \<open>
  \<open>domain/vaults/services.py\<close> and \<open>application/vaults/use_cases.py\<close>: vaults and the grants on
  them. A use case opens the tenant's unit of work, lets the service check the policy and write,
  appends one audit event and commits; a denial that asks for it is audited in a unit of work
  of its own.
\<close>

section \<open>VaultService\<close>

record vault_view =
  vv_id :: uuid
  vv_name :: string
  vv_description :: "string option"
  vv_created_at :: time

definition to_vault_view :: "vault \<Rightarrow> vault_view" where
  "to_vault_view v =
     \<lparr>vv_id = v_id v, vv_name = v_name v, vv_description = v_description v,
      vv_created_at = v_created_at v\<rparr>"

definition vault_service_create ::
    "uuid \<Rightarrow> uuid \<Rightarrow> string \<Rightarrow> string option \<Rightarrow> vault_view op" where
  "vault_service_create user_id tenant_id name description =
     seq (require_org policy user_id tenant_id VAULT_CREATE) (\<lambda>_.
     seq (vault_add tenant_id name description user_id) (\<lambda>vault.
     seq (membership_get_membership_id user_id tenant_id) (\<lambda>membership_id.
     case membership_id of
       None \<Rightarrow> raise (forbidden_error ''Access denied'')
     | Some m \<Rightarrow>
         seq (grant_upsert tenant_id (v_id vault) m PERM_ADMIN user_id) (\<lambda>_.
         ret (to_vault_view vault)))))"

definition vault_service_list :: "uuid \<Rightarrow> uuid \<Rightarrow> vault_view list op" where
  "vault_service_list user_id tenant_id =
     seq (list_accessible_vault_ids policy user_id tenant_id) (\<lambda>allowed_ids.
     seq (vault_list_active tenant_id allowed_ids) (\<lambda>rows.
     ret (map to_vault_view rows)))"

definition vault_service_get :: "uuid \<Rightarrow> uuid \<Rightarrow> uuid \<Rightarrow> vault_view op" where
  "vault_service_get user_id tenant_id vault_id =
     seq (require_vault policy user_id tenant_id vault_id SECRET_READ_META) (\<lambda>_.
     seq (vault_get_active vault_id tenant_id) (\<lambda>vault.
     case vault of
       None \<Rightarrow> raise (Access (NotFoundError ''Vault not found''))
     | Some v \<Rightarrow> ret (to_vault_view v)))"

definition vault_service_update ::
    "uuid \<Rightarrow> uuid \<Rightarrow> uuid \<Rightarrow> string option \<Rightarrow> string option \<Rightarrow> bool \<Rightarrow> vault_view op" where
  "vault_service_update user_id tenant_id vault_id name description clear_description =
     seq (require_vault policy user_id tenant_id vault_id VAULT_UPDATE) (\<lambda>_.
     seq (vault_update vault_id tenant_id name description clear_description) (\<lambda>vault.
     ret (to_vault_view vault)))"

definition vault_service_delete :: "uuid \<Rightarrow> uuid \<Rightarrow> uuid \<Rightarrow> bool \<Rightarrow> unit op" where
  "vault_service_delete user_id tenant_id vault_id step_up_proven =
     (if \<not> step_up_proven then raise (forbidden_error ''Step-up authentication required'')
      else seq (require_vault policy user_id tenant_id vault_id VAULT_DELETE) (\<lambda>_.
           vault_soft_delete vault_id tenant_id))"

definition vault_service_upsert_grant ::
    "uuid \<Rightarrow> uuid \<Rightarrow> uuid \<Rightarrow> uuid \<Rightarrow> vault_permission \<Rightarrow> bool op" where
  "vault_service_upsert_grant actor_user_id tenant_id vault_id target_membership_id permission =
     seq (require_vault policy actor_user_id tenant_id vault_id GRANT_MANAGE) (\<lambda>_.
     seq (membership_get_membership_tenant target_membership_id) (\<lambda>target_tenant.
     if target_tenant \<noteq> Some tenant_id then raise (Access (NotFoundError ''Membership not found''))
     else grant_upsert tenant_id vault_id target_membership_id permission actor_user_id))"

definition vault_service_revoke_grant :: "uuid \<Rightarrow> uuid \<Rightarrow> uuid \<Rightarrow> uuid \<Rightarrow> unit op" where
  "vault_service_revoke_grant actor_user_id tenant_id vault_id target_membership_id =
     seq (require_vault policy actor_user_id tenant_id vault_id GRANT_MANAGE) (\<lambda>_.
     seq (grant_delete vault_id target_membership_id tenant_id) (\<lambda>deleted.
     if \<not> deleted then raise (Access (NotFoundError ''Grant not found'')) else ret ()))"

definition vault_service_list_grants :: "uuid \<Rightarrow> uuid \<Rightarrow> uuid \<Rightarrow> grant_view list op" where
  "vault_service_list_grants actor_user_id tenant_id vault_id =
     seq (require_vault policy actor_user_id tenant_id vault_id GRANT_MANAGE) (\<lambda>_.
     grant_list_for_vault vault_id tenant_id)"

section \<open>Use cases\<close>

definition create_vault :: "actor_context \<Rightarrow> string \<Rightarrow> string option \<Rightarrow> vault_view op" where
  "create_vault actor name description =
     recording_denials actor (with_tenant_uow (actor_tenant actor)
       (seq (vault_service_create (actor_user actor) (actor_tenant actor) name description) (\<lambda>view.
        seq (record_event actor ''vault.created'' ''vault'' (Some (vv_id view)) ''success''
               (Some [(''name'', JStr name)])) (\<lambda>_.
        seq commit (\<lambda>_. ret view)))))"

definition list_vaults :: "uuid \<Rightarrow> uuid \<Rightarrow> vault_view list op" where
  "list_vaults user_id tenant_id = with_tenant_uow tenant_id (vault_service_list user_id tenant_id)"

definition get_vault :: "uuid \<Rightarrow> uuid \<Rightarrow> uuid \<Rightarrow> vault_view op" where
  "get_vault user_id tenant_id vault_id =
     with_tenant_uow tenant_id (vault_service_get user_id tenant_id vault_id)"

definition update_vault ::
    "actor_context \<Rightarrow> uuid \<Rightarrow> string option \<Rightarrow> string option \<Rightarrow> bool \<Rightarrow> vault_view op" where
  "update_vault actor vault_id name description clear_description =
     recording_denials actor (with_tenant_uow (actor_tenant actor)
       (seq (vault_service_update (actor_user actor) (actor_tenant actor) vault_id name description
               clear_description) (\<lambda>view.
        seq (record_event actor ''vault.updated'' ''vault'' (Some vault_id) ''success'' None) (\<lambda>_.
        seq commit (\<lambda>_. ret view)))))"

definition delete_vault :: "actor_context \<Rightarrow> uuid \<Rightarrow> bool \<Rightarrow> unit op" where
  "delete_vault actor vault_id step_up_proven =
     recording_denials actor (with_tenant_uow (actor_tenant actor)
       (seq (vault_service_delete (actor_user actor) (actor_tenant actor) vault_id step_up_proven) (\<lambda>_.
        seq (record_event actor ''vault.deleted'' ''vault'' (Some vault_id) ''success'' None) (\<lambda>_.
        commit))))"

definition manage_grant_grant :: "actor_context \<Rightarrow> uuid \<Rightarrow> uuid \<Rightarrow> vault_permission \<Rightarrow> unit op" where
  "manage_grant_grant actor vault_id target_membership_id permission =
     recording_denials actor (with_tenant_uow (actor_tenant actor)
       (seq (vault_service_upsert_grant (actor_user actor) (actor_tenant actor) vault_id
               target_membership_id permission) (\<lambda>created.
        seq (record_event actor (if created then ''grant.created'' else ''grant.updated'') ''vault''
               (Some vault_id) ''success''
               (Some [(''membership_id'', JStr (uuid_str target_membership_id)),
                      (''permission'', JStr (permission_value permission))])) (\<lambda>_.
        commit))))"

definition manage_grant_revoke :: "actor_context \<Rightarrow> uuid \<Rightarrow> uuid \<Rightarrow> unit op" where
  "manage_grant_revoke actor vault_id target_membership_id =
     recording_denials actor (with_tenant_uow (actor_tenant actor)
       (seq (vault_service_revoke_grant (actor_user actor) (actor_tenant actor) vault_id
               target_membership_id) (\<lambda>_.
        seq (record_event actor ''grant.revoked'' ''vault'' (Some vault_id) ''success''
               (Some [(''membership_id'', JStr (uuid_str target_membership_id))])) (\<lambda>_.
        commit))))"

definition list_grants :: "actor_context \<Rightarrow> uuid \<Rightarrow> grant_view list op" where
  "list_grants actor vault_id =
     recording_denials actor (with_tenant_uow (actor_tenant actor)
       (vault_service_list_grants (actor_user actor) (actor_tenant actor) vault_id))"

section \<open>Frames\<close>

lemmas vault_service_defs = vault_service_create_def vault_service_list_def vault_service_get_def
  vault_service_update_def vault_service_delete_def vault_service_upsert_grant_def
  vault_service_revoke_grant_def vault_service_list_grants_def

lemmas vault_case_defs = create_vault_def list_vaults_def get_vault_def update_vault_def
  delete_vault_def manage_grant_grant_def manage_grant_revoke_def list_grants_def

text \<open>The two services that write grants are part of the contract; the others follow from the statements.\<close>

locale vault_order = tenant_order +
  assumes create_framed [framed_intros]: "framed (within D) (vault_service_create u t n d)"
    and grant_framed [framed_intros]: "framed (within D) (vault_service_upsert_grant u t j tm p)"

sublocale grant_order \<subseteq> vault_order D
  by unfold_locales
    (auto simp: vault_service_create_def vault_service_upsert_grant_def intro!: framed_intros)

context vault_order
begin

lemma vault_services_framed [framed_intros]:
  "framed (within D) (vault_service_list u t)"
  "framed (within D) (vault_service_get u t j)"
  "framed (within D) (vault_service_update u t j nm d c)"
  "framed (within D) (vault_service_delete u t j b)"
  "framed (within D) (vault_service_revoke_grant u t j tm)"
  "framed (within D) (vault_service_list_grants u t j)"
  unfolding vault_service_defs
  by (auto intro!: framed_intros)

lemma vault_cases_framed:
  "framed (across (D (AppRole (actor_tenant actor)))) (create_vault actor n d)"
  "framed (across (D (AppRole t))) (list_vaults u t)"
  "framed (across (D (AppRole t))) (get_vault u t j)"
  "framed (across (D (AppRole (actor_tenant actor)))) (update_vault actor j nm d c)"
  "framed (across (D (AppRole (actor_tenant actor)))) (delete_vault actor j b)"
  "framed (across (D (AppRole (actor_tenant actor)))) (manage_grant_grant actor j tm p)"
  "framed (across (D (AppRole (actor_tenant actor)))) (manage_grant_revoke actor j tm)"
  "framed (across (D (AppRole (actor_tenant actor)))) (list_grants actor j)"
  unfolding vault_case_defs
  by (auto intro!: framed_intros)

end

section \<open>Audited or undone\<close>

lemma vault_services_quiet [framed_intros]:
  "framed quiet (vault_service_create u t n d)"
  "framed quiet (vault_service_update u t j nm d c)"
  "framed quiet (vault_service_delete u t j b)"
  "framed quiet (vault_service_upsert_grant u t j tm p)"
  "framed quiet (vault_service_revoke_grant u t j tm)"
  unfolding vault_service_defs vault_repo_defs Let_def
  by (auto intro!: framed_intros)

lemma vault_cases_audited:
  assumes "ledger_ok (committed w) (actor_tenant actor)"
  shows "create_vault actor n d w = (r1, w') \<Longrightarrow>
      audit_or_nothing actor {''vault.created''} r1 (committed w) (committed w')"
    and "update_vault actor j nm d c w = (r1, w') \<Longrightarrow>
      audit_or_nothing actor {''vault.updated''} r1 (committed w) (committed w')"
    and "delete_vault actor j b w = (r2, w') \<Longrightarrow>
      audit_or_nothing actor {''vault.deleted''} r2 (committed w) (committed w')"
    and "manage_grant_grant actor j tm p w = (r2, w') \<Longrightarrow>
      audit_or_nothing actor {''grant.created'', ''grant.updated''} r2 (committed w) (committed w')"
    and "manage_grant_revoke actor j tm w = (r2, w') \<Longrightarrow>
      audit_or_nothing actor {''grant.revoked''} r2 (committed w) (committed w')"
  unfolding vault_case_defs
  by ((rule audited_case [OF _ assms] audited_unit_case [OF _ assms]; assumption?; (rule framed_intros | simp))+)

end
