(* ===== verification/System.thy ===== *)
theory System
  imports Organizations Vaults
begin

text \<open>
  The backend as one transition system: every use case is a command, a step runs one command on
  the world, and a world is reachable when commands lead to it from an empty database. Orders
  that no statement of the program breaks hold between the committed rows before and after any
  command, and invariants of reachable worlds follow by rule induction.
\<close>

section \<open>Commands\<close>

record deployment =
  dp_auth :: auth_env
  dp_keys :: keyring
  dp_mail :: mailer

datatype command =
    RegisterUser string string string
  | LoginUser string string "string option"
  | RefreshTokens string
  | LogoutSession string
  | StartTotpEnrollment uuid string
  | ConfirmTotpEnrollment uuid string
  | CompleteMfaLogin string string "string option"
  | StepUpVerify uuid uuid string string
  | DisableMfa uuid
  | CreateVault actor_context string "string option"
  | UpdateVault actor_context uuid "string option" "string option" bool
  | DeleteVault actor_context uuid bool
  | GrantAccess actor_context uuid uuid vault_permission
  | RevokeGrant actor_context uuid uuid
  | ListGrants actor_context uuid
  | CreateSecret actor_context uuid string string "string option"
  | RevealSecret actor_context uuid uuid "int option"
  | RotateSecret actor_context uuid uuid string
  | DeleteSecret actor_context uuid uuid bool
  | CreateInvitation actor_context string org_role
  | RevokeInvitation actor_context uuid
  | AcceptInvitation string string
  | RemoveMember actor_context uuid bool
  | VerifyChain uuid
  | ListEvents actor_context "string option" "uuid option" "int option" nat

definition discard :: "'a op \<Rightarrow> unit op" where
  "discard m = seq m (\<lambda>_. ret ())"

fun run_command :: "deployment \<Rightarrow> command \<Rightarrow> unit op" where
  "run_command dp (RegisterUser e p n) = discard (register_user (dp_auth dp) (Some (dp_keys dp)) e p n)"
| "run_command dp (LoginUser e p ua) = discard (login_user (dp_auth dp) e p ua)"
| "run_command dp (RefreshTokens tok) = discard (refresh_tokens_case (dp_auth dp) tok)"
| "run_command dp (LogoutSession tok) = logout_session tok"
| "run_command dp (StartTotpEnrollment u e) = discard (start_totp_enrollment (dp_auth dp) u e)"
| "run_command dp (ConfirmTotpEnrollment u c) = discard (confirm_totp_enrollment (dp_auth dp) u c)"
| "run_command dp (CompleteMfaLogin tok c ua) = discard (complete_mfa_login (dp_auth dp) tok c ua)"
| "run_command dp (StepUpVerify u s c pur) = discard (step_up_verify (dp_auth dp) u s c pur)"
| "run_command dp (DisableMfa u) = disable_mfa_case u"
| "run_command dp (CreateVault a n d) = discard (create_vault a n d)"
| "run_command dp (UpdateVault a v n d c) = discard (update_vault a v n d c)"
| "run_command dp (DeleteVault a v s) = delete_vault a v s"
| "run_command dp (GrantAccess a v m p) = manage_grant_grant a v m p"
| "run_command dp (RevokeGrant a v m) = manage_grant_revoke a v m"
| "run_command dp (ListGrants a v) = discard (list_grants a v)"
| "run_command dp (CreateSecret a v n p d) = discard (create_secret (dp_keys dp) a v n p d)"
| "run_command dp (RevealSecret a v s n) = discard (reveal_secret (dp_keys dp) a v s n)"
| "run_command dp (RotateSecret a v s p) = discard (rotate_secret (dp_keys dp) a v s p)"
| "run_command dp (DeleteSecret a v s su) = delete_secret a v s su"
| "run_command dp (CreateInvitation a e r) = discard (create_invitation (dp_mail dp) a e r)"
| "run_command dp (RevokeInvitation a i) = revoke_invitation a i"
| "run_command dp (AcceptInvitation tok p) = accept_invitation (dp_auth dp) tok p"
| "run_command dp (RemoveMember a m su) = remove_member a m su"
| "run_command dp (VerifyChain t) = discard (verify_tenant_chain t)"
| "run_command dp (ListEvents a ac tg n lim) = discard (list_audit_events a ac tg n lim)"

text \<open>The commands that are audited: by whom, and as what.\<close>

definition audited_command :: "command \<Rightarrow> (actor_context \<times> string set) option" where
  "audited_command c =
     (case c of
        CreateVault a _ _ \<Rightarrow> Some (a, {''vault.created''})
      | UpdateVault a _ _ _ _ \<Rightarrow> Some (a, {''vault.updated''})
      | DeleteVault a _ _ \<Rightarrow> Some (a, {''vault.deleted''})
      | GrantAccess a _ _ _ \<Rightarrow> Some (a, {''grant.created'', ''grant.updated''})
      | RevokeGrant a _ _ \<Rightarrow> Some (a, {''grant.revoked''})
      | CreateSecret a _ _ _ _ \<Rightarrow> Some (a, {''secret.created''})
      | RevealSecret a _ _ _ \<Rightarrow> Some (a, {''secret.revealed''})
      | RotateSecret a _ _ _ \<Rightarrow> Some (a, {''secret.rotated''})
      | DeleteSecret a _ _ _ \<Rightarrow> Some (a, {''secret.deleted''})
      | CreateInvitation a _ _ \<Rightarrow> Some (a, {''member.invited''})
      | RemoveMember a _ _ \<Rightarrow> Some (a, {''member.removed''})
      | _ \<Rightarrow> None)"

text \<open>
  Between two commands everything but the committed rows may move on its own: the clock, the random
  source, what Redis and the mail server hold.
\<close>

definition initial :: "world \<Rightarrow> bool" where
  "initial w \<longleftrightarrow> committed w = empty_db"

inductive reachable :: "deployment \<Rightarrow> world \<Rightarrow> bool" for dp where
  start: "initial w \<Longrightarrow> reachable dp w"
| step: "reachable dp w \<Longrightarrow> run_command dp c w = (r, w') \<Longrightarrow> reachable dp w'"
| drift: "reachable dp w \<Longrightarrow> committed w' = committed w \<Longrightarrow> reachable dp w'"

inductive_cases reachableE: "reachable dp w"

section \<open>Orders every command respects\<close>

locale whole_order = vault_order D + identity_order D for D +
  assumes role_free: "D r d d' = D OwnerRole d d'"
    and remove_members: "framed (within D) (member_remove mid t)"
begin

lemma across_any: "framed (across (D r)) m \<Longrightarrow> framed (across (D OwnerRole)) m"
  by (simp add: framed_def across_def role_free [of r])

lemma discard_framed [framed_intros]:
  "framed (across (D OwnerRole)) m \<Longrightarrow> framed (across (D OwnerRole)) (discard m)"
  unfolding discard_def by (auto intro!: framed_intros)

lemma tenant_uow_any [framed_intros]:
  "framed (within D) body \<Longrightarrow> framed (across (D OwnerRole)) (with_tenant_uow t body)"
  by (rule across_any [OF tenant_uow_framed])

lemma accept_identity_framed [framed_intros]: "framed (within D) (accept_identity au tok p)"
  unfolding accept_identity_def validate_password_strength_def by (auto intro!: framed_intros)

lemma org_commands_framed [framed_intros]:
  "framed (across (D OwnerRole)) (create_invitation ml actor e orole)"
  "framed (across (D OwnerRole)) (accept_invitation au tok p)"
  "framed (across (D OwnerRole)) (remove_member actor m b)"
  unfolding create_invitation_def accept_invitation_def remove_member_def
    org_service_remove_member_def Let_def
  by (auto intro!: framed_intros remove_members)

lemma register_framed [framed_intros]: "framed (across (D OwnerRole)) (register_user au kr e p n)"
  unfolding register_user_def provision_or_fail_def provision_tenant_key_def Let_def
  by (auto intro!: framed_intros)

theorem command_framed: "framed (across (D OwnerRole)) (run_command dp c)"
  by (cases c)
    (auto intro!: framed_intros across_any [OF vault_cases_framed(1)] across_any [OF vault_cases_framed(4)]
      across_any [OF vault_cases_framed(5)] across_any [OF vault_cases_framed(6)]
      across_any [OF vault_cases_framed(7)] across_any [OF vault_cases_framed(8)]
      across_any [OF secret_cases_framed(2)] across_any [OF secret_cases_framed(4)]
      across_any [OF secret_cases_framed(5)] across_any [OF secret_cases_framed(6)]
      across_any [OF org_cases_framed(3)] across_any [OF audit_cases_framed(1)]
      across_any [OF audit_cases_framed(2)])

lemma command_across: "run_command dp c w = (r, w') \<Longrightarrow> D OwnerRole (committed w) (committed w')"
  using framedD [OF command_framed] by (simp add: across_def)

lemma reachable_invariant:
  assumes "reachable dp w" and "P empty_db"
    and "\<And>d d'. D OwnerRole d d' \<Longrightarrow> P d \<Longrightarrow> P d'"
  shows "P (committed w)"
  using assms(1)
proof (induction rule: reachable.induct)
  case (start w)
  then show ?case using assms(2) by (simp add: initial_def)
next
  case (step w c r w')
  then show ?case using assms(3) command_across by blast
next
  case (drift w w')
  then show ?case by simp
qed

end

interpretation ledger: whole_order ledger_order
  by unfold_locales (auto simp: ledger_order_def intro: ledger_member_remove)

lemma ages_member_remove: "framed (within identity_ages) (member_remove j t)"
proof -
  have "framed (within identity_ages) (cascade_grants ids)" for ids
    by (simp add: framed_def cascade_grants_def within_def store_set_rows ages_same ages.D_refl)
  then show ?thesis
    unfolding member_remove_def Let_def by (auto intro!: framed_intros)
qed

interpretation ages: grant_order identity_ages
  by unfold_locales (auto simp: audit_repo_defs Let_def intro!: framed_intros)

interpretation ages: whole_order identity_ages
  by unfold_locales (simp add: identity_ages_def, rule ages_member_remove)

end
