(* ===== verification/Schema.thy ===== *)
theory Schema
  imports System
begin

text \<open>
  The unique constraints and partial unique indexes of the schema
  (\<open>infrastructure/database/models.py\<close> and \<open>identity_models.py\<close>) as an invariant: each statement
  keeps them because the database checks a row before it stores it, so they hold in every
  reachable state and lookups by a key have one answer.
\<close>

section \<open>Unique keys\<close>

definition unique :: "('r \<Rightarrow> 'k) \<Rightarrow> 'r list \<Rightarrow> bool" where
  "unique key rows \<longleftrightarrow> distinct (map key rows)"

lemma unique_Nil [simp]: "unique key []"
  by (simp add: unique_def)

lemma unique_insert [simp]: "unique key (rows @ [r]) \<longleftrightarrow> unique key rows \<and> absent key (key r) rows"
  by (auto simp: unique_def absent_def)

lemma unique_update [simp]:
  "(\<And>r. key (f r) = key r) \<Longrightarrow> unique key (update_where p f rows) = unique key rows"
  by (simp add: unique_def map_update_where)

lemma unique_filter: "unique key rows \<Longrightarrow> unique key (filter p rows)"
  by (simp add: unique_def distinct_map_filter_sub)

lemma unique_delete: "unique key rows \<Longrightarrow> unique key (delete_where p rows)"
  by (simp add: delete_where_def unique_filter)

lemma unique_find:
  "unique key rows \<Longrightarrow> r \<in> set rows \<Longrightarrow> find (\<lambda>x. key x = key r) rows = Some r"
  by (simp add: unique_def find_unique_key)

lemma unique_eq: "unique key rows \<Longrightarrow> r \<in> set rows \<Longrightarrow> s \<in> set rows \<Longrightarrow> key r = key s \<Longrightarrow> r = s"
  by (metis option.inject unique_find)

text \<open>A partial index: only the rows that satisfy \<open>q\<close> are compared.\<close>

lemma unique_filter_update:
  assumes "\<And>r. key (f r) = key r" and "\<And>r. q (f r) \<Longrightarrow> q r" and "unique key (filter q rows)"
  shows "unique key (filter q (update_where p f rows))"
  using assms(3)
proof (induction rows)
  case (Cons r rows)
  define c where "c = (if p r then f r else r)"
  have c: "key c = key r" "q c \<Longrightarrow> q r"
    using assms(1,2) by (simp_all add: c_def split: if_splits)
  have split: "update_where p f (r # rows) = c # update_where p f rows"
    by (simp add: update_where_def c_def)
  have keep: "key ` set (filter q (update_where p f rows)) \<subseteq> key ` set (filter q rows)"
    using assms(1,2) by (auto simp: update_where_def image_iff split: if_splits)
  show ?case
    using Cons c keep unfolding split by (cases "q r") (auto simp: unique_def)
qed (simp add: update_where_def)

text \<open>Saving a row that was checked against all the others.\<close>

lemma unique_save:
  assumes "unique pk rows" and "unique key rows"
    and "absent key (key row) (delete_where (\<lambda>x. pk x = pk row) rows)"
  shows "unique key (update_where (\<lambda>x. v x \<and> pk x = pk row) (\<lambda>_. row) rows)"
proof (cases "\<exists>x \<in> set rows. v x \<and> pk x = pk row")
  case False
  then have "update_where (\<lambda>x. v x \<and> pk x = pk row) (\<lambda>_. row) rows = rows"
    unfolding update_where_def by (intro map_idI) auto
  with assms(2) show ?thesis by simp
next
  case True
  then obtain x ys zs where x: "v x" "pk x = pk row" and rows: "rows = ys @ x # zs"
    by (meson split_list)
  have "pk x \<notin> pk ` (set ys \<union> set zs)"
    using assms(1) by (auto simp: unique_def rows)
  then have other: "pk y \<noteq> pk row" if "y \<in> set ys \<union> set zs" for y
    using x(2) that by (metis imageI)
  have "update_where (\<lambda>x. v x \<and> pk x = pk row) (\<lambda>_. row) rows = ys @ row # zs"
    using x other by (auto simp: update_where_def rows intro!: map_idI)
  moreover have "delete_where (\<lambda>x. pk x = pk row) rows = ys @ zs"
    using x other by (auto simp: delete_where_def rows filter_id_conv)
  ultimately show ?thesis
    using assms(2,3) by (auto simp: unique_def absent_def rows)
qed

section \<open>The constraints of the schema\<close>

definition schema_ok :: "db \<Rightarrow> bool" where
  "schema_ok d \<longleftrightarrow>
     unique u_id (t_users d) \<and> unique u_email (t_users d) \<and>
     unique m_id (t_memberships d) \<and> unique m_user_id (t_memberships d) \<and>
     unique o_id (t_organizations d) \<and> unique as_id (t_sessions d) \<and>
     unique rt_id (t_refresh_tokens d) \<and> unique rt_token_hash (t_refresh_tokens d) \<and>
     unique ts_id (t_totp_secrets d) \<and> unique ts_user_id (t_totp_secrets d) \<and>
     unique rc_id (t_recovery_codes d) \<and> unique rc_code_hash (t_recovery_codes d) \<and>
     unique i_id (t_invitations d) \<and> unique i_token_hash (t_invitations d) \<and>
     unique (\<lambda>i. (i_tenant_id i, i_email i)) (filter pending (t_invitations d)) \<and>
     unique v_id (t_vaults d) \<and> unique (\<lambda>v. (v_tenant_id v, v_name v)) (t_vaults d) \<and>
     unique g_id (t_grants d) \<and> unique (\<lambda>g. (g_vault_id g, g_membership_id g)) (t_grants d) \<and>
     unique s_id (t_secrets d) \<and> unique (\<lambda>s. (s_vault_id s, s_name s)) (t_secrets d) \<and>
     unique sv_id (t_secret_versions d) \<and>
     unique (\<lambda>v. (sv_secret_id v, sv_version v)) (t_secret_versions d) \<and>
     unique (\<lambda>k. (tk_tenant_id k, tk_version k)) (t_tenant_keys d) \<and>
     unique tk_tenant_id (filter (\<lambda>k. tk_status k = ''active'') (t_tenant_keys d)) \<and>
     unique ev_id (t_audit_events d) \<and>
     unique (\<lambda>e. (ev_tenant_id e, ev_sequence e)) (t_audit_events d) \<and>
     unique (\<lambda>e. (ev_tenant_id e, ev_entry_hash e)) (t_audit_events d) \<and>
     unique ch_tenant_id (t_chain_heads d)"

lemma schema_empty: "schema_ok empty_db"
  by (simp add: schema_ok_def empty_db_def)

definition schema_kept :: "session_role \<Rightarrow> db \<Rightarrow> db \<Rightarrow> bool" where
  "schema_kept r d d' \<longleftrightarrow> (schema_ok d \<longrightarrow> schema_ok d')"

interpretation schema: db_order schema_kept
  by unfold_locales (auto simp: schema_kept_def)

section \<open>Every statement keeps them\<close>

lemma schema_inserts [framed_intros]:
  "framed (within schema_kept) (insert_row users u)"
  "framed (within schema_kept) (insert_row memberships m)"
  "framed (within schema_kept) (insert_row organizations orow)"
  "framed (within schema_kept) (insert_row sessions s)"
  "framed (within schema_kept) (insert_row refresh_tokens rt)"
  "framed (within schema_kept) (insert_row totp_secrets ts)"
  "framed (within schema_kept) (insert_row recovery_codes rc)"
  "framed (within schema_kept) (insert_row invitations i)"
  "framed (within schema_kept) (insert_row vaults v)"
  "framed (within schema_kept) (insert_row grants g)"
  "framed (within schema_kept) (insert_row secrets sec)"
  "framed (within schema_kept) (insert_row secret_versions sv)"
  "framed (within schema_kept) (insert_row tenant_keys k)"
  "framed (within schema_kept) (insert_row audit_events e)"
  "framed (within schema_kept) (insert_row chain_heads h)"
  by (rule schema.framed_insert_row, simp add: schema_kept_def schema_ok_def table_defs, blast?)+

lemma schema_deletes [framed_intros]:
  "framed (within schema_kept) (delete_rows totp_secrets pt)"
  "framed (within schema_kept) (delete_rows recovery_codes pr)"
  "framed (within schema_kept) (delete_rows grants pg)"
  "framed (within schema_kept) (delete_rows memberships pm)"
  by (rule schema.framed_delete_rows, simp add: schema_kept_def schema_ok_def unique_delete)+

lemma schema_updates:
  "(\<And>x. v_tenant_id (fv x) = v_tenant_id x \<and> v_id (fv x) = v_id x \<and> v_name (fv x) = v_name x) \<Longrightarrow>
     framed (within schema_kept) (update_rows vaults pv fv)"
  "(\<And>x. g_tenant_id (fg x) = g_tenant_id x \<and> g_id (fg x) = g_id x \<and>
       g_vault_id (fg x) = g_vault_id x \<and> g_membership_id (fg x) = g_membership_id x) \<Longrightarrow>
     framed (within schema_kept) (update_rows grants pg fg)"
  "(\<And>x. s_tenant_id (fs x) = s_tenant_id x \<and> s_id (fs x) = s_id x \<and>
       s_vault_id (fs x) = s_vault_id x \<and> s_name (fs x) = s_name x) \<Longrightarrow>
     framed (within schema_kept) (update_rows secrets ps fs)"
  "(\<And>x. i_tenant_id (fi x) = i_tenant_id x \<and> i_id (fi x) = i_id x \<and> i_email (fi x) = i_email x \<and>
       i_token_hash (fi x) = i_token_hash x \<and> (pending (fi x) \<longrightarrow> pending x)) \<Longrightarrow>
     framed (within schema_kept) (update_rows invitations pi fi)"
  by (rule schema.framed_update_rows,
      auto simp: schema_kept_def schema_ok_def intro!: unique_filter_update)+

lemma schema_identity_updates [framed_intros]:
  "framed (within schema_kept) (user_set_mfa_enabled uid b)"
  "framed (within schema_kept) (session_revoke sid at reason)"
  "framed (within schema_kept) (session_touch sid at)"
  "framed (within schema_kept) (refresh_mark_used rid at nid)"
  "framed (within schema_kept) (totp_confirm uid at)"
  unfolding user_set_mfa_enabled_def session_revoke_def session_touch_def refresh_mark_used_def
    totp_confirm_def
  by (rule schema.framed_update_rows, simp add: schema_kept_def schema_ok_def)+

lemma schema_redeem [framed_intros]:
  "framed (within schema_kept) (recovery_redeem_for_update uid h)"
proof -
  have "framed (within schema_kept) (update_rows recovery_codes p (\<lambda>r. r\<lparr>rc_used_at := x\<rparr>))" for p x
    by (rule schema.framed_update_rows) (simp add: schema_kept_def schema_ok_def)
  then show ?thesis
    unfolding recovery_redeem_for_update_def by (auto intro!: framed_intros)
qed

lemma schema_saves [framed_intros]:
  "framed (within schema_kept) (save_row vaults v_id v)"
  "framed (within schema_kept) (save_row secrets s_id s)"
  by (rule schema.framed_save_row,
      auto simp: schema_kept_def schema_ok_def table_defs seen_def intro!: unique_save)+

lemma schema_record [framed_intros]:
  "framed (within schema_kept) (record_event actor a tt tid oc md)"
proof -
  have "framed (within schema_kept) (update_rows chain_heads p (\<lambda>h. h\<lparr>ch_last_sequence := n, ch_last_hash := x\<rparr>))" for p n x
    by (rule schema.framed_update_rows) (simp add: schema_kept_def schema_ok_def)
  then show ?thesis
    by (auto simp: audit_repo_defs Let_def intro!: framed_intros)
qed

interpretation schema: grant_order schema_kept
  by unfold_locales (auto intro!: framed_intros schema_updates)

interpretation schema: identity_order schema_kept
  by unfold_locales (auto intro!: framed_intros)

lemma schema_member_remove: "framed (within schema_kept) (member_remove j t)"
proof -
  have "framed (within schema_kept) (cascade_grants ids)" for ids
    by (auto simp: framed_def cascade_grants_def within_def store_set_rows schema_kept_def
        schema_ok_def unique_delete)
  then show ?thesis
    unfolding member_remove_def Let_def by (auto intro!: framed_intros)
qed

interpretation schema: whole_order schema_kept
  by unfold_locales (simp add: schema_kept_def, rule schema_member_remove)

lemma reachable_schema_ok: "reachable dp w \<Longrightarrow> schema_ok (committed w)"
  by (rule schema.reachable_invariant) (auto simp: schema_empty schema_kept_def)

end
