(* ===== verification/Retention.thy ===== *)
theory Retention
  imports Schema
begin

text \<open>
  What is never lost: the cipher texts and wrapped keys a tenant has written. The two tables only
  grow at their end, so a version that could be revealed once is still stored later, under the
  key it was encrypted with, whatever commands ran in between.
\<close>

definition material_kept :: "session_role \<Rightarrow> db \<Rightarrow> db \<Rightarrow> bool" where
  "material_kept r d d' \<longleftrightarrow>
     prefix (t_secret_versions d) (t_secret_versions d') \<and> prefix (t_tenant_keys d) (t_tenant_keys d')"

interpretation material: db_order material_kept
  by unfold_locales (auto simp: material_kept_def intro: prefix_order.trans)

text \<open>A table other than the two.\<close>

definition apart_from_material :: "'r table \<Rightarrow> bool" where
  "apart_from_material T \<longleftrightarrow> (\<forall>f d. t_secret_versions (rows_upd T f d) = t_secret_versions d \<and>
     t_tenant_keys (rows_upd T f d) = t_tenant_keys d)"

lemma apart_from_material_simps [simp]:
  "apart_from_material users" "apart_from_material memberships" "apart_from_material organizations"
  "apart_from_material sessions" "apart_from_material refresh_tokens" "apart_from_material totp_secrets"
  "apart_from_material recovery_codes" "apart_from_material invitations" "apart_from_material vaults"
  "apart_from_material grants" "apart_from_material secrets" "apart_from_material audit_events"
  "apart_from_material chain_heads"
  by (simp_all add: apart_from_material_def)

lemma material_statements [framed_intros]:
  assumes "apart_from_material T"
  shows "framed (within material_kept) (insert_row T row)"
    and "framed (within material_kept) (update_rows T p f)"
    and "framed (within material_kept) (delete_rows T p)"
    and "framed (within material_kept) (save_row T key row)"
  using assms
  by (auto simp: apart_from_material_def material_kept_def intro!: material.framed_insert_row
      material.framed_update_rows material.framed_delete_rows material.framed_save_row)

lemma material_inserts [framed_intros]:
  "framed (within material_kept) (insert_row secret_versions v)"
  "framed (within material_kept) (insert_row tenant_keys k)"
  by (rule material.framed_insert_row, simp add: material_kept_def)+

interpretation material: grant_order material_kept
  by unfold_locales (auto simp: audit_repo_defs Let_def intro!: framed_intros)

interpretation material: identity_order material_kept
  by unfold_locales
    (auto simp: user_set_mfa_enabled_def session_revoke_def session_touch_def refresh_mark_used_def
      totp_confirm_def recovery_redeem_for_update_def intro!: framed_intros)

lemma material_member_remove: "framed (within material_kept) (member_remove j t)"
proof -
  have "framed (within material_kept) (cascade_grants ids)" for ids
    by (auto simp: framed_def cascade_grants_def within_def store_set_rows material_kept_def)
  then show ?thesis
    unfolding member_remove_def Let_def by (auto intro!: framed_intros)
qed

interpretation material: whole_order material_kept
  by unfold_locales (simp add: material_kept_def, rule material_member_remove)

section \<open>Runs of commands\<close>

fun run_all :: "deployment \<Rightarrow> command list \<Rightarrow> world \<Rightarrow> world" where
  "run_all dp [] w = w"
| "run_all dp (c # cs) w = run_all dp cs (snd (run_command dp c w))"

lemma reachable_run_all: "reachable dp w \<Longrightarrow> reachable dp (run_all dp cs w)"
proof (induction cs arbitrary: w)
  case (Cons c cs)
  obtain r w' where "run_command dp c w = (r, w')" by fastforce
  with Cons show ?case by (auto intro: reachable.step)
qed simp

context whole_order
begin

lemma run_all_across: "D OwnerRole (committed w) (committed (run_all dp cs w))"
proof (induction cs arbitrary: w)
  case Nil
  then show ?case by (simp add: D_refl)
next
  case (Cons c cs)
  obtain r w' where "run_command dp c w = (r, w')" by fastforce
  with command_across [OF this] Cons [of w'] show ?case
    by (auto intro: D_trans)
qed

end

end
