(* ===== verification/Tenancy.thy ===== *)
theory Tenancy
  imports Retention
begin

text \<open>
  Tenant isolation of whole commands. Deleting a membership cascades to its grants below the
  row-level policies, so isolation of \<open>RemoveMember\<close> rests on an invariant of the reachable
  states: every grant belongs to a membership of its own tenant.
\<close>

section \<open>Grants belong to memberships of their tenant\<close>

definition member_of :: "db \<Rightarrow> uuid \<Rightarrow> uuid \<Rightarrow> bool" where
  "member_of d membership_id tenant_id \<longleftrightarrow>
     (\<exists>m \<in> set (t_memberships d). m_id m = membership_id \<and> m_tenant_id m = tenant_id)"

definition grants_aligned :: "db \<Rightarrow> bool" where
  "grants_aligned d \<longleftrightarrow> (\<forall>g \<in> set (t_grants d). member_of d (g_membership_id g) (g_tenant_id g))"

definition aligned_kept :: "session_role \<Rightarrow> db \<Rightarrow> db \<Rightarrow> bool" where
  "aligned_kept r d d' \<longleftrightarrow> (grants_aligned d \<longrightarrow> grants_aligned d')"

interpretation aligned: db_order aligned_kept
  by unfold_locales (auto simp: aligned_kept_def)

definition apart_from_grants :: "'r table \<Rightarrow> bool" where
  "apart_from_grants T \<longleftrightarrow> (\<forall>f d. t_memberships (rows_upd T f d) = t_memberships d \<and>
     t_grants (rows_upd T f d) = t_grants d)"

lemma apart_from_grants_simps [simp]:
  "apart_from_grants users" "apart_from_grants organizations"
  "apart_from_grants sessions" "apart_from_grants refresh_tokens" "apart_from_grants totp_secrets"
  "apart_from_grants recovery_codes" "apart_from_grants invitations" "apart_from_grants vaults"
  "apart_from_grants secrets" "apart_from_grants secret_versions" "apart_from_grants tenant_keys"
  "apart_from_grants audit_events" "apart_from_grants chain_heads"
  by (simp_all add: apart_from_grants_def)

lemma aligned_statements [framed_intros]:
  assumes "apart_from_grants T"
  shows "framed (within aligned_kept) (insert_row T row)"
    and "framed (within aligned_kept) (update_rows T p f)"
    and "framed (within aligned_kept) (delete_rows T p)"
    and "framed (within aligned_kept) (save_row T key row)"
  using assms
  by (auto simp: apart_from_grants_def aligned_kept_def grants_aligned_def member_of_def
      intro!: aligned.framed_insert_row aligned.framed_update_rows aligned.framed_delete_rows
      aligned.framed_save_row)

lemma aligned_own_tables [framed_intros]:
  "framed (within aligned_kept) (insert_row memberships m)"
  "framed (within aligned_kept) (delete_rows grants pg)"
  by (rule aligned.framed_insert_row,
      fastforce simp: aligned_kept_def grants_aligned_def member_of_def)
    (rule aligned.framed_delete_rows,
      auto simp: aligned_kept_def grants_aligned_def member_of_def delete_where_def)

lemma aligned_grant_update [framed_intros]:
  assumes "\<And>x. g_tenant_id (fg x) = g_tenant_id x \<and> g_id (fg x) = g_id x \<and>
    g_vault_id (fg x) = g_vault_id x \<and> g_membership_id (fg x) = g_membership_id x"
  shows "framed (within aligned_kept) (update_rows grants pg fg)"
  by (rule aligned.framed_update_rows)
    (auto simp: aligned_kept_def grants_aligned_def member_of_def update_where_def assms)

lemma aligned_insert:
  assumes "member_of (store w) (g_membership_id g) (g_tenant_id g)"
  shows "within aligned_kept w (snd (insert_row grants g w))"
  using assms
  by (auto simp: insert_row_def within_def aligned_kept_def grants_aligned_def member_of_def
      store_set_rows)

lemma snd_seq_ret: "snd (seq m (\<lambda>_. ret x) w) = snd (m w)"
  by (simp add: seq_def split: prod.split sum.split)

lemma aligned_upsert:
  assumes "member_of (store w) mid t"
  shows "within aligned_kept w (snd (grant_upsert t j mid p u w))"
proof (cases "row_where grants (\<lambda>g. g_vault_id g = j \<and> g_membership_id g = mid) w = None")
  case True
  define w1 where "w1 = w\<lparr>draws := Suc (draws w)\<rparr>"
  define g where "g = \<lparr>g_id = uuid_at (env w) (draws w), g_tenant_id = t, g_vault_id = j,
    g_membership_id = mid, g_permission = p, g_granted_by_user_id = u, g_created_at = tx_time w\<rparr>"
  have "snd (grant_upsert t j mid p u w) = snd (insert_row grants g w1)"
    using True by (simp add: grant_upsert_def seq_exists_one seq_fresh_uuid seq_server_now snd_seq_ret
        w1_def g_def)
  moreover have "within aligned_kept w1 (snd (insert_row grants g w1))"
    using assms by (intro aligned_insert) (simp add: w1_def g_def)
  moreover have "within aligned_kept w w1"
    by (simp add: w1_def within_outside aligned.D_refl)
  ultimately show ?thesis by (metis aligned.within_trans)
next
  case False
  let ?upd = "update_rows grants (\<lambda>g. g_vault_id g = j \<and> g_membership_id g = mid)
    (\<lambda>g. g\<lparr>g_permission := p, g_granted_by_user_id := u\<rparr>)"
  have "framed (within aligned_kept) ?upd"
    by (intro framed_intros) simp
  with False show ?thesis
    by (simp add: grant_upsert_def seq_exists_one snd_seq_ret framed_def)
qed

lemma member_row: "row_where memberships p w = Some m \<Longrightarrow> m \<in> set (t_memberships (store w)) \<and> p m"
  by (auto simp: row_where_def dest: find_Some_iff2)

lemma aligned_create_tail [framed_intros]:
  "framed (within aligned_kept) (seq (membership_get_membership_id u t) (\<lambda>mid. case mid of
     None \<Rightarrow> raise e | Some m \<Rightarrow> seq (grant_upsert t j m p u') (\<lambda>_. ret x)))"
proof (unfold framed_def, rule allI)
  fix w
  let ?row = "row_where memberships (\<lambda>m. m_user_id m = u \<and> m_tenant_id m = t) w"
  show "within aligned_kept w (snd (seq (membership_get_membership_id u t) (\<lambda>mid. case mid of
     None \<Rightarrow> raise e | Some m \<Rightarrow> seq (grant_upsert t j m p u') (\<lambda>_. ret x)) w))"
  proof (cases ?row)
    case (Some m)
    then have "within aligned_kept w (snd (grant_upsert t j (m_id m) p u' w))"
      by (intro aligned_upsert) (auto simp: member_of_def dest: member_row)
    with Some show ?thesis
      by (simp add: membership_get_membership_id_def seq_select_one snd_seq_ret)
  qed (simp add: membership_get_membership_id_def prog_simps aligned.within_refl)
qed

lemma aligned_grant_tail [framed_intros]:
  "framed (within aligned_kept) (seq (membership_get_membership_tenant mid) (\<lambda>target.
     if target \<noteq> Some t then raise e else grant_upsert t j mid p u))"
proof (unfold framed_def, rule allI)
  fix w
  let ?row = "row_where memberships (\<lambda>m. m_id m = mid) w"
  show "within aligned_kept w (snd (seq (membership_get_membership_tenant mid) (\<lambda>target.
     if target \<noteq> Some t then raise e else grant_upsert t j mid p u) w))"
  proof (cases "map_option m_tenant_id ?row = Some t")
    case True
    then have "member_of (store w) mid t" by (auto simp: member_of_def dest: member_row)
    from aligned_upsert [OF this] True show ?thesis
      by (auto simp: membership_get_membership_tenant_def seq_select_one aligned.within_refl)
  qed (simp add: membership_get_membership_tenant_def prog_simps aligned.within_refl)
qed

interpretation aligned: tenant_order aligned_kept
  by unfold_locales (auto simp: audit_repo_defs Let_def intro!: framed_intros)

interpretation aligned: vault_order aligned_kept
  by unfold_locales
    (auto simp: vault_service_create_def vault_service_upsert_grant_def intro!: framed_intros)

interpretation aligned: identity_order aligned_kept
  by unfold_locales
    (auto simp: user_set_mfa_enabled_def session_revoke_def session_touch_def refresh_mark_used_def
      totp_confirm_def recovery_redeem_for_update_def intro!: framed_intros)

text \<open>Removing a membership removes the grants that rest on it.\<close>

lemma member_remove_apply:
  "member_remove mid t w =
     (let removed = rows_where memberships (\<lambda>m. m_id m = mid \<and> m_tenant_id m = t) w
      in (Inr (removed \<noteq> []),
          w\<lparr>store := (store w)\<lparr>t_memberships := delete_where (\<lambda>m. seen memberships (db_role w) m \<and> m_id m = mid \<and> m_tenant_id m = t) (t_memberships (store w)),
              t_grants := delete_where (\<lambda>g. g_membership_id g \<in> m_id ` set removed) (t_grants (store w))\<rparr>\<rparr>))"
  by (simp add: member_remove_def cascade_grants_def prog_simps Let_def set_rows_def)

lemma member_remove_aligned:
  assumes "grants_aligned (store w)" and "member_remove mid t w = (r, w')"
  shows "grants_aligned (store w')"
proof -
  let ?p = "\<lambda>m. m_id m = mid \<and> m_tenant_id m = t"
  let ?removed = "rows_where memberships ?p w"
  have w': "store w' = (store w)\<lparr>t_memberships := delete_where (\<lambda>m. seen memberships (db_role w) m \<and> ?p m) (t_memberships (store w)),
      t_grants := delete_where (\<lambda>g. g_membership_id g \<in> m_id ` set ?removed) (t_grants (store w))\<rparr>"
    using assms(2) by (auto simp: member_remove_apply Let_def)
  show ?thesis
    unfolding grants_aligned_def
  proof
    fix g
    assume "g \<in> set (t_grants (store w'))"
    then have g: "g \<in> set (t_grants (store w))" "g_membership_id g \<notin> m_id ` set ?removed"
      by (simp_all add: w' delete_where_def)
    then obtain m where m: "m \<in> set (t_memberships (store w))" "m_id m = g_membership_id g"
        "m_tenant_id m = g_tenant_id g"
      using assms(1) by (auto simp: grants_aligned_def member_of_def)
    have "m \<notin> set ?removed"
    proof
      assume "m \<in> set ?removed"
      then have "m_id m \<in> m_id ` set ?removed" by (rule imageI)
      with g(2) m(2) show False by simp
    qed
    then have "m \<in> set (t_memberships (store w'))"
      using m(1) by (auto simp: w' delete_where_def rows_where_def)
    with m show "member_of (store w') (g_membership_id g) (g_tenant_id g)"
      by (auto simp: member_of_def)
  qed
qed

interpretation aligned: whole_order aligned_kept
proof unfold_locales
  show "aligned_kept r d d' = aligned_kept OwnerRole d d'" for r d d'
    by (simp add: aligned_kept_def)
  show "framed (within aligned_kept) (member_remove mid t)" for mid t
  proof (rule framedI)
    fix w r w'
    assume run: "member_remove mid t w = (r, w')"
    then have "db_role w' = db_role w" "committed w' = committed w"
      by (auto simp: member_remove_apply Let_def)
    with member_remove_aligned [OF _ run] show "within aligned_kept w w'"
      by (auto simp: within_def aligned_kept_def)
  qed
qed

lemma reachable_grants_aligned: "reachable dp w \<Longrightarrow> grants_aligned (committed w)"
  by (rule aligned.reachable_invariant) (auto simp: grants_aligned_def empty_db_def aligned_kept_def)

section \<open>Isolation of the organization's use cases\<close>

lemma member_remove_isolated:
  assumes "schema_ok (store w)" and "grants_aligned (store w)" and "member_remove mid t w = (r, w')"
    and "u \<noteq> t"
  shows "same_tenant u (store w) (store w')"
proof -
  let ?p = "\<lambda>m. m_id m = mid \<and> m_tenant_id m = t"
  let ?removed = "rows_where memberships ?p w"
  have w': "store w' = (store w)\<lparr>t_memberships := delete_where (\<lambda>m. seen memberships (db_role w) m \<and> ?p m) (t_memberships (store w)),
      t_grants := delete_where (\<lambda>g. g_membership_id g \<in> m_id ` set ?removed) (t_grants (store w))\<rparr>"
    using assms(3) by (auto simp: member_remove_apply Let_def)
  have "g_tenant_id g = t" if g: "g \<in> set (t_grants (store w))" "g_membership_id g \<in> m_id ` set ?removed" for g
  proof -
    from g(2) obtain m where m: "m \<in> set (t_memberships (store w))" "m_tenant_id m = t" "m_id m = g_membership_id g"
      by (auto simp: rows_where_def)
    from assms(2) g(1) obtain m' where m': "m' \<in> set (t_memberships (store w))"
        "m_id m' = g_membership_id g" "m_tenant_id m' = g_tenant_id g"
      by (auto simp: grants_aligned_def member_of_def)
    have "m = m'"
      by (rule unique_eq [of m_id "t_memberships (store w)"])
        (use assms(1) m m' in \<open>simp_all add: schema_ok_def\<close>)
    with m m' show ?thesis by simp
  qed
  then have "filter (\<lambda>g. g_tenant_id g = u) (t_grants (store w')) = filter (\<lambda>g. g_tenant_id g = u) (t_grants (store w))"
    using assms(4) by (auto simp: w' delete_where_def filter_filter intro!: filter_cong)
  moreover have "filter (\<lambda>m. m_tenant_id m = u) (t_memberships (store w')) = filter (\<lambda>m. m_tenant_id m = u) (t_memberships (store w))"
    using assms(4) by (auto simp: w' intro!: filter_delete_where)
  ultimately show ?thesis
    by (simp add: same_tenant_def tenant_rows_def w')
qed

lemma same_tenant_trans: "same_tenant u d1 d2 \<Longrightarrow> same_tenant u d2 d3 \<Longrightarrow> same_tenant u d1 d3"
  by (simp add: same_tenant_def)

lemma remove_member_isolated:
  assumes "schema_ok (committed w)" and "grants_aligned (committed w)"
    and run: "remove_member actor mid b w = (r, w')" and "u \<noteq> actor_tenant actor"
  shows "same_tenant u (committed w) (committed w')"
proof -
  let ?t = "actor_tenant actor" and ?svc = "org_service_remove_member actor mid b"
  let ?w0 = "uow_start (AppRole ?t) w"
  from run obtain w1 where w1: "seq ?svc (\<lambda>_. commit) ?w0 = (r, w1)" "committed w' = committed w1"
    unfolding remove_member_def with_tenant_uow_def by (rule with_uowE)
  obtain r2 w2 where svc: "?svc ?w0 = (r2, w2)" by fastforce
  have kept: "session_kept ?w0 w2" using org_services_kept(2) svc by (rule framedD)
  show ?thesis
  proof (cases r2)
    case (Inl e)
    with w1 svc kept show ?thesis
      by (simp add: seq_apply_Inl session_kept_def same_tenant_def)
  next
    case (Inr x)
    with w1 svc have cw: "committed w' = store w2"
      by (auto simp: seq_apply_Inr commit_def)
    from svc Inr obtain x0 w3 a tt tid oc md where del: "member_remove mid ?t ?w0 = (Inr x0, w3)"
      and rec: "record_event actor a tt tid oc md w3 = (Inr x, w2)"
      unfolding org_service_remove_member_def Let_def
      by (auto simp: seq_Inr_iff policy.require_org_decides member_get_by_id_def prog_simps seq_select_all
          split: if_splits option.splits)
    have "same_tenant u (committed w) (store w3)"
      using member_remove_isolated [OF _ _ del assms(4)] assms(1,2) by simp
    moreover have "db_role w3 = AppRole ?t"
      using del by (auto simp: member_remove_apply Let_def)
    then have "same_tenant u (store w3) (store w2)"
      using framedD [OF isolation_record rec] assms(4) by (simp add: within_def isolation_app)
    ultimately show ?thesis unfolding cw by (rule same_tenant_trans)
  qed
qed

lemma create_invitation_isolated:
  assumes "create_invitation ml actor e orole w = (r, w')"
  shows "isolation (AppRole (actor_tenant actor)) (committed w) (committed w')"
proof -
  let ?t = "actor_tenant actor"
  let ?check = "seq (idm_has_membership_for_email (normalize_email e)) (\<lambda>member.
        if member then raise invitation_failed else ret ())"
  let ?body = "seq (org_service_create_invitation ml actor e orole) (\<lambda>x. seq commit (\<lambda>_. ret (fst x)))"
  have un: "framed uncommitted ?check"
    unfolding idm_has_membership_for_email_def by (auto intro!: framed_intros)
  obtain r1 w1 where c: "with_identity_uow ?check w = (r1, w1)" by fastforce
  have same: "committed w1 = committed w"
    using c un unfolding with_identity_uow_def
    by (elim with_uowE) (auto dest: framedD simp: uncommitted_def)
  have "framed (across (isolation (AppRole ?t))) (with_tenant_uow ?t ?body)"
    by (auto intro!: framed_intros)
  with assms c same show ?thesis
    by (cases r1) (auto simp: create_invitation_def seq_apply_Inl seq_apply_Inr case_prod_unfold
        across_def isolation.D_refl dest: framedD)
qed

section \<open>The tenant a command acts in\<close>

definition acts_in :: "command \<Rightarrow> uuid option" where
  "acts_in c =
     (case c of
        CreateVault a _ _ \<Rightarrow> Some (actor_tenant a)
      | UpdateVault a _ _ _ _ \<Rightarrow> Some (actor_tenant a)
      | DeleteVault a _ _ \<Rightarrow> Some (actor_tenant a)
      | GrantAccess a _ _ _ \<Rightarrow> Some (actor_tenant a)
      | RevokeGrant a _ _ \<Rightarrow> Some (actor_tenant a)
      | ListGrants a _ \<Rightarrow> Some (actor_tenant a)
      | CreateSecret a _ _ _ _ \<Rightarrow> Some (actor_tenant a)
      | RevealSecret a _ _ _ \<Rightarrow> Some (actor_tenant a)
      | RotateSecret a _ _ _ \<Rightarrow> Some (actor_tenant a)
      | DeleteSecret a _ _ _ \<Rightarrow> Some (actor_tenant a)
      | CreateInvitation a _ _ \<Rightarrow> Some (actor_tenant a)
      | RevokeInvitation a _ \<Rightarrow> Some (actor_tenant a)
      | RemoveMember a _ _ \<Rightarrow> Some (actor_tenant a)
      | VerifyChain t \<Rightarrow> Some t
      | ListEvents a _ _ _ _ \<Rightarrow> Some (actor_tenant a)
      | _ \<Rightarrow> None)"

lemma discard_Pair: "discard m w = (r, w') \<Longrightarrow> \<exists>r0. m w = (r0, w')"
  by (auto simp: discard_def seq_def split: prod.splits sum.splits)

lemmas isolated_cases = isolation.vault_cases_framed isolation.secret_cases_framed
  isolation.org_cases_framed isolation.audit_cases_framed

lemma isolated_case:
  "framed (across (isolation (AppRole t))) m \<Longrightarrow> m w = (r, w') \<Longrightarrow> u \<noteq> t \<Longrightarrow>
     same_tenant u (committed w) (committed w')"
  using framedD by (fastforce simp: across_def isolation_app)

lemma command_isolated:
  assumes "schema_ok (committed w)" and "grants_aligned (committed w)"
    and "run_command dp c w = (r, w')" and "acts_in c = Some t" and "u \<noteq> t"
  shows "same_tenant u (committed w) (committed w')"
proof (cases c)
  case (CreateInvitation a e orole)
  then obtain r0 where "create_invitation (dp_mail dp) a e orole w = (r0, w')"
    using assms(3) by (auto dest: discard_Pair)
  with CreateInvitation assms(4,5) show ?thesis
    using create_invitation_isolated by (fastforce simp: acts_in_def isolation_app)
next
  case (RemoveMember a m b)
  with assms show ?thesis
    by (auto simp: acts_in_def intro: remove_member_isolated)
qed (use assms in \<open>auto simp: acts_in_def dest!: discard_Pair intro: isolated_case [OF isolated_cases(1)]
      isolated_case [OF isolated_cases(4)] isolated_case [OF isolated_cases(5)]
      isolated_case [OF isolated_cases(6)] isolated_case [OF isolated_cases(7)]
      isolated_case [OF isolated_cases(8)] isolated_case [OF isolated_cases(10)]
      isolated_case [OF isolated_cases(12)] isolated_case [OF isolated_cases(13)]
      isolated_case [OF isolated_cases(14)] isolated_case [OF isolated_cases(17)]
      isolated_case [OF isolated_cases(19)] isolated_case [OF isolated_cases(20)]\<close>)

end
