(* ===== verification/Secret_Laws.thy ===== *)
theory Secret_Laws
  imports Tenancy
begin

text \<open>
  What the secret service writes and reads back (\<open>domain/secrets/services.py\<close>): a version is sealed
  in the database when its cipher text and the wrapped key of its tenant decrypt to the plain
  text. Creating and rotating seal, no later command breaks a seal, and a reveal opens it.
\<close>

section \<open>What is sealed in the database\<close>

definition sealed :: "keyring \<Rightarrow> db \<Rightarrow> uuid \<Rightarrow> uuid \<Rightarrow> uuid \<Rightarrow> int \<Rightarrow> string \<Rightarrow> bool" where
  "sealed kr d t j sid n p \<longleftrightarrow>
     (\<exists>v \<in> set (t_secret_versions d). \<exists>k \<in> set (t_tenant_keys d). \<exists>dek.
        sv_tenant_id v = t \<and> sv_secret_id v = sid \<and> sv_version v = n \<and>
        tk_tenant_id k = t \<and> tk_version k = sv_dek_version v \<and> tk_wrapping_key_id k = KEY_ID \<and>
        aead_decrypt (kr_aead kr) (kr_kek kr) (tk_wrap_nonce k) (tk_wrapped_dek k)
          (dek_wrap_aad t (tk_version k)) = Some dek \<and>
        aead_decrypt (kr_aead kr) dek (sv_nonce v) (sv_ciphertext v) (secret_aad t j sid n) =
          Some (utf8_encode p))"

lemma sealed_kept: "sealed kr d t j sid n p \<Longrightarrow> material_kept r d d' \<Longrightarrow> sealed kr d' t j sid n p"
  unfolding sealed_def material_kept_def by (meson set_mono_prefix subsetD)

lemma row_where_mem: "row_where T p w = Some x \<Longrightarrow> x \<in> set (rows_of T (store w)) \<and> p x"
  by (auto simp: row_where_def dest: find_Some_iff2)

lemma sealed_by_insert:
  assumes "aead_roundtrip A" and "kr_aead kr = A" and "length dek = DEK_SIZE"
    and "row_where tenant_keys (\<lambda>k. tk_tenant_id k = t \<and> tk_status k = ''active'') w = Some k"
    and "tk_wrapping_key_id k = KEY_ID"
    and "aead_decrypt A (kr_kek kr) (tk_wrap_nonce k) (tk_wrapped_dek k) (dek_wrap_aad t (tk_version k)) = Some dek"
    and "t_secret_versions d = vs @ [v]" and "t_tenant_keys d = t_tenant_keys (store w)"
    and "sv_tenant_id v = t" and "sv_secret_id v = sid" and "sv_version v = n"
    and "sv_dek_version v = tk_version k" and "sv_nonce v = map f [0..<GCM_NONCE_SIZE]"
    and "sv_ciphertext v = aead_encrypt A dek (map f [0..<GCM_NONCE_SIZE]) (utf8_encode p) (secret_aad t j sid n)"
  shows "sealed kr d t j sid n p"
proof -
  have "k \<in> set (t_tenant_keys d)" and "tk_tenant_id k = t"
    using row_where_mem [OF assms(4)] assms(8) by simp_all
  moreover have "aead_decrypt A dek (sv_nonce v) (sv_ciphertext v) (secret_aad t j sid n) = Some (utf8_encode p)"
    using assms(1,3,13,14) by (simp add: aead_roundtrip_def DEK_SIZE_def GCM_NONCE_SIZE_def)
  ultimately show ?thesis
    using assms unfolding sealed_def by (intro bexI [of _ v] bexI [of _ k] exI [of _ dek]) simp_all
qed

lemmas secret_write_defs = require_vault_apply secret_add_def load_active_dek_def key_get_active_def
  kek_unwrap_def encrypt_secret_def version_add_def secret_get_active_for_update_def
  secret_update_current_version_def

lemma create_seals:
  assumes "aead_roundtrip (kr_aead kr)"
    and "secret_service_create kr u t j n p d w = (Inr view, w')"
  shows "sealed kr (store w') t j (sm_id view) 1 p"
  using assms
  by (auto simp: secret_service_create_def secret_write_defs prog_simps Let_def meta_def store_set_rows
      split: if_splits option.splits sum.splits elim!: sealed_by_insert)

lemma rotate_seals:
  assumes "aead_roundtrip (kr_aead kr)"
    and "secret_service_rotate kr u t j sid p w = (Inr (view, kv), w')"
  shows "sealed kr (store w') t j sid (sm_current_version view) p"
  using assms
  by (auto simp: secret_service_rotate_def secret_write_defs prog_simps Let_def meta_def store_set_rows
      active_secret_def
      split: if_splits option.splits sum.splits dest: row_where_mem elim!: sealed_by_insert)


lemma reveal_of_sealed:
  assumes "schema_ok (store w)" and "sealed kr (store w) t j sid n p"
    and "secret_service_reveal kr u t j sid ver w = (Inr (m, q, n), w')"
  shows "q = p"
proof -
  obtain v k dek where v: "v \<in> set (t_secret_versions (store w))" "sv_secret_id v = sid" "sv_version v = n"
    and k: "k \<in> set (t_tenant_keys (store w))" "tk_tenant_id k = t" "tk_version k = sv_dek_version v"
    and dek: "aead_decrypt (kr_aead kr) (kr_kek kr) (tk_wrap_nonce k) (tk_wrapped_dek k)
        (dek_wrap_aad t (tk_version k)) = Some dek"
    and p: "aead_decrypt (kr_aead kr) dek (sv_nonce v) (sv_ciphertext v) (secret_aad t j sid n) = Some (utf8_encode p)"
    using assms(2) by (auto simp: sealed_def)
  from assms(3) obtain v' k' dek' octets where
      v': "row_where secret_versions (version_row sid n t) w = Some v'"
    and k': "row_where tenant_keys (\<lambda>k. tk_tenant_id k = t \<and> tk_version k = sv_dek_version v') w = Some k'"
    and dek': "aead_decrypt (kr_aead kr) (kr_kek kr) (tk_wrap_nonce k') (tk_wrapped_dek k')
        (dek_wrap_aad t (sv_dek_version v')) = Some dek'"
    and o': "aead_decrypt (kr_aead kr) dek' (sv_nonce v') (sv_ciphertext v') (secret_aad t j sid (sv_version v')) = Some octets"
    and q: "utf8_decode octets = Some q"
    by (auto simp: secret_service_reveal_def require_vault_apply secret_get_active_def version_get_def
        load_dek_version_def key_get_by_version_def kek_unwrap_def decrypt_secret_def decode_def prog_simps
        Let_def active_secret_def
        dest: row_where_mem split: if_splits option.splits sum.splits)
  have "v' = v"
    by (rule unique_eq [of "\<lambda>v. (sv_secret_id v, sv_version v)" "t_secret_versions (store w)"])
      (use assms(1) v row_where_mem [OF v'] in \<open>simp_all add: schema_ok_def version_row_def\<close>)
  moreover have "k' = k"
    by (rule unique_eq [of "\<lambda>k. (tk_tenant_id k, tk_version k)" "t_tenant_keys (store w)"])
      (use assms(1) k row_where_mem [OF k'] \<open>v' = v\<close> in \<open>simp_all add: schema_ok_def\<close>)
  ultimately show ?thesis
    using dek dek' o' p q k v by simp
qed

section \<open>The use cases\<close>

lemma sealed_recorded:
  assumes "record_event actor a tt tid oc md wa = (Inr u, wb)" and "sealed kr (store wa) t j sid n p"
  shows "sealed kr (store wb) t j sid n p"
  using sealed_kept [OF assms(2)] framedD [OF material.record_events assms(1)]
  by (auto simp: within_def material_kept_def)

lemma create_secret_seals:
  assumes "aead_roundtrip (kr_aead kr)" and "create_secret kr actor j n p d w = (Inr view, w1)"
  shows "sealed kr (committed w1) (actor_tenant actor) j (sm_id view) 1 p"
  using assms(2) unfolding create_secret_def
  by (rule audited_returns) (auto dest: create_seals [OF assms(1)] intro: sealed_recorded)

lemma rotate_secret_seals:
  assumes "aead_roundtrip (kr_aead kr)" and "rotate_secret kr actor j sid p w = (Inr view, w1)"
  shows "sealed kr (committed w1) (actor_tenant actor) j sid (sm_current_version view) p"
  using assms(2) unfolding rotate_secret_def case_prod_unfold
proof (rule audited_returns)
  fix x wa u wb
  assume "secret_service_rotate kr (actor_user actor) (actor_tenant actor) j sid p
      (uow_start (AppRole (actor_tenant actor)) w) = (Inr x, wa)"
    and "view = fst x" and "committed w1 = store wb"
    and "record_event actor ''secret.rotated'' ''secret'' (Some sid) ''success''
      (Some [(''vault_id'', JStr (uuid_str j)), (''new_version'', JInt (sm_current_version (fst x))),
        (''dek_version'', JInt (snd x))]) wa = (Inr u, wb)"
  then show ?thesis
    by (cases x) (auto dest: rotate_seals [OF assms(1)] intro: sealed_recorded)
qed

lemma reveal_secret_sealed:
  assumes "schema_ok (committed w)" and "sealed kr (committed w) (actor_tenant actor) j sid n p"
    and "reveal_secret kr actor j sid ver w = (Inr (m, q, n), w1)"
  shows "q = p"
  using assms(3) unfolding reveal_secret_def case_prod_unfold
proof (rule audited_returns)
  fix x wa u wb
  assume "secret_service_reveal kr (actor_user actor) (actor_tenant actor) j sid ver
      (uow_start (AppRole (actor_tenant actor)) w) = (Inr x, wa)"
    and "(m, q, n) = (fst x, fst (snd x), snd (snd x))"
  then show "q = p"
    using assms(1,2) reveal_of_sealed [where w = "uow_start (AppRole (actor_tenant actor)) w"] by auto
qed

text \<open>Right after it was created, a secret can be revealed by whoever created it.\<close>

lemma write_role_reveals:
  "vault_decision live r u t j SECRET_WRITE = Inr ctx \<Longrightarrow> vault_decision live r u t j SECRET_REVEAL = Inr ctx"
  by (cases r; cases "the r") (auto simp: vault_decision_def split: if_splits)

lemma find_snoc_absent:
  assumes "absent key (key r) rows" and "\<And>x. q x \<Longrightarrow> key x = key r" and "q r"
  shows "find q (rows @ [r]) = Some r"
proof -
  have "find q rows = None"
    using assms(1,2) unfolding absent_def find_None_iff by (metis imageI)
  with assms(3) show ?thesis by simp
qed

text \<open>The rows a successful creation has written.\<close>

lemma create_writes:
  assumes "secret_service_create kr u t j n p d w = (Inr view, wa)"
  obtains ctx s v k dek where
    "vault_decision (vault_live w j t) (role_in w u t) u t j SECRET_WRITE = Inr ctx"
    and "store wa = (store w)\<lparr>t_secrets := t_secrets (store w) @ [s],
      t_secret_versions := t_secret_versions (store w) @ [v]\<rparr>"
    and "absent s_id (s_id s) (t_secrets (store w))" and "active_secret (s_id s) j t s"
    and "s_current_version s = 1" and "meta s = view"
    and "absent (\<lambda>v. (sv_secret_id v, sv_version v)) (s_id s, 1) (t_secret_versions (store w))"
    and "version_row (s_id s) 1 t v" and "sv_dek_version v = tk_version k"
    and "k \<in> set (t_tenant_keys (store w))" and "tk_tenant_id k = t"
    and "tk_wrapping_key_id k = KEY_ID" and "length dek = DEK_SIZE"
    and "aead_decrypt (kr_aead kr) (kr_kek kr) (tk_wrap_nonce k) (tk_wrapped_dek k)
      (dek_wrap_aad t (tk_version k)) = Some dek"
    and "length (sv_nonce v) = GCM_NONCE_SIZE"
    and "sv_ciphertext v = aead_encrypt (kr_aead kr) dek (sv_nonce v) (utf8_encode p) (secret_aad t j (s_id s) 1)"
proof -
  let ?s = "\<lparr>s_id = uuid_at (env w) (draws w), s_tenant_id = t, s_vault_id = j, s_name = n,
    s_description = d, s_current_version = 1, s_created_by_user_id = u, s_created_at = tx_time w,
    s_updated_at = tx_time w, s_deleted_at = None\<rparr>"
  let ?nonce = "map (byte_at (env w) (Suc (draws w))) [0..<GCM_NONCE_SIZE]"
  let ?v = "\<lambda>k dek. \<lparr>sv_id = uuid_at (env w) (Suc (Suc (draws w))), sv_tenant_id = t,
    sv_secret_id = s_id ?s, sv_version = 1,
    sv_ciphertext = aead_encrypt (kr_aead kr) dek ?nonce (utf8_encode p) (secret_aad t j (s_id ?s) 1),
    sv_nonce = ?nonce, sv_dek_version = tk_version k, sv_created_by_user_id = u,
    sv_created_at = tx_time w\<rparr>"
  from assms obtain ctx k dek where
    ctx: "vault_decision (vault_live w j t) (role_in w u t) u t j SECRET_WRITE = Inr ctx"
    and adm: "admits secrets (store w) ?s"
    and k: "row_where tenant_keys (\<lambda>k. tk_tenant_id k = t \<and> tk_status k = ''active'')
      (set_rows secrets (\<lambda>rows. rows @ [?s]) (w\<lparr>draws := Suc (draws w)\<rparr>)) = Some k"
    and dek: "tk_wrapping_key_id k = KEY_ID" "aead_decrypt (kr_aead kr) (kr_kek kr) (tk_wrap_nonce k)
      (tk_wrapped_dek k) (dek_wrap_aad t (tk_version k)) = Some dek" "length dek = DEK_SIZE"
    and adv: "admits secret_versions (t_secrets_update (\<lambda>rows. rows @ [?s]) (store w)) (?v k dek)"
    and res: "view = meta ?s" "store wa = (store w)\<lparr>t_secrets := t_secrets (store w) @ [?s],
      t_secret_versions := t_secret_versions (store w) @ [?v k dek]\<rparr>"
    by (auto simp: secret_service_create_def secret_write_defs prog_simps Let_def store_set_rows
        split: if_splits option.splits sum.splits)
  show thesis
    by (rule that [where ctx = ctx and s = ?s and v = "?v k dek" and k = k and dek = dek])
      (use ctx adm row_where_mem [OF k] dek adv res in
        \<open>simp_all add: secrets_def secret_versions_def active_secret_def version_row_def store_set_rows\<close>)
qed

lemma create_then_reveal_service:
  assumes "aead_roundtrip (kr_aead kr)" and "schema_ok (store w)" and "db_role w = AppRole t"
    and "secret_service_create kr u t j n p d w = (Inr view, wa)"
    and "db_role w0 = AppRole t" and "ledger_only r (store wa) (store w0)"
  shows "secret_service_reveal kr u t j (sm_id view) None w0 = (Inr (view, p, 1), w0)"
proof -
  have eq: "store w0 = (store wa)\<lparr>t_audit_events := t_audit_events (store w0), t_chain_heads := t_chain_heads (store w0)\<rparr>"
    using assms(6) by (simp add: ledger_only_def)
  have tabs: "t_vaults (store w0) = t_vaults (store wa)" "t_memberships (store w0) = t_memberships (store wa)"
    "t_secrets (store w0) = t_secrets (store wa)" "t_secret_versions (store w0) = t_secret_versions (store wa)"
    "t_tenant_keys (store w0) = t_tenant_keys (store wa)"
    by (subst eq, simp)+
  from assms(4) obtain ctx s v k dek where
    ctx: "vault_decision (vault_live w j t) (role_in w u t) u t j SECRET_WRITE = Inr ctx"
    and st: "store wa = (store w)\<lparr>t_secrets := t_secrets (store w) @ [s],
      t_secret_versions := t_secret_versions (store w) @ [v]\<rparr>"
    and s: "absent s_id (s_id s) (t_secrets (store w))" "active_secret (s_id s) j t s"
      "s_current_version s = 1" "meta s = view"
    and v: "absent (\<lambda>v. (sv_secret_id v, sv_version v)) (s_id s, 1) (t_secret_versions (store w))"
      "version_row (s_id s) 1 t v" "sv_dek_version v = tk_version k"
    and k: "k \<in> set (t_tenant_keys (store w))" "tk_tenant_id k = t" "tk_wrapping_key_id k = KEY_ID"
    and dek: "length dek = DEK_SIZE" "aead_decrypt (kr_aead kr) (kr_kek kr) (tk_wrap_nonce k)
      (tk_wrapped_dek k) (dek_wrap_aad t (tk_version k)) = Some dek"
    and ct: "length (sv_nonce v) = GCM_NONCE_SIZE" "sv_ciphertext v =
      aead_encrypt (kr_aead kr) dek (sv_nonce v) (utf8_encode p) (secret_aad t j (s_id s) 1)"
    by (rule create_writes)
  have allowed: "vault_decision (vault_live w0 j t) (role_in w0 u t) u t j SECRET_REVEAL = Inr ctx"
    using write_role_reveals [OF ctx] assms(3,5) tabs st
    by (simp add: vault_live_def role_in_def row_where_def)
  have sid: "sm_id view = s_id s" using s(4) by (auto simp: meta_def)
  have "find (\<lambda>x. seen secrets (AppRole t) x \<and> active_secret (s_id s) j t x) (t_secrets (store w) @ [s]) = Some s"
    using s(1,2) by (intro find_snoc_absent [of s_id]) (auto simp: active_secret_def seen_def visible_def)
  then have row_s: "row_where secrets (active_secret (s_id s) j t) w0 = Some s"
    using assms(5) tabs(3) st by (simp add: row_where_def del: find_append)
  have "find (\<lambda>x. seen secret_versions (AppRole t) x \<and> version_row (s_id s) 1 t x)
      (t_secret_versions (store w) @ [v]) = Some v"
    using v(1,2) by (intro find_snoc_absent [of "\<lambda>v. (sv_secret_id v, sv_version v)"])
      (auto simp: version_row_def seen_def visible_def)
  then have row_v: "row_where secret_versions (version_row (s_id s) 1 t) w0 = Some v"
    using assms(5) tabs(4) st by (simp add: row_where_def del: find_append)
  have row_k: "row_where tenant_keys (\<lambda>x. tk_tenant_id x = t \<and> tk_version x = tk_version k) w0 = Some k"
  proof -
    have "find (\<lambda>x. (tk_tenant_id x, tk_version x) = (tk_tenant_id k, tk_version k)) (t_tenant_keys (store w0)) = Some k"
      using assms(2) k tabs(5) st by (intro unique_find) (simp_all add: schema_ok_def)
    then show ?thesis
      using assms(5) k(2) by (auto simp: row_where_def seen_def visible_def cong: conj_cong)
  qed
  have "aead_decrypt (kr_aead kr) dek (sv_nonce v) (sv_ciphertext v) (secret_aad t j (s_id s) 1) = Some (utf8_encode p)"
    using assms(1) dek(1) ct by (simp add: aead_roundtrip_def DEK_SIZE_def GCM_NONCE_SIZE_def)
  then show ?thesis
    using allowed row_s row_v row_k v dek k s sid
    by (simp add: secret_service_reveal_def require_vault_apply secret_get_active_def version_get_def
        load_dek_version_def key_get_by_version_def kek_unwrap_def decrypt_secret_def decode_def prog_simps
        version_row_def)
qed

end
