(* ===== verification/Demo_Jwt.thy ===== *)
theory Demo_Jwt
  imports Tokens
begin

text \<open>
  A JWT codec for the witnesses: the payload in a prefix code, in front of it the depth its
  decoder needs. It satisfies what theory Tokens assumes of PyJWT.
\<close>

section \<open>A prefix code for JSON\<close>

definition put_nat :: "nat \<Rightarrow> string" where
  "put_nat n = nat_str n @ ''.''"

definition put_str :: "string \<Rightarrow> string" where
  "put_str s = put_nat (length s) @ s"

fun put_json :: "json \<Rightarrow> string" where
  "put_json JNull = ''n''"
| "put_json (JBool b) = (if b then ''t'' else ''f'')"
| "put_json (JInt i) = (if i < 0 then ''-'' @ put_nat (nat (- i)) else ''+'' @ put_nat (nat i))"
| "put_json (JStr s) = ''s'' @ put_str s"
| "put_json (JList xs) = ''l'' @ put_nat (length xs) @ concat (map put_json xs)"
| "put_json (JObj kvs) =
     ''o'' @ put_nat (length kvs) @ concat (map (\<lambda>(k, v). put_str k @ put_json v) kvs)"

definition get_nat :: "string \<Rightarrow> nat \<times> string" where
  "get_nat s = (decimal_value (takeWhile is_digit s), drop 1 (dropWhile is_digit s))"

definition get_str :: "string \<Rightarrow> string \<times> string" where
  "get_str s = (let (n, r) = get_nat s in (take n r, drop n r))"

fun get_json :: "nat \<Rightarrow> string \<Rightarrow> json \<times> string"
  and get_items :: "nat \<Rightarrow> nat \<Rightarrow> string \<Rightarrow> json list \<times> string"
  and get_fields :: "nat \<Rightarrow> nat \<Rightarrow> string \<Rightarrow> (string \<times> json) list \<times> string" where
  "get_json 0 s = (JNull, s)"
| "get_json (Suc f) s =
     (case s of
        [] \<Rightarrow> (JNull, [])
      | c # r \<Rightarrow>
          if c = CHR ''t'' then (JBool True, r)
          else if c = CHR ''f'' then (JBool False, r)
          else if c = CHR ''-'' then (let (n, r1) = get_nat r in (JInt (- int n), r1))
          else if c = CHR ''+'' then (let (n, r1) = get_nat r in (JInt (int n), r1))
          else if c = CHR ''s'' then (let (t, r1) = get_str r in (JStr t, r1))
          else if c = CHR ''l'' then
            (let (n, r1) = get_nat r; (xs, r2) = get_items f n r1 in (JList xs, r2))
          else if c = CHR ''o'' then
            (let (n, r1) = get_nat r; (kvs, r2) = get_fields f n r1 in (JObj kvs, r2))
          else (JNull, r))"
| "get_items f 0 s = ([], s)"
| "get_items 0 (Suc n) s = ([], s)"
| "get_items (Suc f) (Suc n) s =
     (let (x, r) = get_json f s; (xs, r1) = get_items f n r in (x # xs, r1))"
| "get_fields f 0 s = ([], s)"
| "get_fields 0 (Suc n) s = ([], s)"
| "get_fields (Suc f) (Suc n) s =
     (let (k, r) = get_str s; (v, r1) = get_json f r; (kvs, r2) = get_fields f n r1
      in ((k, v) # kvs, r2))"

fun depth :: "json \<Rightarrow> nat" where
  "depth (JList xs) = Suc (sum_list (map (\<lambda>x. Suc (depth x)) xs))"
| "depth (JObj kvs) = Suc (sum_list (map (\<lambda>(k, v). Suc (depth v)) kvs))"
| "depth _ = 1"

lemma get_put_nat [simp]: "get_nat (put_nat n @ r) = (n, r)"
proof -
  have "takeWhile is_digit (nat_str n @ CHR ''.'' # r) = nat_str n"
    and "dropWhile is_digit (nat_str n @ CHR ''.'' # r) = CHR ''.'' # r"
    using nat_str_digits by (simp_all add: takeWhile_append2 dropWhile_append2 is_digit_def)
  then show ?thesis by (simp add: get_nat_def put_nat_def)
qed

lemma get_put_str [simp]: "get_str (put_str s @ r) = (s, r)"
  by (simp add: get_str_def put_str_def)

lemma get_put_items:
  assumes "\<And>y f r. y \<in> set ys \<Longrightarrow> depth y \<le> f \<Longrightarrow> get_json f (put_json y @ r) = (y, r)"
    and "sum_list (map (\<lambda>x. Suc (depth x)) ys) \<le> g"
  shows "get_items g (length ys) (concat (map put_json ys) @ r) = (ys, r)"
  using assms
proof (induction ys arbitrary: g)
  case (Cons y ys)
  then obtain g' where g: "g = Suc g'" by (cases g) auto
  have "get_items g' (length ys) (concat (map put_json ys) @ r) = (ys, r)"
    using Cons g by (intro Cons.IH) auto
  moreover have "get_json g' (put_json y @ concat (map put_json ys) @ r) = (y, concat (map put_json ys) @ r)"
    using Cons.prems g by simp
  ultimately show ?case by (simp add: g)
qed simp

lemma get_put_fields:
  assumes "\<And>k v f r. (k, v) \<in> set ys \<Longrightarrow> depth v \<le> f \<Longrightarrow> get_json f (put_json v @ r) = (v, r)"
    and "sum_list (map (\<lambda>(k, v). Suc (depth v)) ys) \<le> g"
  shows "get_fields g (length ys) (concat (map (\<lambda>(k, v). put_str k @ put_json v) ys) @ r) = (ys, r)"
  using assms
proof (induction ys arbitrary: g)
  case (Cons y ys)
  obtain k v where y: "y = (k, v)" by fastforce
  let ?t = "concat (map (\<lambda>(k, v). put_str k @ put_json v) ys) @ r"
  from Cons.prems(2) y obtain g' where g: "g = Suc g'" by (cases g) auto
  have "get_fields g' (length ys) ?t = (ys, r)"
  proof (rule Cons.IH)
    show "get_json f (put_json v @ r) = (v, r)" if "(k, v) \<in> set ys" "depth v \<le> f" for k v f r
      using that by (intro Cons.prems(1)) auto
    show "sum_list (map (\<lambda>(k, v). Suc (depth v)) ys) \<le> g'"
      using Cons.prems(2) g y by simp
  qed
  moreover have "get_json g' (put_json v @ ?t) = (v, ?t)"
    using Cons.prems(2) g y by (intro Cons.prems(1) [of k v]) auto
  ultimately show ?case by (simp add: g y)
qed simp

lemma get_put_json: "depth j \<le> f \<Longrightarrow> get_json f (put_json j @ r) = (j, r)"
proof (induction j arbitrary: f r)
  case (JList xs)
  then obtain g where f: "f = Suc g" by (cases f) auto
  have "get_items g (length xs) (concat (map put_json xs) @ r) = (xs, r)"
    using JList f by (intro get_put_items) auto
  then show ?case by (simp add: f)
next
  case (JObj kvs)
  then obtain g where f: "f = Suc g" by (cases f) auto
  have "get_fields g (length kvs) (concat (map (\<lambda>(k, v). put_str k @ put_json v) kvs) @ r) = (kvs, r)"
  proof (rule get_put_fields)
    show "get_json f (put_json v @ r) = (v, r)" if "(k, v) \<in> set kvs" "depth v \<le> f" for k v f r
      using JObj.IH [OF that(1), of v] that(2) by simp
    show "sum_list (map (\<lambda>(k, v). Suc (depth v)) kvs) \<le> g"
      using JObj.prems f by simp
  qed
  then show ?case by (simp add: f)
next
  case (JBool b)
  then show ?case by (cases f) auto
next
  case (JInt i)
  then show ?case by (cases f) auto
next
  case (JStr t)
  then show ?case by (cases f) auto
next
  case JNull
  then show ?case by (cases f) auto
qed

definition demo_jwt :: jwt where
  "demo_jwt =
     \<lparr>jwt_encode = (\<lambda>p. put_nat (depth (JObj p)) @ put_json (JObj p)),
      jwt_decode = (\<lambda>token issuer audience required t.
        let (f, r) = get_nat token
        in case get_json f r of
             (JObj p, _) \<Rightarrow> if jwt_valid p issuer audience required t then Some p else None
           | _ \<Rightarrow> None)\<rparr>"

lemma demo_jwt_ok: "jwt_ok demo_jwt"
  using get_put_json [of "JObj p" "depth (JObj p)" "[]" for p]
  by (simp add: jwt_ok_def demo_jwt_def del: depth.simps put_json.simps)

end
