(* ===== verification/Demo.thy ===== *)
theory Demo
  imports Tenancy Demo_Jwt
begin

text \<open>
  Concrete instances of everything the model leaves to the outside, used by the witnesses: an
  authenticated cipher, a password hash, a JWT codec, the sorted sets of Redis, a clock and a
  random source, and small databases. They satisfy the documented behaviour the properties
  assume of the real packages.
\<close>

section \<open>AES-GCM\<close>

text \<open>A cipher text that carries the associated data in front, with its length in unary.\<close>

definition demo_aead :: aead where
  "demo_aead =
     \<lparr>aead_encrypt = (\<lambda>k n p a. replicate (length a) 1 @ [0] @ a @ p),
      aead_decrypt = (\<lambda>k n c a.
        let m = length (takeWhile (\<lambda>b. b = 1) c); r = drop (Suc m) c
        in if take m r = a then Some (drop m r) else None)\<rparr>"

lemma takeWhile_ones: "takeWhile (\<lambda>b. b = 1) (replicate n 1 @ 0 # xs) = replicate n (1 :: byte)"
  by (induction n) auto

lemma demo_aead_roundtrip: "aead_roundtrip demo_aead"
  by (simp add: aead_roundtrip_def demo_aead_def takeWhile_ones Let_def)

lemma demo_aead_binds: "aead_binds demo_aead"
  by (simp add: aead_binds_def demo_aead_def takeWhile_ones Let_def)

definition demo_keyring :: keyring where
  "demo_keyring = \<lparr>kr_aead = demo_aead, kr_kek = replicate 32 7\<rparr>"

section \<open>Argon2, pyotp, Redis, mail\<close>

definition demo_argon :: argon2 where
  "demo_argon = \<lparr>argon2_hash = (\<lambda>p salt. ''$'' @ p), argon2_verify = (\<lambda>h q. Some (h = ''$'' @ q))\<rparr>"

lemma demo_argon_ok: "argon2_ok demo_argon"
  by (auto simp: argon2_ok_def demo_argon_def)

definition demo_totp :: pyotp where
  "demo_totp = \<lparr>random_base32 = (\<lambda>bs. ''JBSWY3DPEHPK3PXP''), totp_uri = (\<lambda>seed name issuer. ''otpauth:'' @ name),
     totp_verify = (\<lambda>seed code window t. code = ''123456'')\<rparr>"

definition demo_redis :: redis where
  "demo_redis = \<lparr>zremrangebyscore = (\<lambda>z a b. filter (\<lambda>e. \<not> (a \<le> snd e \<and> snd e \<le> b)) z), zcard = length,
     zadd = (\<lambda>z m s. filter (\<lambda>e. fst e \<noteq> m) z @ [(m, s)]),
     zrem = (\<lambda>z m. filter (\<lambda>e. fst e \<noteq> m) z), round_trip_fails = (\<lambda>_. False)\<rparr>"

lemma demo_redis_ok: "zset_ok demo_redis"
  by (simp add: zset_ok_def demo_redis_def)

definition demo_mail :: mailer where
  "demo_mail = \<lparr>ml_refuses = (\<lambda>_ _. False), ml_invite_base_url = ''https://vault.example/accept/''\<rparr>"

section \<open>Tokens\<close>

definition demo_tokens :: token_service where
  "demo_tokens = \<lparr>tk_settings = \<lparr>jwt_issuer = ''vaultlog'', jwt_audience = ''vaultlog-api'',
      access_token_ttl_seconds = 600, challenge_token_ttl_seconds = 300,
      step_up_token_ttl_seconds = 300\<rparr>, tk_jwt = demo_jwt\<rparr>"

section \<open>A deployment and its first worlds\<close>

definition demo_auth :: auth_env where
  "demo_auth = \<lparr>au_tokens = demo_tokens, au_redis = demo_redis,
     au_seeds = \<lparr>se_aead = demo_aead, se_kek = replicate 32 9\<rparr>, au_totp = demo_totp,
     au_argon = demo_argon, au_refresh_ttl_days = 30\<rparr>"

definition demo_deployment :: deployment where
  "demo_deployment = \<lparr>dp_auth = demo_auth, dp_keys = demo_keyring, dp_mail = demo_mail\<rparr>"

definition demo_env :: environment where
  "demo_env = \<lparr>tick = (\<lambda>n. 1700000000000000 + int n), uuid_at = (\<lambda>n. of_nat (1000 + n)),
     byte_at = (\<lambda>n i. of_nat (n + i)), collation = map of_char\<rparr>"

definition world_of :: "db \<Rightarrow> world" where
  "world_of d = \<lparr>store = d, committed = d, db_role = OwnerRole, tx_time = 0, env = demo_env,
     draws = 0, zsets = (\<lambda>_. []), outbox = []\<rparr>"

text \<open>The first user to register gets these identifiers from the demo's random source.\<close>

definition demo_actor :: actor_context where
  "demo_actor = \<lparr>actor_user = 1002, actor_session = 2, actor_tenant = 1003\<rparr>"

definition demo_after :: "command list \<Rightarrow> world" where
  "demo_after cs = foldl (\<lambda>w c. snd (run_command demo_deployment c w)) (world_of empty_db) cs"

lemma demo_reachable: "reachable demo_deployment (demo_after cs)"
proof -
  have step: "reachable demo_deployment (snd (run_command demo_deployment c w))"
    if "reachable demo_deployment w" for c w
    using that prod.collapse by (metis reachable.step)
  have "reachable demo_deployment (foldl (\<lambda>w c. snd (run_command demo_deployment c w)) w cs)"
    if "reachable demo_deployment w" for w
    using that by (induction cs arbitrary: w) (simp_all add: step)
  moreover have "reachable demo_deployment (world_of empty_db)"
    by (rule reachable.start) (simp add: initial_def world_of_def)
  ultimately show ?thesis by (simp add: demo_after_def)
qed

lemma demo_ledger_ok: "ledger_ok (committed (world_of empty_db)) t"
  by (simp add: ledger_ok_def world_of_def events_in_def head_in_def empty_db_def)

section \<open>An organization with a vault\<close>

definition demo_owner :: actor_context where
  "demo_owner = \<lparr>actor_user = 1, actor_session = 2, actor_tenant = 3\<rparr>"

definition base_key :: tenant_key_version where
  "base_key = \<lparr>tk_tenant_id = 3, tk_version = 1,
     tk_wrapped_dek = aead_encrypt demo_aead (replicate 32 7) (replicate 12 0) (replicate 32 5) (dek_wrap_aad 3 1),
     tk_wrap_nonce = replicate 12 0, tk_wrapping_key_id = KEY_ID, tk_status = ''active''\<rparr>"

definition base_db :: db where
  "base_db = empty_db\<lparr>
     t_users := [\<lparr>u_id = 1, u_email = ''a@b'', u_password_hash = ''$long enough pw'', u_is_active = True,
       u_mfa_enabled = False\<rparr>],
     t_organizations := [\<lparr>o_id = 3, o_name = ''Org''\<rparr>],
     t_memberships := [\<lparr>m_id = 11, m_tenant_id = 3, m_user_id = 1, m_role = OWNER, m_created_at = 0\<rparr>],
     t_vaults := [\<lparr>v_id = 9, v_tenant_id = 3, v_name = ''prod'', v_description = None,
       v_created_by_user_id = 1, v_created_at = 0, v_updated_at = 0, v_deleted_at = None\<rparr>],
     t_tenant_keys := [base_key]\<rparr>"

lemma base_db_tables [simp]:
  "t_sessions base_db = []" "t_refresh_tokens base_db = []" "t_totp_secrets base_db = []"
  "t_recovery_codes base_db = []" "t_invitations base_db = []" "t_grants base_db = []"
  "t_secrets base_db = []" "t_secret_versions base_db = []" "t_tenant_keys base_db = [base_key]"
  "t_audit_events base_db = []" "t_chain_heads base_db = []"
  "t_organizations base_db = [\<lparr>o_id = 3, o_name = ''Org''\<rparr>]"
  "map v_id (t_vaults base_db) = [9]"
  by (simp_all add: base_db_def empty_db_def)

lemma base_key_simps [simp]:
  "tk_tenant_id base_key = 3" "tk_version base_key = 1" "tk_wrapping_key_id base_key = KEY_ID"
  "tk_status base_key = ''active''"
  "aead_decrypt demo_aead (replicate 32 7) (tk_wrap_nonce base_key) (tk_wrapped_dek base_key) (dek_wrap_aad 3 1) =
     Some (replicate 32 5)"
  using demo_aead_roundtrip by (simp_all add: base_key_def aead_roundtrip_def)

lemma base_schema_ok: "schema_ok (committed (world_of base_db))"
  by (simp add: schema_ok_def base_db_def world_of_def empty_db_def unique_def)

lemma base_ledger_ok: "ledger_ok (committed (world_of base_db)) t"
  by (simp add: ledger_ok_def world_of_def events_in_def head_in_def base_db_def empty_db_def)

lemma world_of_simps [simp]:
  "store (world_of d) = d" "committed (world_of d) = d" "env (world_of d) = demo_env"
  "draws (world_of d) = 0" "db_role (world_of d) = OwnerRole"
  by (simp_all add: world_of_def)

lemma demo_env_simps [simp]:
  "tick demo_env n = 1700000000000000 + int n" "uuid_at demo_env n = of_nat (1000 + n)"
  by (simp_all add: demo_env_def)

lemma base_owner_may:
  "db_role w = AppRole 3 \<Longrightarrow> t_vaults (store w) = t_vaults base_db \<Longrightarrow>
     t_memberships (store w) = t_memberships base_db \<Longrightarrow>
     \<exists>ctx. vault_decision (vault_live w 9 3) (role_in w 1 3) 1 3 9 a = Inr ctx"
  by (simp add: vault_decision_def vault_live_def role_in_def row_where_def seen_def visible_def
      base_db_def live_vault_row_def)

lemma base_service_create:
  "\<exists>view wa. secret_service_create demo_keyring 1 3 9 ''db'' ''hunter2'' None
      (uow_start (AppRole 3) (world_of base_db)) = (Inr view, wa) \<and>
    db_role wa = AppRole 3 \<and> t_audit_events (store wa) = [] \<and> t_chain_heads (store wa) = [] \<and>
    present o_id 3 (t_organizations (store wa)) \<and> sm_id view = 1001"
proof -
  let ?w = "uow_start (AppRole 3) (world_of base_db)"
  obtain ctx where ctx: "vault_decision (vault_live ?w 9 3) (role_in ?w 1 3) 1 3 9 SECRET_WRITE = Inr ctx"
    using base_owner_may [of ?w] by auto
  have v: "9 \<in> v_id ` set (t_vaults base_db)"
    using base_db_tables(13) by (metis list.set_intros(1) list.set_map)
  show ?thesis
    using v
    by (simp add: secret_service_create_def require_vault_apply ctx secret_add_def load_active_dek_def
        key_get_active_def kek_unwrap_def encrypt_secret_def version_add_def prog_simps Let_def
        seen_def visible_def secrets_def secret_versions_def row_where_def demo_keyring_def DEK_SIZE_def
        absent_def present_def set_rows_def meta_def)
qed

lemma base_create:
  "\<exists>view w1. create_secret demo_keyring demo_owner 9 ''db'' ''hunter2'' None (world_of base_db) = (Inr view, w1)"
proof -
  obtain view wa where svc: "secret_service_create demo_keyring 1 3 9 ''db'' ''hunter2'' None
      (uow_start (AppRole 3) (world_of base_db)) = (Inr view, wa)"
    and wa: "db_role wa = AppRole 3" "t_audit_events (store wa) = []" "t_chain_heads (store wa) = []"
      "present o_id 3 (t_organizations (store wa))"
    using base_service_create by blast
  have "\<exists>wb. record_event demo_owner ''secret.created'' ''secret'' (Some (sm_id view)) ''success''
      (Some [(''vault_id'', JStr (uuid_str 9))]) wa = (Inr (), wb)"
    by (rule first_record [of _ _ _ 3])
      (simp_all add: wa demo_owner_def audit_actions_def offending_keys_def forbidden_metadata_keys_def
        str_lower_def lower_char_def)
  then obtain wb where rec: "record_event demo_owner ''secret.created'' ''secret'' (Some (sm_id view)) ''success''
      (Some [(''vault_id'', JStr (uuid_str 9))]) wa = (Inr (), wb)" by blast
  have svc': "secret_service_create demo_keyring (actor_user demo_owner) (actor_tenant demo_owner) 9 ''db''
      ''hunter2'' None (uow_start (AppRole (actor_tenant demo_owner)) (world_of base_db)) = (Inr view, wa)"
    using svc by (simp add: demo_owner_def)
  from audited_runs [where actor = demo_owner and w = "world_of base_db" and g = "\<lambda>view. view"
      and svc = "secret_service_create demo_keyring (actor_user demo_owner) (actor_tenant demo_owner) 9 ''db''
        ''hunter2'' None"
      and rec = "\<lambda>view. record_event demo_owner ''secret.created'' ''secret'' (Some (sm_id view)) ''success''
        (Some [(''vault_id'', JStr (uuid_str 9))])", OF svc' rec]
  show ?thesis
    unfolding create_secret_def by blast
qed

end
