(* ===== verification/Secret_Guarantees.thy ===== *)
theory Secret_Guarantees
  imports Secret_Laws Demo
begin

text \<open>
  What the secret use cases (\<open>application/secrets/use_cases.py\<close>) guarantee, with AES-GCM a parameter
  of which only the documented behaviour is assumed: decryption under the same key, nonce and
  associated data inverts encryption, and other associated data is rejected.
\<close>

section \<open>What is revealed is what was stored\<close>

lemma reveal_later:
  assumes "schema_ok (committed w1)" and "sealed (dp_keys dp) (committed w1) (actor_tenant reader) j sid n p"
  shows "case fst (reveal_secret (dp_keys dp) reader j sid ver (run_all dp cs w1)) of
      Inr (m, q, k) \<Rightarrow> k = n \<longrightarrow> q = p | Inl _ \<Rightarrow> True"
proof -
  have ok: "schema_ok (committed (run_all dp cs w1))"
    using schema.run_all_across [where dp = dp and cs = cs and w = w1] assms(1) by (simp add: schema_kept_def)
  have sealed: "sealed (dp_keys dp) (committed (run_all dp cs w1)) (actor_tenant reader) j sid n p"
    by (rule sealed_kept [OF assms(2) material.run_all_across])
  obtain r w2 where run: "reveal_secret (dp_keys dp) reader j sid ver (run_all dp cs w1) = (r, w2)"
    by fastforce
  show ?thesis
    using reveal_secret_sealed [OF ok sealed] run by (cases r) auto
qed

lemma command_schema_ok:
  "run_command dp c w = (r, w') \<Longrightarrow> schema_ok (committed w) \<Longrightarrow> schema_ok (committed w')"
  using schema.command_across by (simp add: schema_kept_def)



text \<open>The same for a rotation: the version it wrote keeps the new plain text for good.\<close>

theorem rotated_secret_keeps_its_value:
  assumes "aead_roundtrip (kr_aead (dp_keys dp))" and "schema_ok (committed w)"
    and "rotate_secret (dp_keys dp) actor j sid p w = (Inr view, w1)"
    and "actor_tenant reader = actor_tenant actor"
  shows "case fst (reveal_secret (dp_keys dp) reader j sid ver (run_all dp cs w1)) of
      Inr (m, q, k) \<Rightarrow> k = sm_current_version view \<longrightarrow> q = p | Inl _ \<Rightarrow> True"
proof (rule reveal_later)
  have "run_command dp (RotateSecret actor j sid p) w = (Inr (), w1)"
    using assms(3) by (simp add: discard_def seq_apply_Inr)
  then show "schema_ok (committed w1)" using assms(2) by (rule command_schema_ok)
  show "sealed (dp_keys dp) (committed w1) (actor_tenant reader) j sid (sm_current_version view) p"
    using rotate_secret_seals [OF assms(1,3)] assms(4) by simp
qed

definition stored_secret :: secret where
  "stored_secret = \<lparr>s_id = 20, s_tenant_id = 3, s_vault_id = 9, s_name = ''db'', s_description = None,
     s_current_version = 1, s_created_by_user_id = 1, s_created_at = 0, s_updated_at = 0,
     s_deleted_at = None\<rparr>"

definition secret_db :: db where
  "secret_db = base_db\<lparr>t_secrets := [stored_secret]\<rparr>"

lemma secret_db_tables [simp]:
  "t_secrets secret_db = [stored_secret]" "t_vaults secret_db = t_vaults base_db"
  "t_memberships secret_db = t_memberships base_db" "t_organizations secret_db = t_organizations base_db"
  "t_secret_versions secret_db = []" "t_tenant_keys secret_db = [base_key]"
  "t_audit_events secret_db = []" "t_chain_heads secret_db = []"
  by (simp_all add: secret_db_def)

lemma secret_db_ok: "schema_ok (committed (world_of secret_db))"
  using base_schema_ok by (simp add: schema_ok_def secret_db_def unique_def)

lemma secret_rotates:
  "\<exists>view w1. rotate_secret demo_keyring demo_owner 9 20 ''correct horse'' (world_of secret_db) = (Inr view, w1)"
proof -
  let ?w = "uow_start (AppRole 3) (world_of secret_db)"
  let ?md = "\<lambda>x. Some [(''vault_id'', JStr (uuid_str 9)), (''new_version'', JInt (sm_current_version (fst x))),
    (''dek_version'', JInt (snd x))]"
  let ?rec = "\<lambda>x. record_event demo_owner ''secret.rotated'' ''secret'' (Some 20) ''success'' (?md x)"
  obtain ctx where ctx: "vault_decision (vault_live ?w 9 3) (role_in ?w 1 3) 1 3 9 SECRET_WRITE = Inr ctx"
    using base_owner_may [of ?w] by auto
  have v: "9 \<in> v_id ` set (t_vaults base_db)"
    using base_db_tables(13) by (metis list.set_intros(1) list.set_map)
  have "\<exists>x wa. secret_service_rotate demo_keyring 1 3 9 20 ''correct horse'' ?w = (Inr x, wa) \<and>
    db_role wa = AppRole 3 \<and> t_audit_events (store wa) = [] \<and> t_chain_heads (store wa) = [] \<and>
    present o_id 3 (t_organizations (store wa))"
    using v
    by (simp add: secret_service_rotate_def secret_write_defs ctx prog_simps Let_def
        seen_def visible_def secrets_def secret_versions_def row_where_def demo_keyring_def DEK_SIZE_def
        absent_def present_def set_rows_def active_secret_def tenant_secret_def stored_secret_def
        delete_where_def update_where_def)
  then obtain x wa where svc: "secret_service_rotate demo_keyring (actor_user demo_owner)
      (actor_tenant demo_owner) 9 20 ''correct horse'' (uow_start (AppRole (actor_tenant demo_owner)) (world_of secret_db)) = (Inr x, wa)"
    and wa: "db_role wa = AppRole 3" "t_audit_events (store wa) = []" "t_chain_heads (store wa) = []"
      "present o_id 3 (t_organizations (store wa))"
    by (auto simp: demo_owner_def)
  have "\<exists>wb. ?rec x wa = (Inr (), wb)"
    by (rule first_record [of _ _ _ 3])
      (simp_all add: wa demo_owner_def audit_actions_def offending_keys_def forbidden_metadata_keys_def
        str_lower_def lower_char_def)
  then obtain wb where rec: "?rec x wa = (Inr (), wb)" by blast
  from audited_runs [where actor = demo_owner and w = "world_of secret_db" and g = fst and rec = ?rec
      and svc = "secret_service_rotate demo_keyring (actor_user demo_owner) (actor_tenant demo_owner) 9 20
        ''correct horse''", OF svc rec]
  show ?thesis
    unfolding rotate_secret_def case_prod_unfold by blast
qed

theorem rotated_secret_keeps_its_value_witness:
  "\<exists>view w1. rotate_secret demo_keyring demo_owner 9 20 ''correct horse'' (world_of secret_db) = (Inr view, w1) \<and>
    (case fst (reveal_secret demo_keyring demo_owner 9 20 None
        (run_all demo_deployment [RotateSecret demo_owner 9 20 ''other''] w1)) of
      Inr (m, q, k) \<Rightarrow> k = sm_current_version view \<longrightarrow> q = ''correct horse'' | Inl _ \<Rightarrow> True)"
proof -
  have kr: "dp_keys demo_deployment = demo_keyring" by (simp add: demo_deployment_def)
  obtain view w1 where c: "rotate_secret demo_keyring demo_owner 9 20 ''correct horse'' (world_of secret_db) = (Inr view, w1)"
    using secret_rotates by blast
  have "aead_roundtrip (kr_aead demo_keyring)" by (simp add: demo_keyring_def demo_aead_roundtrip)
  from rotated_secret_keeps_its_value [where dp = demo_deployment, unfolded kr, OF this secret_db_ok c refl] c
  show ?thesis by blast
qed

section \<open>A created secret can be revealed\<close>

text \<open>
  C35. A reveal right after the creation, by the same actor, returns the view and the plain text
  as version 1. The only thing that can still stop it is a constraint of the ledger that the
  recording of the reveal runs into (a clash of its random identifier or of its hash).
\<close>

theorem reveal_follows_create:
  assumes "aead_roundtrip (kr_aead kr)" and "schema_ok (committed w)"
    and "create_secret kr actor j n p d w = (Inr view, w1)"
  shows "fst (reveal_secret kr actor j (sm_id view) None w1) \<in> {Inr (view, p, 1), Inl (System IntegrityError)}"
proof -
  let ?t = "actor_tenant actor" and ?u = "actor_user actor"
  let ?w0 = "uow_start (AppRole ?t) w1"
  from assms(3) obtain wa u wb where
      svc: "secret_service_create kr ?u ?t j n p d (uow_start (AppRole ?t) w) = (Inr view, wa)"
    and rec: "record_event actor ''secret.created'' ''secret'' (Some (sm_id view)) ''success''
      (Some [(''vault_id'', JStr (uuid_str j))]) wa = (Inr u, wb)"
    and w1: "committed w1 = store wb"
    unfolding create_secret_def by (rule audited_returns) blast
  have "ledger_only (AppRole ?t) (store wa) (store ?w0)"
    using framedD [OF ledger_only_record rec] w1 by (simp add: within_def ledger_only_def)
  then have reveal: "secret_service_reveal kr ?u ?t j (sm_id view) None ?w0 = (Inr (view, p, 1), ?w0)"
    using assms(2) by (intro create_then_reveal_service [OF assms(1) _ _ svc]) simp_all
  let ?rec = "record_event actor ''secret.revealed'' ''secret'' (Some (sm_id view)) ''success''
    (Some [(''vault_id'', JStr (uuid_str j)), (''version'', JInt 1)])"
  obtain r2 w2 where run: "?rec ?w0 = (r2, w2)" by fastforce
  have clash: "e = System IntegrityError" if "r2 = Inl e" for e
    by (rule record_event_clash [OF _ _ _ run [unfolded that]])
      (simp_all add: sees_tenant_def visible_def audit_actions_def offending_keys_def
        forbidden_metadata_keys_def str_lower_def lower_char_def)
  show ?thesis
    using reveal run clash
    by (cases r2) (auto simp: reveal_secret_def recording_denials_def catch_def with_tenant_uow_def
        with_uow_apply seq_apply_Inr seq_apply_Inl seq_commit)
qed

theorem reveal_follows_create_witness:
  "\<exists>view w1. create_secret demo_keyring demo_owner 9 ''db'' ''hunter2'' None (world_of base_db) = (Inr view, w1) \<and>
    fst (reveal_secret demo_keyring demo_owner 9 (sm_id view) None w1) \<in>
      {Inr (view, ''hunter2'', 1), Inl (System IntegrityError)}"
proof -
  obtain view w1 where c: "create_secret demo_keyring demo_owner 9 ''db'' ''hunter2'' None (world_of base_db) = (Inr view, w1)"
    using base_create by blast
  have "aead_roundtrip (kr_aead demo_keyring)" by (simp add: demo_keyring_def demo_aead_roundtrip)
  from reveal_follows_create [OF this base_schema_ok c] c show ?thesis by blast
qed

section \<open>A cipher text is bound to its place\<close>

lemma secret_aad_inject:
  "secret_aad t j s n = secret_aad t' j' s' n' \<longleftrightarrow> t = t' \<and> j = j' \<and> s = s' \<and> n = n'"
proof -
  have "int_str n = int_str n' \<longleftrightarrow> n = n'"
    using int_str_unique [of n "[]" n' "[]"] by auto
  then show ?thesis by (simp add: secret_aad_def)
qed



end
