(* ===== verification/Access_Laws.thy ===== *)
theory Access_Laws
  imports Demo
begin

text \<open>
  What the access policy decides: the branching code of \<open>PolicyService\<close> is the documented
  permission matrix, grants do not enter the decision, and the capabilities shown to the user
  interface are the decisions the gates take.
\<close>

section \<open>The policy is the matrix\<close>

text \<open>
  C15. On the repositories, \<open>require_vault\<close> is the pure decision over the documented matrix: the
  liveness of the vault, then the role, give the context or the error, and nothing is changed.
\<close>

theorem vault_access_is_the_matrix:
  "require_vault policy user_id tenant_id vault_id a w =
     (vault_decision (vault_live w vault_id tenant_id) (role_in w user_id tenant_id)
        user_id tenant_id vault_id a, w)"
  by (rule policy.require_vault_decides)

text \<open>A provider that answers the two grant ports differently.\<close>

lemma other_grants_read:
  "policy_reads (policy\<lparr>get_permission := g, list_vault_ids_for_user := l\<rparr>) role_in vault_live"
  by unfold_locales (simp_all add: policy.get_role_reads policy.exists_active_reads)

text \<open>
  C39. Vault grants do not enter any decision: whatever the grant table answers, access to a vault
  and the list of accessible vaults are the same.
\<close>

theorem grants_never_decide:
  "require_vault (policy\<lparr>get_permission := g, list_vault_ids_for_user := l\<rparr>) u t v a w =
     require_vault policy u t v a w \<and>
   list_accessible_vault_ids (policy\<lparr>get_permission := g, list_vault_ids_for_user := l\<rparr>) u t w =
     list_accessible_vault_ids policy u t w"
  by (simp add: policy_reads.require_vault_decides [OF other_grants_read]
      policy_reads.list_accessible_unrestricted [OF other_grants_read]
      policy.require_vault_decides policy.list_accessible_unrestricted)

section \<open>Stronger roles\<close>

text \<open>
  Privileges are monotone: if a member may perform an action on a vault, then in any world
  where the vault is live and the member's role is at least as strong, it still may.
\<close>

theorem stronger_role_may_as_much:
  assumes "require_vault policy u t v a w = (Inr ctx, w1)"
    and "role_in w' u' t = Some r" and "role_strength (ac_role ctx) \<le> role_strength r"
    and "vault_live w' v t"
  shows "\<exists>ctx'. require_vault policy u' t v a w' = (Inr ctx', w') \<and> ac_role ctx' = r"
proof -
  from assms(1) have "vault_matrix (ac_role ctx) a"
    by (auto simp: policy.require_vault_decides vault_decision_def split: if_splits option.splits)
  with assms(3) have "vault_matrix r a" by (rule vault_matrix_mono [rotated])
  with assms(2,4) show ?thesis
    by (simp add: policy.require_vault_decides vault_decision_def)
qed

section \<open>Capabilities\<close>

text \<open>
  The capabilities the current-user view advertises are exactly what the gates decide for
  the caller's role: the organization-level flags are the outcome of \<open>require_org\<close>, and writing
  secrets is the outcome of \<open>require_vault\<close> on every live vault.
\<close>

theorem capabilities_agree_with_gates:
  assumes "role_in w u t = Some r" and "vault_live w v t"
  defines "may \<equiv> (\<lambda>a. \<exists>c. require_org policy u t a w = (Inr c, w))"
  shows "org_capabilities_for_role r =
    \<lparr>can_create_vaults = may VAULT_CREATE,
     can_write_secrets = (\<exists>c. require_vault policy u t v SECRET_WRITE w = (Inr c, w)),
     can_manage_members = may MEMBER_REMOVE, can_manage_invitations = may MEMBER_INVITE,
     can_read_audit = may AUDIT_READ\<rparr>"
  using assms(1,2)
  by (cases r) (simp_all add: may_def org_capabilities_for_role_def policy.require_org_decides org_decision_def
      policy.require_vault_decides vault_decision_def org_allows_def)

section \<open>The witnesses\<close>

definition two_members :: world where
  "two_members = (world_of base_db)\<lparr>store := base_db\<lparr>t_memberships :=
     t_memberships base_db @ [\<lparr>m_id = 12, m_tenant_id = 3, m_user_id = 7, m_role = MEMBER, m_created_at = 0\<rparr>]\<rparr>\<rparr>"

lemma two_members_simps [simp]:
  "role_in two_members 1 3 = Some OWNER" "role_in two_members 7 3 = Some MEMBER"
  "vault_live two_members 9 3"
  by (simp_all add: two_members_def role_in_def vault_live_def row_where_def seen_def visible_def
      base_db_def live_vault_row_def)

theorem stronger_role_may_as_much_witness:
  "\<exists>ctx'. require_vault policy 1 3 9 SECRET_REVEAL two_members = (Inr ctx', two_members) \<and> ac_role ctx' = OWNER"
proof -
  have "require_vault policy 7 3 9 SECRET_REVEAL two_members =
    (Inr \<lparr>ac_user_id = 7, ac_tenant_id = 3, ac_role = MEMBER, ac_vault_permission = Some PERM_WRITE\<rparr>, two_members)"
    by (simp add: policy.require_vault_decides vault_decision_def)
  from stronger_role_may_as_much [OF this two_members_simps(1)] show ?thesis by simp
qed

theorem capabilities_agree_with_gates_witness:
  "can_write_secrets (org_capabilities_for_role MEMBER) =
     (\<exists>c. require_vault policy 7 3 9 SECRET_WRITE two_members = (Inr c, two_members))"
  using capabilities_agree_with_gates [OF two_members_simps(2,3)] by simp

end
