(* ===== verification/Token_Laws.thy ===== *)
theory Token_Laws
  imports Demo
begin

text \<open>
  What the signed tokens of \<open>tokens.py\<close> guarantee: a token that was minted is accepted as long as
  it lives, as what it was minted for and nothing else.
\<close>

lemmas token_defs = mint_access_token_def mint_challenge_token_def mint_step_up_token_def
  verify_access_token_def verify_challenge_token_def verify_step_up_token_def decode_token_def

lemmas token_payloads = access_payload_def challenge_payload_def step_up_payload_def

definition clock :: "world \<Rightarrow> time" where
  "clock w = tick (env w) (draws w)"

definition invalid_token :: exn where
  "invalid_token = Identity (TokenValidationError ''Invalid token'')"

lemma clock_world_of [simp]: "clock (world_of d) = 1700000000000000"
  by (simp add: clock_def)

text \<open>When a token minted at \<open>t0\<close> to live \<open>ttl\<close> seconds is alive at \<open>t\<close>.\<close>

definition alive :: "time \<Rightarrow> int \<Rightarrow> time \<Rightarrow> bool" where
  "alive t0 ttl t \<longleftrightarrow> seconds (timestamp t0) \<le> t \<and> t < seconds (timestamp (t0 + seconds ttl))"

lemma map_filter_JStr [simp]:
  "List.map_filter (\<lambda>j. case j of JStr s \<Rightarrow> Some s | _ \<Rightarrow> None) (map JStr xs) = xs"
  by (induction xs) (simp_all add: List.map_filter_def)

lemma demo_tokens_ok: "jwt_ok (tk_jwt demo_tokens)"
  by (simp add: demo_tokens_def demo_jwt_ok)

section \<open>Access tokens\<close>

text \<open>
  C23. Round trip of access tokens: at every moment, verifying a minted access token gives back
  user, tenant, session and authentication methods while it lives, and raises
  \<open>TokenValidationError\<close> before and after.
\<close>

theorem access_token_roundtrip:
  assumes "jwt_ok (tk_jwt ts)" and "mint_access_token ts u t s amr w = (Inr tok, w1)"
  shows "fst (verify_access_token ts tok w2) =
    (if alive (clock w) (access_token_ttl_seconds (tk_settings ts)) (clock w2)
     then Inr \<lparr>cl_user_id = u, cl_tenant_id = t, cl_session_id = s, cl_amr = amr\<rparr>
     else Inl invalid_token)"
  using assms
  by (auto simp: token_defs token_payloads jwt_ok_def jwt_valid_def not_expired_def claim_before_def
      uuid_claim_def amr_claim_def alive_def clock_def invalid_token_def prog_simps)

theorem access_token_roundtrip_witness:
  "\<exists>tok w1. mint_access_token demo_tokens 1 3 2 [''pwd''] (world_of empty_db) = (Inr tok, w1) \<and>
     fst (verify_access_token demo_tokens tok w1) =
       Inr \<lparr>cl_user_id = 1, cl_tenant_id = 3, cl_session_id = 2, cl_amr = [''pwd'']\<rparr>"
proof -
  obtain tok w1 where mint: "mint_access_token demo_tokens 1 3 2 [''pwd''] (world_of empty_db) = (Inr tok, w1)"
    and w1: "clock w1 = 1700000000000002"
    by (simp add: mint_access_token_def prog_simps clock_def)
  have "alive (clock (world_of empty_db)) (access_token_ttl_seconds (tk_settings demo_tokens)) (clock w1)"
    by (simp add: w1 alive_def timestamp_def seconds_def micros_per_second_def demo_tokens_def)
  with access_token_roundtrip [OF demo_tokens_ok mint, of w1] mint show ?thesis by simp
qed

section \<open>Three kinds of token\<close>

text \<open>
  C29. A token is of no use for what it was not minted for: the access gate refuses challenge and
  step-up tokens, the second login step refuses access tokens and step-up tokens of every other
  purpose, and the step-up gate refuses access and challenge tokens, at any time.
\<close>

theorem tokens_not_interchangeable:
  assumes "jwt_ok (tk_jwt ts)" and "mint_access_token ts u t s amr wa = (Inr access, wa')"
    and "mint_challenge_token ts u wc = (Inr challenge, wc')"
    and "mint_step_up_token ts u s purpose wp = (Inr elevated, wp')"
  shows "fst (verify_access_token ts challenge w) = Inl invalid_token \<and>
    fst (verify_access_token ts elevated w) = Inl invalid_token \<and>
    fst (verify_challenge_token ts access w) = Inl invalid_token \<and>
    fst (verify_step_up_token ts access u s purpose w) = Inl invalid_token \<and>
    fst (verify_step_up_token ts challenge u s purpose w) = Inl invalid_token \<and>
    (purpose \<noteq> ''mfa-challenge'' \<longrightarrow> fst (verify_challenge_token ts elevated w) = Inl invalid_token)"
  using assms
  by (auto simp: token_defs token_payloads jwt_ok_def jwt_valid_def invalid_token_def prog_simps)

theorem tokens_not_interchangeable_witness:
  "\<exists>elevated wp. mint_step_up_token demo_tokens 1 2 ''vault.delete'' (world_of empty_db) = (Inr elevated, wp) \<and>
     fst (verify_challenge_token demo_tokens elevated wp) = Inl invalid_token"
proof -
  obtain access wa where a: "mint_access_token demo_tokens 1 3 2 [] (world_of empty_db) = (Inr access, wa)"
    by (simp add: mint_access_token_def prog_simps)
  obtain challenge wc where c: "mint_challenge_token demo_tokens 1 (world_of empty_db) = (Inr challenge, wc)"
    by (simp add: mint_challenge_token_def prog_simps)
  obtain elevated wp where p: "mint_step_up_token demo_tokens 1 2 ''vault.delete'' (world_of empty_db) = (Inr elevated, wp)"
    by (simp add: mint_step_up_token_def prog_simps)
  from tokens_not_interchangeable [OF demo_tokens_ok a c p, of wp] p show ?thesis by auto
qed

section \<open>Step-up tokens\<close>

text \<open>
  A step-up token proves the second factor for one user, one session and one purpose: the gate
  lets it pass exactly when all three are those it was minted with and it is alive.
\<close>

theorem step_up_token_is_bound:
  assumes "jwt_ok (tk_jwt ts)" and "mint_step_up_token ts u s purpose w = (Inr tok, w1)"
  shows "fst (verify_step_up_token ts tok u' s' purpose' w2) =
    (if alive (clock w) (step_up_token_ttl_seconds (tk_settings ts)) (clock w2) \<and>
        u' = u \<and> s' = s \<and> purpose' = purpose
     then Inr () else Inl invalid_token)"
  using assms
  by (auto simp: token_defs token_payloads jwt_ok_def jwt_valid_def not_expired_def claim_before_def
      uuid_claim_def alive_def clock_def invalid_token_def prog_simps)

theorem step_up_token_is_bound_witness:
  "\<exists>tok w1. mint_step_up_token demo_tokens 1 2 ''vault.delete'' (world_of empty_db) = (Inr tok, w1) \<and>
     fst (verify_step_up_token demo_tokens tok 1 2 ''secret.delete'' w1) = Inl invalid_token \<and>
     fst (verify_step_up_token demo_tokens tok 1 2 ''vault.delete'' w1) = Inr ()"
proof -
  obtain tok w1 where mint: "mint_step_up_token demo_tokens 1 2 ''vault.delete'' (world_of empty_db) = (Inr tok, w1)"
    and w1: "clock w1 = 1700000000000002"
    by (simp add: mint_step_up_token_def prog_simps clock_def)
  have "alive (clock (world_of empty_db)) (step_up_token_ttl_seconds (tk_settings demo_tokens)) (clock w1)"
    by (simp add: w1 alive_def timestamp_def seconds_def micros_per_second_def demo_tokens_def)
  with step_up_token_is_bound [OF demo_tokens_ok mint, of _ _ _ w1] mint show ?thesis by simp
qed

end
