(* ===== verification/Session_Laws.thy ===== *)
theory Session_Laws
  imports Token_Laws
begin

text \<open>
  The life of a session: refresh tokens rotate and work once, a token used twice ends its session,
  and a session that ended stays so.
\<close>

lemma owner_row_where: "db_role w = OwnerRole \<Longrightarrow> row_where T p w = find p (rows_of T (store w))"
  by (simp add: row_where_def seen_def visible_def)

lemma owner_seen: "db_role w = OwnerRole \<Longrightarrow> seen T (db_role w) r"
  by (simp add: seen_def visible_def)

definition refused :: exn where
  "refused = auth_failed ''Invalid refresh token''"

definition revoked_session :: "uuid \<Rightarrow> db \<Rightarrow> bool" where
  "revoked_session sid d \<longleftrightarrow> (\<exists>s \<in> set (t_sessions d). as_id s = sid \<and> as_revoked_at s \<noteq> None)"

definition token_row :: "string \<Rightarrow> uuid \<Rightarrow> db \<Rightarrow> bool" where
  "token_row tok sid d \<longleftrightarrow>
     (\<exists>r \<in> set (t_refresh_tokens d). rt_token_hash r = hash_refresh_token tok \<and> rt_session_id r = sid)"

definition used_token :: "string \<Rightarrow> uuid \<Rightarrow> db \<Rightarrow> bool" where
  "used_token tok sid d \<longleftrightarrow>
     (\<exists>r \<in> set (t_refresh_tokens d). rt_token_hash r = hash_refresh_token tok \<and> rt_session_id r = sid \<and>
        rt_used_at r \<noteq> None)"

lemma revoked_ages: "identity_ages r d d' \<Longrightarrow> revoked_session sid d \<Longrightarrow> revoked_session sid d'"
  unfolding identity_ages_def revoked_session_def session_ages_def by metis

lemma token_row_ages: "identity_ages r d d' \<Longrightarrow> token_row tok sid d \<Longrightarrow> token_row tok sid d'"
  unfolding identity_ages_def token_row_def token_ages_def by metis

lemma used_ages: "identity_ages r d d' \<Longrightarrow> used_token tok sid d \<Longrightarrow> used_token tok sid d'"
  unfolding identity_ages_def used_token_def token_ages_def by metis

lemma token_found:
  assumes "schema_ok d" and "r \<in> set (t_refresh_tokens d)" and "rt_token_hash r = h"
  shows "find (\<lambda>x. rt_token_hash x = h) (t_refresh_tokens d) = Some r"
  using assms unique_find [of rt_token_hash "t_refresh_tokens d" r] by (simp add: schema_ok_def)

lemma token_row_unique:
  assumes "schema_ok d" and "token_row tok a d" and "token_row tok b d"
  shows "a = b"
  using assms(2,3) token_found [OF assms(1)] unfolding token_row_def by (metis option.inject)

lemma session_found:
  assumes "schema_ok d" and "s \<in> set (t_sessions d)"
  shows "find (\<lambda>x. as_id x = as_id s) (t_sessions d) = Some s"
  using assms unique_find [of as_id "t_sessions d" s] by (simp add: schema_ok_def)

text \<open>The use case from the service: an authentication error is raised after the commit.\<close>

lemma refresh_case_refused:
  assumes "refresh au tok (uow_start OwnerRole w) = (Inl (auth_failed m), w1)"
  shows "\<exists>w'. refresh_tokens_case au tok w = (Inl (auth_failed m), w') \<and> committed w' = store w1"
  using assms
  by (simp add: refresh_tokens_case_def with_identity_uow_def seq_def with_uow_apply catch_def
      auth_failed_def commit_def)

lemma refresh_case_succeeds:
  assumes "refresh_tokens_case au tok w = (Inr pair, w')"
  obtains w1 where "refresh au tok (uow_start OwnerRole w) = (Inr pair, w1)" and "committed w' = store w1"
  using assms
  by (auto simp: refresh_tokens_case_def with_identity_uow_def seq_def with_uow_apply catch_def commit_def
      split: prod.splits sum.splits exn.splits identity_error.splits)

lemmas refresh_run = refresh_def refresh_get_by_hash_for_update_def session_get_def session_revoke_def
  prog_simps owner_row_where

lemma seq_generate_refresh_token [prog_simps]:
  "seq generate_refresh_token f w =
     f (b64url (map (byte_at (env w) (draws w)) [0..<48])) (w\<lparr>draws := Suc (draws w)\<rparr>)"
  by (simp add: generate_refresh_token_def token_urlsafe_def seq_urandom del: seq_Pair_Inr)

lemma update_where_snoc:
  "update_where p f (xs @ [x]) = update_where p f xs @ [if p x then f x else x]"
  by (simp add: update_where_def)

lemma admits_refresh:
  "admits refresh_tokens d r \<longleftrightarrow> absent rt_id (rt_id r) (t_refresh_tokens d) \<and>
     absent rt_token_hash (rt_token_hash r) (t_refresh_tokens d) \<and>
     present as_id (rt_session_id r) (t_sessions d)"
  by (simp add: refresh_tokens_def)

lemma updated_member: "x \<in> set xs \<Longrightarrow> p x \<Longrightarrow> f x \<in> set (update_where p f xs)"
  by (force simp: update_where_def)

text \<open>A token of a revoked session is refused.\<close>

lemma refresh_of_revoked:
  assumes "schema_ok (committed w)" and "token_row tok sid (committed w)"
    and "revoked_session sid (committed w)"
  shows "\<exists>w'. refresh_tokens_case au tok w = (Inl refused, w') \<and> committed w' = committed w"
proof -
  from assms(2) obtain r where r: "r \<in> set (t_refresh_tokens (committed w))"
    "rt_token_hash r = hash_refresh_token tok" "rt_session_id r = sid" by (auto simp: token_row_def)
  from assms(3) obtain s where s: "s \<in> set (t_sessions (committed w))" "as_id s = sid"
    "as_revoked_at s \<noteq> None" by (auto simp: revoked_session_def)
  have "\<exists>w1. refresh au tok (uow_start OwnerRole w) = (Inl refused, w1) \<and> store w1 = committed w"
    using token_found [OF assms(1) r(1,2)] session_found [OF assms(1) s(1)] r(3) s(2,3)
    by (simp add: refresh_run refused_def)
  then show ?thesis
    unfolding refused_def using refresh_case_refused by metis
qed

text \<open>A token that was used ends its session.\<close>

lemma refresh_of_used:
  assumes "schema_ok (committed w)" and "used_token tok sid (committed w)"
    and "s \<in> set (t_sessions (committed w))" and "as_id s = sid"
  shows "\<exists>w'. refresh_tokens_case au tok w = (Inl refused, w') \<and> revoked_session sid (committed w')"
proof -
  from assms(2) obtain r where r: "r \<in> set (t_refresh_tokens (committed w))"
    "rt_token_hash r = hash_refresh_token tok" "rt_session_id r = sid" "rt_used_at r \<noteq> None"
    by (auto simp: used_token_def)
  have "\<exists>w1. refresh au tok (uow_start OwnerRole w) = (Inl refused, w1) \<and> revoked_session sid (store w1)"
    using token_found [OF assms(1) r(1,2)] session_found [OF assms(1,3)] r(3,4) assms(3,4)
    by (cases "as_revoked_at s")
      (auto simp: refresh_run refused_def revoked_session_def store_set_rows seen_def visible_def
        intro!: bexI [OF _ updated_member [of s]])
  then show ?thesis
    unfolding refused_def using refresh_case_refused by metis
qed

lemma refresh_succeeds:
  assumes "refresh_tokens_case au tok w = (Inr pair, w')"
  obtains r s t new where "r \<in> set (t_refresh_tokens (committed w))" and "rt_token_hash r = hash_refresh_token tok"
    and "s \<in> set (t_sessions (committed w))" and "as_id s = rt_session_id r" and "as_revoked_at s = None"
    and "rt_used_at r = None" and "t < rt_expires_at r"
    and "rt_token_hash new = hash_refresh_token (tp_refresh pair)" and "rt_session_id new = as_id s"
    and "rt_used_at new = None" and "rt_id new \<notin> rt_id ` set (t_refresh_tokens (committed w))"
    and "rt_token_hash new \<notin> rt_token_hash ` set (t_refresh_tokens (committed w))"
    and "t_refresh_tokens (committed w') = update_where (\<lambda>x. rt_id x = rt_id r)
          (\<lambda>x. x\<lparr>rt_used_at := Some t, rt_replaced_by_id := Some (rt_id new)\<rparr>) (t_refresh_tokens (committed w)) @ [new]"
proof -
  from refresh_case_succeeds [OF assms] obtain w1 where
    run: "refresh au tok (uow_start OwnerRole w) = (Inr pair, w1)" and w1: "committed w' = store w1" .
  define fresh where "fresh = (\<lambda>sid. \<lparr>rt_id = uuid_at (env w) (Suc (Suc (Suc (draws w)))), rt_session_id = sid,
    rt_token_hash = hash_refresh_token (b64url (map (byte_at (env w) (Suc (Suc (draws w)))) [0..<48])),
    rt_expires_at = tick (env w) (Suc (draws w)) + days (au_refresh_ttl_days au),
    rt_used_at = None, rt_revoked_at = None, rt_replaced_by_id = None\<rparr>)"
  show thesis
    using run
    apply (simp add: refresh_run prog_simps refresh_add_def refresh_mark_used_def session_touch_def idm_get_tenant_id_def
        mint_access_token_def Let_def split: option.splits if_splits)
    apply (elim conjE)
    subgoal for r s m
      by (rule that [of r s "tick (env w) (Suc (draws w))" "fresh (rt_session_id r)"])
        (auto dest!: find_Some_iff2 simp: w1 fresh_def store_set_rows seen_def visible_def admits_refresh update_where_snoc image_iff
          absent_def)
    done
qed

text \<open>What a run keeps.\<close>

lemma run_all_schema: "schema_ok (committed w) \<Longrightarrow> schema_ok (committed (run_all dp cs w))"
  using schema.run_all_across [where dp = dp and cs = cs and w = w] by (simp add: schema_kept_def)

lemma session_kept_by_run:
  assumes "s \<in> set (t_sessions (committed w))"
  shows "\<exists>s' \<in> set (t_sessions (committed (run_all dp cs w))). as_id s' = as_id s"
  using ages.run_all_across [where dp = dp and cs = cs and w = w] assms
  unfolding identity_ages_def session_ages_def by metis

lemma refresh_marks_used:
  assumes "refresh_tokens_case au tok w = (Inr pair, w')"
  obtains s where "used_token tok (as_id s) (committed w')" and "token_row (tp_refresh pair) (as_id s) (committed w')"
    and "s \<in> set (t_sessions (committed w))" and "as_revoked_at s = None" and "token_row tok (as_id s) (committed w)"
proof -
  obtain r s t new where
    r: "r \<in> set (t_refresh_tokens (committed w))" "rt_token_hash r = hash_refresh_token tok"
    and s: "s \<in> set (t_sessions (committed w))" "as_id s = rt_session_id r" "as_revoked_at s = None"
    and new: "rt_token_hash new = hash_refresh_token (tp_refresh pair)" "rt_session_id new = as_id s"
    and rows: "t_refresh_tokens (committed w') = update_where (\<lambda>x. rt_id x = rt_id r)
          (\<lambda>x. x\<lparr>rt_used_at := Some t, rt_replaced_by_id := Some (rt_id new)\<rparr>) (t_refresh_tokens (committed w)) @ [new]"
    by (rule refresh_succeeds [OF assms]) blast
  have "r\<lparr>rt_used_at := Some t, rt_replaced_by_id := Some (rt_id new)\<rparr> \<in> set (t_refresh_tokens (committed w'))"
    unfolding rows by (auto intro: updated_member [OF r(1)])
  then have u: "used_token tok (as_id s) (committed w')"
    unfolding used_token_def by (rule bexI [rotated]) (simp add: r(2) s(2))
  moreover have "token_row (tp_refresh pair) (as_id s) (committed w')"
    unfolding token_row_def using new rows by force
  moreover have "token_row tok (as_id s) (committed w)"
    unfolding token_row_def using r s(2) by force
  ultimately show thesis using that s by blast
qed

lemma use_of_used_token:
  assumes "schema_ok (committed w1)" and "used_token tok (as_id s) (committed w1)"
    and "s \<in> set (t_sessions (committed w1))" and "refresh_tokens_case au' tok (run_all dp cs w1) = (r, w3)"
  shows "r = Inl refused \<and> revoked_session (as_id s) (committed w3)"
proof -
  let ?w2 = "run_all dp cs w1"
  obtain s2 where s2: "s2 \<in> set (t_sessions (committed ?w2))" "as_id s2 = as_id s"
    using session_kept_by_run [OF assms(3)] by blast
  have "used_token tok (as_id s) (committed ?w2)"
    using used_ages [OF ages.run_all_across assms(2)] .
  from refresh_of_used [OF run_all_schema [OF assms(1)] this s2, of au'] assms(4) show ?thesis
    by auto
qed

lemma logout_revokes:
  assumes "schema_ok (committed w)" and "s \<in> set (t_sessions (committed w))"
    and "token_row tok (as_id s) (committed w)" and "logout_session tok w = (r, w1)"
  shows "r = Inr () \<and> revoked_session (as_id s) (committed w1)"
proof -
  from assms(3) obtain rt where rt: "rt \<in> set (t_refresh_tokens (committed w))"
    "rt_token_hash rt = hash_refresh_token tok" "rt_session_id rt = as_id s" by (auto simp: token_row_def)
  show ?thesis
    using token_found [OF assms(1) rt(1,2)] session_found [OF assms(1,2)] rt(3) assms(2,4)
    by (cases "as_revoked_at s")
      (auto simp: logout_session_def with_identity_uow_def with_uow_apply logout_def refresh_get_by_hash_def
        session_get_def session_revoke_def prog_simps owner_row_where commit_def revoked_session_def
        store_set_rows seen_def visible_def intro!: bexI [OF _ updated_member [of s]])
qed

section \<open>Rotation\<close>

definition memberless :: "uuid \<Rightarrow> db \<Rightarrow> bool" where
  "memberless user_id d \<longleftrightarrow> (\<forall>m \<in> set (t_memberships d). m_user_id m \<noteq> user_id)"

lemma refresh_refused_tokens:
  assumes "refresh au tok (uow_start OwnerRole w) = (Inl e, w1)"
  shows "committed w1 = committed w \<and> (t_refresh_tokens (store w1) = t_refresh_tokens (committed w) \<or>
    (\<exists>s \<in> set (t_sessions (committed w)). token_row tok (as_id s) (committed w) \<and>
       memberless (as_user_id s) (committed w)))"
  using assms
  apply (simp add: refresh_run prog_simps refresh_add_def refresh_mark_used_def session_touch_def idm_get_tenant_id_def
        mint_access_token_def Let_def split: option.splits if_splits)
  apply (elim disjE conjE exE)
  apply (auto dest!: find_Some_iff2 simp: store_set_rows find_None_iff memberless_def token_row_def)
  apply (drule (1) bspec, auto)
  done

lemma refresh_case_fails:
  assumes "refresh_tokens_case au tok w = (Inl e, w')"
  shows "\<exists>e0 w1. refresh au tok (uow_start OwnerRole w) = (Inl e0, w1) \<and>
    (committed w' = store w1 \<or> committed w' = committed w1)"
  using assms
  by (auto simp: refresh_tokens_case_def with_identity_uow_def seq_def with_uow_apply catch_def commit_def
      split: prod.splits sum.splits exn.splits identity_error.splits)


section \<open>Single use\<close>

text \<open>
  C11. A refresh token works at most once: when a token was presented, then whatever commands ran,
  and then it is presented again, the first presentation was refused or the second one is and
  leaves the session of the token revoked.
\<close>

theorem refresh_token_works_once:
  assumes "schema_ok (committed w)" and "s \<in> set (t_sessions (committed w))"
    and "token_row tok (as_id s) (committed w)"
    and "refresh_tokens_case au tok w = (first, w1)"
    and "refresh_tokens_case au' tok (run_all dp cs w1) = (second, w2)"
  shows "isl first \<or> second = Inl refused \<and> revoked_session (as_id s) (committed w2)"
proof (cases first)
  case (Inr pair)
  with assms(4) have run: "refresh_tokens_case au tok w = (Inr pair, w1)" by simp
  obtain s0 :: auth_session where used: "used_token tok (as_id s0) (committed w1)"
    and row: "token_row tok (as_id s0) (committed w)"
    by (rule refresh_marks_used [OF run]) (rule that)
  have same: "as_id s0 = as_id s"
    by (rule token_row_unique [OF assms(1) row assms(3)])
  have "schema_ok (committed w1)"
    using framedD [OF schema.identity_cases_framed(2) run] assms(1)
    by (simp add: across_def schema_kept_def)
  moreover obtain s1 where "s1 \<in> set (t_sessions (committed w1))" "as_id s1 = as_id s"
    using framedD [OF ages.identity_cases_framed(2) run] assms(2)
    unfolding across_def identity_ages_def session_ages_def by metis
  ultimately show ?thesis
    using use_of_used_token [of w1 tok s1] used same assms(5) by metis
qed simp

section \<open>Revoked stays revoked\<close>

text \<open>
  Once a session is revoked (by reuse of a token, an expired token or a logout) every refresh
  token of it is refused in every later state, and the refusal changes nothing that is committed.
\<close>

theorem revoked_session_never_refreshes:
  assumes "schema_ok (committed w)" and "revoked_session sid (committed w)"
    and "token_row tok sid (committed (run_all dp cs w))"
  shows "\<exists>w'. refresh_tokens_case au tok (run_all dp cs w) = (Inl refused, w') \<and>
    committed w' = committed (run_all dp cs w)"
  by (rule refresh_of_revoked [OF run_all_schema [OF assms(1)] assms(3)
        revoked_ages [OF ages.run_all_across assms(2)]])

text \<open>
  C21. Logout ends the session: it always returns, and afterwards, whatever runs, no refresh token
  of the session, the presented one or any successor, is exchanged.
\<close>

theorem logout_ends_the_session:
  assumes "schema_ok (committed w)" and "s \<in> set (t_sessions (committed w))"
    and "token_row tok (as_id s) (committed w)" and "logout_session tok w = (r, w1)"
  shows "r = Inr () \<and> (\<forall>tok' cs. token_row tok' (as_id s) (committed (run_all dp cs w1)) \<longrightarrow>
    fst (refresh_tokens_case au tok' (run_all dp cs w1)) = Inl refused)"
proof -
  from logout_revokes [OF assms(1,2,3,4)] have r: "r = Inr ()" and rev: "revoked_session (as_id s) (committed w1)"
    by auto
  have "schema_ok (committed w1)"
    using framedD [OF schema.identity_cases_framed(3) assms(4)] assms(1)
    by (simp add: across_def schema_kept_def)
  with r rev show ?thesis
    using refresh_of_revoked [OF run_all_schema _ revoked_ages [OF ages.run_all_across]] by (metis fst_conv)
qed

section \<open>Witnesses\<close>

definition live_session :: auth_session where
  "live_session = \<lparr>as_id = 2, as_user_id = 1, as_revoked_at = None, as_revocation_reason = None,
     as_user_agent = None, as_last_used_at = 0, as_amr = [''pwd'']\<rparr>"

definition issued_token :: refresh_token where
  "issued_token = \<lparr>rt_id = 21, rt_session_id = 2, rt_token_hash = hash_refresh_token ''tok'',
     rt_expires_at = 1800000000000000, rt_used_at = None, rt_revoked_at = None, rt_replaced_by_id = None\<rparr>"

definition session_db :: db where
  "session_db = base_db\<lparr>t_sessions := [live_session], t_refresh_tokens := [issued_token]\<rparr>"

lemma session_db_ok: "schema_ok session_db"
  using base_schema_ok by (simp add: schema_ok_def session_db_def unique_def)

lemma session_db_rows:
  "live_session \<in> set (t_sessions session_db)" "token_row ''tok'' (as_id live_session) session_db"
  by (simp_all add: session_db_def token_row_def live_session_def issued_token_def)

theorem refresh_token_works_once_witness:
  "\<exists>first w1 second w2. refresh_tokens_case demo_auth ''tok'' (world_of session_db) = (first, w1) \<and>
     refresh_tokens_case demo_auth ''tok'' (run_all demo_deployment [VerifyChain 3] w1) = (second, w2) \<and>
     (isl first \<or> second = Inl refused \<and> revoked_session 2 (committed w2))"
proof -
  obtain first w1 where run: "refresh_tokens_case demo_auth ''tok'' (world_of session_db) = (first, w1)"
    by fastforce
  obtain second w2 where run2:
    "refresh_tokens_case demo_auth ''tok'' (run_all demo_deployment [VerifyChain 3] w1) = (second, w2)"
    by fastforce
  have "schema_ok (committed (world_of session_db))" by (simp add: session_db_ok)
  from refresh_token_works_once [OF this _ _ run run2, of live_session] run run2 session_db_rows
  show ?thesis by (auto simp: live_session_def)
qed

definition ended_db :: db where
  "ended_db = session_db\<lparr>t_sessions := [live_session\<lparr>as_revoked_at := Some 1\<rparr>]\<rparr>"

theorem revoked_session_never_refreshes_witness:
  "\<exists>w'. refresh_tokens_case demo_auth ''tok'' (run_all demo_deployment [] (world_of ended_db)) = (Inl refused, w') \<and>
     committed w' = committed (run_all demo_deployment [] (world_of ended_db))"
proof (rule revoked_session_never_refreshes)
  show "schema_ok (committed (world_of ended_db))"
    using session_db_ok by (simp add: schema_ok_def ended_db_def session_db_def unique_def)
  show "revoked_session 2 (committed (world_of ended_db))"
    by (simp add: revoked_session_def ended_db_def live_session_def)
  show "token_row ''tok'' 2 (committed (run_all demo_deployment [] (world_of ended_db)))"
    by (simp add: token_row_def ended_db_def session_db_def issued_token_def)
qed

theorem logout_ends_the_session_witness:
  "\<exists>w1. logout_session ''tok'' (world_of session_db) = (Inr (), w1) \<and>
     (\<forall>tok' cs. token_row tok' 2 (committed (run_all demo_deployment cs w1)) \<longrightarrow>
        fst (refresh_tokens_case demo_auth tok' (run_all demo_deployment cs w1)) = Inl refused)"
proof -
  obtain r w1 where run: "logout_session ''tok'' (world_of session_db) = (r, w1)" by fastforce
  have "schema_ok (committed (world_of session_db))" by (simp add: session_db_ok)
  from logout_ends_the_session [OF this _ _ run, of live_session] run session_db_rows
  show ?thesis by (auto simp: live_session_def)
qed

end
