(* ===== verification/Login_Laws.thy ===== *)
theory Login_Laws
  imports Session_Laws
begin

text \<open>
  Who gets in: the password step, the second factor, enrolment and recovery codes.
\<close>

definition login_failed :: exn where
  "login_failed = auth_failed ''Invalid email or password''"

text \<open>Issuing credentials stores one live session of the user and one token for it.\<close>

definition opened_session :: "uuid \<Rightarrow> string list \<Rightarrow> string \<Rightarrow> db \<Rightarrow> db \<Rightarrow> bool" where
  "opened_session user_id amr raw d d' \<longleftrightarrow>
     (\<exists>s rt. t_sessions d' = t_sessions d @ [s] \<and> as_user_id s = user_id \<and> as_amr s = amr \<and>
        as_revoked_at s = None \<and> t_refresh_tokens d' = t_refresh_tokens d @ [rt] \<and>
        rt_session_id rt = as_id s \<and> rt_token_hash rt = hash_refresh_token raw \<and> rt_used_at rt = None)"

lemma issue_returns:
  assumes "issue_credentials au u ua amr w = (Inr pair, w')" and "db_role w = OwnerRole"
  shows "opened_session u amr (tp_refresh pair) (store w) (store w') \<and> committed w' = committed w"
  using assms
  apply (simp add: issue_credentials_def idm_get_tenant_id_def session_add_def refresh_add_def mint_access_token_def
      prog_simps Let_def owner_row_where split: option.splits if_splits)
  apply (auto simp: opened_session_def store_set_rows)
  done

lemma issue_raises:
  assumes "issue_credentials au u ua amr w = (Inl e, w')"
  shows "(e = login_failed \<or> e = System IntegrityError \<or> e = System RowSecurityError) \<and> committed w' = committed w"
  using assms
  apply (simp add: issue_credentials_def idm_get_tenant_id_def session_add_def refresh_add_def mint_access_token_def
      prog_simps Let_def split: option.splits if_splits)
  apply (auto simp: login_failed_def)
  done

definition unavailable :: exn where
  "unavailable = Identity (ServiceUnavailableError ''Service unavailable'')"

lemma limiter_outcome:
  assumes "limiter_check R key cap win True w = (r, w')"
  shows "store w' = store w \<and> committed w' = committed w \<and> db_role w' = db_role w \<and>
    (\<forall>e. r = Inl e \<longrightarrow> e = unavailable)"
  using assms
  by (auto simp: limiter_check_def limiter_check_once_def catch_def prog_simps Let_def unavailable_def
      split: if_splits)

definition normal_email :: "string \<Rightarrow> string" where
  "normal_email email = str_lower (str_strip email)"

text \<open>The account a login reaches: stored, active, and the password verified against its hash.\<close>

definition authenticated :: "auth_env \<Rightarrow> string \<Rightarrow> string \<Rightarrow> db \<Rightarrow> user \<Rightarrow> bool" where
  "authenticated au email password d u \<longleftrightarrow>
     u \<in> set (t_users d) \<and> u_email u = normal_email email \<and> u_is_active u \<and>
     argon2_verify (au_argon au) (u_password_hash u) password = Some True"

lemma login_returns:
  assumes "login au email password ua w = (Inr res, w')" and "db_role w = OwnerRole"
  shows "\<exists>u. authenticated au email password (store w) u \<and> committed w' = committed w \<and>
    (case res of
       MfaRequired c \<Rightarrow> u_mfa_enabled u \<and> store w' = store w
     | LoginTokens pair \<Rightarrow> \<not> u_mfa_enabled u \<and>
         opened_session (u_id u) [''pwd''] (tp_refresh pair) (store w) (store w'))"
proof -
  obtain r1 w1 where lim: "limiter_check (au_redis au) (''rl:login:acct:'' @ normal_email email) LOGIN_ACCOUNT_CAPACITY
      LOGIN_ACCOUNT_WINDOW_SECONDS True w = (r1, w1)" by fastforce
  note out = limiter_outcome [OF lim]
  from assms lim out show ?thesis
    apply (cases r1)
    apply (simp add: login_def Let_def normal_email_def [symmetric] seq_apply_Inl)
    apply (simp add: login_def Let_def normal_email_def [symmetric] seq_apply_Inr user_get_by_email_def
        prog_simps owner_row_where password_verify_def mint_challenge_token_def
        split: option.splits if_splits bool.splits)
    subgoal by (auto simp: authenticated_def dest: find_Some_iff2)
    subgoal by (auto simp: authenticated_def seq_Inr_iff dest: find_Some_iff2 dest!: issue_returns)
    done
qed

lemma login_raises:
  assumes "login au email password ua w = (Inl e, w')"
  shows "e \<in> {login_failed, unavailable, System InvalidHashError, System IntegrityError, System RowSecurityError} \<and>
    committed w' = committed w"
proof -
  obtain r1 w1 where lim: "limiter_check (au_redis au) (''rl:login:acct:'' @ normal_email email) LOGIN_ACCOUNT_CAPACITY
      LOGIN_ACCOUNT_WINDOW_SECONDS True w = (r1, w1)" by fastforce
  note out = limiter_outcome [OF lim]
  from assms lim out show ?thesis
    apply (cases r1)
    apply (simp add: login_def Let_def normal_email_def [symmetric] seq_apply_Inl)
    apply (simp add: login_def Let_def normal_email_def [symmetric] seq_apply_Inr user_get_by_email_def
        prog_simps password_verify_def mint_challenge_token_def login_failed_def
        split: option.splits if_splits bool.splits)
    subgoal by (auto simp: seq_Inl_iff login_failed_def dest!: issue_raises)
    done
qed

lemma login_user_run:
  "login_user au email password ua w =
     (case login au email password ua (uow_start OwnerRole w) of
        (Inl e, w1) \<Rightarrow> (Inl e, w1\<lparr>store := committed w1, db_role := db_role w\<rparr>)
      | (Inr res, w1) \<Rightarrow> (Inr res, w1\<lparr>committed := store w1, db_role := db_role w\<rparr>))"
  by (simp add: login_user_def with_identity_uow_def with_uow_apply seq_def commit_def
      split: prod.split sum.split)


section \<open>Recovery codes\<close>

lemma redeem_run:
  assumes "db_role w = OwnerRole"
  shows "redeem_recovery_code u code w =
    (case find (unused_code u (hash_recovery_code code)) (t_recovery_codes (store w)) of
       None \<Rightarrow> (Inr False, w)
     | Some c \<Rightarrow> (Inr True, set_rows recovery_codes (update_where (\<lambda>r. rc_id r = rc_id c)
          (\<lambda>r. r\<lparr>rc_used_at := Some (clock w)\<rparr>)) (w\<lparr>draws := Suc (draws w)\<rparr>)))"
  using assms
  by (simp add: redeem_recovery_code_def recovery_redeem_for_update_def prog_simps owner_row_where clock_def
      seen_def visible_def split: option.split)

lemma redeem_result:
  "db_role w = OwnerRole \<Longrightarrow> fst (redeem_recovery_code u code w) =
     Inr (find (unused_code u (hash_recovery_code code)) (t_recovery_codes (store w)) \<noteq> None)"
  by (simp add: redeem_run split: option.split)

lemma find_update_none:
  "(\<And>x. x \<in> set xs \<Longrightarrow> p (if q x then f x else x) = p x) \<Longrightarrow>
     (find p (update_where q f xs) = None) = (find p xs = None)"
  by (induction xs) (auto simp: update_where_def)

lemma hash_recovery_code_cong:
  "normalized_code c' = normalized_code c \<Longrightarrow> hash_recovery_code c' = hash_recovery_code c"
  by (simp add: hash_recovery_code_def)

text \<open>
  C37. A recovery code works once: after it was redeemed, the same code is refused, however it is
  typed (case, dashes and spaces do not matter), and the other codes of the user are still there.
\<close>

theorem recovery_code_works_once:
  assumes "schema_ok (store w)" and "db_role w = OwnerRole"
    and "redeem_recovery_code u code w = (Inr True, w1)"
    and "normalized_code typed = normalized_code code"
  shows "redeem_recovery_code u typed w1 = (Inr False, w1) \<and>
    (\<forall>other. hash_recovery_code other \<noteq> hash_recovery_code code \<longrightarrow>
       fst (redeem_recovery_code u other w1) = fst (redeem_recovery_code u other w))"
proof -
  obtain c where c: "find (unused_code u (hash_recovery_code code)) (t_recovery_codes (store w)) = Some c"
    and w1: "w1 = set_rows recovery_codes (update_where (\<lambda>r. rc_id r = rc_id c)
          (\<lambda>r. r\<lparr>rc_used_at := Some (clock w)\<rparr>)) (w\<lparr>draws := Suc (draws w)\<rparr>)"
    using assms(3) by (auto simp: redeem_run [OF assms(2)] split: option.splits)
  let ?rows = "t_recovery_codes (store w)"
  have in_rows: "c \<in> set ?rows" and u: "unused_code u (hash_recovery_code code) c"
    using find_Some_iff2 [OF c] by auto
  have ids: "unique rc_id ?rows" and hashes: "unique rc_code_hash ?rows"
    using assms(1) by (simp_all add: schema_ok_def)
  have w1_role: "db_role w1 = OwnerRole" by (simp add: w1 assms(2))
  have rows: "t_recovery_codes (store w1) = update_where (\<lambda>r. rc_id r = rc_id c)
      (\<lambda>r. r\<lparr>rc_used_at := Some (clock w)\<rparr>) ?rows"
    by (simp add: w1 store_set_rows)
  have gone: "find (unused_code u (hash_recovery_code typed)) (t_recovery_codes (store w1)) = None"
    unfolding find_None_iff rows hash_recovery_code_cong [OF assms(4)]
  proof (intro notI, elim exE conjE)
    fix x assume "x \<in> set (update_where (\<lambda>r. rc_id r = rc_id c) (\<lambda>r. r\<lparr>rc_used_at := Some (clock w)\<rparr>) ?rows)"
      and x: "unused_code u (hash_recovery_code code) x"
    then have "x \<in> set ?rows" "rc_id x \<noteq> rc_id c"
      by (auto simp: set_update_where unused_code_def split: if_splits)
    moreover have "x = c"
      using unique_eq [OF hashes \<open>x \<in> set ?rows\<close> in_rows] x u by (simp add: unused_code_def)
    ultimately show False by simp
  qed
  have others: "(find (unused_code u h) (t_recovery_codes (store w1)) = None) =
      (find (unused_code u h) ?rows = None)" if "h \<noteq> hash_recovery_code code" for h
  proof -
    have "unused_code u h (if rc_id r = rc_id c then r\<lparr>rc_used_at := Some (clock w)\<rparr> else r) = unused_code u h r"
      if "r \<in> set ?rows" for r
      using unique_eq [OF ids that in_rows] u \<open>h \<noteq> hash_recovery_code code\<close> by (auto simp: unused_code_def)
    then show ?thesis
      unfolding rows by (rule find_update_none)
  qed
  have "\<forall>other. hash_recovery_code other \<noteq> hash_recovery_code code \<longrightarrow>
       fst (redeem_recovery_code u other w1) = fst (redeem_recovery_code u other w)"
  proof (intro allI impI)
    fix other
    assume "hash_recovery_code other \<noteq> hash_recovery_code code"
    from others [OF this, THEN arg_cong [where f = "\<lambda>b. Inr (\<not> b)"]] show "fst (redeem_recovery_code u other w1) = fst (redeem_recovery_code u other w)"
      unfolding redeem_result [OF w1_role] redeem_result [OF assms(2)] .
  qed
  with gone show ?thesis by (simp add: redeem_run [OF w1_role])
qed

definition issued_code :: recovery_code where
  "issued_code = \<lparr>rc_id = 31, rc_user_id = 1, rc_code_hash = hash_recovery_code ''ABCDE23456'', rc_used_at = None\<rparr>"

definition code_db :: db where
  "code_db = base_db\<lparr>t_recovery_codes := [issued_code]\<rparr>"

theorem recovery_code_works_once_witness:
  "\<exists>w1. redeem_recovery_code 1 ''ABCDE23456'' (world_of code_db) = (Inr True, w1) \<and>
     redeem_recovery_code 1 '' abcde-23456'' w1 = (Inr False, w1)"
proof -
  obtain w1 where run: "redeem_recovery_code 1 ''ABCDE23456'' (world_of code_db) = (Inr True, w1)"
    by (simp add: redeem_run code_db_def unused_code_def issued_code_def)
  have "schema_ok (store (world_of code_db))"
    using base_schema_ok by (simp add: schema_ok_def code_db_def unique_def)
  moreover have "normalized_code '' abcde-23456'' = normalized_code ''ABCDE23456''"
    by code_simp
  ultimately show ?thesis
    using recovery_code_works_once [OF _ _ run, of "'' abcde-23456''"] run by auto
qed

section \<open>Enrolment\<close>

lemma seq_seed_encrypt:
  "seq (seed_encrypt se u seed) f w =
     f (map (byte_at (env w) (draws w)) [0..<12],
        aead_encrypt (se_aead se) (se_kek se) (map (byte_at (env w) (draws w)) [0..<12]) (utf8_encode seed) (seed_aad u))
       (w\<lparr>draws := Suc (draws w)\<rparr>)"
  by (simp add: seed_encrypt_def prog_simps del: seq_Pair_Inr)

lemma owner_commit:
  assumes "with_identity_uow (seq body (\<lambda>x. seq commit (\<lambda>_. ret (g x)))) w = (Inr y, w')"
  obtains x w1 where "body (uow_start OwnerRole w) = (Inr x, w1)" and "y = g x" and "committed w' = store w1"
  using assms
  by (auto simp: with_identity_uow_def with_uow_apply seq_def commit_def split: prod.splits sum.splits)

lemma owner_abort:
  assumes "with_identity_uow (seq body (\<lambda>x. seq commit (\<lambda>_. ret (g x)))) w = (Inl e, w')"
    and "framed uncommitted body"
  shows "committed w' = committed w"
proof -
  obtain r w1 where run: "body (uow_start OwnerRole w) = (r, w1)" by fastforce
  with assms(1) have "committed w' = committed w1"
    by (auto simp: with_identity_uow_def with_uow_apply seq_def commit_def split: sum.splits)
  with framedD [OF assms(2) run] show ?thesis by (simp add: uncommitted_def)
qed

lemma start_enrollment_run:
  assumes "start_enrollment au u email w = (Inr uri, w')" and "db_role w = OwnerRole"
  shows "\<exists>row. t_totp_secrets (store w') =
      filter (\<lambda>t. ts_user_id t \<noteq> u) (t_totp_secrets (store w)) @ [row] \<and>
    ts_user_id row = u \<and> \<not> ts_confirmed row \<and> t_users (store w') = t_users (store w)"
proof -
  let ?w1 = "set_rows totp_secrets (delete_where (\<lambda>r. ts_user_id r = u)) w"
  have "start_enrollment au u email w =
      seq (generate_seed (au_totp au)) (\<lambda>seed.
      seq (seed_encrypt (au_seeds au) u seed) (\<lambda>(nonce, ciphertext).
      seq (totp_add u ciphertext nonce False) (\<lambda>_. ret (provisioning_uri (au_totp au) seed email)))) ?w1"
    by (simp add: start_enrollment_def totp_delete_for_user_def seq_delete_rows assms(2) seen_def visible_def)
  also have "\<dots> = seq (seed_encrypt (au_seeds au) u (random_base32 (au_totp au) (map (byte_at (env w) (draws w)) [0..<32])))
      (\<lambda>(nonce, ciphertext).
      seq (totp_add u ciphertext nonce False) (\<lambda>_. ret (provisioning_uri (au_totp au)
         (random_base32 (au_totp au) (map (byte_at (env w) (draws w)) [0..<32])) email))) (?w1\<lparr>draws := Suc (draws w)\<rparr>)"
    by (simp add: generate_seed_def seq_urandom del: seq_Pair_Inr)
  finally show ?thesis
    using assms
    apply (simp add: seq_seed_encrypt totp_add_def prog_simps Let_def split: if_splits)
    apply (auto simp: store_set_rows delete_where_def)
    done
qed



text \<open>The batch of hashes a confirmed enrolment stores.\<close>

lemma recovery_batch_run:
  assumes "recovery_add_batch u hashes w = (Inr (), w')" and "db_role w = OwnerRole"
  shows "(\<forall>h \<in> set hashes. \<exists>c \<in> set (t_recovery_codes (store w')). unused_code u h c) \<and>
    set (t_recovery_codes (store w)) \<subseteq> set (t_recovery_codes (store w')) \<and>
    t_users (store w') = t_users (store w) \<and> t_totp_secrets (store w') = t_totp_secrets (store w)"
  using assms
proof (induction hashes arbitrary: w)
  case (Cons h hashes)
  let ?row = "\<lparr>rc_id = uuid_at (env w) (draws w), rc_user_id = u, rc_code_hash = h, rc_used_at = None\<rparr>"
  let ?w1 = "set_rows recovery_codes (\<lambda>rows. rows @ [?row]) (w\<lparr>draws := Suc (draws w)\<rparr>)"
  have "recovery_add_batch u hashes ?w1 = (Inr (), w')"
    using Cons.prems by (simp add: recovery_add_batch_def prog_simps seen_def visible_def split: if_splits)
  note IH = Cons.IH [OF this]
  have stored: "?row \<in> set (t_recovery_codes (store ?w1))" and "unused_code u h ?row"
    by (simp_all add: store_set_rows unused_code_def)
  with IH Cons.prems(2) have "\<exists>c \<in> set (t_recovery_codes (store w')). unused_code u h c"
    by (auto simp del: store_set_rows)
  with IH Cons.prems(2) show ?case
    by (simp add: store_set_rows)
qed (simp add: recovery_add_batch_def)

lemma seq_generate_recovery_codes:
  "seq generate_recovery_codes f w =
     f (map recovery_code_of (chunks 10 10 (map (byte_at (env w) (draws w)) [0..<100]))) (w\<lparr>draws := Suc (draws w)\<rparr>)"
  by (simp add: generate_recovery_codes_def seq_urandom del: seq_Pair_Inr)

lemma issued_shape:
  "c \<in> set (map recovery_code_of (chunks 10 10 (map (byte_at (env w) (draws w)) [0..<100]))) \<Longrightarrow>
     length c = 10 \<and> set c \<subseteq> set recovery_alphabet"
proof (simp only: set_map image_iff, elim bexE)
  fix bs assume "bs \<in> set (chunks 10 10 (map (byte_at (env w) (draws w)) [0..<100]))" and c: "c = recovery_code_of bs"
  then have "length bs = 10" by (intro chunks_length [of 10 10]) auto
  moreover have "recovery_alphabet ! (unat b mod length recovery_alphabet) \<in> set recovery_alphabet" for b :: byte
    by (rule nth_mem) (simp add: recovery_alphabet_def)
  ultimately show "length c = 10 \<and> set c \<subseteq> set recovery_alphabet"
    unfolding c recovery_code_of_def by (simp only: length_map set_map) blast
qed

lemma recovery_batch_map:
  assumes "recovery_add_batch u (map f cs) w = (Inr (), w')" and "db_role w = OwnerRole"
  shows "(\<forall>c \<in> set cs. \<exists>row \<in> set (t_recovery_codes (store w')). unused_code u (f c) row) \<and>
    t_users (store w') = t_users (store w) \<and> t_totp_secrets (store w') = t_totp_secrets (store w)"
proof -
  note run = recovery_batch_run [OF assms]
  show ?thesis
  proof (intro conjI ballI)
    fix c assume "c \<in> set cs"
    then have "f c \<in> set (map f cs)" by simp
    then show "\<exists>row \<in> set (t_recovery_codes (store w')). unused_code u (f c) row"
      by (rule bspec [OF run [THEN conjunct1]])
  qed (simp_all add: run)
qed

lemma mfa_switched_on:
  "x \<in> set (update_where (\<lambda>r. u_id r = u) (\<lambda>r. r\<lparr>u_mfa_enabled := True\<rparr>) (us :: user list)) \<Longrightarrow>
     u_id x = u \<Longrightarrow> u_mfa_enabled x"
  unfolding set_update_where by (elim imageE) (simp split: if_splits)

lemma confirm_enrollment_run:
  assumes "confirm_enrollment au u code w = (Inr codes, w')" and "db_role w = OwnerRole"
  shows "length codes = 10 \<and> (\<forall>c \<in> set codes. length c = 10 \<and> set c \<subseteq> set recovery_alphabet) \<and>
    (\<forall>c \<in> set codes. \<exists>row \<in> set (t_recovery_codes (store w')). unused_code u (hash_recovery_code c) row) \<and>
    (\<exists>row \<in> set (t_totp_secrets (store w')). ts_user_id row = u \<and> ts_confirmed row) \<and>
    (\<forall>x \<in> set (t_users (store w')). u_id x = u \<longrightarrow> u_mfa_enabled x)"
  using assms
  apply (simp add: confirm_enrollment_def totp_get_unconfirmed_def seed_decrypt_def verify_totp_def
     prog_simps owner_row_where totp_confirm_def user_set_mfa_enabled_def recovery_delete_for_user_def
     seq_generate_recovery_codes del: map_map split: option.splits if_splits)
  apply (elim seq_InrE)
  subgoal for row octets seed x w1
    using issued_shape [of _ "w\<lparr>draws := Suc (Suc (draws w))\<rparr>"]
    by (auto simp: store_set_rows seen_def visible_def simp del: map_map set_map
        dest!: recovery_batch_map find_Some_iff2 mfa_switched_on intro!: bexI [OF _ updated_member [of row]])
  done

lemma confirm_enrollment_uncommitted: "framed uncommitted (confirm_enrollment au u code)"
  unfolding confirm_enrollment_def totp_get_unconfirmed_def seed_decrypt_def verify_totp_def totp_confirm_def
    user_set_mfa_enabled_def recovery_delete_for_user_def generate_recovery_codes_def recovery_add_batch_def
  by (auto intro!: framed_intros)

text \<open>The account requires a second factor; every form of a code is redeemed.\<close>

definition demands_factor :: "uuid \<Rightarrow> db \<Rightarrow> bool" where
  "demands_factor u d \<longleftrightarrow> (\<forall>x \<in> set (t_users d). u_id x = u \<longrightarrow> u_mfa_enabled x)"

definition redeemed :: "uuid \<Rightarrow> world \<Rightarrow> string \<Rightarrow> bool" where
  "redeemed u w code \<longleftrightarrow>
     (\<forall>typed. normalized_code typed = normalized_code code \<longrightarrow>
        fst (redeem_recovery_code u typed (uow_start OwnerRole w)) = Inr True)"

text \<open>
  Confirming an enrolment arms the second factor: when it returns, the account requires a second
  factor, its secret is confirmed, and it got ten codes of ten characters, each of which, however
  it is typed, is accepted by the next redemption. When it raises, nothing is committed.
\<close>

theorem confirmed_enrollment_arms:
  "case confirm_totp_enrollment au u code w of
     (Inr codes, w') \<Rightarrow>
       demands_factor u (committed w') \<and>
       (\<exists>row \<in> set (t_totp_secrets (committed w')). ts_user_id row = u \<and> ts_confirmed row) \<and>
       length codes = 10 \<and>
       list_all (\<lambda>c. length c = 10 \<and> set c \<subseteq> set recovery_alphabet \<and> redeemed u w' c) codes
   | (Inl e, w') \<Rightarrow> committed w' = committed w"
proof (cases "confirm_totp_enrollment au u code w")
  case (Pair r w')
  show ?thesis
  proof (cases r)
    case (Inl e)
    then have "confirm_totp_enrollment au u code w = (Inl e, w')" using Pair by simp
    then have "committed w' = committed w"
      unfolding confirm_totp_enrollment_def by (rule owner_abort [OF _ confirm_enrollment_uncommitted])
    then show ?thesis by (simp add: Pair Inl)
  next
    case (Inr codes)
    with Pair have "confirm_totp_enrollment au u code w = (Inr codes, w')" by simp
    then obtain w1 where run: "confirm_enrollment au u code (uow_start OwnerRole w) = (Inr codes, w1)"
      and w': "committed w' = store w1"
      unfolding confirm_totp_enrollment_def by (rule owner_commit) simp
    note facts = confirm_enrollment_run [OF run, simplified, folded w']
    have "fst (redeem_recovery_code u typed (uow_start OwnerRole w')) = Inr True"
      if "c \<in> set codes" and "normalized_code typed = normalized_code c" for c typed
    proof -
      have "find (unused_code u (hash_recovery_code c)) (t_recovery_codes (committed w')) \<noteq> None"
        using facts that(1) unfolding find_None_iff by metis
      then show ?thesis
        by (simp add: redeem_result hash_recovery_code_cong [OF that(2)])
    qed
    with facts show ?thesis
      by (simp add: Pair Inr demands_factor_def redeemed_def list_all_iff)
  qed
qed

section \<open>The second factor\<close>

text \<open>A code the second step accepts: of the confirmed authenticator, or an unused recovery code.\<close>

definition authenticator_code :: "auth_env \<Rightarrow> uuid \<Rightarrow> string \<Rightarrow> time \<Rightarrow> db \<Rightarrow> bool" where
  "authenticator_code au u code t d \<longleftrightarrow>
     (\<exists>row octets seed. row \<in> set (t_totp_secrets d) \<and> ts_user_id row = u \<and> ts_confirmed row \<and>
        aead_decrypt (se_aead (au_seeds au)) (se_kek (au_seeds au)) (ts_seed_nonce row) (ts_encrypted_seed row)
          (seed_aad u) = Some octets \<and> utf8_decode octets = Some seed \<and>
        totp_verify (au_totp au) seed (str_strip code) 1 t)"

lemma verify_totp_code_run:
  assumes "verify_totp_code au u code w = (r, w')" and "db_role w = OwnerRole"
  shows "store w' = store w \<and> committed w' = committed w \<and> db_role w' = OwnerRole \<and>
    (r = Inr True \<longrightarrow> (\<exists>t. authenticator_code au u code t (store w)))"
  using assms
  by (auto simp: verify_totp_code_def totp_get_confirmed_def seed_decrypt_def verify_totp_def prog_simps
      owner_row_where authenticator_code_def split: option.splits dest!: find_Some_iff2)

lemma challenge_unchanged:
  "verify_challenge_token ts tok w = (r, w') \<Longrightarrow>
     store w' = store w \<and> committed w' = committed w \<and> db_role w' = db_role w \<and> zsets w' = zsets w"
  by (auto simp: verify_challenge_token_def decode_token_def uuid_claim_def prog_simps
      split: option.splits if_splits json.splits)

definition second_factor :: "auth_env \<Rightarrow> uuid \<Rightarrow> string \<Rightarrow> db \<Rightarrow> db \<Rightarrow> bool" where
  "second_factor au u code d d' \<longleftrightarrow>
     (\<exists>t. authenticator_code au u code t d) \<or>
     (\<exists>c \<in> set (t_recovery_codes d). unused_code u (hash_recovery_code code) c \<and>
        (\<exists>c' \<in> set (t_recovery_codes d'). rc_id c' = rc_id c \<and> rc_used_at c' \<noteq> None))"

lemma redeem_accepts:
  assumes "redeem_recovery_code u code w = (Inr True, w1)" and "db_role w = OwnerRole"
  shows "db_role w1 = OwnerRole \<and> committed w1 = committed w \<and>
    t_sessions (store w1) = t_sessions (store w) \<and> t_refresh_tokens (store w1) = t_refresh_tokens (store w) \<and>
    (\<exists>c \<in> set (t_recovery_codes (store w)). unused_code u (hash_recovery_code code) c \<and>
      (\<exists>c' \<in> set (t_recovery_codes (store w1)). rc_id c' = rc_id c \<and> rc_used_at c' \<noteq> None))"
proof -
  obtain c where c: "c \<in> set (t_recovery_codes (store w))" "unused_code u (hash_recovery_code code) c"
    and w1: "w1 = set_rows recovery_codes (update_where (\<lambda>r. rc_id r = rc_id c)
          (\<lambda>r. r\<lparr>rc_used_at := Some (clock w)\<rparr>)) (w\<lparr>draws := Suc (draws w)\<rparr>)"
    using assms by (auto simp: redeem_run dest!: find_Some_iff2 split: option.splits)
  have "c\<lparr>rc_used_at := Some (clock w)\<rparr> \<in> set (t_recovery_codes (store w1))"
    by (simp add: w1 store_set_rows updated_member [OF c(1)])
  then have "\<exists>c' \<in> set (t_recovery_codes (store w1)). rc_id c' = rc_id c \<and> rc_used_at c' \<noteq> None"
    by (rule bexI [rotated]) simp
  then show ?thesis using c assms(2) by (auto simp: w1 store_set_rows)
qed

lemma opened_session_cong:
  "t_sessions d = t_sessions d0 \<Longrightarrow> t_refresh_tokens d = t_refresh_tokens d0 \<Longrightarrow>
     opened_session u amr raw d d' = opened_session u amr raw d0 d'"
  by (simp add: opened_session_def)

lemma issue_keeps_codes:
  "issue_credentials au u ua amr w = (Inr pair, w') \<Longrightarrow>
     t_recovery_codes (store w') = t_recovery_codes (store w)"
  by (auto simp: issue_credentials_def idm_get_tenant_id_def session_add_def refresh_add_def mint_access_token_def
      prog_simps Let_def store_set_rows split: option.splits if_splits)

lemma second_step_run:
  assumes "seq (verify_totp_code au u code) (\<lambda>totp_ok.
      seq (if totp_ok then ret True else redeem_recovery_code u code) (\<lambda>ok.
      if \<not> ok then raise err else issue_credentials au u ua amr)) w = (Inr pair, w')"
    and role: "db_role w = OwnerRole"
  shows "second_factor au u code (store w) (store w') \<and>
    opened_session u amr (tp_refresh pair) (store w) (store w')"
proof -
  obtain ok1 w1 where v: "verify_totp_code au u code w = (Inr ok1, w1)"
    and rest: "seq (if ok1 then ret True else redeem_recovery_code u code) (\<lambda>ok.
      if \<not> ok then raise err else issue_credentials au u ua amr) w1 = (Inr pair, w')"
    using assms(1) by (rule seq_InrE)
  note w1 = verify_totp_code_run [OF v role]
  show ?thesis
  proof (cases ok1)
    case True
    with rest have "issue_credentials au u ua amr w1 = (Inr pair, w')" by simp
    from issue_returns [OF this] w1 True show ?thesis by (auto simp: second_factor_def)
  next
    case False
    with rest obtain w2 where red: "redeem_recovery_code u code w1 = (Inr True, w2)"
      and iss: "issue_credentials au u ua amr w2 = (Inr pair, w')"
      by (auto simp: seq_Inr_iff split: if_splits)
    note w2 = redeem_accepts [OF red, simplified w1]
    have "opened_session u amr (tp_refresh pair) (store w2) (store w')"
      using issue_returns [OF iss] w2 w1 by simp
    moreover have "second_factor au u code (store w) (store w')"
      using w2 w1 issue_keeps_codes [OF iss] by (simp add: second_factor_def)
    ultimately show ?thesis
      using w1 w2 opened_session_cong [of "store w2" "store w"] by simp
  qed
qed

lemma complete_login_uncommitted: "framed uncommitted (complete_login au challenge code ua)"
proof -
  have "framed uncommitted (redis_call R)" "framed uncommitted (put_zset key z)" for R key z
    by (simp_all add: framed_def uncommitted_def redis_call_def put_zset_def)
  then have "framed uncommitted (limiter_check R key cap win fc)" for R key cap win fc
    unfolding limiter_check_def limiter_check_once_def Let_def by (auto intro!: framed_intros)
  then show ?thesis
    unfolding complete_login_def verify_challenge_token_def decode_token_def uuid_claim_def user_get_def
      verify_totp_code_def totp_get_confirmed_def seed_decrypt_def verify_totp_def redeem_recovery_code_def
      recovery_redeem_for_update_def issue_credentials_def idm_get_tenant_id_def session_add_def
      generate_refresh_token_def token_urlsafe_def refresh_add_def mint_access_token_def Let_def
    by (auto intro!: framed_intros split: exn.split identity_error.split json.split)
qed

lemma complete_login_run:
  assumes "complete_login au challenge code ua w = (Inr pair, w')" and role: "db_role w = OwnerRole"
  shows "\<exists>x \<in> set (t_users (store w)). u_is_active x \<and> u_mfa_enabled x \<and>
     fst (verify_challenge_token (au_tokens au) challenge w) = Inr (u_id x) \<and>
     second_factor au (u_id x) code (store w) (store w') \<and>
     opened_session (u_id x) [''pwd'', ''totp''] (tp_refresh pair) (store w) (store w')"
proof -
  obtain u w1 where ch: "verify_challenge_token (au_tokens au) challenge w = (Inr u, w1)"
    and rest: "complete_login au challenge code ua w = seq (limiter_check (au_redis au) (''rl:mfa:'' @ uuid_str u)
        MFA_VERIFY_CAPACITY MFA_VERIFY_WINDOW_SECONDS True) (\<lambda>allowed.
      if \<not> allowed then raise (Identity (MfaVerificationError ''Invalid code''))
      else seq (user_get u) (\<lambda>found.
      if (case found of None \<Rightarrow> True | Some u \<Rightarrow> \<not> u_is_active u \<or> \<not> u_mfa_enabled u)
      then raise (Identity (MfaVerificationError ''Invalid or expired challenge''))
      else seq (verify_totp_code au u code) (\<lambda>totp_ok.
        seq (if totp_ok then ret True else redeem_recovery_code u code) (\<lambda>ok.
        if \<not> ok then raise (Identity (MfaVerificationError ''Invalid code''))
        else issue_credentials au u ua [''pwd'', ''totp''])))) w1"
  proof -
    obtain r1 w1 where ch: "verify_challenge_token (au_tokens au) challenge w = (r1, w1)" by fastforce
    show thesis
    proof (cases r1)
      case (Inl e)
      then show thesis
        using assms(1) ch by (auto simp: complete_login_def seq_def catch_def split: exn.splits identity_error.splits)
    next
      case (Inr u)
      then show thesis
        using that [of u w1] ch by (simp add: complete_login_def seq_def catch_def)
    qed
  qed
  obtain ok w2 where lim: "limiter_check (au_redis au) (''rl:mfa:'' @ uuid_str u) MFA_VERIFY_CAPACITY
      MFA_VERIFY_WINDOW_SECONDS True w1 = (Inr ok, w2)"
    using assms(1) unfolding rest by (rule seq_InrE)
  note same = challenge_unchanged [OF ch] limiter_outcome [OF lim]
  obtain x where x: "x \<in> set (t_users (store w))" "u_id x = u" "u_is_active x" "u_mfa_enabled x"
    and tail: "seq (verify_totp_code au u code) (\<lambda>totp_ok.
        seq (if totp_ok then ret True else redeem_recovery_code u code) (\<lambda>ok.
        if \<not> ok then raise (Identity (MfaVerificationError ''Invalid code''))
        else issue_credentials au u ua [''pwd'', ''totp''])) w2 = (Inr pair, w')"
    using assms(1) role same unfolding rest
      seq_apply_Inr [where m = "limiter_check (au_redis au) (''rl:mfa:'' @ uuid_str u) MFA_VERIFY_CAPACITY
        MFA_VERIFY_WINDOW_SECONDS True" and w = w1, OF lim] user_get_def seq_select_one
    by (auto simp: owner_row_where dest!: find_Some_iff2 split: if_splits option.splits)
  from second_step_run [OF tail] role same x ch show ?thesis by auto
qed


end
