(* ===== verification/Rate_Laws.thy ===== *)
theory Rate_Laws
  imports Login_Laws
begin

text \<open>
  The rate limiter over time: whatever else the process does between the checks of a key, and
  whichever round trips to Redis fail, the number of checks it lets pass in a window of time is
  bounded by the capacity.
\<close>

definition entry_at :: "world \<Rightarrow> string \<times> time" where
  "entry_at w = (int_str (clock w) @ '':'' @ uuid_str (uuid_at (env w) (Suc (draws w))), clock w)"

text \<open>
  The checks of one key, in the order they ran: the log holds what was let pass, latest last. In
  between the process may do anything but write the key.
\<close>

inductive checks :: "redis \<Rightarrow> string \<Rightarrow> nat \<Rightarrow> int \<Rightarrow> world \<Rightarrow> (string \<times> time) list \<Rightarrow> world \<Rightarrow> bool"
  for R key cap win w where
  start: "checks R key cap win w [] w"
| other: "checks R key cap win w log w1 \<Longrightarrow> env w2 = env w1 \<Longrightarrow> draws w1 \<le> draws w2 \<Longrightarrow>
    zsets w2 key = zsets w1 key \<Longrightarrow> checks R key cap win w log w2"
| check: "checks R key cap win w log w1 \<Longrightarrow> limiter_check R key cap win True w1 = (r, w2) \<Longrightarrow>
    checks R key cap win w (if r = Inr True then log @ [entry_at w1] else log) w2"

definition survivors :: "int \<Rightarrow> world \<Rightarrow> string \<Rightarrow> zset" where
  "survivors win w key = filter (\<lambda>e. \<not> (0 \<le> snd e \<and> snd e \<le> clock w - seconds win)) (zsets w key)"

lemma limiter_check_cases:
  assumes "zset_ok R" and "limiter_check R key cap win True w = (r, w')"
  defines "kept \<equiv> filter (\<lambda>e. fst e \<noteq> fst (entry_at w)) (survivors win w key)"
  shows "env w' = env w \<and> draws w + 2 \<le> draws w' \<and>
    (r = Inr True \<and> length (survivors win w key) < cap \<and> zsets w' key = kept @ [entry_at w] \<or>
     r = Inr False \<and> cap \<le> length (survivors win w key) \<and> zsets w' key = kept \<or>
     r = Inl unavailable \<and> zsets w' key \<in> {zsets w key, kept @ [entry_at w]})"
  using assms(1,2) unfolding kept_def
  by (auto simp: limiter_check_def limiter_check_once_def catch_def prog_simps Let_def zset_ok_def
      survivors_def entry_at_def clock_def unavailable_def split: if_splits)

text \<open>
  What holds after any sequence of checks: the key holds every logged entry that is still in the
  window, under names that come from identifiers already drawn.
\<close>

definition named :: "environment \<Rightarrow> nat \<Rightarrow> string \<times> time \<Rightarrow> bool" where
  "named e n x \<longleftrightarrow> (\<exists>k < n. \<exists>j < n. x = (int_str (tick e k) @ '':'' @ uuid_str (uuid_at e j), tick e k))"

definition tracks :: "int \<Rightarrow> string \<Rightarrow> (string \<times> time) list \<Rightarrow> world \<Rightarrow> bool" where
  "tracks win key log w \<longleftrightarrow>
     (\<forall>x \<in> set log \<union> set (zsets w key). named (env w) (draws w) x) \<and>
     distinct (map fst (zsets w key)) \<and> distinct (map fst log) \<and>
     (\<forall>t. clock w \<le> t \<longrightarrow> set (in_window (seconds win) t log) \<subseteq> set (zsets w key))"

definition well_behaved :: "environment \<Rightarrow> nat \<Rightarrow> bool" where
  "well_behaved e n \<longleftrightarrow> inj_on (uuid_at e) {..n} \<and> (\<forall>i j. i \<le> j \<longrightarrow> j \<le> n \<longrightarrow> tick e i \<le> tick e j) \<and> 0 \<le> tick e 0"

lemma uuid_suffix:
  assumes "x @ '':'' @ uuid_str u = y @ '':'' @ uuid_str v"
  shows "u = v"
proof -
  have "length (uuid_str u) = length (uuid_str v)"
    by simp
  with assms have "uuid_str u = uuid_str v" by simp
  then show ?thesis by (metis uuid_of_uuid_str option.inject)
qed

lemma entry_is_new:
  assumes "well_behaved (env w) (Suc (draws w))" and "named (env w) (draws w) x"
  shows "fst x \<noteq> fst (entry_at w)"
proof
  assume "fst x = fst (entry_at w)"
  with assms(2) obtain j where "j < draws w" "uuid_at (env w) j = uuid_at (env w) (Suc (draws w))"
    unfolding named_def entry_at_def using uuid_suffix by fastforce
  with assms(1) show False
    by (auto simp: well_behaved_def dest: inj_onD [where x = j and y = "Suc (draws w)"])
qed

lemma named_mono: "named e n x \<Longrightarrow> n \<le> m \<Longrightarrow> named e m x"
  unfolding named_def using less_le_trans by blast

lemma entry_named: "draws w + 2 \<le> n \<Longrightarrow> named (env w) n (entry_at w)"
  unfolding named_def entry_at_def clock_def
  by (rule exI [of _ "draws w"], simp, rule exI [of _ "Suc (draws w)"], simp)

lemma named_time: "named (env w) (draws w) x \<Longrightarrow> well_behaved (env w) (draws w) \<Longrightarrow> snd x \<le> clock w"
  by (auto simp: named_def well_behaved_def clock_def)

lemma kept_all:
  assumes "well_behaved (env w) (Suc (draws w))" and "\<forall>x \<in> set z. named (env w) (draws w) x"
  shows "filter (\<lambda>e. fst e \<noteq> fst (entry_at w)) z = z"
  using entry_is_new [OF assms(1)] assms(2) by (intro filter_True) blast

lemma window_survives:
  assumes "tracks win key log w"
  shows "set (in_window (seconds win) (clock w) log) \<subseteq> set (survivors win w key)"
proof
  fix x assume x: "x \<in> set (in_window (seconds win) (clock w) log)"
  with assms have "x \<in> set (zsets w key)" by (auto simp: tracks_def)
  with x show "x \<in> set (survivors win w key)" by (auto simp: survivors_def in_window_def)
qed

lemma well_behaved_less: "well_behaved e n \<Longrightarrow> m \<le> n \<Longrightarrow> well_behaved e m"
  unfolding well_behaved_def by (auto intro: inj_on_subset)

lemma tracks_later:
  assumes "tracks win key log w1" and "env w2 = env w1" and "draws w1 \<le> draws w2"
    and "zsets w2 key = zsets w1 key" and "well_behaved (env w2) (draws w2)"
  shows "tracks win key log w2"
proof -
  have "clock w1 \<le> clock w2"
    using assms(2,3,5) by (simp add: clock_def well_behaved_def)
  with assms(1-4) show ?thesis
    unfolding tracks_def by (auto intro: named_mono)
qed

lemma tracks_check:
  assumes "zset_ok R" and run: "limiter_check R key cap win True w1 = (r, w2)"
    and "tracks win key log w1" and ok: "well_behaved (env w2) (draws w2)"
  shows "tracks win key (if r = Inr True then log @ [entry_at w1] else log) w2"
proof -
  note cs = limiter_check_cases [OF assms(1) run]
  have later: "env w2 = env w1" "draws w1 + 2 \<le> draws w2" using cs by auto
  have ok1: "well_behaved (env w1) (Suc (draws w1))"
    using ok later by (auto intro: well_behaved_less)
  have times: "clock w1 \<le> clock w2" using ok later by (simp add: clock_def well_behaved_def)
  have old: "\<forall>x \<in> set log \<union> set (zsets w1 key). named (env w1) (draws w1) x"
    using assms(3) by (simp add: tracks_def)
  then have kept: "filter (\<lambda>e. fst e \<noteq> fst (entry_at w1)) (survivors win w1 key) = survivors win w1 key"
    by (intro kept_all [OF ok1]) (auto simp: survivors_def)
  have names: "\<forall>x \<in> set log \<union> set (zsets w1 key). named (env w2) (draws w2) x" "named (env w2) (draws w2) (entry_at w1)"
    using old later entry_named [of w1 "draws w2"] by (auto intro: named_mono)
  have new: "fst (entry_at w1) \<notin> fst ` (set log \<union> set (zsets w1 key))"
    using old entry_is_new [OF ok1] by fastforce
  have window: "set (in_window (seconds win) t log) \<subseteq> set (survivors win w1 key)" if "clock w2 \<le> t" for t
    using window_survives [OF assms(3)] that times by (auto simp: in_window_def)
  have sub: "set (survivors win w1 key) \<subseteq> set (zsets w1 key)" "distinct (map fst (survivors win w1 key))"
    using assms(3) by (auto simp: survivors_def tracks_def distinct_map_filter)
  have allowed: "set (in_window (seconds win) t (log @ [entry_at w1])) \<subseteq> set (survivors win w1 key @ [entry_at w1])"
    if "clock w2 \<le> t" for t
    using window [OF that] by (auto simp: in_window_def)
  have surv: "\<forall>x \<in> set (survivors win w1 key). named (env w2) (draws w2) x"
    using names(1) sub(1) by blast
  have new_surv: "fst (entry_at w1) \<notin> fst ` set (survivors win w1 key)" "fst (entry_at w1) \<notin> fst ` set log"
    using new sub(1) by blast+
  have whole: "set (in_window (seconds win) t log) \<subseteq> set (zsets w1 key)" if "clock w2 \<le> t" for t
    using assms(3) that times by (simp add: tracks_def)
  have d: "distinct (map fst (zsets w1 key))" "distinct (map fst log)"
    using assms(3) by (simp_all add: tracks_def)
  consider "r = Inr True" "zsets w2 key = survivors win w1 key @ [entry_at w1]"
    | "r \<noteq> Inr True" "zsets w2 key \<in> {survivors win w1 key, zsets w1 key, survivors win w1 key @ [entry_at w1]}"
    using cs kept by auto
  then show ?thesis
  proof cases
    case 1
    then show ?thesis
      using names surv new_surv allowed sub d unfolding tracks_def by (simp add: ball_Un)
  next
    case 2
    have "set (in_window (seconds win) t log) \<subseteq> set (zsets w2 key)" if "clock w2 \<le> t" for t
      using 2(2) window [OF that] whole [OF that] by auto
    moreover have "\<forall>x \<in> set log \<union> set (zsets w2 key). named (env w2) (draws w2) x"
      using 2(2) names surv by auto
    moreover have "distinct (map fst (zsets w2 key))"
      using 2(2) new_surv sub d by auto
    ultimately show ?thesis
      using 2(1) d by (simp add: tracks_def)
  qed
qed

lemma window_below:
  assumes "tracks win key log w" and "length (survivors win w key) < cap"
  shows "length (in_window (seconds win) (clock w) log) < cap"
proof -
  have "distinct (in_window (seconds win) (clock w) log)"
    using assms(1) by (auto simp: tracks_def in_window_def distinct_map)
  then have "length (in_window (seconds win) (clock w) log) = card (set (in_window (seconds win) (clock w) log))"
    by (simp add: distinct_card)
  also have "\<dots> \<le> card (set (survivors win w key))"
    by (rule card_mono) (simp, rule window_survives [OF assms(1)])
  also have "\<dots> \<le> length (survivors win w key)" by (rule card_length)
  finally show ?thesis using assms(2) by simp
qed

lemma checks_track:
  assumes "checks R key cap win w log w'" and "zset_ok R" and "zsets w key = []"
    and "well_behaved (env w') (draws w')"
  shows "tracks win key log w' \<and> (\<forall>t. allowed_in (seconds win) t log \<le> cap)"
  using assms
proof (induction rule: checks.induct)
  case start
  then show ?case by (simp add: tracks_def in_window_def allowed_in_def)
next
  case (other log w1 w2)
  then have "well_behaved (env w1) (draws w1)" by (auto intro: well_behaved_less)
  with other show ?case using tracks_later by blast
next
  case (check log w1 r w2)
  note cs = limiter_check_cases [OF check.prems(1) check.hyps(2)]
  have ok1: "well_behaved (env w1) (draws w1)"
    using cs check.prems(3) by (auto intro: well_behaved_less)
  with check have IH: "tracks win key log w1" "\<forall>t. allowed_in (seconds win) t log \<le> cap" by auto
  have "allowed_in (seconds win) t (log @ [entry_at w1]) \<le> cap" if "r = Inr True" for t
  proof (rule allowed_in_snoc)
    show "\<forall>x \<in> set log. snd x \<le> snd (entry_at w1)"
      using IH(1) ok1 named_time by (auto simp: tracks_def entry_at_def)
    show "length (in_window (seconds win) (snd (entry_at w1)) log) < cap"
      using cs that window_below [OF IH(1)] by (auto simp: entry_at_def)
  qed (use IH in simp)
  then show ?case
    using IH tracks_check [OF check.prems(1) check.hyps(2) IH(1) check.prems(3)] by simp
qed


lemma demo_uuid: "n < 1000 \<Longrightarrow> unat (uuid_at demo_env n) = 1000 + n"
  by (simp only: demo_env_simps unat_of_nat) simp

lemma demo_well_behaved: "n < 1000 \<Longrightarrow> well_behaved demo_env n"
proof -
  assume n: "n < 1000"
  have "inj_on (uuid_at demo_env) {..n}"
  proof (rule inj_onI)
    fix x y assume xy: "x \<in> {..n}" "y \<in> {..n}" and eq: "uuid_at demo_env x = uuid_at demo_env y"
    have x: "x < 1000" and y: "y < 1000" using xy n by simp_all
    have "unat (uuid_at demo_env x) = 1000 + x" "unat (uuid_at demo_env y) = 1000 + y"
      by (fact demo_uuid [OF x], fact demo_uuid [OF y])
    then show "x = y" unfolding eq by linarith
  qed
  then show ?thesis by (simp add: well_behaved_def)
qed


end
