(* ===== verification/Org_Laws.thy ===== *)
theory Org_Laws
  imports Login_Laws
begin

text \<open>
  Who may join an organization and who may be removed: the rules of invitations and members.
\<close>

lemma tenant_commit:
  assumes "with_tenant_uow t (seq body (\<lambda>x. seq commit (\<lambda>_. ret (g x)))) w = (Inr y, w')"
  obtains x w1 where "body (uow_start (AppRole t) w) = (Inr x, w1)" and "y = g x" and "committed w' = store w1"
  using assms
  by (auto simp: with_tenant_uow_def with_uow_apply seq_def commit_def split: prod.splits sum.splits)

lemma tenant_abort:
  assumes "with_tenant_uow t (seq body (\<lambda>x. seq commit (\<lambda>_. ret (g x)))) w = (Inl e, w')"
    and "framed session_kept body"
  shows "committed w' = committed w"
proof -
  obtain r w1 where run: "body (uow_start (AppRole t) w) = (r, w1)" by fastforce
  with assms(1) have "committed w' = committed w1"
    by (auto simp: with_tenant_uow_def with_uow_apply seq_def commit_def split: sum.splits)
  with framedD [OF assms(2) run] show ?thesis by (simp add: session_kept_def)
qed

section \<open>Removing a member\<close>

text \<open>Who may remove whom.\<close>

definition may_remove :: "org_role \<Rightarrow> org_role \<Rightarrow> bool" where
  "may_remove actor_role target_role \<longleftrightarrow>
     actor_role = OWNER \<and> target_role \<noteq> OWNER \<or> actor_role = ADMIN \<and> target_role \<in> {MEMBER, VIEWER}"

lemma may_remove_cases:
  "may_remove OWNER r \<longleftrightarrow> r \<noteq> OWNER" "may_remove ADMIN r \<longleftrightarrow> r \<noteq> OWNER \<and> r \<noteq> ADMIN"
  by (cases r; simp add: may_remove_def)+

lemma org_may: "org_decision r u t MEMBER_REMOVE = Inr ctx \<Longrightarrow> r = Some (ac_role ctx) \<and> ac_role ctx \<in> {OWNER, ADMIN}"
  by (auto simp: org_decision_def org_allows_def split: option.splits if_splits)

lemma member_views_row:
  "member_views us ms = v # vs \<Longrightarrow> \<exists>m \<in> set ms. mv_membership_id v = m_id m \<and> mv_user_id v = m_user_id m \<and> mv_role v = m_role m"
proof -
  assume "member_views us ms = v # vs"
  then have "v \<in> set (member_views us ms)" by simp
  then show ?thesis by (auto simp: member_views_def)
qed

lemma record_keeps:
  assumes "record_event actor a tt tid oc md w = (r, w')"
  shows "t_memberships (store w') = t_memberships (store w) \<and> t_grants (store w') = t_grants (store w) \<and>
    t_invitations (store w') = t_invitations (store w) \<and> t_users (store w') = t_users (store w)"
proof -
  have "ledger_only (db_role w) (store w) (store w')"
    using framedD [OF ledger_only_record assms] by (simp add: within_def)
  then have "store w' = (store w)\<lparr>t_audit_events := t_audit_events (store w'),
      t_chain_heads := t_chain_heads (store w')\<rparr>"
    by (simp add: ledger_only_def)
  then show ?thesis
    by (metis db.select_convs(2,10,8,1) db.surjective db.update_convs(14,15))
qed

lemma member_remove_run:
  assumes "member_remove mid t w = (r, w')" and "db_role w = AppRole t"
    and "\<exists>m \<in> set (t_memberships (store w)). m_id m = mid \<and> m_tenant_id m = t"
  shows "r = Inr True \<and> t_memberships (store w') = filter (\<lambda>m. \<not> (m_id m = mid \<and> m_tenant_id m = t)) (t_memberships (store w)) \<and>
    (\<forall>g \<in> set (t_grants (store w')). g_membership_id g \<noteq> mid)"
  using assms
  by (auto simp: member_remove_def Let_def prog_simps rows_where_def cascade_grants_def store_set_rows delete_where_def
      seen_def visible_def filter_empty_conv)

lemma removal_run:
  assumes "org_service_remove_member actor mid su w = (Inr (), w')" and "db_role w = AppRole (actor_tenant actor)"
  shows "su \<and> (\<exists>m r. m \<in> set (t_memberships (store w)) \<and> m_id m = mid \<and> m_tenant_id m = actor_tenant actor \<and>
      m_user_id m \<noteq> actor_user actor \<and> role_in w (actor_user actor) (actor_tenant actor) = Some r \<and>
      may_remove r (m_role m)) \<and>
    t_memberships (store w') =
      filter (\<lambda>m. \<not> (m_id m = mid \<and> m_tenant_id m = actor_tenant actor)) (t_memberships (store w)) \<and>
    (\<forall>g \<in> set (t_grants (store w')). g_membership_id g \<noteq> mid)"
  using assms
  apply (simp add: org_service_remove_member_def require_org_apply member_get_by_id_def prog_simps
    split: sum.splits option.splits list.splits if_splits)
  apply (elim conjE seq_InrE)
  subgoal for ctx v v' vs removed w1
    by (drule org_may, drule member_views_row, drule member_remove_run, assumption)
      (auto simp: rows_where_def may_remove_cases dest!: record_keeps split: if_splits)
  done

definition current_role :: "actor_context \<Rightarrow> db \<Rightarrow> org_role option" where
  "current_role actor d = map_option m_role
     (find (\<lambda>m. m_tenant_id m = actor_tenant actor \<and> m_user_id m = actor_user actor) (t_memberships d))"

lemma role_in_start:
  "role_in (uow_start (AppRole (actor_tenant actor)) w) (actor_user actor) (actor_tenant actor) =
     current_role actor (committed w)"
  unfolding role_in_def current_role_def row_where_def rows_of_simps uow_start_simps
  by (intro arg_cong [where f = "map_option m_role"] find_cong_set) (auto simp: seen_def visible_def)

text \<open>
  C31. Removing a member: when it returns, step-up was proven, the target is another member of the
  same organization, the caller is its owner and the target is not, or the caller is an
  administrator and the target neither owner nor administrator, and the membership and its grants
  are gone while all other memberships are kept. When it raises, nothing is committed.
\<close>

theorem removal_follows_the_rules:
  "case remove_member actor mid step_up_proven w of
     (Inr _, w') \<Rightarrow>
       step_up_proven \<and>
       (\<exists>m \<in> set (t_memberships (committed w)). \<exists>r. m_id m = mid \<and> m_tenant_id m = actor_tenant actor \<and>
          m_user_id m \<noteq> actor_user actor \<and>
          current_role actor (committed w) = Some r \<and> may_remove r (m_role m)) \<and>
       t_memberships (committed w') = filter (\<lambda>m. \<not> (m_id m = mid \<and> m_tenant_id m = actor_tenant actor))
         (t_memberships (committed w)) \<and>
       mid \<notin> g_membership_id ` set (t_grants (committed w'))
   | (Inl e, w') \<Rightarrow> committed w' = committed w"
proof (cases "remove_member actor mid step_up_proven w")
  case (Pair r w')
  have run: "with_tenant_uow (actor_tenant actor)
       (seq (org_service_remove_member actor mid step_up_proven) (\<lambda>x. seq commit (\<lambda>_. ret ()))) w = (r, w')"
    using Pair by (simp add: remove_member_def commit_ret)
  show ?thesis
  proof (cases r)
    case (Inl e)
    from tenant_abort [OF run [unfolded Inl] org_services_kept(2)] show ?thesis by (simp add: Pair Inl)
  next
    case (Inr u)
    obtain w1 where "org_service_remove_member actor mid step_up_proven
        (uow_start (AppRole (actor_tenant actor)) w) = (Inr (), w1)" and w': "committed w' = store w1"
      using run [unfolded Inr] by (rule tenant_commit) simp
    from removal_run [OF this(1)] w' show ?thesis unfolding Pair Inr role_in_start by auto
  qed
qed

section \<open>Inviting\<close>

definition may_invite :: "org_role \<Rightarrow> org_role \<Rightarrow> bool" where
  "may_invite actor_role invited_role \<longleftrightarrow>
     actor_role = OWNER \<and> invited_role \<noteq> OWNER \<or> actor_role = ADMIN \<and> invited_role \<in> {MEMBER, VIEWER}"

lemma may_invite_cases:
  "may_invite OWNER r \<longleftrightarrow> r \<noteq> OWNER" "may_invite ADMIN r \<longleftrightarrow> r \<noteq> OWNER \<and> r \<noteq> ADMIN"
  by (cases r; simp add: may_invite_def)+

lemma invitable_roles: "r \<in> INVITABLE_ROLES \<longleftrightarrow> r \<noteq> OWNER"
  by (cases r) (simp_all add: INVITABLE_ROLES_def)

lemma org_may_invite:
  "org_decision r u t MEMBER_INVITE = Inr ctx \<Longrightarrow> r = Some (ac_role ctx) \<and> ac_role ctx \<in> {OWNER, ADMIN}"
  by (auto simp: org_decision_def org_allows_def split: option.splits if_splits)

text \<open>The invitation a call adds, and the one message that carries its token.\<close>

definition invites :: "actor_context \<Rightarrow> string \<Rightarrow> org_role \<Rightarrow> invitation \<Rightarrow> string \<Rightarrow> db \<Rightarrow> db \<Rightarrow> bool" where
  "invites actor email orole invite raw d d' \<longleftrightarrow>
     t_invitations d' = t_invitations d @ [invite] \<and> pending invite \<and>
     i_tenant_id invite = actor_tenant actor \<and> i_email invite = normalize_email email \<and> i_role invite = orole \<and>
     i_token_hash invite = hash_invite_token raw \<and> i_invited_by_user_id invite = actor_user actor \<and>
     (\<exists>t. i_expires_at invite = t + days 7)"

definition mails :: "mailer \<Rightarrow> string \<Rightarrow> org_role \<Rightarrow> string \<Rightarrow> email list \<Rightarrow> email list \<Rightarrow> bool" where
  "mails ml email orole raw sent sent' \<longleftrightarrow>
     (\<exists>n. sent' = sent @ [\<lparr>em_to = normalize_email email,
        em_invite_url = rstrip_slash (ml_invite_base_url ml) @ ''?token='' @ raw,
        em_organization_name = n, em_role = orole\<rparr>])"

lemma seq_token_urlsafe:
  "seq (token_urlsafe n) f w = f (b64url (map (byte_at (env w) (draws w)) [0..<n])) (w\<lparr>draws := Suc (draws w)\<rparr>)"
  by (simp add: token_urlsafe_def seq_urandom del: seq_Pair_Inr)

text \<open>Writing the audit event sends no mail.\<close>

definition mail_kept :: "world \<Rightarrow> world \<Rightarrow> bool" where
  "mail_kept w w' \<longleftrightarrow> outbox w' = outbox w"

interpretation mail_kept: frame_relation mail_kept
  by unfold_locales (simp_all add: mail_kept_def)

lemma mail_kept_statements [framed_intros]:
  "framed mail_kept now" "framed mail_kept fresh_uuid" "framed mail_kept (select_all T p)"
  "framed mail_kept (select_one T p)" "framed mail_kept (insert_row T row)"
  "framed mail_kept (update_rows T p f)" "framed mail_kept server_now"
  by (simp_all add: framed_def mail_kept_def now_def fresh_uuid_def select_all_def select_one_def
      insert_row_def update_rows_def server_now_def)

lemma record_sends_no_mail: "record_event actor a tt tid oc md w = (r, w') \<Longrightarrow> outbox w' = outbox w"
proof -
  have "framed mail_kept (record_event actor a tt tid oc md)"
    by (auto simp: audit_repo_defs Let_def intro!: framed_intros)
  then show "record_event actor a tt tid oc md w = (r, w') \<Longrightarrow> outbox w' = outbox w"
    using framedD by (fastforce simp: mail_kept_def)
qed

lemma record_keeps_all:
  assumes "record_event actor a tt tid oc md w = (r, w')"
  shows "t_invitations (store w') = t_invitations (store w) \<and> outbox w' = outbox w"
  using record_keeps [OF assms] record_sends_no_mail [OF assms] by simp

lemma invite_run:
  assumes "org_service_create_invitation ml actor email orole w = (Inr (invite, raw), w')"
    and "db_role w = AppRole (actor_tenant actor)"
  shows "(\<exists>r. role_in w (actor_user actor) (actor_tenant actor) = Some r \<and> may_invite r orole) \<and>
    invites actor email orole invite raw (store w) (store w') \<and> mails ml email orole raw (outbox w) (outbox w') \<and>
    (\<forall>i \<in> set (t_invitations (store w)). pending i \<longrightarrow> (i_tenant_id i, i_email i) \<noteq> (actor_tenant actor, normalize_email email))"
  using assms
  apply (simp add: org_service_create_invitation_def require_org_apply Let_def invitation_has_pending_for_email_def
      seq_token_urlsafe invitation_add_def organization_get_name_def prog_simps
    split: sum.splits option.splits list.splits if_splits)
  apply (elim conjE seq_InrE)
  subgoal for ctx org u w1 u' w2
    by (drule org_may_invite)
      (auto simp: may_invite_cases invitable_roles invites_def mails_def pending_def store_set_rows send_invitation_def
        row_where_def find_None_iff seen_def visible_def INVITE_TTL_DAYS_def
        dest!: record_keeps_all split: if_splits)
  done

definition email_has_membership :: "string \<Rightarrow> db \<Rightarrow> bool" where
  "email_has_membership email d \<longleftrightarrow>
     (\<exists>u \<in> set (t_users d). u_email u = email \<and> (\<exists>m \<in> set (t_memberships d). m_user_id m = u_id u))"

lemma membership_check:
  assumes "db_role w = OwnerRole"
  shows "idm_has_membership_for_email email w = (Inr (email_has_membership email (store w)), w)"
proof -
  have "idm_has_membership_for_email email w =
      (Inr (row_where memberships (\<lambda>m. m_user_id m \<in> u_id ` set (rows_where users (\<lambda>u. u_email u = email) w)) w \<noteq> None), w)"
    by (simp add: idm_has_membership_for_email_def seq_select_all exists_one_def)
  also have "(row_where memberships (\<lambda>m. m_user_id m \<in> u_id ` set (rows_where users (\<lambda>u. u_email u = email) w)) w \<noteq> None) =
      email_has_membership email (store w)"
    unfolding owner_row_where [OF assms] find_None_iff using assms
    by (auto simp: email_has_membership_def rows_where_def seen_def visible_def)
  finally show ?thesis .
qed

lemma seq_membership_check:
  "db_role w = OwnerRole \<Longrightarrow> seq (idm_has_membership_for_email email) f w = f (email_has_membership email (store w)) w"
  by (simp add: seq_def membership_check)


section \<open>Joining\<close>

definition open_invitation :: "string \<Rightarrow> db \<Rightarrow> invitation option" where
  "open_invitation raw d =
     find (\<lambda>i. i_token_hash i = hash_invite_token raw \<and> pending i) (t_invitations d)"

lemma lookup_open:
  "db_role w = OwnerRole \<Longrightarrow> row_where invitations (\<lambda>i. i_token_hash i = hash_invite_token raw \<and> pending i) w =
     open_invitation raw (store w)"
  by (simp add: owner_row_where open_invitation_def)

text \<open>Who joins: the existing account, whose password has to match, or a new one.\<close>

lemma joining_user:
  assumes "(case existing of
      None \<Rightarrow> seq (validate_password_strength password) (\<lambda>_.
        seq (password_hash A password) (\<lambda>h. seq (user_add email h) (\<lambda>user. ret (u_id user))))
    | Some user \<Rightarrow> seq (password_verify A password (u_password_hash user)) (\<lambda>ok.
        if \<not> ok then raise invitation_failed else ret (u_id user))) w = (Inr u, w')"
    and "existing = find (\<lambda>x. u_email x = email) (t_users (store w))" and "db_role w = OwnerRole"
  shows "(\<exists>x \<in> set (t_users (store w')). u_id x = u \<and> u_email x = email) \<and> db_role w' = OwnerRole \<and>
    t_memberships (store w') = t_memberships (store w) \<and> t_invitations (store w') = t_invitations (store w)"
proof (cases existing)
  case None
  with assms show ?thesis
    by (simp add: validate_password_strength_def password_hash_def user_add_def prog_simps Let_def
        del: seq_Pair_Inr split: if_splits) (auto simp: store_set_rows)
next
  case (Some x)
  with assms show ?thesis
    by (auto simp: password_verify_def dest!: find_Some_iff2 split: option.splits if_splits)
qed

lemma accept_identity_run:
  assumes "accept_identity au raw password w = (Inr (invite, u), w')" and role: "db_role w = OwnerRole"
  shows "open_invitation raw (store w) = Some invite \<and>
    (\<exists>x \<in> set (t_users (committed w')). u_id x = u \<and> u_email x = i_email invite) \<and>
    t_memberships (committed w') = t_memberships (store w) \<and> t_invitations (committed w') = t_invitations (store w)"
proof -
  let ?w0 = "w\<lparr>draws := Suc (draws w)\<rparr>"
  obtain i where i: "open_invitation raw (store w) = Some i"
    and run: "seq (idm_has_membership_for_email (i_email i)) (\<lambda>member.
           if member then raise (Organization (MemberConflictError ''Invitation failed''))
           else seq (user_get_by_email (i_email i)) (\<lambda>existing.
             seq (case existing of
                 None \<Rightarrow> seq (validate_password_strength password) (\<lambda>_.
                   seq (password_hash (au_argon au) password) (\<lambda>h. seq (user_add (i_email i) h) (\<lambda>user. ret (u_id user))))
               | Some user \<Rightarrow> seq (password_verify (au_argon au) password (u_password_hash user)) (\<lambda>ok.
                   if \<not> ok then raise invitation_failed else ret (u_id user))) (\<lambda>user_id.
             seq (idm_has_membership user_id) (\<lambda>has.
             if has then raise (Organization (MemberConflictError ''Invitation failed''))
             else seq commit (\<lambda>_. ret (i, user_id)))))) ?w0 = (Inr (invite, u), w')"
    using assms unfolding accept_identity_def lookup_get_pending_by_token_hash_def seq_select_one lookup_open [OF role]
    by (auto simp: seq_now split: option.splits if_splits)
  obtain w1 w2 where user: "(case find (\<lambda>x. u_email x = i_email i) (t_users (store w)) of
                 None \<Rightarrow> seq (validate_password_strength password) (\<lambda>_.
                   seq (password_hash (au_argon au) password) (\<lambda>h. seq (user_add (i_email i) h) (\<lambda>user. ret (u_id user))))
               | Some user \<Rightarrow> seq (password_verify (au_argon au) password (u_password_hash user)) (\<lambda>ok.
                   if \<not> ok then raise invitation_failed else ret (u_id user))) ?w0 = (Inr u, w1)"
    and rest: "idm_has_membership u w1 = (Inr False, w2)" "commit w2 = (Inr (), w')" "invite = i"
    using run role unfolding user_get_by_email_def
    by (auto simp: seq_membership_check seq_select_one owner_row_where elim!: seq_InrE split: if_splits)
  note w1 = joining_user [OF user, simplified, OF role]
  have "committed w' = store w1"
    using rest by (auto simp: idm_has_membership_def idm_get_tenant_id_def prog_simps commit_def)
  then show ?thesis using w1 i rest(3) by simp
qed

definition joins :: "invitation \<Rightarrow> uuid \<Rightarrow> db \<Rightarrow> db \<Rightarrow> bool" where
  "joins invite u d d' \<longleftrightarrow>
     (\<exists>m t. t_memberships d' = t_memberships d @ [m] \<and> m_user_id m = u \<and> m_tenant_id m = i_tenant_id invite \<and>
        m_role m = i_role invite \<and>
        t_invitations d' = update_where (\<lambda>i. i_id i = i_id invite \<and> i_tenant_id i = i_tenant_id invite)
          (\<lambda>i. i\<lparr>i_accepted_at := Some t\<rparr>) (t_invitations d) \<and> t_users d' = t_users d)"

lemma accept_membership_run:
  assumes "accept_membership invite u w = (Inr (), w')" and "db_role w = AppRole (i_tenant_id invite)"
  shows "joins invite u (store w) (committed w')"
proof -
  have same: "(\<lambda>r. seen invitations (AppRole (i_tenant_id invite)) r \<and> i_id r = i_id invite \<and>
      i_tenant_id r = i_tenant_id invite) = (\<lambda>r. i_id r = i_id invite \<and> i_tenant_id r = i_tenant_id invite)"
    by (auto simp: seen_def visible_def)
  show ?thesis
    using assms
    by (auto simp: accept_membership_def member_add_def invitation_mark_accepted_def commit_def prog_simps
        joins_def store_set_rows same split: if_splits)
qed

lemma accept_run:
  assumes "accept_invitation au raw password w = (Inr (), w')"
  shows "\<exists>invite x d. open_invitation raw (committed w) = Some invite \<and> x \<in> set (t_users (committed w')) \<and>
    u_email x = i_email invite \<and> t_memberships d = t_memberships (committed w) \<and>
    t_invitations d = t_invitations (committed w) \<and> joins invite (u_id x) d (committed w')"
proof -
  obtain p w1 where one: "with_identity_uow (accept_identity au raw password) w = (Inr p, w1)"
    and two: "with_tenant_uow (i_tenant_id (fst p)) (accept_membership (fst p) (snd p)) w1 = (Inr (), w')"
    using assms by (auto simp: accept_invitation_def case_prod_unfold elim!: seq_InrE)
  obtain w1' where i: "accept_identity au raw password (uow_start OwnerRole w) = (Inr (fst p, snd p), w1')"
    and c1: "committed w1 = committed w1'"
    using one unfolding with_identity_uow_def by (auto elim: with_uowE)
  obtain w2' where m: "accept_membership (fst p) (snd p) (uow_start (AppRole (i_tenant_id (fst p))) w1) = (Inr (), w2')"
    and c2: "committed w' = committed w2'"
    using two unfolding with_tenant_uow_def by (auto elim: with_uowE)
  note facts = accept_identity_run [OF i, simplified] accept_membership_run [OF m, simplified]
  then obtain x where "x \<in> set (t_users (committed w1))" "u_id x = snd p" "u_email x = i_email (fst p)"
    unfolding c1 by blast
  with facts c1 c2 show ?thesis
    by (auto simp: joins_def intro!: exI [of _ "fst p"] exI [of _ x] exI [of _ "committed w1"])
qed

text \<open>The first unit of work may store an account, but no membership and no invitation.\<close>

definition standing :: "session_role \<Rightarrow> db \<Rightarrow> db \<Rightarrow> bool" where
  "standing r d d' \<longleftrightarrow> t_memberships d' = t_memberships d \<and> t_invitations d' = t_invitations d"

interpretation standing: db_order standing
  by unfold_locales (simp_all add: standing_def)

lemma standing_users [framed_intros]: "framed (within standing) (insert_row users row)"
  by (rule standing.framed_insert_row) (simp add: standing_def)

lemma accept_identity_stands: "framed (across (standing OwnerRole)) (with_identity_uow (accept_identity au raw password))"
  unfolding with_identity_uow_def
  by (rule standing.framed_with_uow)
    (auto simp: accept_identity_def lookup_get_pending_by_token_hash_def idm_has_membership_for_email_def
      user_get_by_email_def validate_password_strength_def user_add_def
      idm_has_membership_def idm_get_tenant_id_def Let_def intro!: framed_intros)

lemma accept_membership_raises:
  "accept_membership invite u w = (Inl e, w') \<Longrightarrow> committed w' = committed w"
  by (auto simp: accept_membership_def member_add_def invitation_mark_accepted_def commit_def prog_simps
      split: if_splits)


text \<open>
  C33. An invitation is accepted at most once: after a token was accepted, presenting it again is
  refused as not found, whoever presents it.
\<close>

theorem invitation_works_once:
  assumes "schema_ok (committed w)" and "accept_invitation au raw password w = (Inr (), w1)"
  shows "fst (accept_invitation au' raw password' w1) = Inl invitation_not_found"
proof -
  obtain invite :: invitation and x :: user and d :: db
    where i: "open_invitation raw (committed w) = Some invite"
    and d: "t_invitations d = t_invitations (committed w)" and j: "joins invite (u_id x) d (committed w1)"
    using accept_run [OF assms(2)] by blast
  obtain t where rows: "t_invitations (committed w1) =
      update_where (\<lambda>i. i_id i = i_id invite \<and> i_tenant_id i = i_tenant_id invite)
        (\<lambda>i. i\<lparr>i_accepted_at := Some t\<rparr>) (t_invitations (committed w))"
    using j d by (auto simp: joins_def)
  have inv: "invite \<in> set (t_invitations (committed w))" "i_token_hash invite = hash_invite_token raw"
    using find_Some_iff2 [OF i [unfolded open_invitation_def]] by auto
  have hashes: "unique i_token_hash (t_invitations (committed w))"
    using assms(1) by (simp add: schema_ok_def)
  have "open_invitation raw (committed w1) = None"
    unfolding open_invitation_def find_None_iff rows set_update_where
  proof (intro notI, elim exE conjE imageE)
    fix y z assume y: "y = (if i_id z = i_id invite \<and> i_tenant_id z = i_tenant_id invite
        then z\<lparr>i_accepted_at := Some t\<rparr> else z)" and z: "z \<in> set (t_invitations (committed w))"
      and open_y: "i_token_hash y = hash_invite_token raw" "pending y"
    have "i_token_hash z = i_token_hash invite" using y open_y(1) inv(2) by (simp split: if_splits)
    with unique_eq [OF hashes z inv(1)] have "z = invite" by simp
    with y open_y(2) show False by (simp add: pending_def)
  qed
  then show ?thesis
    by (simp add: accept_invitation_def accept_identity_def with_identity_uow_def with_uow_apply seq_def
        lookup_get_pending_by_token_hash_def select_one_def lookup_open)
qed

definition sent_invitation :: invitation where
  "sent_invitation = \<lparr>i_id = 41, i_tenant_id = 3, i_email = ''b@c'', i_role = MEMBER,
     i_token_hash = hash_invite_token ''tok'', i_invited_by_user_id = 1, i_expires_at = 1800000000000000,
     i_accepted_at = None, i_revoked_at = None, i_created_at = 0\<rparr>"

definition invited_db :: db where
  "invited_db = base_db\<lparr>t_invitations := [sent_invitation]\<rparr>"

lemma invited_db_ok: "schema_ok (committed (world_of invited_db))"
  using base_schema_ok by (simp add: schema_ok_def invited_db_def unique_def pending_def sent_invitation_def)

lemma sent_invitation_simps [simp]:
  "i_id sent_invitation = 41" "i_tenant_id sent_invitation = 3" "i_email sent_invitation = ''b@c''"
  "i_role sent_invitation = MEMBER" "i_expires_at sent_invitation = 1800000000000000"
  by (simp_all add: sent_invitation_def)

lemma invited_tables [simp]:
  "t_invitations invited_db = [sent_invitation]" "t_users invited_db = t_users base_db"
  "t_memberships invited_db = t_memberships base_db" "t_organizations invited_db = t_organizations base_db"
  by (simp_all add: invited_db_def)

lemma invited_rows:
  "find (\<lambda>i. i_token_hash i = hash_invite_token ''tok'' \<and> pending i) (t_invitations invited_db) = Some sent_invitation"
  "\<not> email_has_membership ''b@c'' invited_db"
  "find (\<lambda>u. u_email u = ''b@c'') (t_users invited_db) = None"
  by (simp_all add: invited_db_def sent_invitation_def pending_def email_has_membership_def base_db_def empty_db_def)

definition new_member :: user where
  "new_member = \<lparr>u_id = 1003, u_email = ''b@c'', u_password_hash = ''$another long pw'', u_is_active = True,
     u_mfa_enabled = False\<rparr>"

lemma demo_new_account:
  assumes "store w = invited_db" and "db_role w = OwnerRole" and "env w = demo_env" and "draws w = 2"
  shows "\<exists>w1. seq (validate_password_strength ''another long pw'') (\<lambda>_.
      seq (password_hash (au_argon demo_auth) ''another long pw'') (\<lambda>h.
      seq (user_add ''b@c'' h) (\<lambda>user. ret (u_id user)))) w = (Inr 1003, w1) \<and>
    store w1 = invited_db\<lparr>t_users := t_users invited_db @ [new_member]\<rparr> \<and> db_role w1 = OwnerRole \<and>
    env w1 = demo_env \<and> draws w1 = 4"
  using assms
  by (simp add: validate_password_strength_def password_hash_def user_add_def prog_simps Let_def seen_def visible_def
      users_def absent_def set_rows_def base_db_def empty_db_def demo_auth_def demo_argon_def new_member_def
      del: seq_Pair_Inr)

lemma demo_accepts_identity:
  "\<exists>w1. accept_identity demo_auth ''tok'' ''another long pw'' (uow_start OwnerRole (world_of invited_db)) =
     (Inr (sent_invitation, 1003), w1) \<and> 
     committed w1 = invited_db\<lparr>t_users := t_users invited_db @ [new_member]\<rparr> \<and> env w1 = demo_env \<and> draws w1 = 4"
proof -
  let ?w = "(uow_start OwnerRole (world_of invited_db))\<lparr>draws := 2\<rparr>"
  let ?new = "seq (validate_password_strength ''another long pw'') (\<lambda>_.
      seq (password_hash (au_argon demo_auth) ''another long pw'') (\<lambda>h.
      seq (user_add ''b@c'' h) (\<lambda>user. ret (u_id user))))"
  obtain w1 where new: "?new ?w = (Inr 1003, w1)"
    and w1: "store w1 = invited_db\<lparr>t_users := t_users invited_db @ [new_member]\<rparr>" "db_role w1 = OwnerRole"
      "env w1 = demo_env" "draws w1 = 4"
    using demo_new_account [of ?w] by auto
  have "accept_identity demo_auth ''tok'' ''another long pw'' (uow_start OwnerRole (world_of invited_db)) =
      seq ?new (\<lambda>user_id. seq (idm_has_membership user_id) (\<lambda>has.
        if has then raise (Organization (MemberConflictError ''Invitation failed''))
        else seq commit (\<lambda>_. ret (sent_invitation, user_id)))) ?w"
    using invited_rows unfolding accept_identity_def lookup_get_pending_by_token_hash_def user_get_by_email_def
    by (simp add: seq_select_one seq_now seq_membership_check owner_row_where numeral_2_eq_2
        del: invited_tables(1) seq_assoc)
  also have "\<dots> = seq (idm_has_membership 1003) (\<lambda>has.
        if has then raise (Organization (MemberConflictError ''Invitation failed''))
        else seq commit (\<lambda>_. ret (sent_invitation, 1003))) w1"
    by (rule seq_apply_Inr [where m = ?new and w = ?w, OF new])
  finally show ?thesis
    using w1 by (simp add: idm_has_membership_def idm_get_tenant_id_def prog_simps owner_row_where commit_def
        base_db_def)
qed

lemma demo_accepts_membership:
  assumes "committed w = invited_db\<lparr>t_users := t_users invited_db @ [new_member]\<rparr>" and "env w = demo_env"
    and "draws w = 4"
  shows "\<exists>w1. accept_membership sent_invitation 1003 (uow_start (AppRole 3) w) = (Inr (), w1)"
  using assms
  by (simp add: accept_membership_def member_add_def invitation_mark_accepted_def prog_simps commit_def
      memberships_def absent_def present_def seen_def visible_def new_member_def base_db_def empty_db_def)

lemma demo_accepts: "\<exists>w1. accept_invitation demo_auth ''tok'' ''another long pw'' (world_of invited_db) = (Inr (), w1)"
proof -
  obtain w1 where one: "accept_identity demo_auth ''tok'' ''another long pw'' (uow_start OwnerRole (world_of invited_db)) =
     (Inr (sent_invitation, 1003), w1)" and w1: "committed w1 = invited_db\<lparr>t_users := t_users invited_db @ [new_member]\<rparr>"
    "env w1 = demo_env" "draws w1 = 4"
    using demo_accepts_identity by blast
  let ?w2 = "w1\<lparr>store := committed w1, db_role := OwnerRole\<rparr>"
  obtain w3 where two: "accept_membership sent_invitation 1003 (uow_start (AppRole 3) ?w2) = (Inr (), w3)"
    using demo_accepts_membership [of ?w2] w1 by auto
  show ?thesis
    using one two by (simp add: accept_invitation_def seq_def with_identity_uow_def with_tenant_uow_def with_uow_apply)
qed

theorem invitation_works_once_witness:
  "\<exists>w1. accept_invitation demo_auth ''tok'' ''another long pw'' (world_of invited_db) = (Inr (), w1) \<and>
     fst (accept_invitation demo_auth ''tok'' ''another long pw'' w1) = Inl invitation_not_found"
  using demo_accepts invitation_works_once [OF invited_db_ok] by blast

section \<open>Masking an address\<close>

text \<open>What the preview of an invitation may show of an address.\<close>

definition shown_part :: "string \<Rightarrow> char \<times> (nat \<times> char) option \<times> string" where
  "shown_part email =
     (let (local, domain) = str_partition (CHR ''@'') email
      in (hd local, if length local \<le> 2 then None else Some (length local, last local), domain))"

text \<open>
  The mask shows of the local part no more than its first character and, if it has more than two,
  its length and its last: two addresses that agree on these have the same mask. It raises
  exactly when the local part is empty.
\<close>

theorem mask_hides_the_middle:
  "(mask_email email = Inl IndexError \<longleftrightarrow> fst (str_partition (CHR ''@'') email) = []) \<and>
   (fst (str_partition (CHR ''@'') email) \<noteq> [] \<longrightarrow> fst (str_partition (CHR ''@'') other) \<noteq> [] \<longrightarrow>
      shown_part email = shown_part other \<longrightarrow> mask_email email = mask_email other)"
  by (auto simp: mask_email_def shown_part_def Let_def split: prod.splits if_splits)

theorem mask_hides_the_middle_witness:
  "mask_email ''alice@example.org'' = mask_email ''adele@example.org''"
proof -
  have "fst (str_partition (CHR ''@'') ''alice@example.org'') \<noteq> []"
    "fst (str_partition (CHR ''@'') ''adele@example.org'') \<noteq> []"
    "shown_part ''alice@example.org'' = shown_part ''adele@example.org''" by code_simp+
  with mask_hides_the_middle [of "''alice@example.org''" "''adele@example.org''"] show ?thesis by simp
qed

end
