(* ===== verification/Http.thy ===== *)
theory Http
  imports System
begin

text \<open>
  \<open>presentation/errors.py\<close>, \<open>presentation/exception_handlers.py\<close> and \<open>presentation/middleware.py\<close>:
  what a request and a response are, the answer every exception turns into, and the layers a
  response passes on its way out.

  A request is what Starlette hands the application: header names are in lower case, as its
  \<open>Headers\<close> compares them, and \<open>rq_bearer\<close> is the credentials FastAPI's \<open>HTTPBearer\<close> read from the
  \<open>Authorization\<close> header, if it found any. Response header names are in lower case too, as
  Starlette writes them on the wire.
\<close>

section \<open>Requests and responses\<close>

type_synonym headers = "(string \<times> string) list"

record http_request =
  rq_method :: string
  rq_scheme :: string
  rq_path :: string
  rq_headers :: headers
  rq_cookies :: headers
  rq_client_host :: "string option"
  rq_bearer :: "string option"
  rq_request_id :: "string option"

record set_cookie =
  ck_name :: string
  ck_value :: string
  ck_max_age :: int
  ck_path :: string
  ck_secure :: bool
  ck_httponly :: bool
  ck_samesite :: string

record http_response =
  rs_status :: nat
  rs_headers :: headers
  rs_cookies :: "set_cookie list"
  rs_body :: "json option"

text \<open>\<open>MutableHeaders\<close>: assigning replaces, \<open>setdefault\<close> keeps what is there.\<close>

definition set_header :: "string \<Rightarrow> string \<Rightarrow> http_response \<Rightarrow> http_response" where
  "set_header k v rs = rs\<lparr>rs_headers := filter (\<lambda>(k', _). k' \<noteq> k) (rs_headers rs) @ [(k, v)]\<rparr>"

definition setdefault_header :: "string \<Rightarrow> string \<Rightarrow> http_response \<Rightarrow> http_response" where
  "setdefault_header k v rs =
     (if k \<in> fst ` set (rs_headers rs) then rs else rs\<lparr>rs_headers := rs_headers rs @ [(k, v)]\<rparr>)"

definition opt_json :: "string option \<Rightarrow> json" where
  "opt_json s = (case s of None \<Rightarrow> JNull | Some x \<Rightarrow> JStr x)"

definition json_response :: "nat \<Rightarrow> headers \<Rightarrow> json \<Rightarrow> http_response" where
  "json_response status hs body =
     \<lparr>rs_status = status, rs_headers = hs, rs_cookies = [], rs_body = Some body\<rparr>"

section \<open>Exceptions of the presentation layer\<close>

text \<open>
  An exception of the layers below, FastAPI's \<open>HTTPException\<close> (status, detail, headers) or its
  \<open>RequestValidationError\<close> (location and type of every error).
\<close>

type_synonym field_error = "json list \<times> string"

datatype http_error =
    Raised exn
  | HTTPException nat string headers
  | RequestValidationError "field_error list"

type_synonym 'a http = "(world, http_error, 'a) prog"

definition call :: "'a op \<Rightarrow> 'a http" where
  "call m = (\<lambda>w. case m w of (Inl e, w') \<Rightarrow> (Inl (Raised e), w') | (Inr x, w') \<Rightarrow> (Inr x, w'))"

section \<open>Error bodies\<close>

definition error_body :: "string \<Rightarrow> string \<Rightarrow> string option \<Rightarrow> json" where
  "error_body code message request_id =
     JObj [(''error'', JObj [(''code'', JStr code), (''message'', JStr message),
                             (''request_id'', opt_json request_id)])]"

definition error_response :: "nat \<Rightarrow> headers \<Rightarrow> string \<Rightarrow> string \<Rightarrow> string option \<Rightarrow> http_response" where
  "error_response status hs code message request_id =
     json_response status hs (error_body code message request_id)"

text \<open>\<open>str(exc) or default\<close>.\<close>

definition text_or :: "string \<Rightarrow> string \<Rightarrow> string" where
  "text_or s dflt = (if s = '''' then dflt else s)"

definition bearer_challenge :: headers where
  "bearer_challenge = [(''www-authenticate'', ''Bearer'')]"

definition http_error_answer :: "nat \<Rightarrow> string \<Rightarrow> headers \<Rightarrow> string option \<Rightarrow> http_response" where
  "http_error_answer status detail hs rid =
     error_response status hs (''http_'' @ nat_str status) detail rid"

definition field_json :: "field_error \<Rightarrow> json" where
  "field_json f = JObj [(''loc'', JList (fst f)), (''type'', JStr (snd f))]"

definition validation_answer :: "field_error list \<Rightarrow> string option \<Rightarrow> http_response" where
  "validation_answer errs rid =
     json_response 422 []
       (JObj [(''error'', JObj [(''code'', JStr ''validation_failed''),
                                (''fields'', JList (map field_json errs)),
                                (''request_id'', opt_json rid)])])"

section \<open>The registered handlers\<close>

definition service_unavailable_answer :: "string \<Rightarrow> string option \<Rightarrow> http_response" where
  "service_unavailable_answer m rid =
     error_response 503 [] ''service_unavailable'' (text_or m ''Service unavailable'') rid"

fun identity_answer :: "identity_error \<Rightarrow> string option \<Rightarrow> http_response" where
  "identity_answer (PasswordPolicyError m) rid =
     error_response 400 [] ''password_policy_violation'' (text_or m ''Invalid password'') rid"
| "identity_answer (RegistrationConflictError m) rid =
     error_response 409 [] ''registration_conflict'' (text_or m ''Registration failed'') rid"
| "identity_answer (AuthenticationError m) rid =
     error_response 401 bearer_challenge ''authentication_failed'' (text_or m ''Not authenticated'') rid"
| "identity_answer (TokenValidationError m) rid =
     error_response 401 bearer_challenge ''authentication_failed'' ''Not authenticated'' rid"
| "identity_answer (MfaEnrollmentError m) rid =
     error_response 400 [] ''mfa_enrollment_failed'' (text_or m ''Invalid code'') rid"
| "identity_answer (MfaVerificationError m) rid =
     error_response 401 bearer_challenge ''mfa_verification_failed'' (text_or m ''Invalid code'') rid"
| "identity_answer (MfaEnrollmentRequiredError m) rid =
     error_response 403 [] ''mfa_enrollment_required'' (text_or m ''MFA enrollment required'') rid"
| "identity_answer (StepUpRequiredError m) rid =
     error_response 403 [] ''step_up_required'' (text_or m ''Step-up authentication required'') rid"
| "identity_answer (ServiceUnavailableError m) rid = service_unavailable_answer m rid"

fun organization_answer :: "organization_error \<Rightarrow> string option \<Rightarrow> http_response" where
  "organization_answer (InvitationError m) rid =
     error_response 400 [] ''invitation_failed'' (text_or m ''Invitation failed'') rid"
| "organization_answer (InvitationNotFoundError m) rid =
     error_response 404 [] ''invitation_not_found'' (text_or m ''Invitation not found'') rid"
| "organization_answer (MemberConflictError m) rid =
     error_response 409 [] ''member_conflict'' (text_or m ''Member operation failed'') rid"
| "organization_answer (MemberNotFoundError m) rid =
     error_response 404 [] ''member_not_found'' (text_or m ''Member not found'') rid"

fun access_answer :: "access_error \<Rightarrow> string option \<Rightarrow> http_response" where
  "access_answer (ForbiddenError f) rid = error_response 403 [] ''forbidden'' ''Access denied'' rid"
| "access_answer (NotFoundError m) rid = error_response 404 [] ''not_found'' ''Not found'' rid"

fun secret_answer :: "secret_error \<Rightarrow> string option \<Rightarrow> http_response" where
  "secret_answer (SecretConflictError m) rid =
     error_response 409 [] ''secret_conflict'' (text_or m ''Conflict'') rid"
| "secret_answer (NoActiveKeyError m) rid =
     error_response 500 [] ''encryption_key_unavailable'' ''Encryption key unavailable'' rid"
| "secret_answer (CryptoError m) rid =
     error_response 500 [] ''cryptographic_error'' ''Cryptographic operation failed'' rid"
| "secret_answer (TenantKeyProvisionError m) rid =
     error_response 500 [] ''tenant_key_provision_failed''
       (text_or m ''Tenant encryption setup failed'') rid"

text \<open>\<open>str\<close> of the two audit errors; the offending keys are words, so their \<open>repr\<close> only quotes them.\<close>

fun join_with :: "string \<Rightarrow> string list \<Rightarrow> string" where
  "join_with sep [] = []"
| "join_with sep [x] = x"
| "join_with sep (x # y # ys) = x @ sep @ join_with sep (y # ys)"

fun audit_error_text :: "audit_error \<Rightarrow> string" where
  "audit_error_text (AuditMetadataError ks) =
     ''Forbidden audit metadata keys: ['' @
     join_with '', '' (map (\<lambda>k. CHR 0x27 # k @ [CHR 0x27]) ks) @ '']''"
| "audit_error_text (UnknownAuditActionError a) = ''Unknown audit action: '' @ a"

definition audit_answer :: "audit_error \<Rightarrow> string option \<Rightarrow> http_response" where
  "audit_answer e rid =
     error_response 400 [] ''audit_validation_failed'' (text_or (audit_error_text e) ''Invalid audit event'') rid"

text \<open>
  The exception middleware around the routes: the handler of the exception's class, or no
  handler, when the exception propagates to the outermost layer.
\<close>

fun handled :: "http_error \<Rightarrow> string option \<Rightarrow> http_response option" where
  "handled (HTTPException status detail hs) rid = Some (http_error_answer status detail hs rid)"
| "handled (RequestValidationError errs) rid = Some (validation_answer errs rid)"
| "handled (Raised (Identity e)) rid = Some (identity_answer e rid)"
| "handled (Raised (Organization e)) rid = Some (organization_answer e rid)"
| "handled (Raised (Access e)) rid = Some (access_answer e rid)"
| "handled (Raised (Secrets e)) rid = Some (secret_answer e rid)"
| "handled (Raised (Audit e)) rid = Some (audit_answer e rid)"
| "handled (Raised (System e)) rid = None"

definition internal_error_response :: "string option \<Rightarrow> http_response" where
  "internal_error_response rid =
     (let response = error_response 500 [] ''internal_error'' ''An internal error occurred'' rid
      in case rid of None \<Rightarrow> response | Some r \<Rightarrow> set_header ''x-request-id'' r response)"

section \<open>Middleware\<close>

text \<open>
  A layer takes the request and the rest of the stack, which answers or lets an unhandled
  exception through.
\<close>

type_synonym endpoint = "http_request \<Rightarrow> http_response http"

definition incoming_request_id :: "http_request \<Rightarrow> string op" where
  "incoming_request_id rq =
     seq (case map_of (rq_headers rq) ''x-request-id'' of
            Some rid \<Rightarrow> if rid \<noteq> '''' then ret rid else seq fresh_uuid (\<lambda>u. ret (uuid_str u))
          | None \<Rightarrow> seq fresh_uuid (\<lambda>u. ret (uuid_str u))) (\<lambda>request_id.
     ret (take 64 request_id))"

definition request_context :: "endpoint \<Rightarrow> http_request \<Rightarrow> (string \<times> (http_error + http_response)) op" where
  "request_context call_next rq =
     seq (incoming_request_id rq) (\<lambda>request_id.
     (\<lambda>w. case call_next (rq\<lparr>rq_request_id := Some request_id\<rparr>) w of
        (Inl e, w') \<Rightarrow> (Inr (request_id, Inl e), w')
      | (Inr response, w') \<Rightarrow>
          (Inr (request_id, Inr (set_header ''x-request-id'' request_id response)), w')))"

definition add_security_headers :: "string \<Rightarrow> http_response \<Rightarrow> http_response" where
  "add_security_headers scheme response =
     (let r1 = setdefault_header ''x-content-type-options'' ''nosniff'' response;
          r2 = setdefault_header ''x-frame-options'' ''DENY'' r1;
          r3 = setdefault_header ''referrer-policy'' ''no-referrer'' r2;
          r4 = setdefault_header ''content-security-policy''
                 (''default-src '' @ [CHR 0x27] @ ''none'' @ [CHR 0x27] @ ''; frame-ancestors '' @
                  [CHR 0x27] @ ''none'' @ [CHR 0x27]) r3
      in if scheme = ''https''
         then setdefault_header ''strict-transport-security'' ''max-age=31536000; includeSubDomains'' r4
         else r4)"

definition security_headers :: "endpoint \<Rightarrow> endpoint" where
  "security_headers call_next rq =
     seq (call_next rq) (\<lambda>response. ret (add_security_headers (rq_scheme rq) response))"

definition protected_prefixes :: "string list" where
  "protected_prefixes = [''/api/v1/auth/refresh'', ''/api/v1/auth/logout'']"

definition allowed_origins :: "string \<Rightarrow> string set" where
  "allowed_origins cors_origins =
     set (filter (\<lambda>item. item \<noteq> '''') (map str_strip (split_on (CHR '','') cors_origins)))"

definition origin_check :: "string \<Rightarrow> endpoint \<Rightarrow> endpoint" where
  "origin_check cors_origins call_next rq =
     (if rq_method rq \<in> {''POST'', ''PUT'', ''PATCH'', ''DELETE''} \<and>
         list_ex (\<lambda>p. take (length p) (rq_path rq) = p) protected_prefixes \<and>
         (case map_of (rq_headers rq) ''origin'' of
            None \<Rightarrow> False | Some origin \<Rightarrow> origin \<notin> allowed_origins cors_origins)
      then ret (error_response 403 [] ''csrf_origin_mismatch'' ''Forbidden'' (rq_request_id rq))
      else call_next rq)"

text \<open>Starlette's exception middleware, the innermost layer.\<close>

definition exception_layer :: "endpoint \<Rightarrow> endpoint" where
  "exception_layer route rq =
     catch (route rq) (\<lambda>e. case handled e (rq_request_id rq) of
         Some response \<Rightarrow> ret response | None \<Rightarrow> raise e)"

text \<open>
  The application: \<open>create_app\<close> adds the origin check, the security headers and the request
  context, each around the ones before it; the handler of \<open>Exception\<close> sits outside them all. CORS,
  which only adds headers for browsers, is left out.
\<close>

definition serve_with :: "string \<Rightarrow> endpoint \<Rightarrow> http_request \<Rightarrow> http_response op" where
  "serve_with cors_origins route rq =
     seq (request_context (security_headers (origin_check cors_origins (exception_layer route))) rq)
       (\<lambda>(request_id, outcome).
         case outcome of Inr response \<Rightarrow> ret response
         | Inl e \<Rightarrow> ret (internal_error_response (Some request_id)))"

end
