(* ===== verification/Http_Gates.thy ===== *)
theory Http_Gates
  imports Http
begin

text \<open>
  \<open>presentation/dependencies.py\<close> and the HTTP part of \<open>domain/identity/rate_limits.py\<close>: who the
  caller is, the gates a route can demand, and the use cases wired to the services of the process.
  FastAPI runs a dependency once per request, so a route computes its principal once and hands it
  to every gate that declares it.
\<close>

section \<open>What the process holds\<close>

text \<open>
  The services behind the use cases, the settings the presentation layer reads itself, and
  pydantic's \<open>EmailStr\<close>, which refuses a text or normalizes it.
\<close>

record site =
  st_deployment :: deployment
  st_cors_origins :: string
  st_refresh_cookie_secure :: bool
  st_email_str :: "string \<Rightarrow> string option"

abbreviation st_auth :: "site \<Rightarrow> auth_env" where
  "st_auth st \<equiv> dp_auth (st_deployment st)"

abbreviation st_keys :: "site \<Rightarrow> keyring" where
  "st_keys st \<equiv> dp_keys (st_deployment st)"

abbreviation st_mail :: "site \<Rightarrow> mailer" where
  "st_mail st \<equiv> dp_mail (st_deployment st)"

abbreviation st_tokens :: "site \<Rightarrow> token_service" where
  "st_tokens st \<equiv> au_tokens (st_auth st)"

section \<open>Limits of the endpoints\<close>

definition LOGIN_IP_CAPACITY :: nat where "LOGIN_IP_CAPACITY = 5"
definition LOGIN_IP_WINDOW_SECONDS :: int where "LOGIN_IP_WINDOW_SECONDS = 300"
definition REGISTER_IP_CAPACITY :: nat where "REGISTER_IP_CAPACITY = 10"
definition REGISTER_IP_WINDOW_SECONDS :: int where "REGISTER_IP_WINDOW_SECONDS = 3600"
definition REFRESH_IP_CAPACITY :: nat where "REFRESH_IP_CAPACITY = 60"
definition REFRESH_IP_WINDOW_SECONDS :: int where "REFRESH_IP_WINDOW_SECONDS = 300"
definition STEP_UP_CAPACITY :: nat where "STEP_UP_CAPACITY = 5"
definition STEP_UP_WINDOW_SECONDS :: int where "STEP_UP_WINDOW_SECONDS = 300"
definition MFA_ENROLL_CAPACITY :: nat where "MFA_ENROLL_CAPACITY = 5"
definition MFA_ENROLL_WINDOW_SECONDS :: int where "MFA_ENROLL_WINDOW_SECONDS = 3600"
definition REVEAL_CAPACITY :: nat where "REVEAL_CAPACITY = 100"
definition REVEAL_WINDOW_SECONDS :: int where "REVEAL_WINDOW_SECONDS = 300"
definition INVITE_ACCEPT_IP_CAPACITY :: nat where "INVITE_ACCEPT_IP_CAPACITY = 10"
definition INVITE_ACCEPT_IP_WINDOW_SECONDS :: int where "INVITE_ACCEPT_IP_WINDOW_SECONDS = 300"
definition INVITE_PREVIEW_IP_CAPACITY :: nat where "INVITE_PREVIEW_IP_CAPACITY = 30"
definition INVITE_PREVIEW_IP_WINDOW_SECONDS :: int where "INVITE_PREVIEW_IP_WINDOW_SECONDS = 300"
definition INVITE_CREATE_CAPACITY :: nat where "INVITE_CREATE_CAPACITY = 20"
definition INVITE_CREATE_WINDOW_SECONDS :: int where "INVITE_CREATE_WINDOW_SECONDS = 3600"

section \<open>The caller\<close>

definition unauthorized :: http_error where
  "unauthorized = HTTPException 401 ''Not authenticated'' bearer_challenge"

definition to_actor :: "session_principal \<Rightarrow> actor_context" where
  "to_actor p = \<lparr>actor_user = pr_user_id p, actor_session = pr_session_id p,
     actor_tenant = pr_tenant_id p\<rparr>"

definition current_principal :: "site \<Rightarrow> http_request \<Rightarrow> session_principal http" where
  "current_principal st rq =
     (case rq_bearer rq of
        None \<Rightarrow> raise unauthorized
      | Some credentials \<Rightarrow>
          seq (catch (call (verify_access_token (st_tokens st) credentials))
                 (\<lambda>e. case e of Raised (Identity (TokenValidationError _)) \<Rightarrow> raise unauthorized
                        | _ \<Rightarrow> raise e)) (\<lambda>claims.
          ret \<lparr>pr_user_id = cl_user_id claims, pr_tenant_id = cl_tenant_id claims,
               pr_session_id = cl_session_id claims, pr_amr = cl_amr claims\<rparr>))"

definition current_user :: "session_principal \<Rightarrow> (session_principal \<times> string) http" where
  "current_user p =
     seq (call (with_identity_uow (user_get (pr_user_id p)))) (\<lambda>found.
     case found of None \<Rightarrow> raise unauthorized | Some user \<Rightarrow> ret (p, u_email user))"

section \<open>Gates\<close>

definition enforce_rate_limit :: "site \<Rightarrow> string \<Rightarrow> nat \<Rightarrow> int \<Rightarrow> bool \<Rightarrow> unit http" where
  "enforce_rate_limit st key capacity window_seconds fail_closed =
     seq (call (limiter_check (au_redis (st_auth st)) key capacity window_seconds fail_closed)) (\<lambda>allowed.
     if \<not> allowed
     then raise (HTTPException 429 ''Too many requests'' [(''retry-after'', int_str window_seconds)])
     else ret ())"

definition rate_limit_ip :: "site \<Rightarrow> http_request \<Rightarrow> string \<Rightarrow> nat \<Rightarrow> int \<Rightarrow> bool \<Rightarrow> unit http" where
  "rate_limit_ip st rq bucket capacity window_seconds fail_closed =
     enforce_rate_limit st
       (''rl:'' @ bucket @ '':'' @ (case rq_client_host rq of Some host \<Rightarrow> host | None \<Rightarrow> ''unknown''))
       capacity window_seconds fail_closed"

definition rate_limit_user ::
    "site \<Rightarrow> session_principal \<Rightarrow> string \<Rightarrow> nat \<Rightarrow> int \<Rightarrow> bool \<Rightarrow> unit http" where
  "rate_limit_user st p bucket capacity window_seconds fail_closed =
     enforce_rate_limit st (''rl:'' @ bucket @ '':'' @ uuid_str (pr_user_id p))
       capacity window_seconds fail_closed"

datatype step_up_purpose = DELETE_VAULT | DELETE_SECRET | REMOVE_MEMBER | MANAGE_MFA | ROTATE_KEYS

fun purpose_value :: "step_up_purpose \<Rightarrow> string" where
  "purpose_value DELETE_VAULT = ''step-up:delete-vault''"
| "purpose_value DELETE_SECRET = ''step-up:delete-secret''"
| "purpose_value REMOVE_MEMBER = ''step-up:remove-member''"
| "purpose_value MANAGE_MFA = ''step-up:manage-mfa''"
| "purpose_value ROTATE_KEYS = ''step-up:rotate-keys''"

definition step_up_required :: exn where
  "step_up_required = Identity (StepUpRequiredError ''Step-up authentication required'')"

definition require_step_up :: "site \<Rightarrow> http_request \<Rightarrow> session_principal \<Rightarrow> step_up_purpose \<Rightarrow> unit http" where
  "require_step_up st rq p purpose =
     (case map_of (rq_headers rq) ''x-step-up-token'' of
        None \<Rightarrow> raise (Raised step_up_required)
      | Some token \<Rightarrow>
          catch (call (verify_step_up_token (st_tokens st) token (pr_user_id p) (pr_session_id p)
                         (purpose_value purpose)))
            (\<lambda>e. case e of Raised (Identity (TokenValidationError _)) \<Rightarrow> raise (Raised step_up_required)
                   | _ \<Rightarrow> raise e))"

definition require_mfa_if_owner :: "session_principal \<Rightarrow> unit http" where
  "require_mfa_if_owner p =
     seq (call (with_identity_uow
       (seq (idm_get_role (pr_user_id p)) (\<lambda>role.
        seq (user_get (pr_user_id p)) (\<lambda>user. ret (role, user)))))) (\<lambda>(role, user).
     case user of
       None \<Rightarrow> raise unauthorized
     | Some u \<Rightarrow>
         if role = Some ''owner'' \<and> \<not> u_mfa_enabled u
         then raise (Raised (Identity (MfaEnrollmentRequiredError ''MFA enrollment required'')))
         else ret ())"

section \<open>Use cases as the dependencies build them\<close>

definition get_register_user :: "site \<Rightarrow> string \<Rightarrow> string \<Rightarrow> string \<Rightarrow> uuid op" where
  "get_register_user st = register_user (st_auth st) (Some (st_keys st))"

definition get_login_user :: "site \<Rightarrow> string \<Rightarrow> string \<Rightarrow> string option \<Rightarrow> login_result op" where
  "get_login_user st = login_user (st_auth st)"

definition get_refresh_tokens :: "site \<Rightarrow> string \<Rightarrow> token_pair op" where
  "get_refresh_tokens st = refresh_tokens_case (st_auth st)"

definition get_start_totp_enrollment :: "site \<Rightarrow> uuid \<Rightarrow> string \<Rightarrow> string op" where
  "get_start_totp_enrollment st = start_totp_enrollment (st_auth st)"

definition get_confirm_totp_enrollment :: "site \<Rightarrow> uuid \<Rightarrow> string \<Rightarrow> string list op" where
  "get_confirm_totp_enrollment st = confirm_totp_enrollment (st_auth st)"

definition get_complete_mfa_login :: "site \<Rightarrow> string \<Rightarrow> string \<Rightarrow> string option \<Rightarrow> token_pair op" where
  "get_complete_mfa_login st = complete_mfa_login (st_auth st)"

definition get_step_up_verify :: "site \<Rightarrow> uuid \<Rightarrow> uuid \<Rightarrow> string \<Rightarrow> string \<Rightarrow> string op" where
  "get_step_up_verify st = step_up_verify (st_auth st)"

definition get_create_secret ::
    "site \<Rightarrow> actor_context \<Rightarrow> uuid \<Rightarrow> string \<Rightarrow> string \<Rightarrow> string option \<Rightarrow> secret_meta_view op" where
  "get_create_secret st = create_secret (st_keys st)"

definition get_reveal_secret ::
    "site \<Rightarrow> actor_context \<Rightarrow> uuid \<Rightarrow> uuid \<Rightarrow> int option \<Rightarrow> (secret_meta_view \<times> string \<times> int) op" where
  "get_reveal_secret st = reveal_secret (st_keys st)"

definition get_rotate_secret :: "site \<Rightarrow> actor_context \<Rightarrow> uuid \<Rightarrow> uuid \<Rightarrow> string \<Rightarrow> secret_meta_view op" where
  "get_rotate_secret st = rotate_secret (st_keys st)"

definition get_create_invitation :: "site \<Rightarrow> actor_context \<Rightarrow> string \<Rightarrow> org_role \<Rightarrow> invitation op" where
  "get_create_invitation st = create_invitation (st_mail st)"

definition get_accept_invitation :: "site \<Rightarrow> string \<Rightarrow> string \<Rightarrow> unit op" where
  "get_accept_invitation st = accept_invitation (st_auth st)"

end
