(* ===== verification/Http_Routes.thy ===== *)
theory Http_Routes
  imports Http_Gates
begin

text \<open>
  \<open>presentation/api/v1/*.py\<close> and the router wiring of \<open>main.py\<close>: the request models with the limits
  their fields declare, the response documents, one definition per route, and the application.

  Every route is its dependencies in the order FastAPI resolves them (router, decorator,
  signature), then the validation of the body or query, then the handler. What FastAPI and
  pydantic parse arrives parsed: texts, UUIDs, roles and permissions are arguments. Of pydantic's
  checks the declared lengths and ranges are written out with the error types it documents, and
  \<open>EmailStr\<close> is a parameter of the site.
\<close>

section \<open>Field checks\<close>

definition body_field :: "string \<Rightarrow> json list" where
  "body_field f = [JStr ''body'', JStr f]"

definition query_field :: "string \<Rightarrow> json list" where
  "query_field f = [JStr ''query'', JStr f]"

definition length_errors :: "json list \<Rightarrow> nat \<Rightarrow> nat option \<Rightarrow> string \<Rightarrow> field_error list" where
  "length_errors loc least most s =
     (if length s < least then [(loc, ''string_too_short'')]
      else case most of None \<Rightarrow> []
           | Some n \<Rightarrow> if n < length s then [(loc, ''string_too_long'')] else [])"

definition range_errors :: "json list \<Rightarrow> int \<Rightarrow> int option \<Rightarrow> int \<Rightarrow> field_error list" where
  "range_errors loc least most i =
     (if i < least then [(loc, ''greater_than_equal'')]
      else case most of None \<Rightarrow> []
           | Some n \<Rightarrow> if n < i then [(loc, ''less_than_equal'')] else [])"

definition email_errors :: "site \<Rightarrow> string \<Rightarrow> field_error list" where
  "email_errors st s =
     (case st_email_str st s of None \<Rightarrow> [(body_field ''email'', ''value_error'')] | Some _ \<Rightarrow> [])"

definition email_of :: "site \<Rightarrow> string \<Rightarrow> string" where
  "email_of st s = (case st_email_str st s of None \<Rightarrow> s | Some e \<Rightarrow> e)"

definition optional_errors :: "('a \<Rightarrow> field_error list) \<Rightarrow> 'a option \<Rightarrow> field_error list" where
  "optional_errors check v = (case v of None \<Rightarrow> [] | Some x \<Rightarrow> check x)"

definition validated :: "field_error list \<Rightarrow> unit http" where
  "validated errs = require (errs = []) (RequestValidationError errs)"

section \<open>Request models\<close>

definition register_request_errors :: "site \<Rightarrow> string \<Rightarrow> string \<Rightarrow> string \<Rightarrow> field_error list" where
  "register_request_errors st email password organization_name =
     email_errors st email @
     length_errors (body_field ''password'') 12 (Some 128) password @
     length_errors (body_field ''organization_name'') 1 (Some 200) organization_name"

definition login_request_errors :: "site \<Rightarrow> string \<Rightarrow> string \<Rightarrow> field_error list" where
  "login_request_errors st email password =
     email_errors st email @ length_errors (body_field ''password'') 1 (Some 128) password"

definition mfa_verify_request_errors :: "string \<Rightarrow> field_error list" where
  "mfa_verify_request_errors code = length_errors (body_field ''code'') 6 (Some 20) code"

definition step_up_purposes :: "step_up_purpose list" where
  "step_up_purposes = [DELETE_VAULT, DELETE_SECRET, REMOVE_MEMBER, MANAGE_MFA, ROTATE_KEYS]"

definition step_up_request_errors :: "string \<Rightarrow> string \<Rightarrow> field_error list" where
  "step_up_request_errors code purpose =
     length_errors (body_field ''code'') 6 (Some 8) code @
     (if purpose \<in> purpose_value ` set step_up_purposes then []
      else [(body_field ''purpose'', ''enum'')])"

definition vault_create_request_errors :: "string \<Rightarrow> string option \<Rightarrow> field_error list" where
  "vault_create_request_errors name description =
     length_errors (body_field ''name'') 1 (Some 200) name @
     optional_errors (length_errors (body_field ''description'') 0 (Some 1000)) description"

definition vault_update_request_errors :: "string option \<Rightarrow> string option \<Rightarrow> field_error list" where
  "vault_update_request_errors name description =
     optional_errors (length_errors (body_field ''name'') 1 (Some 200)) name @
     optional_errors (length_errors (body_field ''description'') 0 (Some 1000)) description"

definition secret_create_request_errors :: "string \<Rightarrow> string \<Rightarrow> string option \<Rightarrow> field_error list" where
  "secret_create_request_errors name value description =
     length_errors (body_field ''name'') 1 (Some 200) name @
     length_errors (body_field ''value'') 1 (Some 10000) value @
     optional_errors (length_errors (body_field ''description'') 0 (Some 1000)) description"

definition rotate_secret_request_errors :: "string \<Rightarrow> field_error list" where
  "rotate_secret_request_errors value = length_errors (body_field ''value'') 1 (Some 10000) value"

definition accept_invitation_request_errors :: "string \<Rightarrow> string \<Rightarrow> field_error list" where
  "accept_invitation_request_errors token password =
     length_errors (body_field ''token'') 1 None token @
     length_errors (body_field ''password'') 12 (Some 128) password"

section \<open>Response documents\<close>

text \<open>\<open>datetime.isoformat()\<close> of a UTC instant: no fraction when it is zero.\<close>

definition isoformat :: "time \<Rightarrow> string" where
  "isoformat t =
     (let (y, m, d) = civil_from_days (t div 86400000000);
          us = t mod 86400000000;
          fraction = us mod 1000000
      in pad_int 4 y @ ''-'' @ pad_int 2 m @ ''-'' @ pad_int 2 d @ ''T'' @
         pad_int 2 (us div 3600000000) @ '':'' @ pad_int 2 (us div 60000000 mod 60) @ '':'' @
         pad_int 2 (us div 1000000 mod 60) @
         (if fraction = 0 then '''' else ''.'' @ pad_int 6 fraction) @ ''+00:00'')"

definition json_uuid :: "uuid \<Rightarrow> json" where
  "json_uuid u = JStr (uuid_str u)"

definition json_role :: "org_role \<Rightarrow> json" where
  "json_role r = JStr (role_value r)"

definition access_token_response :: "site \<Rightarrow> token_pair \<Rightarrow> json" where
  "access_token_response st pair =
     JObj [(''access_token'', JStr (tp_access pair)), (''token_type'', JStr ''bearer''),
           (''expires_in'', JInt (access_token_ttl_seconds (tk_settings (st_tokens st))))]"

definition mfa_required_response :: "string \<Rightarrow> json" where
  "mfa_required_response challenge_token =
     JObj [(''mfa_required'', JBool True), (''challenge_token'', JStr challenge_token)]"

definition step_up_response :: "site \<Rightarrow> string \<Rightarrow> json" where
  "step_up_response st token =
     JObj [(''step_up_token'', JStr token),
           (''expires_in'', JInt (step_up_token_ttl_seconds (tk_settings (st_tokens st))))]"

definition capabilities_response :: "user_capabilities \<Rightarrow> json" where
  "capabilities_response c =
     JObj [(''can_create_vaults'', JBool (can_create_vaults c)),
           (''can_write_secrets'', JBool (can_write_secrets c)),
           (''can_manage_members'', JBool (can_manage_members c)),
           (''can_manage_invitations'', JBool (can_manage_invitations c)),
           (''can_read_audit'', JBool (can_read_audit c))]"

definition me_response :: "current_user_view \<Rightarrow> json" where
  "me_response view =
     JObj [(''user_id'', json_uuid (cu_user_id view)), (''email'', JStr (cu_email view)),
           (''mfa_enabled'', JBool (cu_mfa_enabled view)),
           (''mfa_enrollment_required'', JBool (cu_mfa_enrollment_required view)),
           (''membership_id'', json_uuid (cu_membership_id view)),
           (''role'', json_role (cu_role view)),
           (''organization'', JObj [(''id'', json_uuid (cu_organization_id view)),
                                    (''name'', JStr (cu_organization_name view))]),
           (''session_id'', json_uuid (cu_session_id view)),
           (''amr'', JList (map JStr (cu_amr view))),
           (''capabilities'', capabilities_response (cu_capabilities view))]"

definition vault_response :: "vault_view \<Rightarrow> json" where
  "vault_response view =
     JObj [(''id'', json_uuid (vv_id view)), (''name'', JStr (vv_name view)),
           (''description'', opt_json (vv_description view)),
           (''created_at'', JStr (isoformat (vv_created_at view)))]"

definition grant_response :: "grant_view \<Rightarrow> json" where
  "grant_response g =
     JObj [(''membership_id'', json_uuid (gv_membership_id g)), (''user_id'', json_uuid (gv_user_id g)),
           (''email'', JStr (gv_email g)), (''org_role'', json_role (gv_org_role g)),
           (''permission'', JStr (permission_value (gv_permission g))),
           (''granted_at'', JStr (isoformat (gv_granted_at g)))]"

definition secret_meta_response :: "secret_meta_view \<Rightarrow> json" where
  "secret_meta_response view =
     JObj [(''id'', json_uuid (sm_id view)), (''name'', JStr (sm_name view)),
           (''description'', opt_json (sm_description view)),
           (''current_version'', JInt (sm_current_version view)),
           (''created_at'', JStr (isoformat (sm_created_at view))),
           (''updated_at'', JStr (isoformat (sm_updated_at view)))]"

definition reveal_response :: "secret_meta_view \<Rightarrow> string \<Rightarrow> int \<Rightarrow> json" where
  "reveal_response m plaintext version =
     JObj [(''id'', json_uuid (sm_id m)), (''name'', JStr (sm_name m)),
           (''version'', JInt version), (''value'', JStr plaintext)]"

definition member_response :: "member_view \<Rightarrow> json" where
  "member_response m =
     JObj [(''membership_id'', json_uuid (mv_membership_id m)), (''user_id'', json_uuid (mv_user_id m)),
           (''email'', JStr (mv_email m)), (''role'', json_role (mv_role m)),
           (''created_at'', JStr (isoformat (mv_created_at m)))]"

definition invitation_response :: "invitation \<Rightarrow> json" where
  "invitation_response i =
     JObj [(''id'', json_uuid (i_id i)), (''email'', JStr (i_email i)), (''role'', json_role (i_role i)),
           (''expires_at'', JStr (isoformat (i_expires_at i))),
           (''created_at'', JStr (isoformat (i_created_at i)))]"

definition invitation_preview_response :: "invitation_preview \<Rightarrow> json" where
  "invitation_preview_response p =
     JObj [(''organization_name'', JStr (ip_organization_name p)), (''role'', json_role (ip_role p)),
           (''email_masked'', JStr (ip_email_masked p))]"

definition organization_response :: "organization_view \<Rightarrow> json" where
  "organization_response v =
     JObj [(''id'', json_uuid (ov_id v)), (''name'', JStr (ov_name v)),
           (''caller_role'', json_role (ov_caller_role v))]"

fun status_text :: "audit_actor_status \<Rightarrow> string" where
  "status_text STATUS_ACTIVE = ''active''"
| "status_text STATUS_FORMER_MEMBER = ''former_member''"
| "status_text STATUS_UNKNOWN = ''unknown''"

definition audit_actor_response :: "audit_actor_view \<Rightarrow> json" where
  "audit_actor_response a =
     JObj [(''user_id'', json_uuid (av_user_id a)), (''email'', opt_json (av_email a)),
           (''role'', opt_json (av_role a)), (''status'', JStr (status_text (av_status a)))]"

definition audit_event_response :: "audit_event_view \<Rightarrow> json" where
  "audit_event_response e =
     JObj [(''id'', json_uuid (vw_id e)), (''tenant_id'', json_uuid (vw_tenant_id e)),
           (''sequence'', JInt (vw_sequence e)), (''actor_user_id'', opt_uuid (vw_actor_user_id e)),
           (''actor'', case vw_actor e of None \<Rightarrow> JNull | Some a \<Rightarrow> audit_actor_response a),
           (''session_id'', opt_uuid (vw_session_id e)), (''action'', JStr (vw_action e)),
           (''target_type'', JStr (vw_target_type e)), (''target_id'', opt_uuid (vw_target_id e)),
           (''outcome'', JStr (vw_outcome e)), (''metadata'', JObj (vw_metadata e)),
           (''occurred_at'', JStr (isoformat (vw_occurred_at e)))]"

definition respond :: "nat \<Rightarrow> json \<Rightarrow> http_response http" where
  "respond status body = ret (json_response status [] body)"

definition no_content :: http_response where
  "no_content = \<lparr>rs_status = 204, rs_headers = [], rs_cookies = [], rs_body = None\<rparr>"

section \<open>The refresh cookie\<close>

definition REFRESH_COOKIE :: string where "REFRESH_COOKIE = ''vaultlog_refresh''"
definition COOKIE_PATH :: string where "COOKIE_PATH = ''/api/v1/auth''"
definition COOKIE_MAX_AGE :: int where "COOKIE_MAX_AGE = 30 * 24 * 3600"

definition set_refresh_cookie :: "site \<Rightarrow> token_pair \<Rightarrow> http_response \<Rightarrow> http_response" where
  "set_refresh_cookie st pair response =
     response\<lparr>rs_cookies := rs_cookies response @
       [\<lparr>ck_name = REFRESH_COOKIE, ck_value = tp_refresh pair, ck_max_age = COOKIE_MAX_AGE,
         ck_path = COOKIE_PATH, ck_secure = st_refresh_cookie_secure st, ck_httponly = True,
         ck_samesite = ''lax''\<rparr>]\<rparr>"

definition clear_refresh_cookie :: "site \<Rightarrow> http_response \<Rightarrow> http_response" where
  "clear_refresh_cookie st response =
     response\<lparr>rs_cookies := rs_cookies response @
       [\<lparr>ck_name = REFRESH_COOKIE, ck_value = '''', ck_max_age = 0,
         ck_path = COOKIE_PATH, ck_secure = st_refresh_cookie_secure st, ck_httponly = True,
         ck_samesite = ''lax''\<rparr>]\<rparr>"

definition token_answer :: "site \<Rightarrow> token_pair \<Rightarrow> http_response http" where
  "token_answer st pair =
     ret (set_refresh_cookie st pair (json_response 200 [] (access_token_response st pair)))"

section \<open>Routes of the session\<close>

definition post_register :: "site \<Rightarrow> http_request \<Rightarrow> string \<Rightarrow> string \<Rightarrow> string \<Rightarrow> http_response http" where
  "post_register st rq email password organization_name =
     seq (rate_limit_ip st rq ''register'' REGISTER_IP_CAPACITY REGISTER_IP_WINDOW_SECONDS True) (\<lambda>_.
     seq (validated (register_request_errors st email password organization_name)) (\<lambda>_.
     seq (call (get_register_user st (email_of st email) password organization_name)) (\<lambda>user_id.
     respond 201 (JObj [(''user_id'', json_uuid user_id)]))))"

definition get_me :: "session_principal \<Rightarrow> http_response http" where
  "get_me p = seq (call (get_current_user p)) (\<lambda>view. respond 200 (me_response view))"

definition post_login :: "site \<Rightarrow> http_request \<Rightarrow> string \<Rightarrow> string \<Rightarrow> http_response http" where
  "post_login st rq email password =
     seq (rate_limit_ip st rq ''login'' LOGIN_IP_CAPACITY LOGIN_IP_WINDOW_SECONDS True) (\<lambda>_.
     seq (validated (login_request_errors st email password)) (\<lambda>_.
     seq (call (get_login_user st (email_of st email) password (map_of (rq_headers rq) ''user-agent'')))
       (\<lambda>result.
     case result of
       MfaRequired challenge_token \<Rightarrow> respond 200 (mfa_required_response challenge_token)
     | LoginTokens pair \<Rightarrow> token_answer st pair)))"

text \<open>
  On a refused token the handler clears the cookie of the response FastAPI injected and raises
  again; the answer is then the exception handler's own response, so that change is lost.
\<close>

definition post_refresh :: "site \<Rightarrow> http_request \<Rightarrow> http_response http" where
  "post_refresh st rq =
     seq (rate_limit_ip st rq ''refresh'' REFRESH_IP_CAPACITY REFRESH_IP_WINDOW_SECONDS False) (\<lambda>_.
     case map_of (rq_cookies rq) REFRESH_COOKIE of
       None \<Rightarrow> raise (Raised (auth_failed ''Not authenticated''))
     | Some raw \<Rightarrow> seq (call (get_refresh_tokens st raw)) (token_answer st))"

definition post_logout :: "site \<Rightarrow> http_request \<Rightarrow> http_response http" where
  "post_logout st rq =
     seq (case map_of (rq_cookies rq) REFRESH_COOKIE of
            None \<Rightarrow> ret () | Some raw \<Rightarrow> call (logout_session raw)) (\<lambda>_.
     ret (clear_refresh_cookie st no_content))"

definition post_mfa_enroll :: "site \<Rightarrow> session_principal \<Rightarrow> http_response http" where
  "post_mfa_enroll st p =
     seq (rate_limit_user st p ''mfa-enroll'' MFA_ENROLL_CAPACITY MFA_ENROLL_WINDOW_SECONDS True) (\<lambda>_.
     seq (current_user p) (\<lambda>(caller, email).
     seq (call (get_start_totp_enrollment st (pr_user_id caller) email)) (\<lambda>uri.
     respond 200 (JObj [(''provisioning_uri'', JStr uri)]))))"

definition post_mfa_confirm :: "site \<Rightarrow> session_principal \<Rightarrow> string \<Rightarrow> http_response http" where
  "post_mfa_confirm st p code =
     seq (current_user p) (\<lambda>(caller, _).
     seq (validated (length_errors (body_field ''code'') 6 (Some 8) code)) (\<lambda>_.
     seq (call (get_confirm_totp_enrollment st (pr_user_id caller) code)) (\<lambda>codes.
     respond 200 (JObj [(''recovery_codes'', JList (map JStr codes))]))))"

definition post_mfa_verify :: "site \<Rightarrow> http_request \<Rightarrow> string \<Rightarrow> string \<Rightarrow> http_response http" where
  "post_mfa_verify st rq challenge_token code =
     seq (validated (mfa_verify_request_errors code)) (\<lambda>_.
     seq (call (get_complete_mfa_login st challenge_token code (map_of (rq_headers rq) ''user-agent'')))
       (token_answer st))"

definition post_step_up_verify :: "site \<Rightarrow> session_principal \<Rightarrow> string \<Rightarrow> string \<Rightarrow> http_response http" where
  "post_step_up_verify st p code purpose =
     seq (rate_limit_user st p ''step-up'' STEP_UP_CAPACITY STEP_UP_WINDOW_SECONDS True) (\<lambda>_.
     seq (current_user p) (\<lambda>(caller, _).
     seq (validated (step_up_request_errors code purpose)) (\<lambda>_.
     seq (call (get_step_up_verify st (pr_user_id caller) (pr_session_id caller) code purpose)) (\<lambda>token.
     respond 200 (step_up_response st token)))))"

definition delete_mfa :: "site \<Rightarrow> http_request \<Rightarrow> session_principal \<Rightarrow> http_response http" where
  "delete_mfa st rq p =
     seq (require_step_up st rq p MANAGE_MFA) (\<lambda>_.
     seq (call (disable_mfa_case (pr_user_id p))) (\<lambda>_. ret no_content))"

section \<open>Routes of vaults\<close>

definition post_vault :: "session_principal \<Rightarrow> string \<Rightarrow> string option \<Rightarrow> http_response http" where
  "post_vault p name description =
     seq (validated (vault_create_request_errors name description)) (\<lambda>_.
     seq (call (create_vault (to_actor p) name description)) (\<lambda>view.
     respond 201 (vault_response view)))"

definition get_vaults :: "session_principal \<Rightarrow> http_response http" where
  "get_vaults p =
     seq (call (list_vaults (pr_user_id p) (pr_tenant_id p))) (\<lambda>views.
     respond 200 (JList (map vault_response views)))"

definition get_vault_by_id :: "session_principal \<Rightarrow> uuid \<Rightarrow> http_response http" where
  "get_vault_by_id p vault_id =
     seq (call (get_vault (pr_user_id p) (pr_tenant_id p) vault_id)) (\<lambda>view.
     respond 200 (vault_response view))"

text \<open>\<open>description\<close> is \<open>None\<close> when the body has no such field, \<open>Some None\<close> when it is null.\<close>

definition patch_vault ::
    "session_principal \<Rightarrow> uuid \<Rightarrow> string option \<Rightarrow> string option option \<Rightarrow> http_response http" where
  "patch_vault p vault_id name description =
     seq (validated (vault_update_request_errors name (Option.bind description (\<lambda>d. d)))) (\<lambda>_.
     if name = None \<and> description = None
     then raise (HTTPException 422 ''At least one field must be provided'' [])
     else
       let clear_description = (description = Some None) in
       seq (call (update_vault (to_actor p) vault_id name (Option.bind description (\<lambda>d. d)) clear_description)) (\<lambda>view.
       respond 200 (vault_response view)))"

definition delete_vault_by_id ::
    "site \<Rightarrow> http_request \<Rightarrow> session_principal \<Rightarrow> uuid \<Rightarrow> http_response http" where
  "delete_vault_by_id st rq p vault_id =
     seq (require_step_up st rq p DELETE_VAULT) (\<lambda>_.
     seq (call (delete_vault (to_actor p) vault_id True)) (\<lambda>_. ret no_content))"

definition get_grants :: "session_principal \<Rightarrow> uuid \<Rightarrow> http_response http" where
  "get_grants p vault_id =
     seq (call (list_grants (to_actor p) vault_id)) (\<lambda>gs.
     respond 200 (JList (map grant_response gs)))"

definition post_grant :: "session_principal \<Rightarrow> uuid \<Rightarrow> uuid \<Rightarrow> vault_permission \<Rightarrow> http_response http" where
  "post_grant p vault_id membership_id permission =
     seq (call (manage_grant_grant (to_actor p) vault_id membership_id permission)) (\<lambda>_. ret no_content)"

definition delete_grant :: "session_principal \<Rightarrow> uuid \<Rightarrow> uuid \<Rightarrow> http_response http" where
  "delete_grant p vault_id membership_id =
     seq (call (manage_grant_revoke (to_actor p) vault_id membership_id)) (\<lambda>_. ret no_content)"

section \<open>Routes of secrets\<close>

definition post_secret ::
    "site \<Rightarrow> session_principal \<Rightarrow> uuid \<Rightarrow> string \<Rightarrow> string \<Rightarrow> string option \<Rightarrow> http_response http" where
  "post_secret st p vault_id name value description =
     seq (validated (secret_create_request_errors name value description)) (\<lambda>_.
     seq (call (get_create_secret st (to_actor p) vault_id name value description)) (\<lambda>view.
     respond 201 (secret_meta_response view)))"

definition get_secrets :: "session_principal \<Rightarrow> uuid \<Rightarrow> http_response http" where
  "get_secrets p vault_id =
     seq (call (list_secrets (pr_user_id p) (pr_tenant_id p) vault_id)) (\<lambda>views.
     respond 200 (JList (map secret_meta_response views)))"

definition post_reveal :: "site \<Rightarrow> session_principal \<Rightarrow> uuid \<Rightarrow> uuid \<Rightarrow> int option \<Rightarrow> http_response http" where
  "post_reveal st p vault_id secret_id version =
     seq (rate_limit_user st p ''reveal'' REVEAL_CAPACITY REVEAL_WINDOW_SECONDS False) (\<lambda>_.
     seq (call (get_reveal_secret st (to_actor p) vault_id secret_id version))
       (\<lambda>(m, plaintext, revealed_version).
     ret (set_header ''cache-control'' ''no-store''
            (json_response 200 [] (reveal_response m plaintext revealed_version)))))"

definition post_rotate :: "site \<Rightarrow> session_principal \<Rightarrow> uuid \<Rightarrow> uuid \<Rightarrow> string \<Rightarrow> http_response http" where
  "post_rotate st p vault_id secret_id value =
     seq (validated (rotate_secret_request_errors value)) (\<lambda>_.
     seq (call (get_rotate_secret st (to_actor p) vault_id secret_id value)) (\<lambda>view.
     respond 200 (secret_meta_response view)))"

definition delete_secret_by_id ::
    "site \<Rightarrow> http_request \<Rightarrow> session_principal \<Rightarrow> uuid \<Rightarrow> uuid \<Rightarrow> http_response http" where
  "delete_secret_by_id st rq p vault_id secret_id =
     seq (require_step_up st rq p DELETE_SECRET) (\<lambda>_.
     seq (call (delete_secret (to_actor p) vault_id secret_id True)) (\<lambda>_. ret no_content))"

section \<open>Routes of the organization\<close>

definition get_members :: "session_principal \<Rightarrow> http_response http" where
  "get_members p =
     seq (call (list_members (pr_user_id p) (pr_tenant_id p))) (\<lambda>members.
     respond 200 (JList (map member_response members)))"

definition delete_member :: "site \<Rightarrow> http_request \<Rightarrow> session_principal \<Rightarrow> uuid \<Rightarrow> http_response http" where
  "delete_member st rq p membership_id =
     seq (require_step_up st rq p REMOVE_MEMBER) (\<lambda>_.
     seq (call (remove_member (to_actor p) membership_id True)) (\<lambda>_. ret no_content))"

definition post_invitation :: "site \<Rightarrow> session_principal \<Rightarrow> string \<Rightarrow> org_role \<Rightarrow> http_response http" where
  "post_invitation st p email role =
     seq (rate_limit_user st p ''invite-create'' INVITE_CREATE_CAPACITY INVITE_CREATE_WINDOW_SECONDS True) (\<lambda>_.
     seq (validated (email_errors st email)) (\<lambda>_.
     if role = OWNER then raise (HTTPException 422 ''Cannot invite owner role'' [])
     else
       seq (call (get_create_invitation st (to_actor p) (email_of st email) role)) (\<lambda>invite.
       respond 201 (invitation_response invite))))"

definition get_invitations :: "session_principal \<Rightarrow> http_response http" where
  "get_invitations p =
     seq (call (list_invitations (pr_user_id p) (pr_tenant_id p))) (\<lambda>rows.
     respond 200 (JList (map invitation_response rows)))"

definition delete_invitation :: "session_principal \<Rightarrow> uuid \<Rightarrow> http_response http" where
  "delete_invitation p invitation_id =
     seq (call (revoke_invitation (to_actor p) invitation_id)) (\<lambda>_. ret no_content)"

definition get_invitation_preview :: "site \<Rightarrow> http_request \<Rightarrow> string \<Rightarrow> http_response http" where
  "get_invitation_preview st rq token =
     seq (rate_limit_ip st rq ''invite-preview'' INVITE_PREVIEW_IP_CAPACITY
            INVITE_PREVIEW_IP_WINDOW_SECONDS True) (\<lambda>_.
     seq (validated (length_errors (query_field ''token'') 1 None token)) (\<lambda>_.
     seq (call (preview_invitation token)) (\<lambda>preview.
     respond 200 (invitation_preview_response preview))))"

definition post_accept_invitation :: "site \<Rightarrow> http_request \<Rightarrow> string \<Rightarrow> string \<Rightarrow> http_response http" where
  "post_accept_invitation st rq token password =
     seq (rate_limit_ip st rq ''invite-accept'' INVITE_ACCEPT_IP_CAPACITY
            INVITE_ACCEPT_IP_WINDOW_SECONDS True) (\<lambda>_.
     seq (validated (accept_invitation_request_errors token password)) (\<lambda>_.
     seq (call (get_accept_invitation st token password)) (\<lambda>_. ret no_content)))"

definition get_organization_route :: "session_principal \<Rightarrow> http_response http" where
  "get_organization_route p =
     seq (call (get_organization (to_actor p))) (\<lambda>org. respond 200 (organization_response org))"

definition get_audit_events ::
    "session_principal \<Rightarrow> string option \<Rightarrow> uuid option \<Rightarrow> int option \<Rightarrow> int \<Rightarrow> http_response http" where
  "get_audit_events p action target_id before_sequence limit =
     seq (validated (optional_errors (range_errors (query_field ''before_sequence'') 1 None) before_sequence @
                     range_errors (query_field ''limit'') 1 (Some 500) limit)) (\<lambda>_.
     seq (call (list_audit_events (to_actor p) action target_id before_sequence (nat limit))) (\<lambda>events.
     respond 200 (JList (map audit_event_response events))))"

definition health_check :: "http_response http" where
  "health_check = respond 200 (JObj [(''status'', JStr ''ok'')])"

section \<open>The application\<close>

text \<open>The routes, with the values FastAPI parsed from path, query and body.\<close>

datatype route =
    GetHealth
  | PostRegister string string string
  | GetMe
  | PostLogin string string
  | PostRefresh
  | PostLogout
  | PostMfaEnroll
  | PostMfaConfirm string
  | PostMfaVerify string string
  | PostStepUpVerify string string
  | DeleteMfa
  | PostVault string "string option"
  | GetVaults
  | GetVault uuid
  | PatchVault uuid "string option" "string option option"
  | DeleteVaultRoute uuid
  | GetGrants uuid
  | PostGrant uuid uuid vault_permission
  | DeleteGrant uuid uuid
  | PostSecret uuid string string "string option"
  | GetSecrets uuid
  | PostReveal uuid uuid "int option"
  | PostRotate uuid uuid string
  | DeleteSecretRoute uuid uuid
  | GetMembers
  | DeleteMember uuid
  | PostInvitation string org_role
  | GetInvitations
  | DeleteInvitation uuid
  | GetInvitationPreview string
  | PostAcceptInvitation string string
  | GetOrganization
  | GetAuditEvents "string option" "uuid option" "int option" int

text \<open>Routes that declare the principal, and routers and routes that also demand the MFA gate.\<close>

definition authenticated :: "site \<Rightarrow> http_request \<Rightarrow> (session_principal \<Rightarrow> 'a http) \<Rightarrow> 'a http" where
  "authenticated st rq handler = seq (current_principal st rq) handler"

definition behind_mfa :: "site \<Rightarrow> http_request \<Rightarrow> (session_principal \<Rightarrow> 'a http) \<Rightarrow> 'a http" where
  "behind_mfa st rq handler =
     authenticated st rq (\<lambda>p. seq (require_mfa_if_owner p) (\<lambda>_. handler p))"

fun dispatch :: "site \<Rightarrow> route \<Rightarrow> http_request \<Rightarrow> http_response http" where
  "dispatch st GetHealth rq = health_check"
| "dispatch st (PostRegister e p n) rq = post_register st rq e p n"
| "dispatch st GetMe rq = authenticated st rq get_me"
| "dispatch st (PostLogin e p) rq = post_login st rq e p"
| "dispatch st PostRefresh rq = post_refresh st rq"
| "dispatch st PostLogout rq = post_logout st rq"
| "dispatch st PostMfaEnroll rq = authenticated st rq (post_mfa_enroll st)"
| "dispatch st (PostMfaConfirm c) rq = authenticated st rq (\<lambda>p. post_mfa_confirm st p c)"
| "dispatch st (PostMfaVerify tok c) rq = post_mfa_verify st rq tok c"
| "dispatch st (PostStepUpVerify c pur) rq = authenticated st rq (\<lambda>p. post_step_up_verify st p c pur)"
| "dispatch st DeleteMfa rq = authenticated st rq (delete_mfa st rq)"
| "dispatch st (PostVault n d) rq = behind_mfa st rq (\<lambda>p. post_vault p n d)"
| "dispatch st GetVaults rq = behind_mfa st rq get_vaults"
| "dispatch st (GetVault v) rq = behind_mfa st rq (\<lambda>p. get_vault_by_id p v)"
| "dispatch st (PatchVault v n d) rq = behind_mfa st rq (\<lambda>p. patch_vault p v n d)"
| "dispatch st (DeleteVaultRoute v) rq = behind_mfa st rq (\<lambda>p. delete_vault_by_id st rq p v)"
| "dispatch st (GetGrants v) rq = behind_mfa st rq (\<lambda>p. get_grants p v)"
| "dispatch st (PostGrant v m perm) rq = behind_mfa st rq (\<lambda>p. post_grant p v m perm)"
| "dispatch st (DeleteGrant v m) rq = behind_mfa st rq (\<lambda>p. delete_grant p v m)"
| "dispatch st (PostSecret v n x d) rq = behind_mfa st rq (\<lambda>p. post_secret st p v n x d)"
| "dispatch st (GetSecrets v) rq = behind_mfa st rq (\<lambda>p. get_secrets p v)"
| "dispatch st (PostReveal v s n) rq = behind_mfa st rq (\<lambda>p. post_reveal st p v s n)"
| "dispatch st (PostRotate v s x) rq = behind_mfa st rq (\<lambda>p. post_rotate st p v s x)"
| "dispatch st (DeleteSecretRoute v s) rq = behind_mfa st rq (\<lambda>p. delete_secret_by_id st rq p v s)"
| "dispatch st GetMembers rq = behind_mfa st rq get_members"
| "dispatch st (DeleteMember m) rq = behind_mfa st rq (\<lambda>p. delete_member st rq p m)"
| "dispatch st (PostInvitation e r) rq = behind_mfa st rq (\<lambda>p. post_invitation st p e r)"
| "dispatch st GetInvitations rq = behind_mfa st rq get_invitations"
| "dispatch st (DeleteInvitation i) rq = behind_mfa st rq (\<lambda>p. delete_invitation p i)"
| "dispatch st (GetInvitationPreview tok) rq = get_invitation_preview st rq tok"
| "dispatch st (PostAcceptInvitation tok p) rq = post_accept_invitation st rq tok p"
| "dispatch st GetOrganization rq = authenticated st rq get_organization_route"
| "dispatch st (GetAuditEvents a tg b lim) rq = behind_mfa st rq (\<lambda>p. get_audit_events p a tg b lim)"

definition serve :: "site \<Rightarrow> route \<Rightarrow> http_request \<Rightarrow> http_response op" where
  "serve st r rq = serve_with (st_cors_origins st) (dispatch st r) rq"

end
