(* ===== verification/Http_Laws.thy ===== *)
theory Http_Laws
  imports Http_Routes Token_Laws
begin

text \<open>
  What the HTTP layer guarantees: every request is answered, protected routes act only for a
  caller whose token was verified, destructive ones only with a step-up token, and what a request
  leaves behind is nothing or what the one use case of its route leaves.
\<close>

section \<open>How a request is served\<close>

text \<open>The identifier a request gets, and the origin check it has to pass.\<close>

definition request_id :: "http_request \<Rightarrow> world \<Rightarrow> string \<times> world" where
  "request_id rq w =
     (case map_of (rq_headers rq) ''x-request-id'' of
        Some rid \<Rightarrow> if rid \<noteq> '''' then (take 64 rid, w)
          else (take 64 (uuid_str (uuid_at (env w) (draws w))), w\<lparr>draws := Suc (draws w)\<rparr>)
      | None \<Rightarrow> (take 64 (uuid_str (uuid_at (env w) (draws w))), w\<lparr>draws := Suc (draws w)\<rparr>))"

lemma incoming_request_id_apply:
  "incoming_request_id rq w = (Inr (fst (request_id rq w)), snd (request_id rq w))"
  by (simp add: incoming_request_id_def request_id_def seq_def fresh_uuid_def split: option.split)

definition foreign_origin :: "site \<Rightarrow> http_request \<Rightarrow> bool" where
  "foreign_origin st rq \<longleftrightarrow>
     rq_method rq \<in> {''POST'', ''PUT'', ''PATCH'', ''DELETE''} \<and>
     list_ex (\<lambda>p. take (length p) (rq_path rq) = p) protected_prefixes \<and>
     (case map_of (rq_headers rq) ''origin'' of
        None \<Rightarrow> False | Some origin \<Rightarrow> origin \<notin> allowed_origins (st_cors_origins st))"

definition finish :: "string \<Rightarrow> string \<Rightarrow> http_error + http_response \<Rightarrow> http_response" where
  "finish scheme rid out =
     (let through = (\<lambda>rs. set_header ''x-request-id'' rid (add_security_headers scheme rs))
      in case out of
           Inr rs \<Rightarrow> through rs
         | Inl e \<Rightarrow> (case handled e (Some rid) of
               Some rs \<Rightarrow> through rs | None \<Rightarrow> internal_error_response (Some rid)))"

definition origin_refused :: "string \<Rightarrow> http_response" where
  "origin_refused rid = error_response 403 [] ''csrf_origin_mismatch'' ''Forbidden'' (Some rid)"

definition routed :: "site \<Rightarrow> route \<Rightarrow> http_request \<Rightarrow> string \<Rightarrow> http_response http" where
  "routed st r rq rid =
     (if foreign_origin st rq then ret (origin_refused rid)
      else dispatch st r (rq\<lparr>rq_request_id := Some rid\<rparr>))"

lemma serve_apply:
  "serve st r rq w =
     (case request_id rq w of (rid, w0) \<Rightarrow>
        case routed st r rq rid w0 of (out, w1) \<Rightarrow> (Inr (finish (rq_scheme rq) rid out), w1))"
proof -
  have layers: "(case security_headers (origin_check (st_cors_origins st) (exception_layer (dispatch st r)))
        (rq\<lparr>rq_request_id := Some rid\<rparr>) w0 of
        (Inl e, w') \<Rightarrow> (internal_error_response (Some rid), w')
      | (Inr rs, w') \<Rightarrow> (set_header ''x-request-id'' rid rs, w')) =
      (case routed st r rq rid w0 of (out, w1) \<Rightarrow> (finish (rq_scheme rq) rid out, w1))" for rid w0
    by (auto simp: security_headers_def origin_check_def exception_layer_def routed_def foreign_origin_def
        origin_refused_def finish_def Let_def seq_def catch_def split: prod.splits sum.splits option.splits)
  show ?thesis
  proof (cases "security_headers (origin_check (st_cors_origins st) (exception_layer (dispatch st r)))
      (rq\<lparr>rq_request_id := Some (fst (request_id rq w))\<rparr>) (snd (request_id rq w))")
    case (Pair out w1)
    with layers [of "fst (request_id rq w)" "snd (request_id rq w)"] show ?thesis
      by (cases out)
        (auto simp: serve_def serve_with_def request_context_def seq_def incoming_request_id_apply
          split: prod.splits)
  qed
qed

section \<open>What a request may change\<close>

definition unchanged :: "session_role \<Rightarrow> db \<Rightarrow> db \<Rightarrow> bool" where
  "unchanged r d d' \<longleftrightarrow> d' = d"

interpretation reads: db_order unchanged
  by unfold_locales (simp_all add: unchanged_def)

lemma across_unchanged: "across (unchanged r) = uncommitted"
  by (intro ext) (simp add: across_def unchanged_def uncommitted_def)

lemma framed_call [framed_intros]: "framed R m \<Longrightarrow> framed R (call m)"
  by (auto simp: framed_def call_def split: prod.split sum.split) (metis snd_conv)+

lemma reading_uow:
  "framed (within unchanged) body \<Longrightarrow> framed uncommitted (with_uow r body)"
  using reads.framed_with_uow [of body r] by (simp add: across_unchanged)

lemma uncommitted_gates [framed_intros]:
  "framed uncommitted (redis_call R)" "framed uncommitted (put_zset key z)"
  "framed uncommitted (limiter_check R key cap win fc)"
  "framed uncommitted (verify_access_token ts tok)"
  "framed uncommitted (verify_step_up_token ts tok u s pur)"
proof -
  show redis: "framed uncommitted (redis_call R)" "framed uncommitted (put_zset key z)" for key z
    by (simp_all add: framed_def uncommitted_def redis_call_def put_zset_def)
  show "framed uncommitted (limiter_check R key cap win fc)"
    unfolding limiter_check_def limiter_check_once_def Let_def
    by (auto intro!: framed_intros redis)
  show "framed uncommitted (verify_access_token ts tok)"
    "framed uncommitted (verify_step_up_token ts tok u s pur)"
    unfolding verify_access_token_def verify_step_up_token_def decode_token_def uuid_claim_def
    by (auto intro!: framed_intros split: json.split option.split)
qed

lemma uncommitted_identity_reads [framed_intros]:
  "framed uncommitted (with_identity_uow (user_get u))"
  "framed uncommitted (with_identity_uow
     (seq (idm_get_role u) (\<lambda>role. seq (user_get u) (\<lambda>user. ret (role, user)))))"
  unfolding with_identity_uow_def user_get_def idm_get_role_def
  by (auto intro!: reading_uow framed_intros)

lemma uncommitted_dependencies [framed_intros]:
  "framed uncommitted (current_principal st rq)"
  "framed uncommitted (current_user p)"
  "framed uncommitted (enforce_rate_limit st key cap win fc)"
  "framed uncommitted (rate_limit_ip st rq bucket cap win fc)"
  "framed uncommitted (rate_limit_user st p bucket cap win fc)"
  "framed uncommitted (require_step_up st rq p purpose)"
  "framed uncommitted (require_mfa_if_owner p)"
  "framed uncommitted (validated errs)"
  unfolding current_principal_def current_user_def enforce_rate_limit_def rate_limit_ip_def
    rate_limit_user_def require_step_up_def require_mfa_if_owner_def validated_def
  by (auto intro!: framed_intros split: http_error.split exn.split identity_error.split option.split)

lemma reading_policy [framed_intros]:
  "framed (within unchanged) (require_vault policy u t v a)"
  "framed (within unchanged) (require_org policy u t a)"
  "framed (within unchanged) (list_accessible_vault_ids policy u t)"
  by (simp_all add: framed_def policy.require_vault_decides policy.require_org_decides
      policy.list_accessible_unrestricted reads.within_refl)

lemma uncommitted_reading_cases [framed_intros]:
  "framed uncommitted (get_current_user p)"
  "framed uncommitted (list_vaults u t)" "framed uncommitted (get_vault u t v)"
  "framed uncommitted (list_secrets u t v)" "framed uncommitted (list_members u t)"
  "framed uncommitted (list_invitations u t)" "framed uncommitted (preview_invitation tok)"
  "framed uncommitted (get_organization a)" "framed uncommitted (list_audit_events a ac tg b lim)"
  unfolding get_current_user_def list_vaults_def get_vault_def list_secrets_def list_members_def
    list_invitations_def preview_invitation_def get_organization_def list_audit_events_def
    with_tenant_uow_def with_identity_uow_def vault_service_list_def vault_service_get_def
    secret_service_list_def org_service_list_members_def org_service_list_invitations_def
    org_service_get_organization_def audit_service_list_events_def enrich_with_actors_def Let_def
    user_get_def membership_get_role_def membership_get_membership_id_def organization_get_name_def
    vault_list_active_def vault_get_active_def secret_list_active_def member_list_members_def
    invitation_list_pending_def lookup_get_pending_by_token_hash_def lookup_get_organization_name_def
    audit_list_events_def member_resolve_actors_def
  by (auto intro!: framed_intros reading_uow split: option.split sum.split)

section \<open>Requests refine commands\<close>

text \<open>
  The abstract machine of theory System moves the committed rows by commands. \<open>runs\<close> is its step on
  the committed rows alone, whatever the clock, the random source and the counters hold.
\<close>

definition runs :: "deployment \<Rightarrow> command \<Rightarrow> db \<Rightarrow> db \<Rightarrow> bool" where
  "runs dp c d d' \<longleftrightarrow>
     (\<exists>w x w'. committed w = d \<and> run_command dp c w = (x, w') \<and> committed w' = d')"

text \<open>The command a request of an anonymous or of an identified caller stands for, if any.\<close>

fun public_command :: "site \<Rightarrow> http_request \<Rightarrow> route \<Rightarrow> command option" where
  "public_command st rq (PostRegister e p n) = Some (RegisterUser (email_of st e) p n)"
| "public_command st rq (PostLogin e p) =
     Some (LoginUser (email_of st e) p (map_of (rq_headers rq) ''user-agent''))"
| "public_command st rq PostRefresh = map_option RefreshTokens (map_of (rq_cookies rq) REFRESH_COOKIE)"
| "public_command st rq PostLogout = map_option LogoutSession (map_of (rq_cookies rq) REFRESH_COOKIE)"
| "public_command st rq (PostMfaVerify tok c) =
     Some (CompleteMfaLogin tok c (map_of (rq_headers rq) ''user-agent''))"
| "public_command st rq (PostAcceptInvitation tok p) = Some (AcceptInvitation tok p)"
| "public_command st rq r = None"

definition account :: "uuid \<Rightarrow> db \<Rightarrow> user option" where
  "account u d = find (\<lambda>x. u_id x = u) (t_users d)"

fun private_command :: "site \<Rightarrow> route \<Rightarrow> session_principal \<Rightarrow> db \<Rightarrow> command option" where
  "private_command st PostMfaEnroll p d =
     map_option (\<lambda>u. StartTotpEnrollment (pr_user_id p) (u_email u)) (account (pr_user_id p) d)"
| "private_command st (PostMfaConfirm c) p d = Some (ConfirmTotpEnrollment (pr_user_id p) c)"
| "private_command st (PostStepUpVerify c pur) p d =
     Some (StepUpVerify (pr_user_id p) (pr_session_id p) c pur)"
| "private_command st DeleteMfa p d = Some (DisableMfa (pr_user_id p))"
| "private_command st (PostVault n des) p d = Some (CreateVault (to_actor p) n des)"
| "private_command st (PatchVault v n des) p d =
     Some (UpdateVault (to_actor p) v n (Option.bind des (\<lambda>x. x)) (des = Some None))"
| "private_command st (DeleteVaultRoute v) p d = Some (DeleteVault (to_actor p) v True)"
| "private_command st (GetGrants v) p d = Some (ListGrants (to_actor p) v)"
| "private_command st (PostGrant v m perm) p d = Some (GrantAccess (to_actor p) v m perm)"
| "private_command st (DeleteGrant v m) p d = Some (RevokeGrant (to_actor p) v m)"
| "private_command st (PostSecret v n x des) p d = Some (CreateSecret (to_actor p) v n x des)"
| "private_command st (PostReveal v s n) p d = Some (RevealSecret (to_actor p) v s n)"
| "private_command st (PostRotate v s x) p d = Some (RotateSecret (to_actor p) v s x)"
| "private_command st (DeleteSecretRoute v s) p d = Some (DeleteSecret (to_actor p) v s True)"
| "private_command st (DeleteMember m) p d = Some (RemoveMember (to_actor p) m True)"
| "private_command st (PostInvitation e r) p d = Some (CreateInvitation (to_actor p) (email_of st e) r)"
| "private_command st (DeleteInvitation i) p d = Some (RevokeInvitation (to_actor p) i)"
| "private_command st r p d = None"

fun public_route :: "route \<Rightarrow> bool" where
  "public_route GetHealth = True"
| "public_route (PostRegister e p n) = True"
| "public_route (PostLogin e p) = True"
| "public_route PostRefresh = True"
| "public_route PostLogout = True"
| "public_route (PostMfaVerify tok c) = True"
| "public_route (GetInvitationPreview tok) = True"
| "public_route (PostAcceptInvitation tok p) = True"
| "public_route r = False"

text \<open>Whom the bearer token of a request identifies, when it is verified.\<close>

definition caller :: "site \<Rightarrow> http_request \<Rightarrow> world \<Rightarrow> session_principal option" where
  "caller st rq w =
     (case fst (current_principal st rq (snd (request_id rq w))) of Inr p \<Rightarrow> Some p | Inl e \<Rightarrow> None)"

definition command_of :: "site \<Rightarrow> route \<Rightarrow> http_request \<Rightarrow> world \<Rightarrow> command option" where
  "command_of st r rq w =
     (if public_route r then public_command st rq r
      else Option.bind (caller st rq w) (\<lambda>p. private_command st r p (committed w)))"

text \<open>A program that leaves the committed rows alone or moves them as one command does.\<close>

definition refines :: "deployment \<Rightarrow> command option \<Rightarrow> world \<Rightarrow> 'a http \<Rightarrow> bool" where
  "refines dp c w m \<longleftrightarrow>
     committed (snd (m w)) = committed w \<or>
     (\<exists>c'. c = Some c' \<and> runs dp c' (committed w) (committed (snd (m w))))"

lemma refines_idle: "framed uncommitted m \<Longrightarrow> refines dp c w m"
  by (simp add: framed_def uncommitted_def refines_def)

lemma refines_after:
  assumes "framed uncommitted g"
    and "\<And>x w'. g w = (Inr x, w') \<Longrightarrow> committed w' = committed w \<Longrightarrow> refines dp c w' (f x)"
  shows "refines dp c w (seq g f)"
proof (cases "g w")
  case (Pair r w')
  have "committed w' = committed w"
    using framedD [OF assms(1) Pair] by (simp add: uncommitted_def)
  then show ?thesis
    using Pair assms(2) by (cases r) (auto simp: refines_def seq_def)
qed

lemma refines_use_case:
  assumes "\<And>w. snd (run_command dp c w) = snd (m w)" and "\<And>x. framed uncommitted (f x)"
  shows "refines dp (Some c) w (seq (call m) f)"
proof (cases "m w")
  case (Pair r w')
  have runs: "runs dp c (committed w) (committed w')"
    unfolding runs_def using assms(1) [of w] Pair by (metis prod.collapse snd_conv)
  have "committed (snd (f x w')) = committed w'" for x
    using assms(2) by (simp add: framed_def uncommitted_def)
  then show ?thesis
    using Pair runs by (cases r) (auto simp: refines_def seq_def call_def)
qed

lemma refines_use_case_unit:
  assumes "\<And>w. snd (run_command dp c w) = snd (m w)"
  shows "refines dp (Some c) w (call m)"
proof -
  have "seq (call m) ret = call m"
    by (rule ext) (simp add: seq_def call_def split: prod.split sum.split)
  then show ?thesis
    using refines_use_case [OF assms, of ret] uncommitted.framed_ret by metis
qed

lemma snd_discard [simp]: "snd (discard m w) = snd (m w)"
  by (simp add: discard_def seq_def split: prod.split sum.split)

lemmas handler_defs = post_register_def get_me_def post_login_def post_refresh_def post_logout_def
  post_mfa_enroll_def post_mfa_confirm_def post_mfa_verify_def post_step_up_verify_def delete_mfa_def
  post_vault_def get_vaults_def get_vault_by_id_def patch_vault_def delete_vault_by_id_def
  get_grants_def post_grant_def delete_grant_def post_secret_def get_secrets_def post_reveal_def
  post_rotate_def delete_secret_by_id_def get_members_def delete_member_def post_invitation_def
  get_invitations_def delete_invitation_def get_invitation_preview_def post_accept_invitation_def
  get_organization_route_def get_audit_events_def health_check_def respond_def token_answer_def

lemmas wiring_defs = get_register_user_def get_login_user_def get_refresh_tokens_def
  get_start_totp_enrollment_def get_confirm_totp_enrollment_def get_complete_mfa_login_def
  get_step_up_verify_def get_create_secret_def get_reveal_secret_def get_rotate_secret_def
  get_create_invitation_def get_accept_invitation_def

lemmas refines_gates = refines_after [OF uncommitted_dependencies(2)]
  refines_after [OF uncommitted_dependencies(4)] refines_after [OF uncommitted_dependencies(5)]
  refines_after [OF uncommitted_dependencies(6)] refines_after [OF uncommitted_dependencies(7)]
  refines_after [OF uncommitted_dependencies(8)]

lemma refines_raise: "refines dp c w (raise e)"
  by (simp add: refines_def)

lemma refines_reading: "framed uncommitted m \<Longrightarrow> refines dp None w m"
  by (rule refines_idle)

lemmas refines_rules = refines_gates refines_raise refines_use_case refines_use_case_unit refines_reading

lemma refines_logout:
  "refines dp (map_option LogoutSession c) w
     (seq (case c of None \<Rightarrow> ret () | Some raw \<Rightarrow> call (logout_session raw)) (\<lambda>_. ret rs))"
  by (cases c) (auto intro!: refines_rules framed_intros)

lemma public_refines:
  assumes "public_route r"
  shows "refines (st_deployment st) (public_command st rq r) w (dispatch st r rq)"
  using assms
  by (cases r)
    (auto simp: handler_defs wiring_defs refines_logout split: option.split login_result.split
      intro!: refines_rules framed_intros)

lemma framed_authenticated [framed_intros]:
  "(\<And>p. framed uncommitted (h p)) \<Longrightarrow> framed uncommitted (authenticated st rq h)"
  unfolding authenticated_def by (auto intro!: framed_intros)

lemma user_get_uow:
  "with_identity_uow (user_get u) w =
     (Inr (account u (committed w)), snd (with_identity_uow (user_get u) w))"
  by (simp add: with_identity_uow_def with_uow_apply user_get_def account_def select_one_def row_where_def
      seen_def visible_def uow_start_def users_def)

lemma current_user_result:
  assumes "current_user p w = (Inr (q, e), w')"
  shows "q = p \<and> (\<exists>u. account (pr_user_id p) (committed w) = Some u \<and> u_email u = e)"
  using assms user_get_uow [of "pr_user_id p" w]
  by (auto simp: current_user_def seq_def call_def raise_def split: prod.splits sum.splits option.splits)

lemma refines_authenticated:
  assumes "\<And>p w'. fst (current_principal st rq w) = Inr p \<Longrightarrow> committed w' = committed w \<Longrightarrow>
      refines dp (cmd p) w' (handler p)"
  shows "refines dp (Option.bind (case fst (current_principal st rq w) of Inr p \<Rightarrow> Some p | Inl e \<Rightarrow> None) cmd) w
    (authenticated st rq handler)"
proof (cases "current_principal st rq w")
  case (Pair r w')
  have same: "committed w' = committed w"
    using framedD [OF uncommitted_dependencies(1) Pair] by (simp add: uncommitted_def)
  with Pair assms [of _ w'] show ?thesis
    by (cases r) (auto simp: refines_def authenticated_def seq_def)
qed

lemma private_refines:
  assumes "\<not> public_route r"
  shows "refines (st_deployment st)
    (Option.bind (case fst (current_principal st rq w) of Inr p \<Rightarrow> Some p | Inl e \<Rightarrow> None)
       (\<lambda>p. private_command st r p (committed w))) w (dispatch st r rq)"
  using assms
  by (cases r)
    (auto simp: handler_defs wiring_defs behind_mfa_def split: option.split
      intro!: refines_authenticated refines_rules framed_intros dest!: current_user_result)

lemma request_id_keeps: "committed (snd (request_id rq w)) = committed w"
  by (simp add: request_id_def split: option.split)

lemma current_principal_id [simp]:
  "current_principal st (rq\<lparr>rq_request_id := i\<rparr>) = current_principal st rq"
  by (simp add: current_principal_def)

lemma public_command_id [simp]: "public_command st (rq\<lparr>rq_request_id := i\<rparr>) r = public_command st rq r"
  by (cases r) simp_all

lemma routed_refines:
  assumes "request_id rq w = (rid, w0)"
  shows "refines (st_deployment st) (command_of st r rq w) w0 (routed st r rq rid)"
proof -
  have same: "committed w0 = committed w"
    using request_id_keeps [of rq w] assms by simp
  have caller: "caller st rq w =
      (case fst (current_principal st rq w0) of Inr p \<Rightarrow> Some p | Inl e \<Rightarrow> None)"
    by (simp add: caller_def assms)
  show ?thesis
    using public_refines [of r st "rq\<lparr>rq_request_id := Some rid\<rparr>" w0]
      private_refines [of r st "rq\<lparr>rq_request_id := Some rid\<rparr>" w0]
    by (auto simp: routed_def command_of_def caller same refines_def ret_def)
qed

text \<open>
  C4. The HTTP layer refines the use cases: whatever a request does to the committed rows is nothing
  at all, or the effect of the one command its route stands for, with the arguments parsed from the
  request, on behalf of the caller its token identifies. A request without such a command (reads,
  and protected routes without an identified caller) leaves every row as it is.
\<close>

theorem requests_refine_commands:
  "committed (snd (serve st r rq w)) = committed w \<or>
   (\<exists>c. command_of st r rq w = Some c \<and>
      runs (st_deployment st) c (committed w) (committed (snd (serve st r rq w))))"
proof -
  obtain rid w0 where rid: "request_id rq w = (rid, w0)" by fastforce
  have "committed w0 = committed w"
    using request_id_keeps [of rq w] rid by simp
  moreover have "snd (serve st r rq w) = snd (routed st r rq rid w0)"
    by (simp add: serve_apply rid split: prod.split)
  ultimately show ?thesis
    using routed_refines [OF rid, of st r] by (simp add: refines_def)
qed

text \<open>The states the HTTP interface leads to; between two requests only the committed rows persist.\<close>

inductive web_reachable :: "site \<Rightarrow> world \<Rightarrow> bool" for st where
  web_start: "initial w \<Longrightarrow> web_reachable st w"
| web_request: "web_reachable st w \<Longrightarrow> serve st r rq w = (out, w') \<Longrightarrow> web_reachable st w'"
| web_drift: "web_reachable st w \<Longrightarrow> committed w' = committed w \<Longrightarrow> web_reachable st w'"

lemma runs_reachable:
  "reachable dp w \<Longrightarrow> runs dp c (committed w) d \<Longrightarrow> committed w' = d \<Longrightarrow> reachable dp w'"
  unfolding runs_def by (metis reachable.drift reachable.step)

lemma request_step:
  assumes "reachable (st_deployment st) w" and "serve st r rq w = (out, w')"
  shows "reachable (st_deployment st) w'"
proof -
  obtain rid w0 where rid: "request_id rq w = (rid, w0)" by fastforce
  have w0: "committed w0 = committed w"
    using request_id_keeps [of rq w] rid by simp
  moreover have "snd (serve st r rq w) = snd (routed st r rq rid w0)"
    by (simp add: serve_apply rid split: prod.split)
  ultimately show ?thesis
    using routed_refines [OF rid, of st r] assms
    by (auto simp: refines_def intro: reachable.drift runs_reachable)
qed

lemma web_states_reachable: "web_reachable st w \<Longrightarrow> reachable (st_deployment st) w"
  by (induction rule: web_reachable.induct) (auto intro: reachable.start reachable.drift request_step)

end
