(* ===== verification/Http_Guards.thy ===== *)
theory Http_Guards
  imports Http_Laws
begin

text \<open>
  The gates of the HTTP layer: bearer token, enrolment of owners, step-up, limits that fail closed;
  and the shape every response has.
\<close>

section \<open>What the outer layers add\<close>

lemma set_header_simps [simp]:
  "rs_status (set_header k v rs) = rs_status rs" "rs_body (set_header k v rs) = rs_body rs"
  "rs_cookies (set_header k v rs) = rs_cookies rs"
  by (simp_all add: set_header_def)

lemma setdefault_header_simps [simp]:
  "rs_status (setdefault_header k v rs) = rs_status rs" "rs_body (setdefault_header k v rs) = rs_body rs"
  "rs_cookies (setdefault_header k v rs) = rs_cookies rs"
  by (simp_all add: setdefault_header_def)

lemma add_security_headers_simps [simp]:
  "rs_status (add_security_headers sch rs) = rs_status rs"
  "rs_body (add_security_headers sch rs) = rs_body rs"
  "rs_cookies (add_security_headers sch rs) = rs_cookies rs"
  by (simp_all add: add_security_headers_def Let_def)

lemma error_response_simps [simp]:
  "rs_status (error_response n hs code msg rid) = n"
  "rs_headers (error_response n hs code msg rid) = hs"
  "rs_cookies (error_response n hs code msg rid) = []"
  "rs_body (error_response n hs code msg rid) = Some (error_body code msg rid)"
  by (simp_all add: error_response_def json_response_def)

lemma internal_error_simps [simp]:
  "rs_status (internal_error_response rid) = 500" "rs_cookies (internal_error_response rid) = []"
  by (simp_all add: internal_error_response_def Let_def split: option.split)

lemma finish_Inr [simp]:
  "rs_status (finish sch rid (Inr rs)) = rs_status rs" "rs_cookies (finish sch rid (Inr rs)) = rs_cookies rs"
  "rs_body (finish sch rid (Inr rs)) = rs_body rs"
  by (simp_all add: finish_def)

lemma call_Inr: "m w = (Inr x, w') \<Longrightarrow> call m w = (Inr x, w')"
  by (simp add: call_def)

lemma call_Inl: "m w = (Inl e, w') \<Longrightarrow> call m w = (Inl (Raised e), w')"
  by (simp add: call_def)

lemma finish_handled:
  "handled e (Some rid) = Some rs \<Longrightarrow> finish sch rid (Inl e) = finish sch rid (Inr rs)"
  by (simp add: finish_def)

section \<open>Callers without a valid token\<close>

text \<open>No credentials, or credentials PyJWT refuses whatever is required of them.\<close>

definition refused_credentials :: "site \<Rightarrow> http_request \<Rightarrow> bool" where
  "refused_credentials st rq \<longleftrightarrow>
     (case rq_bearer rq of None \<Rightarrow> True
      | Some tok \<Rightarrow> \<forall>iss aud req t. jwt_decode (tk_jwt (st_tokens st)) tok iss aud req t = None)"

text \<open>Nothing but the position of the random source has moved.\<close>

definition untouched :: "world \<Rightarrow> world \<Rightarrow> bool" where
  "untouched w w' \<longleftrightarrow> (\<exists>n. w' = w\<lparr>draws := n\<rparr>)"

interpretation untouched: frame_relation untouched
proof
  show "untouched w w" for w
    unfolding untouched_def by (rule exI [of _ "draws w"]) simp
  show "untouched w1 w2 \<Longrightarrow> untouched w2 w3 \<Longrightarrow> untouched w1 w3" for w1 w2 w3
    by (auto simp: untouched_def)
qed

lemma untouched_draws [simp]: "untouched w (w\<lparr>draws := n\<rparr>)"
  by (auto simp: untouched_def)

lemma untouched_request_id: "untouched w (snd (request_id rq w))"
  using untouched.R_refl [of w] by (simp add: request_id_def split: option.split)

lemma refused_principal:
  assumes "refused_credentials st rq"
  shows "\<exists>w'. current_principal st rq w = (Inl unauthorized, w') \<and> untouched w w'"
  using assms untouched.R_refl [of w]
  by (auto simp: refused_credentials_def current_principal_def verify_access_token_def decode_token_def
      catch_def call_def prog_simps now_def seq_def split: option.splits)

lemma protected_dispatch:
  assumes "\<not> public_route r" and "current_principal st rq w = (Inl e, w')"
  shows "dispatch st r rq w = (Inl e, w')"
  using assms by (cases r) (simp_all add: behind_mfa_def authenticated_def seq_apply_Inl)


section \<open>Owners without a second factor\<close>

text \<open>The routes \<open>create_app\<close> and the routers put behind \<open>require_mfa_if_owner\<close>.\<close>

fun mfa_gated :: "route \<Rightarrow> bool" where
  "mfa_gated GetMe = False"
| "mfa_gated PostMfaEnroll = False"
| "mfa_gated (PostMfaConfirm c) = False"
| "mfa_gated (PostStepUpVerify c pur) = False"
| "mfa_gated DeleteMfa = False"
| "mfa_gated GetOrganization = False"
| "mfa_gated r = (\<not> public_route r)"

text \<open>The first membership of a user, the one whose role the gate reads.\<close>

definition first_membership :: "uuid \<Rightarrow> db \<Rightarrow> membership option" where
  "first_membership u d = find (\<lambda>m. m_user_id m = u) (t_memberships d)"

definition unarmed_owner :: "uuid \<Rightarrow> db \<Rightarrow> bool" where
  "unarmed_owner u d \<longleftrightarrow>
     (case (first_membership u d, account u d) of
        (Some m, Some x) \<Rightarrow> m_role m = OWNER \<and> \<not> u_mfa_enabled x | _ \<Rightarrow> False)"

lemma role_value_owner: "role_value r = ''owner'' \<longleftrightarrow> r = OWNER"
  by (cases r) simp_all

lemma mfa_gate_reads:
  "with_identity_uow (seq (idm_get_role u) (\<lambda>role. seq (user_get u) (\<lambda>user. ret (role, user)))) w =
     (Inr (map_option (\<lambda>m. role_value (m_role m)) (first_membership u (committed w)), account u (committed w)),
      snd (with_identity_uow (seq (idm_get_role u) (\<lambda>role. seq (user_get u) (\<lambda>user. ret (role, user)))) w))"
  by (simp add: with_identity_uow_def with_uow_apply idm_get_role_def user_get_def account_def
      first_membership_def select_one_def row_where_def seen_def visible_def uow_start_def
      users_def memberships_def prog_simps)

lemma mfa_gate_refuses:
  assumes "unarmed_owner (pr_user_id p) (committed w)"
  shows "\<exists>w'. require_mfa_if_owner p w =
    (Inl (Raised (Identity (MfaEnrollmentRequiredError ''MFA enrollment required''))), w') \<and>
    committed w' = committed w"
proof -
  let ?gate = "with_identity_uow (seq (idm_get_role (pr_user_id p)) (\<lambda>role.
      seq (user_get (pr_user_id p)) (\<lambda>user. ret (role, user))))"
  obtain x m where x: "account (pr_user_id p) (committed w) = Some x" "\<not> u_mfa_enabled x"
    and m: "first_membership (pr_user_id p) (committed w) = Some m" "m_role m = OWNER"
    using assms by (auto simp: unarmed_owner_def split: option.splits)
  have "?gate w = (Inr (Some ''owner'', Some x), snd (?gate w))"
    using mfa_gate_reads [of "pr_user_id p" w] x m by simp
  then have "call ?gate w = (Inr (Some ''owner'', Some x), snd (?gate w))"
    by (rule call_Inr)
  moreover have "committed (snd (?gate w)) = committed w"
    using uncommitted_identity_reads(2) by (simp add: framed_def uncommitted_def)
  ultimately show ?thesis
    using x(2) by (simp add: require_mfa_if_owner_def seq_apply_Inr)
qed

lemma gated_dispatch:
  assumes "mfa_gated r" and "current_principal st rq w = (Inr p, w1)"
    and "require_mfa_if_owner p w1 = (Inl e, w2)"
  shows "dispatch st r rq w = (Inl e, w2)"
  using assms
  by (cases r) (simp_all add: behind_mfa_def authenticated_def seq_apply_Inr seq_apply_Inl)

text \<open>
  C12. An owner who has not enrolled a second factor is stopped at every route of vaults, secrets,
  members, invitations and the audit ledger: the answer is 403 with the code the client reacts to,
  and no row is changed.
\<close>

theorem owners_need_a_second_factor:
  assumes "mfa_gated r" and "caller st rq w = Some p" and "unarmed_owner (pr_user_id p) (committed w)"
    and "\<not> foreign_origin st rq"
  shows "\<exists>rs w'. serve st r rq w = (Inr rs, w') \<and> committed w' = committed w \<and> rs_status rs = 403 \<and>
    rs_body rs = Some (error_body ''mfa_enrollment_required'' ''MFA enrollment required''
      (Some (fst (request_id rq w))))"
proof -
  obtain rid w0 where rid: "request_id rq w = (rid, w0)" by fastforce
  obtain w1 where p: "current_principal st rq w0 = (Inr p, w1)"
    using assms(2) by (cases "current_principal st rq w0") (auto simp: caller_def rid split: sum.splits)
  then have w1: "committed w1 = committed w"
    using framedD [OF uncommitted_dependencies(1) p] request_id_keeps [of rq w]
    by (simp add: uncommitted_def rid)
  then obtain w2 where "require_mfa_if_owner p w1 =
      (Inl (Raised (Identity (MfaEnrollmentRequiredError ''MFA enrollment required''))), w2)"
    and w2: "committed w2 = committed w"
    using mfa_gate_refuses [of p w1] assms(3) by auto
  then have "dispatch st r (rq\<lparr>rq_request_id := Some rid\<rparr>) w0 =
      (Inl (Raised (Identity (MfaEnrollmentRequiredError ''MFA enrollment required''))), w2)"
    using assms(1) p by (intro gated_dispatch) auto
  with assms(4) w2 show ?thesis
    by (simp add: serve_apply rid routed_def finish_handled [OF handled.simps(3)] text_or_def)
qed

section \<open>Step-up\<close>

text \<open>The purpose a step-up token must have been minted for, on the routes that destroy something.\<close>

fun step_up_of :: "route \<Rightarrow> step_up_purpose option" where
  "step_up_of DeleteMfa = Some MANAGE_MFA"
| "step_up_of (DeleteVaultRoute v) = Some DELETE_VAULT"
| "step_up_of (DeleteSecretRoute v s) = Some DELETE_SECRET"
| "step_up_of (DeleteMember m) = Some REMOVE_MEMBER"
| "step_up_of r = None"

definition step_up_proven :: "site \<Rightarrow> http_request \<Rightarrow> session_principal \<Rightarrow> step_up_purpose \<Rightarrow> bool" where
  "step_up_proven st rq p purpose \<longleftrightarrow>
     (\<exists>tok w w'. map_of (rq_headers rq) ''x-step-up-token'' = Some tok \<and>
        verify_step_up_token (st_tokens st) tok (pr_user_id p) (pr_session_id p) (purpose_value purpose) w =
          (Inr (), w'))"

lemma require_step_up_passes:
  assumes "require_step_up st rq p purpose w = (Inr (), w')"
  shows "step_up_proven st rq p purpose"
  using assms
  by (auto simp: require_step_up_def step_up_proven_def catch_Inr_iff call_def raise_def
      split: option.splits prod.splits sum.splits http_error.splits exn.splits identity_error.splits)

lemma step_up_handler:
  assumes "\<not> step_up_proven st rq p purpose"
  shows "framed uncommitted (seq (require_step_up st rq p purpose) f)"
proof (rule framedI)
  fix w r w'
  assume run: "seq (require_step_up st rq p purpose) f w = (r, w')"
  obtain r1 w1 where gate: "require_step_up st rq p purpose w = (r1, w1)" by fastforce
  have "committed w1 = committed w"
    using framedD [OF uncommitted_dependencies(6) gate] by (simp add: uncommitted_def)
  moreover have "\<exists>e. r1 = Inl e"
    using gate assms require_step_up_passes [of st rq p purpose w w1] by (cases r1) auto
  ultimately show "uncommitted w w'"
    using run gate by (auto simp: seq_def uncommitted_def)
qed

lemma authenticated_idle:
  assumes "\<And>p. fst (current_principal st rq w) = Inr p \<Longrightarrow> framed uncommitted (handler p)"
  shows "committed (snd (authenticated st rq handler w)) = committed w"
proof (cases "current_principal st rq w")
  case (Pair r w')
  have same: "committed w' = committed w"
    using framedD [OF uncommitted_dependencies(1) Pair] by (simp add: uncommitted_def)
  with Pair assms show ?thesis
    by (cases r) (auto simp: authenticated_def seq_def framed_def uncommitted_def)
qed

lemma step_up_proven_id [simp]:
  "step_up_proven st (rq\<lparr>rq_request_id := i\<rparr>) p purpose = step_up_proven st rq p purpose"
  by (simp add: step_up_proven_def)

text \<open>
  C8. Vaults, secrets, members and the second factor are removed only with a step-up token: if one of
  those requests changes any row, its caller was identified and its \<open>X-Step-Up-Token\<close> was verified for
  that caller, that session and exactly that purpose.
\<close>

theorem destructive_routes_need_step_up:
  assumes "step_up_of r = Some purpose"
  shows "committed (snd (serve st r rq w)) = committed w \<or>
    (\<exists>p. caller st rq w = Some p \<and> step_up_proven st rq p purpose)"
proof -
  obtain rid w0 where rid: "request_id rq w = (rid, w0)" by fastforce
  then have w0: "committed w0 = committed w"
    using request_id_keeps [of rq w] by simp
  have "committed (snd (dispatch st r (rq\<lparr>rq_request_id := Some rid\<rparr>) w0)) = committed w0"
    if "\<nexists>p. caller st rq w = Some p \<and> step_up_proven st rq p purpose"
  proof -
    have none: "\<not> step_up_proven st rq p purpose" if "fst (current_principal st rq w0) = Inr p" for p
      using \<open>\<nexists>p. _\<close> that by (simp add: caller_def rid)
    show ?thesis
      using assms none
      by (cases r)
        (auto simp: behind_mfa_def delete_mfa_def delete_vault_by_id_def delete_secret_by_id_def delete_member_def
          intro!: authenticated_idle step_up_handler uncommitted.framed_seq uncommitted_dependencies)
  qed
  then show ?thesis
    using w0 by (auto simp: serve_apply rid routed_def split: prod.split)
qed

section \<open>The witnesses\<close>

definition demo_site :: site where
  "demo_site = \<lparr>st_deployment = demo_deployment, st_cors_origins = ''https://app.example'',
     st_refresh_cookie_secure = True, st_email_str = (\<lambda>s. if s = '''' then None else Some s)\<rparr>"

definition demo_request :: "string option \<Rightarrow> http_request" where
  "demo_request bearer = \<lparr>rq_method = ''POST'', rq_scheme = ''https'', rq_path = ''/api/v1/vaults'',
     rq_headers = [], rq_cookies = [], rq_client_host = Some ''10.0.0.1'', rq_bearer = bearer,
     rq_request_id = None\<rparr>"

lemma demo_request_same_origin [simp]: "\<not> foreign_origin st (demo_request b)"
  by (simp add: foreign_origin_def demo_request_def)

lemma demo_request_simps [simp]: "rq_bearer (demo_request b) = b" "rq_headers (demo_request b) = []"
  by (simp_all add: demo_request_def)

text \<open>An access token of the owner of the base organization, minted at the demo's first instant.\<close>

definition demo_token :: string where
  "demo_token = jwt_encode demo_jwt
     (access_payload (tk_settings demo_tokens) 1 3 2 [''pwd''] 1700000000000000 5)"

definition demo_principal :: session_principal where
  "demo_principal = \<lparr>pr_user_id = 1, pr_tenant_id = 3, pr_session_id = 2, pr_amr = [''pwd'']\<rparr>"

lemma demo_token_decodes:
  assumes "1700000000000000 \<le> t" and "t < 1700000600000000"
  shows "jwt_decode demo_jwt demo_token ''vaultlog'' ''vaultlog-api''
      [''exp'', ''iat'', ''sub'', ''tid'', ''sid'', ''iss'', ''aud''] t =
    Some (access_payload (tk_settings demo_tokens) 1 3 2 [''pwd''] 1700000000000000 5)"
  using assms demo_jwt_ok unfolding demo_token_def jwt_ok_def
  by (simp add: jwt_valid_def access_payload_def demo_tokens_def timestamp_def seconds_def micros_per_second_def
      not_expired_def claim_before_def)

lemma demo_caller:
  assumes "committed w = d" and "env w = demo_env" and "draws w < 100"
  shows "caller demo_site (demo_request (Some demo_token)) w = Some demo_principal"
proof -
  obtain n where w0: "snd (request_id (demo_request (Some demo_token)) w) = w\<lparr>draws := n\<rparr>" and n: "n < 200"
    using assms(3) by (auto simp: request_id_def)
  have "verify_access_token demo_tokens demo_token (w\<lparr>draws := n\<rparr>) =
    (Inr \<lparr>cl_user_id = 1, cl_tenant_id = 3, cl_session_id = 2, cl_amr = [''pwd'']\<rparr>, w\<lparr>draws := Suc n\<rparr>)"
    using n assms(2) demo_token_decodes [of "1700000000000000 + int n"]
    by (simp add: verify_access_token_def decode_token_def now_def demo_env_def seq_def demo_tokens_def
        uuid_claim_def amr_claim_def access_payload_def)
  then show ?thesis
    by (simp add: caller_def w0 current_principal_def demo_site_def demo_deployment_def
        demo_auth_def catch_def call_def seq_def demo_principal_def)
qed


theorem owners_need_a_second_factor_witness:
  "\<exists>rs w'. serve demo_site (PostVault ''v'' None) (demo_request (Some demo_token)) (world_of base_db) = (Inr rs, w') \<and>
     committed w' = base_db \<and> rs_status rs = 403"
proof -
  have "caller demo_site (demo_request (Some demo_token)) (world_of base_db) = Some demo_principal"
    by (rule demo_caller) (simp_all add: world_of_def)
  moreover have "unarmed_owner (pr_user_id demo_principal) (committed (world_of base_db))"
    by (simp add: unarmed_owner_def demo_principal_def first_membership_def account_def base_db_def)
  ultimately show ?thesis
    using owners_need_a_second_factor [of "PostVault ''v'' None" demo_site "demo_request (Some demo_token)"
        "world_of base_db" demo_principal] by auto
qed

theorem destructive_routes_need_step_up_witness:
  "committed (snd (serve demo_site (DeleteVaultRoute 9) (demo_request (Some demo_token)) (world_of base_db))) = base_db"
proof -
  have "\<not> step_up_proven demo_site (demo_request (Some demo_token)) p DELETE_VAULT" for p
    by (simp add: step_up_proven_def demo_request_def)
  then show ?thesis
    using destructive_routes_need_step_up [of "DeleteVaultRoute 9" DELETE_VAULT demo_site
        "demo_request (Some demo_token)" "world_of base_db"] by simp
qed

end
