(* ===== verification/Http_Responses.thy ===== *)
theory Http_Responses
  imports Http_Guards
begin

text \<open>
  The shape of every response: which statuses and headers exist, where the refresh token can go, and
  what an error tells.
\<close>

section \<open>What a program can answer\<close>

text \<open>Every result satisfies \<open>P\<close> and every exception \<open>Q\<close>, whatever the world holds.\<close>

definition answers :: "('a \<Rightarrow> bool) \<Rightarrow> (http_error \<Rightarrow> bool) \<Rightarrow> 'a http \<Rightarrow> bool" where
  "answers P Q m \<longleftrightarrow> (\<forall>w. case fst (m w) of Inr x \<Rightarrow> P x | Inl e \<Rightarrow> Q e)"

named_theorems answers_intros \<open>rules for the results of programs\<close>

lemma answers_ret [answers_intros]: "P x \<Longrightarrow> answers P Q (ret x)"
  by (simp add: answers_def)

lemma answers_Pair [answers_intros]: "P x \<Longrightarrow> answers P Q (Pair (Inr x))"
  by (simp add: answers_def)

lemma answers_raise [answers_intros]: "Q e \<Longrightarrow> answers P Q (raise e)"
  by (simp add: answers_def)

lemma answers_seq [answers_intros]:
  assumes "answers (\<lambda>_. True) Q m" and "\<And>x. answers P Q (f x)"
  shows "answers P Q (seq m f)"
  unfolding answers_def
proof
  fix w
  show "case fst (seq m f w) of Inr x \<Rightarrow> P x | Inl e \<Rightarrow> Q e"
  proof (cases "m w")
    case (Pair r w')
    with assms(1) have "case r of Inr x \<Rightarrow> True | Inl e \<Rightarrow> Q e"
      unfolding answers_def by (metis fst_conv)
    with Pair assms(2) show ?thesis
      by (cases r) (auto simp: seq_def answers_def)
  qed
qed

lemma answers_catch [answers_intros]:
  assumes "answers P Q' m" and "\<And>e. Q' e \<Longrightarrow> answers P Q (h e)"
  shows "answers P Q (catch m h)"
  unfolding answers_def
proof
  fix w
  show "case fst (catch m h w) of Inr x \<Rightarrow> P x | Inl e \<Rightarrow> Q e"
  proof (cases "m w")
    case (Pair r w')
    with assms(1) have "case r of Inr x \<Rightarrow> P x | Inl e \<Rightarrow> Q' e"
      unfolding answers_def by (metis fst_conv)
    with Pair assms(2) show ?thesis
      by (cases r) (auto simp: catch_def answers_def)
  qed
qed

text \<open>The statuses and headers of the exceptions the layer raises itself.\<close>

fun expected_error :: "http_error \<Rightarrow> bool" where
  "expected_error (HTTPException status detail hs) \<longleftrightarrow>
     status = 401 \<and> hs = bearer_challenge \<or> status = 429 \<and> fst ` set hs = {''retry-after''} \<or>
     status = 422 \<and> hs = []"
| "expected_error e \<longleftrightarrow> True"

lemma answers_call [answers_intros]: "answers (\<lambda>_. True) expected_error (call m)"
  by (simp add: answers_def call_def split: prod.split sum.split)

lemma answers_dependencies [answers_intros]:
  "answers (\<lambda>_. True) expected_error (current_principal st rq)"
  "answers (\<lambda>_. True) expected_error (current_user p)"
  "answers (\<lambda>_. True) expected_error (enforce_rate_limit st key cap win fc)"
  "answers (\<lambda>_. True) expected_error (rate_limit_ip st rq bucket cap win fc)"
  "answers (\<lambda>_. True) expected_error (rate_limit_user st p bucket cap win fc)"
  "answers (\<lambda>_. True) expected_error (require_step_up st rq p purpose)"
  "answers (\<lambda>_. True) expected_error (require_mfa_if_owner p)"
  "answers (\<lambda>_. True) expected_error (validated errs)"
  unfolding current_principal_def current_user_def enforce_rate_limit_def rate_limit_ip_def
    rate_limit_user_def require_step_up_def require_mfa_if_owner_def validated_def require_def unauthorized_def
  by (auto intro!: answers_intros split: http_error.split exn.split identity_error.split option.split)

section \<open>Responses of the routes\<close>

definition confined :: "site \<Rightarrow> set_cookie \<Rightarrow> bool" where
  "confined st c \<longleftrightarrow>
     ck_name c = REFRESH_COOKIE \<and> ck_path c = COOKIE_PATH \<and> ck_httponly c \<and> ck_samesite c = ''lax'' \<and>
     ck_secure c = st_refresh_cookie_secure st"

definition session_route :: "route \<Rightarrow> bool" where
  "session_route r \<longleftrightarrow>
     (case r of PostLogin e p \<Rightarrow> True | PostRefresh \<Rightarrow> True | PostMfaVerify tok c \<Rightarrow> True
      | PostLogout \<Rightarrow> True | _ \<Rightarrow> False)"

definition route_answer :: "site \<Rightarrow> route \<Rightarrow> http_response \<Rightarrow> bool" where
  "route_answer st r rs \<longleftrightarrow>
     rs_status rs \<in> {200, 201, 204} \<and> fst ` set (rs_headers rs) \<subseteq> {''cache-control''} \<and>
     list_all (confined st) (rs_cookies rs) \<and> (session_route r \<or> rs_cookies rs = [])"

lemma json_response_simps [simp]:
  "rs_status (json_response n hs b) = n" "rs_headers (json_response n hs b) = hs"
  "rs_cookies (json_response n hs b) = []" "rs_body (json_response n hs b) = Some b"
  by (simp_all add: json_response_def)

lemma refresh_cookie_simps [simp]:
  "rs_status (set_refresh_cookie st pair rs) = rs_status rs"
  "rs_headers (set_refresh_cookie st pair rs) = rs_headers rs"
  "rs_body (set_refresh_cookie st pair rs) = rs_body rs"
  "rs_status (clear_refresh_cookie st rs) = rs_status rs"
  "rs_headers (clear_refresh_cookie st rs) = rs_headers rs"
  "list_all (confined st) (rs_cookies (set_refresh_cookie st pair rs)) = list_all (confined st) (rs_cookies rs)"
  "list_all (confined st) (rs_cookies (clear_refresh_cookie st rs)) = list_all (confined st) (rs_cookies rs)"
  by (simp_all add: set_refresh_cookie_def clear_refresh_cookie_def confined_def)

lemma dispatch_answers: "answers (route_answer st r) expected_error (dispatch st r rq)"
  by (cases r)
    (auto simp: handler_defs behind_mfa_def authenticated_def route_answer_def session_route_def
        no_content_def set_header_def
      split: option.split login_result.split intro!: answers_intros)

section \<open>Responses of the application\<close>

definition response_statuses :: "nat set" where
  "response_statuses = {200, 201, 204, 400, 401, 403, 404, 409, 422, 429, 500, 503}"

definition route_headers :: "string set" where
  "route_headers = {''cache-control'', ''www-authenticate'', ''retry-after''}"

definition csp :: string where
  "csp = ''default-src '' @ [CHR 0x27] @ ''none'' @ [CHR 0x27] @ ''; frame-ancestors '' @
     [CHR 0x27] @ ''none'' @ [CHR 0x27]"

definition hardening :: "string \<Rightarrow> headers" where
  "hardening scheme =
     [(''x-content-type-options'', ''nosniff''), (''x-frame-options'', ''DENY''),
      (''referrer-policy'', ''no-referrer''), (''content-security-policy'', csp)] @
     (if scheme = ''https''
      then [(''strict-transport-security'', ''max-age=31536000; includeSubDomains'')] else [])"

lemma absent_header: "fst ` set hs \<subseteq> K \<Longrightarrow> k \<notin> K \<Longrightarrow> k \<notin> fst ` set hs"
  by blast

lemma setdefault_absent:
  "k \<notin> fst ` set (rs_headers rs) \<Longrightarrow> setdefault_header k v rs = rs\<lparr>rs_headers := rs_headers rs @ [(k, v)]\<rparr>"
  by (simp add: setdefault_header_def)

lemma set_absent:
  assumes "k \<notin> fst ` set (rs_headers rs)"
  shows "set_header k v rs = rs\<lparr>rs_headers := rs_headers rs @ [(k, v)]\<rparr>"
proof -
  have "filter (\<lambda>(k', _). k' \<noteq> k) (rs_headers rs) = rs_headers rs"
    using assms by (force simp: filter_id_conv)
  then show ?thesis by (simp add: set_header_def)
qed

lemma through_headers:
  assumes "fst ` set (rs_headers rs) \<subseteq> route_headers"
  shows "rs_headers (finish sch rid (Inr rs)) = rs_headers rs @ hardening sch @ [(''x-request-id'', rid)]"
proof -
  note out = absent_header [OF assms]
  have absent: "''x-content-type-options'' \<notin> fst ` set (rs_headers rs)" "''x-frame-options'' \<notin> fst ` set (rs_headers rs)"
    "''referrer-policy'' \<notin> fst ` set (rs_headers rs)" "''content-security-policy'' \<notin> fst ` set (rs_headers rs)"
    "''strict-transport-security'' \<notin> fst ` set (rs_headers rs)" "''x-request-id'' \<notin> fst ` set (rs_headers rs)"
    by (rule out, simp add: route_headers_def)+
  show ?thesis
    by (cases "sch = ''https''")
      (simp_all add: finish_def add_security_headers_def hardening_def csp_def Let_def absent
        setdefault_absent set_absent image_Un)
qed

text \<open>What holds of an answer before the outer layers see it.\<close>

definition answer_ok :: "site \<Rightarrow> route \<Rightarrow> http_response \<Rightarrow> bool" where
  "answer_ok st r rs \<longleftrightarrow>
     rs_status rs \<in> response_statuses \<and> fst ` set (rs_headers rs) \<subseteq> route_headers \<and>
     (rs_status rs = 401) = (map_of (rs_headers rs) ''www-authenticate'' = Some ''Bearer'') \<and>
     list_all (confined st) (rs_cookies rs) \<and> (session_route r \<or> rs_cookies rs = [])"

lemma route_answer_ok: 
  assumes "route_answer st r rs"
  shows "answer_ok st r rs"
proof -
  from assms have "fst ` set (rs_headers rs) \<subseteq> {''cache-control''}"
    by (simp add: route_answer_def)
  then have "''www-authenticate'' \<notin> fst ` set (rs_headers rs)"
    by (rule absent_header) simp
  then have "map_of (rs_headers rs) ''www-authenticate'' = None"
    by (simp add: map_of_eq_None_iff)
  with assms show ?thesis
    by (auto simp: route_answer_def answer_ok_def response_statuses_def route_headers_def)
qed

lemma bearer_challenge_simps [simp]:
  "map_of bearer_challenge ''www-authenticate'' = Some ''Bearer''"
  "fst ` set bearer_challenge = {''www-authenticate''}"
  by (simp_all add: bearer_challenge_def)

lemma error_response_ok:
  assumes "n \<in> response_statuses - {401}" and "fst ` set hs \<subseteq> {''retry-after''}"
  shows "answer_ok st r (error_response n hs code msg rid)"
proof -
  from assms(2) have "''www-authenticate'' \<notin> fst ` set hs"
    by (rule absent_header) simp
  then have "map_of hs ''www-authenticate'' = None"
    by (simp add: map_of_eq_None_iff)
  with assms show ?thesis by (auto simp: answer_ok_def route_headers_def)
qed

lemma unauthenticated_response_ok: "answer_ok st r (error_response 401 bearer_challenge code msg rid)"
  by (simp add: answer_ok_def response_statuses_def route_headers_def)

lemma answers_ok:
  "answer_ok st r (identity_answer ie rid)" "answer_ok st r (organization_answer oe rid)"
  "answer_ok st r (access_answer ae rid)" "answer_ok st r (secret_answer se rid)"
  "answer_ok st r (audit_answer ue rid)" "answer_ok st r (validation_answer errs rid)"
proof -
  show "answer_ok st r (identity_answer ie rid)"
    by (cases ie) (simp_all add: service_unavailable_answer_def unauthenticated_response_ok error_response_ok
        response_statuses_def)
  show "answer_ok st r (organization_answer oe rid)"
    by (cases oe) (simp_all add: error_response_ok response_statuses_def)
  show "answer_ok st r (access_answer ae rid)"
    by (cases ae) (simp_all add: error_response_ok response_statuses_def)
  show "answer_ok st r (secret_answer se rid)"
    by (cases se) (simp_all add: error_response_ok response_statuses_def)
  show "answer_ok st r (audit_answer ue rid)"
    by (simp add: audit_answer_def error_response_ok response_statuses_def)
  show "answer_ok st r (validation_answer errs rid)"
    by (simp add: validation_answer_def answer_ok_def response_statuses_def)
qed

lemma http_error_ok:
  assumes "expected_error (HTTPException n detail hs)"
  shows "answer_ok st r (http_error_answer n detail hs rid)"
proof -
  consider "n = 401 \<and> hs = bearer_challenge" | "n = 429 \<and> fst ` set hs = {''retry-after''}"
    | "n = 422 \<and> hs = []"
    using assms by auto
  then show ?thesis
    unfolding http_error_answer_def
  proof cases
    case 1
    then show "answer_ok st r (error_response n hs (''http_'' @ nat_str n) detail rid)"
      by (simp only: unauthenticated_response_ok)
  next
    case 2
    then show "answer_ok st r (error_response n hs (''http_'' @ nat_str n) detail rid)"
      by (intro error_response_ok) (simp_all add: response_statuses_def)
  next
    case 3
    then show "answer_ok st r (error_response n hs (''http_'' @ nat_str n) detail rid)"
      by (intro error_response_ok) (simp_all add: response_statuses_def)
  qed
qed

lemma handled_ok:
  assumes "handled e rid = Some rs" and "expected_error e"
  shows "answer_ok st r rs"
proof (cases e)
  case (HTTPException n detail hs)
  with assms http_error_ok show ?thesis by auto
next
  case (Raised x)
  with assms(1) show ?thesis by (cases x) (auto simp: answers_ok)
next
  case (RequestValidationError errs)
  with assms(1) show ?thesis by (auto simp: answers_ok)
qed

text \<open>
  C14. The discipline of every response: a request is always answered; the status is one of twelve;
  the request identifier is echoed; the hardening headers are there, unless the exception was one
  no handler knows and the fixed answer of the outermost layer is given; a 401, and only a 401,
  carries the bearer challenge; and cookies are set by the session routes alone, as the HttpOnly
  refresh cookie confined to its path.
\<close>

theorem responses_are_disciplined:
  "case serve st r rq w of
     (Inr rs, w') \<Rightarrow>
       rs_status rs \<in> response_statuses \<and>
       map_of (rs_headers rs) ''x-request-id'' = Some (fst (request_id rq w)) \<and>
       ((\<exists>own. rs_headers rs = own @ hardening (rq_scheme rq) @ [(''x-request-id'', fst (request_id rq w))] \<and>
           (rs_status rs = 401) = (map_of own ''www-authenticate'' = Some ''Bearer'')) \<or>
        rs = internal_error_response (Some (fst (request_id rq w)))) \<and>
       list_all (confined st) (rs_cookies rs) \<and> (session_route r \<or> rs_cookies rs = [])
   | (Inl e, w') \<Rightarrow> False"
proof -
  obtain rid w0 where rid: "request_id rq w = (rid, w0)" by fastforce
  obtain out w1 where run: "routed st r rq rid w0 = (out, w1)" by fastforce
  have answer: "case out of Inr rs \<Rightarrow> answer_ok st r rs | Inl e \<Rightarrow> expected_error e"
  proof (cases "foreign_origin st rq")
    case True
    then have "out = Inr (origin_refused rid)" using run by (simp add: routed_def)
    then show ?thesis by (simp add: origin_refused_def error_response_ok response_statuses_def)
  next
    case False
    then have "dispatch st r (rq\<lparr>rq_request_id := Some rid\<rparr>) w0 = (out, w1)"
      using run by (simp add: routed_def)
    then have "case out of Inr rs \<Rightarrow> route_answer st r rs | Inl e \<Rightarrow> expected_error e"
      using dispatch_answers [of st r "rq\<lparr>rq_request_id := Some rid\<rparr>"] unfolding answers_def
      by (metis fst_conv)
    then show ?thesis by (cases out) (auto intro: route_answer_ok)
  qed
  have through: "?thesis"
    if "finish (rq_scheme rq) rid out = finish (rq_scheme rq) rid (Inr rs)" and "answer_ok st r rs" for rs
  proof -
    from that(2) have names: "fst ` set (rs_headers rs) \<subseteq> route_headers"
      by (simp add: answer_ok_def)
    have "''x-request-id'' \<notin> fst ` set (rs_headers rs)"
      by (rule absent_header [OF names]) (simp add: route_headers_def)
    then have "map_of (rs_headers rs) ''x-request-id'' = None"
      by (simp add: map_of_eq_None_iff)
    with that through_headers [OF names] show ?thesis
      by (auto simp: serve_apply rid run answer_ok_def map_add_def hardening_def split: if_splits)
  qed
  show ?thesis
  proof (cases out)
    case (Inr rs)
    with answer through show ?thesis by simp
  next
    case (Inl e)
    show ?thesis
    proof (cases "handled e (Some rid)")
      case None
      then have "finish (rq_scheme rq) rid out = internal_error_response (Some rid)"
        by (simp add: finish_def Inl)
      then show ?thesis
        by (simp add: serve_apply rid run response_statuses_def)
          (simp add: internal_error_response_def set_header_def Let_def)
    next
      case (Some rs)
      with answer Inl have "answer_ok st r rs" by (auto intro: handled_ok)
      with Some Inl through finish_handled [OF Some] show ?thesis by simp
    qed
  qed
qed

end
