(* ===== verification/Http_Hiding.thy ===== *)
theory Http_Hiding
  imports Http_Responses
begin

text \<open>
  What the HTTP layer hides and what it does when a service it needs is gone: vaults of other
  organizations look like vaults that never existed, and limits that fail closed stop the request
  when Redis does not answer.
\<close>

section \<open>Vaults of other organizations\<close>

definition tenant_vault :: "uuid \<Rightarrow> uuid \<Rightarrow> db \<Rightarrow> bool" where
  "tenant_vault t v d \<longleftrightarrow> list_ex (live_vault_row v t) (t_vaults d)"

definition gate_open :: "uuid \<Rightarrow> db \<Rightarrow> bool" where
  "gate_open u d \<longleftrightarrow> account u d \<noteq> None \<and> \<not> unarmed_owner u d"

lemma mfa_gate_passes:
  assumes "gate_open (pr_user_id p) (committed w)"
  shows "\<exists>w'. require_mfa_if_owner p w = (Inr (), w') \<and> committed w' = committed w"
proof -
  let ?gate = "with_identity_uow (seq (idm_get_role (pr_user_id p)) (\<lambda>role.
      seq (user_get (pr_user_id p)) (\<lambda>user. ret (role, user))))"
  let ?role = "map_option (\<lambda>m. role_value (m_role m)) (first_membership (pr_user_id p) (committed w))"
  obtain x where x: "account (pr_user_id p) (committed w) = Some x"
    using assms by (auto simp: gate_open_def)
  have "call ?gate w = (Inr (?role, Some x), snd (?gate w))"
    using mfa_gate_reads [of "pr_user_id p" w] x by (intro call_Inr) simp
  moreover have "\<not> (?role = Some ''owner'' \<and> \<not> u_mfa_enabled x)"
    using assms x by (auto simp: gate_open_def unarmed_owner_def role_value_owner)
  moreover have "committed (snd (?gate w)) = committed w"
    using uncommitted_identity_reads(2) by (simp add: framed_def uncommitted_def)
  ultimately show ?thesis
    by (auto simp: require_mfa_if_owner_def seq_apply_Inr)
qed

definition vault_not_found :: exn where
  "vault_not_found = Access (NotFoundError ''Vault not found'')"

lemma absent_vault_refused:
  assumes "\<not> tenant_vault t v (committed w)"
  shows "\<exists>w'. with_tenant_uow t (seq (require_vault policy u t v a) f) w = (Inl vault_not_found, w') \<and>
    committed w' = committed w"
proof -
  have "row_where vaults (live_vault_row v t) w0 = None" if "store w0 = committed w" for w0
    using assms that
    by (auto simp: row_where_def vaults_def tenant_vault_def find_None_iff list_ex_iff)
  then show ?thesis
    by (simp add: with_tenant_uow_def with_uow_apply uow_start_def policy.require_vault_decides seq_def
        vault_live_def vault_decision_def vault_not_found_def)
qed

lemma absent_vault_cases:
  assumes "\<not> tenant_vault (pr_tenant_id p) v (committed w)"
  shows "\<exists>w'. get_vault u (pr_tenant_id p) v w = (Inl vault_not_found, w') \<and> committed w' = committed w"
    and "\<exists>w'. list_secrets u (pr_tenant_id p) v w = (Inl vault_not_found, w') \<and> committed w' = committed w"
    and "\<exists>w'. list_grants (to_actor p) v w = (Inl vault_not_found, w') \<and> committed w' = committed w"
proof -
  show "\<exists>w'. get_vault u (pr_tenant_id p) v w = (Inl vault_not_found, w') \<and> committed w' = committed w"
    "\<exists>w'. list_secrets u (pr_tenant_id p) v w = (Inl vault_not_found, w') \<and> committed w' = committed w"
    using absent_vault_refused [OF assms]
    by (simp_all add: get_vault_def vault_service_get_def list_secrets_def secret_service_list_def)
  show "\<exists>w'. list_grants (to_actor p) v w = (Inl vault_not_found, w') \<and> committed w' = committed w"
    using absent_vault_refused [OF assms, of "pr_user_id p" GRANT_MANAGE "\<lambda>_. grant_list_for_vault v (pr_tenant_id p)"]
    by (auto simp: list_grants_def vault_service_list_grants_def to_actor_def recording_denials_def
        catch_def vault_not_found_def raise_def)
qed

lemma use_case_raises: "m w = (Inl e, w') \<Longrightarrow> seq (call m) g w = (Inl (Raised e), w')"
  by (simp add: seq_def call_def)

fun reads_vault :: "route \<Rightarrow> uuid option" where
  "reads_vault (GetVault v) = Some v"
| "reads_vault (GetSecrets v) = Some v"
| "reads_vault (GetGrants v) = Some v"
| "reads_vault r = None"

lemma absent_vault_dispatch:
  assumes "reads_vault r = Some v" and "current_principal st rq w = (Inr p, w1)"
    and "require_mfa_if_owner p w1 = (Inr (), w2)" and "\<not> tenant_vault (pr_tenant_id p) v (committed w2)"
  shows "\<exists>w'. dispatch st r rq w = (Inl (Raised vault_not_found), w') \<and> committed w' = committed w2"
proof -
  note refused = absent_vault_cases [OF assms(4)]
  from assms(1-3) show ?thesis
    using refused(1) [of "pr_user_id p"] refused(2) [of "pr_user_id p"] refused(3)
    by (cases r)
      (auto simp: behind_mfa_def authenticated_def seq_apply_Inr get_vault_by_id_def get_secrets_def
        get_grants_def use_case_raises)
qed

text \<open>
  C24. A vault of another organization, a deleted one and one that never existed are the same to a
  caller: the routes that read a vault answer 404 with one fixed document, in which only the
  request's own identifier varies, and no row is changed.
\<close>

theorem foreign_vaults_look_absent:
  assumes "reads_vault r = Some v" and "caller st rq w = Some p"
    and "gate_open (pr_user_id p) (committed w)" and "\<not> tenant_vault (pr_tenant_id p) v (committed w)"
    and "\<not> foreign_origin st rq"
  shows "\<exists>rs w'. serve st r rq w = (Inr rs, w') \<and> committed w' = committed w \<and> rs_status rs = 404 \<and>
    rs_body rs = Some (error_body ''not_found'' ''Not found'' (Some (fst (request_id rq w))))"
proof -
  obtain rid w0 where rid: "request_id rq w = (rid, w0)" by fastforce
  obtain w1 where p: "current_principal st rq w0 = (Inr p, w1)"
    using assms(2) by (cases "current_principal st rq w0") (auto simp: caller_def rid split: sum.splits)
  then have w1: "committed w1 = committed w"
    using framedD [OF uncommitted_dependencies(1) p] request_id_keeps [of rq w]
    by (simp add: uncommitted_def rid)
  then obtain w2 where gate: "require_mfa_if_owner p w1 = (Inr (), w2)" and w2: "committed w2 = committed w"
    using mfa_gate_passes [of p w1] assms(3) by auto
  obtain w3 where "dispatch st r (rq\<lparr>rq_request_id := Some rid\<rparr>) w0 = (Inl (Raised vault_not_found), w3)"
    and "committed w3 = committed w"
    using absent_vault_dispatch [of r v st "rq\<lparr>rq_request_id := Some rid\<rparr>" w0 p w1 w2] assms(1,4) p gate w2
    by auto
  with assms(5) show ?thesis
    by (simp add: serve_apply rid routed_def vault_not_found_def finish_handled [OF handled.simps(5)])
qed

section \<open>Limits that fail closed\<close>

text \<open>The anonymous routes whose limit refuses the request when Redis is gone.\<close>

fun closed_limit :: "route \<Rightarrow> bool" where
  "closed_limit (PostRegister e p n) = True"
| "closed_limit (PostLogin e p) = True"
| "closed_limit (GetInvitationPreview tok) = True"
| "closed_limit (PostAcceptInvitation tok p) = True"
| "closed_limit r = False"

lemma closed_check_fails:
  assumes "\<forall>n. round_trip_fails (au_redis (st_auth st)) n"
  shows "\<exists>w'. rate_limit_ip st rq bucket cap win True w =
    (Inl (Raised (Identity (ServiceUnavailableError ''Service unavailable''))), w') \<and> untouched w w'"
  using assms untouched.R_refl [of w]
  by (simp add: rate_limit_ip_def enforce_rate_limit_def limiter_check_def limiter_check_once_def
      redis_call_def now_def fresh_uuid_def seq_def catch_def call_def Let_def)

text \<open>
  C28. When Redis does not answer, registration, login and the two anonymous invitation routes are
  refused with 503 before anything is looked up: no password is checked, no row is read into an
  answer, none is changed.
\<close>

theorem closed_limits_fail_closed:
  assumes "closed_limit r" and "\<forall>n. round_trip_fails (au_redis (st_auth st)) n"
    and "\<not> foreign_origin st rq"
  shows "\<exists>rs w'. serve st r rq w = (Inr rs, w') \<and> untouched w w' \<and> rs_status rs = 503 \<and>
    rs_body rs = Some (error_body ''service_unavailable'' ''Service unavailable''
      (Some (fst (request_id rq w))))"
proof -
  obtain rid w0 where rid: "request_id rq w = (rid, w0)" by fastforce
  then have w0: "untouched w w0" using untouched_request_id [of w rq] by simp
  have "\<exists>w1. dispatch st r (rq\<lparr>rq_request_id := Some rid\<rparr>) w0 =
      (Inl (Raised (Identity (ServiceUnavailableError ''Service unavailable''))), w1) \<and> untouched w0 w1"
    using assms(1) closed_check_fails [OF assms(2)]
    by (cases r)
      (fastforce simp: post_register_def post_login_def get_invitation_preview_def post_accept_invitation_def
        intro: seq_apply_Inl)+
  then obtain w1 where "dispatch st r (rq\<lparr>rq_request_id := Some rid\<rparr>) w0 =
      (Inl (Raised (Identity (ServiceUnavailableError ''Service unavailable''))), w1)" and "untouched w0 w1"
    by blast
  with assms(3) w0 show ?thesis
    by (auto simp: serve_apply rid routed_def finish_handled [OF handled.simps(3)]
        service_unavailable_answer_def text_or_def intro: untouched.R_trans)
qed

section \<open>The witnesses\<close>

definition armed_db :: db where
  "armed_db = base_db\<lparr>t_users := [\<lparr>u_id = 1, u_email = ''a@b'', u_password_hash = ''$long enough pw'',
     u_is_active = True, u_mfa_enabled = True\<rparr>]\<rparr>"

theorem foreign_vaults_look_absent_witness:
  "\<exists>rs w'. serve demo_site (GetVault 99) (demo_request (Some demo_token)) (world_of armed_db) = (Inr rs, w') \<and>
     committed w' = armed_db \<and> rs_status rs = 404"
proof -
  have "caller demo_site (demo_request (Some demo_token)) (world_of armed_db) = Some demo_principal"
    by (rule demo_caller) (simp_all add: world_of_def)
  moreover have "gate_open (pr_user_id demo_principal) (committed (world_of armed_db))"
    by (simp add: gate_open_def unarmed_owner_def demo_principal_def first_membership_def account_def
        armed_db_def base_db_def)
  moreover have "\<not> tenant_vault (pr_tenant_id demo_principal) 99 (committed (world_of armed_db))"
    by (simp add: tenant_vault_def armed_db_def base_db_def live_vault_row_def)
  ultimately show ?thesis
    using foreign_vaults_look_absent [of "GetVault 99" 99 demo_site "demo_request (Some demo_token)"
        "world_of armed_db" demo_principal] by auto
qed

text \<open>The demo site while Redis is down.\<close>

definition stranded_site :: site where
  "stranded_site = demo_site\<lparr>st_deployment := demo_deployment\<lparr>dp_auth := demo_auth\<lparr>au_redis :=
     demo_redis\<lparr>round_trip_fails := (\<lambda>_. True)\<rparr>\<rparr>\<rparr>\<rparr>"

theorem closed_limits_fail_closed_witness:
  "\<exists>rs w'. serve stranded_site (PostLogin ''a@b'' ''long enough pw'') (demo_request None) (world_of base_db) =
     (Inr rs, w') \<and> untouched (world_of base_db) w' \<and> rs_status rs = 503"
  using closed_limits_fail_closed [of "PostLogin ''a@b'' ''long enough pw''" stranded_site "demo_request None"
      "world_of base_db"]
  by (auto simp: stranded_site_def)

end
