(* ===== verification/Redaction.thy ===== *)
theory Redaction
  imports Json
begin

text \<open>
  \<open>shared/logging.py\<close>: the processor that scrubs every log event before it is rendered, on documents
  of null, booleans, integers, strings, lists and dictionaries with string keys. Configuring
  structlog is left out.
\<close>

definition REDACTED_KEYS :: "string set" where
  "REDACTED_KEYS =
     {''password'', ''value'', ''plaintext'', ''token'', ''refresh_token'', ''access_token'',
      ''step_up_token'', ''challenge_token'', ''code'', ''totp'', ''seed'', ''dek'', ''kek'', ''secret'',
      ''authorization'', ''cookie'', ''set-cookie''}"

definition redacted :: "string \<Rightarrow> bool" where
  "redacted key \<longleftrightarrow> str_lower key \<in> REDACTED_KEYS"

fun scrub :: "json \<Rightarrow> json" where
  "scrub (JObj kvs) =
     JObj (map (\<lambda>(key, v). (key, if redacted key then JStr ''[REDACTED]'' else scrub v)) kvs)"
| "scrub (JList xs) = JList (map scrub xs)"
| "scrub j = j"

definition redact_processor :: "metadata \<Rightarrow> metadata" where
  "redact_processor event_dict =
     (case scrub (JObj event_dict) of JObj scrubbed \<Rightarrow> scrubbed | _ \<Rightarrow> event_dict)"

section \<open>What a scrubbed document still tells\<close>

text \<open>Two documents agree when they differ at most in values that stand under a redacted key.\<close>

fun agree :: "json \<Rightarrow> json \<Rightarrow> bool" where
  "agree (JObj a) (JObj b) \<longleftrightarrow>
     list_all2 (\<lambda>(k, v) (l, u). k = l \<and> (redacted k \<or> agree v u)) a b"
| "agree (JList xs) (JList ys) \<longleftrightarrow> list_all2 agree xs ys"
| "agree a b \<longleftrightarrow> a = b"

lemma map_eq_iff_list_all2: "map f xs = map g ys \<longleftrightarrow> list_all2 (\<lambda>x y. f x = g y) xs ys"
  by (simp add: list.rel_eq [symmetric] list.rel_map)

lemma scrub_atoms:
  "scrub a = JNull \<longleftrightarrow> a = JNull" "scrub a = JBool t \<longleftrightarrow> a = JBool t"
  "scrub a = JInt i \<longleftrightarrow> a = JInt i" "scrub a = JStr s \<longleftrightarrow> a = JStr s"
  by (cases a; simp)+

lemma scrub_eq_iff: "scrub a = scrub b \<longleftrightarrow> agree a b"
proof (induction a b rule: agree.induct)
  case (1 a b)
  have "list_all2 (\<lambda>x y. (case x of (key, v) \<Rightarrow> (key, if redacted key then JStr ''[REDACTED]'' else scrub v)) =
        (case y of (key, v) \<Rightarrow> (key, if redacted key then JStr ''[REDACTED]'' else scrub v))) a b =
      list_all2 (\<lambda>(k, v) (l, u). k = l \<and> (redacted k \<or> agree v u)) a b"
    by (rule list.rel_cong [OF refl refl]) (auto simp: 1 [OF _ _ refl] split: if_splits)
  then show ?case by (simp add: map_eq_iff_list_all2)
next
  case (2 xs ys)
  have "list_all2 (\<lambda>x y. scrub x = scrub y) xs ys = list_all2 agree xs ys"
    by (rule list.rel_cong [OF refl refl]) (simp add: 2)
  then show ?case by (simp add: map_eq_iff_list_all2)
qed (auto simp: scrub_atoms eq_commute [of _ "scrub _"])

lemma redact_processor_map:
  "redact_processor e = map (\<lambda>(key, v). (key, if redacted key then JStr ''[REDACTED]'' else scrub v)) e"
  by (simp add: redact_processor_def)

text \<open>
  C25. A log line tells exactly what does not stand under a redacted key, at any depth: two events are
  rendered from the same scrubbed document if and only if they differ at most in values under such
  keys. No secret can be read off a log line, and nothing else is lost.
\<close>

theorem logs_tell_the_unredacted:
  "redact_processor a = redact_processor b \<longleftrightarrow> agree (JObj a) (JObj b)"
  using scrub_eq_iff [of "JObj a" "JObj b"] by (simp add: redact_processor_map)

end
