(* ===== verification/Catalogue.thy ===== *)
theory Catalogue
  imports Pytext Prelude
begin

text \<open>
  What the migrations of \<open>alembic/versions\<close> are written in: SQLAlchemy's table items, Alembic's
  operations, the SQL statements they execute, and the catalogue of the PostgreSQL schema these act on.

  The catalogue holds tables with columns, keys, indexes, privileges and row-level security; the
  failures modelled are the ones PostgreSQL documents for these statements: a relation that exists or is
  missing, a table others refer to, rows that break a new constraint. Row contents are not part of
  it: whether the rows of a table satisfy a constraint is the argument \<open>valid\<close>.
\<close>

section \<open>Table items\<close>

datatype column_type =
    Uuid | Varchar "nat option" | Text | Boolean | Integer | BigInteger | Timestamptz | LargeBinary | Jsonb | ArrayOf column_type

datatype column_option =
    PrimaryKey | Nullable bool | ServerDefault string | ServerLiteral string | ForeignKey string "string option" | Indexed | Unique

datatype table_item =
    Column string column_type "column_option list"
  | PrimaryKeyConstraint "string list"
  | ForeignKeyConstraint "string list" "string list" "string option"
  | UniqueConstraint "string list" string
  | CheckConstraint string string
  | Index string "string list" bool "string option"

datatype migration_op =
    create_table string "table_item list"
  | drop_table string
  | create_index string string "string list" bool "string option"
  | drop_index string
  | add_column string table_item
  | drop_column string string
  | create_check_constraint string string string
  | create_unique_constraint string string "string list"
  | drop_constraint string string
  | execute string

section \<open>The catalogue\<close>

record column =
  co_name :: string
  co_type :: column_type
  co_nullable :: bool
  co_default :: "string option"

record foreign_key =
  fk_columns :: "string list"
  fk_table :: string
  fk_references :: "string list"
  fk_ondelete :: "string option"

record index_def =
  ix_name :: string
  ix_columns :: "string list"
  ix_unique :: bool
  ix_where :: "string option"

record policy_def =
  po_name :: string
  po_using :: string
  po_check :: string

record table_def =
  td_name :: string
  td_columns :: "column list"
  td_primary_key :: "string list"
  td_foreign_keys :: "foreign_key list"
  td_uniques :: "(string option \<times> string list) list"
  td_checks :: "(string \<times> string) list"
  td_indexes :: "index_def list"
  td_privileges :: "(string \<times> string) list"
  td_rls :: bool
  td_forced :: bool
  td_policies :: "policy_def list"

record schema_def =
  sc_tables :: "table_def list"
  sc_usage :: "string list"

datatype ddl_error = DdlError string string

type_synonym ddl = "(schema_def, ddl_error, unit) prog"

definition empty_table :: "string \<Rightarrow> table_def" where
  "empty_table t = \<lparr>td_name = t, td_columns = [], td_primary_key = [], td_foreign_keys = [], td_uniques = [],
     td_checks = [], td_indexes = [], td_privileges = [], td_rls = False, td_forced = False, td_policies = []\<rparr>"

definition empty_schema :: schema_def where
  "empty_schema = \<lparr>sc_tables = [], sc_usage = []\<rparr>"

text \<open>A target \<open>organization.id\<close>, and the parts of a column its options spell out.\<close>

definition target_table :: "string \<Rightarrow> string" where
  "target_table target = fst (str_partition (CHR ''.'') target)"

definition target_column :: "string \<Rightarrow> string" where
  "target_column target = snd (str_partition (CHR ''.'') target)"

text \<open>A server default given as a \<open>str\<close> is rendered as a quoted literal, one given as \<open>text()\<close> as it is.\<close>

definition sql_literal :: "string \<Rightarrow> string" where
  "sql_literal s = CHR 0x27 # concat (map (\<lambda>c. if c = CHR 0x27 then [c, c] else [c]) s) @ [CHR 0x27]"

fun column_of_options :: "column \<Rightarrow> column_option list \<Rightarrow> column" where
  "column_of_options c [] = c"
| "column_of_options c (PrimaryKey # os) = column_of_options (c\<lparr>co_nullable := False\<rparr>) os"
| "column_of_options c (Nullable b # os) = column_of_options (c\<lparr>co_nullable := b\<rparr>) os"
| "column_of_options c (ServerDefault d # os) = column_of_options (c\<lparr>co_default := Some d\<rparr>) os"
| "column_of_options c (ServerLiteral d # os) = column_of_options (c\<lparr>co_default := Some (sql_literal d)\<rparr>) os"
| "column_of_options c (_ # os) = column_of_options c os"

definition with_index :: "index_def \<Rightarrow> table_def \<Rightarrow> table_def" where
  "with_index i td = td\<lparr>td_indexes := td_indexes td @ [i]\<rparr>"

definition with_unique :: "string option \<Rightarrow> string list \<Rightarrow> table_def \<Rightarrow> table_def" where
  "with_unique n cs td = td\<lparr>td_uniques := td_uniques td @ [(n, cs)]\<rparr>"

definition with_foreign_key :: "string list \<Rightarrow> string list \<Rightarrow> string option \<Rightarrow> table_def \<Rightarrow> table_def" where
  "with_foreign_key cs targets ondelete td = td\<lparr>td_foreign_keys := td_foreign_keys td @
     [\<lparr>fk_columns = cs, fk_table = target_table (hd targets), fk_references = map target_column targets,
       fk_ondelete = ondelete\<rparr>]\<rparr>"

text \<open>
  \<open>index=True\<close> makes an index \<open>ix_table_column\<close>, a unique one where the column is unique as well;
  \<open>unique=True\<close> alone makes a unique constraint without a name.
\<close>

definition column_index :: "string \<Rightarrow> column_option list \<Rightarrow> table_def \<Rightarrow> table_def" where
  "column_index c os td =
     (if Indexed \<in> set os then
        with_index \<lparr>ix_name = ''ix_'' @ td_name td @ ''_'' @ c, ix_columns = [c], ix_unique = Unique \<in> set os,
          ix_where = None\<rparr> td
      else if Unique \<in> set os then with_unique None [c] td else td)"

fun column_keys :: "string \<Rightarrow> column_option list \<Rightarrow> table_def \<Rightarrow> table_def" where
  "column_keys c [] td = td"
| "column_keys c (PrimaryKey # os) td = column_keys c os (td\<lparr>td_primary_key := td_primary_key td @ [c]\<rparr>)"
| "column_keys c (ForeignKey target ondelete # os) td = column_keys c os (with_foreign_key [c] [target] ondelete td)"
| "column_keys c (_ # os) td = column_keys c os td"

fun add_item :: "table_item \<Rightarrow> table_def \<Rightarrow> table_def" where
  "add_item (Column c ty os) td =
     column_index c os (column_keys c os (td\<lparr>td_columns := td_columns td @
       [column_of_options \<lparr>co_name = c, co_type = ty, co_nullable = True, co_default = None\<rparr> os]\<rparr>))"
| "add_item (PrimaryKeyConstraint cs) td = td\<lparr>td_primary_key := cs\<rparr>"
| "add_item (ForeignKeyConstraint cs targets ondelete) td = with_foreign_key cs targets ondelete td"
| "add_item (UniqueConstraint cs n) td = with_unique (Some n) cs td"
| "add_item (CheckConstraint text n) td = td\<lparr>td_checks := td_checks td @ [(n, text)]\<rparr>"
| "add_item (Index n cs u p) td = with_index \<lparr>ix_name = n, ix_columns = cs, ix_unique = u, ix_where = p\<rparr> td"

definition table_of_items :: "string \<Rightarrow> table_item list \<Rightarrow> table_def" where
  "table_of_items t items = fold add_item items (empty_table t)"

section \<open>Statements\<close>

definition has_table :: "schema_def \<Rightarrow> string \<Rightarrow> bool" where
  "has_table sc t = (t \<in> set (map td_name (sc_tables sc)))"

text \<open>Tables, indexes and the indexes behind unique constraints share one name space.\<close>

definition relation_names :: "table_def \<Rightarrow> string list" where
  "relation_names td = td_name td # map ix_name (td_indexes td) @ concat (map (case_option [] (\<lambda>n. [n]) \<circ> fst) (td_uniques td))"

definition has_relation :: "schema_def \<Rightarrow> string \<Rightarrow> bool" where
  "has_relation sc n = list_ex (\<lambda>td. n \<in> set (relation_names td)) (sc_tables sc)"

definition set_tables :: "(table_def list \<Rightarrow> table_def list) \<Rightarrow> ddl" where
  "set_tables f = modify (\<lambda>sc. sc\<lparr>sc_tables := f (sc_tables sc)\<rparr>)"

definition on_table :: "string \<Rightarrow> (table_def \<Rightarrow> table_def) \<Rightarrow> ddl" where
  "on_table t f =
     seq (query (\<lambda>sc. has_table sc t)) (\<lambda>found.
     seq (require found (DdlError ''undefined_table'' t)) (\<lambda>_.
     set_tables (map (\<lambda>td. if td_name td = t then f td else td))))"

definition new_relation :: "string \<Rightarrow> ddl" where
  "new_relation n =
     seq (query (\<lambda>sc. has_relation sc n)) (\<lambda>found. require (\<not> found) (DdlError ''duplicate_table'' n))"

datatype sql_statement =
    EnableRls string
  | ForceRls string
  | CreatePolicy string string string string
  | DropPolicyIfExists string string
  | Grant "string list" "string list" string
  | GrantSchemaUsage string
  | RevokeAll string string
  | DeleteFrom string

definition sql_words :: "string \<Rightarrow> string list" where
  "sql_words s = filter (\<lambda>w. w \<noteq> []) (split_on (CHR '' '') (map (\<lambda>c. if is_space c then CHR '' '' else c) s))"

fun join_words :: "string list \<Rightarrow> string" where
  "join_words [] = []"
| "join_words (w # ws) = w @ concat (map (\<lambda>v. '' '' @ v) ws)"

definition strip_comma :: "string \<Rightarrow> string" where
  "strip_comma w = (if w \<noteq> [] \<and> last w = CHR '','' then butlast w else w)"

text \<open>The statements the repository executes, recognised by their words.\<close>

definition parse_grant :: "string list \<Rightarrow> sql_statement option" where
  "parse_grant ws =
     (let privileges = takeWhile (\<lambda>w. w \<noteq> ''ON'') ws;
          rest = drop 1 (dropWhile (\<lambda>w. w \<noteq> ''ON'') ws);
          tables = takeWhile (\<lambda>w. w \<noteq> ''TO'') rest;
          roles = drop 1 (dropWhile (\<lambda>w. w \<noteq> ''TO'') rest)
      in if privileges = [''USAGE''] \<and> take 1 tables = [''SCHEMA'']
         then (if length roles = 1 then Some (GrantSchemaUsage (hd roles)) else None)
         else (if length roles = 1
               then Some (Grant (map strip_comma privileges) (map strip_comma tables) (hd roles)) else None))"

definition parse_policy :: "string list \<Rightarrow> sql_statement option" where
  "parse_policy ws =
     (if length ws > 6 \<and> ws ! 3 = ''ON'' \<and> ws ! 5 = ''USING'' \<and> ''WITH'' \<in> set ws
      then Some (CreatePolicy (ws ! 2) (ws ! 4) (join_words (takeWhile (\<lambda>w. w \<noteq> ''WITH'') (drop 6 ws)))
        (join_words (drop 2 (dropWhile (\<lambda>w. w \<noteq> ''WITH'') (drop 6 ws)))))
      else None)"

definition parse_sql :: "string \<Rightarrow> sql_statement option" where
  "parse_sql s =
     (let ws = sql_words s in
      if take 2 ws = [''ALTER'', ''TABLE''] \<and> drop 3 ws = [''ENABLE'', ''ROW'', ''LEVEL'', ''SECURITY'']
        then Some (EnableRls (ws ! 2))
      else if take 2 ws = [''ALTER'', ''TABLE''] \<and> drop 3 ws = [''FORCE'', ''ROW'', ''LEVEL'', ''SECURITY'']
        then Some (ForceRls (ws ! 2))
      else if take 4 ws = [''DROP'', ''POLICY'', ''IF'', ''EXISTS''] \<and> length ws = 7 \<and> ws ! 5 = ''ON''
        then Some (DropPolicyIfExists (ws ! 4) (ws ! 6))
      else if take 2 ws = [''CREATE'', ''POLICY''] then parse_policy ws
      else if take 1 ws = [''GRANT''] then parse_grant (drop 1 ws)
      else if take 3 ws = [''REVOKE'', ''ALL'', ''ON''] \<and> length ws = 6 \<and> ws ! 4 = ''FROM''
        then Some (RevokeAll (ws ! 3) (ws ! 5))
      else if take 2 ws = [''DELETE'', ''FROM''] \<and> length ws = 3 then Some (DeleteFrom (ws ! 2))
      else None)"

definition create_policy :: "string \<Rightarrow> string \<Rightarrow> string \<Rightarrow> string \<Rightarrow> ddl" where
  "create_policy n t u c =
     seq (query (\<lambda>sc. list_ex (\<lambda>td. td_name td = t \<and> n \<in> set (map po_name (td_policies td))) (sc_tables sc))) (\<lambda>found.
     seq (require (\<not> found) (DdlError ''duplicate_object'' n)) (\<lambda>_.
     on_table t (\<lambda>td. td\<lparr>td_policies := td_policies td @ [\<lparr>po_name = n, po_using = u, po_check = c\<rparr>]\<rparr>)))"

definition add_privileges :: "string \<Rightarrow> string list \<Rightarrow> table_def \<Rightarrow> table_def" where
  "add_privileges role ps td = td\<lparr>td_privileges := td_privileges td @
     filter (\<lambda>p. p \<notin> set (td_privileges td)) (map (Pair role) ps)\<rparr>"

fun run_sql :: "sql_statement \<Rightarrow> ddl" where
  "run_sql (EnableRls t) = on_table t (\<lambda>td. td\<lparr>td_rls := True\<rparr>)"
| "run_sql (ForceRls t) = on_table t (\<lambda>td. td\<lparr>td_forced := True\<rparr>)"
| "run_sql (CreatePolicy n t u c) = create_policy n t u c"
| "run_sql (DropPolicyIfExists n t) =
     set_tables (map (\<lambda>td. if td_name td = t then td\<lparr>td_policies := filter (\<lambda>p. po_name p \<noteq> n) (td_policies td)\<rparr> else td))"
| "run_sql (Grant ps ts role) = for_each (\<lambda>t. on_table t (add_privileges role ps)) ts"
| "run_sql (GrantSchemaUsage role) =
     modify (\<lambda>sc. sc\<lparr>sc_usage := (if role \<in> set (sc_usage sc) then sc_usage sc else sc_usage sc @ [role])\<rparr>)"
| "run_sql (RevokeAll t role) =
     on_table t (\<lambda>td. td\<lparr>td_privileges := filter (\<lambda>p. fst p \<noteq> role) (td_privileges td)\<rparr>)"
| "run_sql (DeleteFrom t) = on_table t id"

section \<open>Operations\<close>

definition targets_exist :: "schema_def \<Rightarrow> table_def \<Rightarrow> bool" where
  "targets_exist sc td = list_all (\<lambda>fk. fk_table fk = td_name td \<or> has_table sc (fk_table fk)) (td_foreign_keys td)"

definition referenced :: "schema_def \<Rightarrow> string \<Rightarrow> bool" where
  "referenced sc t = list_ex (\<lambda>td. td_name td \<noteq> t \<and> t \<in> set (map fk_table (td_foreign_keys td))) (sc_tables sc)"

definition has_column :: "table_def \<Rightarrow> string \<Rightarrow> bool" where
  "has_column td c = (c \<in> set (map co_name (td_columns td)))"

definition without_index :: "string \<Rightarrow> table_def \<Rightarrow> table_def" where
  "without_index n td = td\<lparr>td_indexes := filter (\<lambda>i. ix_name i \<noteq> n) (td_indexes td)\<rparr>"

definition without_constraint :: "string \<Rightarrow> table_def \<Rightarrow> table_def" where
  "without_constraint n td = td\<lparr>td_uniques := filter (\<lambda>u. fst u \<noteq> Some n) (td_uniques td),
     td_checks := filter (\<lambda>k. fst k \<noteq> n) (td_checks td)\<rparr>"

text \<open>Dropping a column drops the keys and indexes it is part of.\<close>

definition without_column :: "string \<Rightarrow> table_def \<Rightarrow> table_def" where
  "without_column c td = td\<lparr>td_columns := filter (\<lambda>co. co_name co \<noteq> c) (td_columns td),
     td_foreign_keys := filter (\<lambda>fk. c \<notin> set (fk_columns fk)) (td_foreign_keys td),
     td_uniques := filter (\<lambda>u. c \<notin> set (snd u)) (td_uniques td),
     td_indexes := filter (\<lambda>i. c \<notin> set (ix_columns i)) (td_indexes td)\<rparr>"

fun item_column :: "table_item \<Rightarrow> string" where
  "item_column (Column c ty os) = c"
| "item_column _ = []"

fun run_op :: "migration_op \<Rightarrow> ddl" where
  "run_op (create_table t items) =
     seq (new_relation t) (\<lambda>_.
     seq (query (\<lambda>sc. targets_exist sc (table_of_items t items))) (\<lambda>ok.
     seq (require ok (DdlError ''undefined_table'' t)) (\<lambda>_.
     set_tables (\<lambda>tds. tds @ [table_of_items t items]))))"
| "run_op (drop_table t) =
     seq (query (\<lambda>sc. has_table sc t \<and> \<not> referenced sc t)) (\<lambda>ok.
     seq (require ok (DdlError ''dependent_objects'' t)) (\<lambda>_.
     set_tables (filter (\<lambda>td. td_name td \<noteq> t))))"
| "run_op (create_index n t cs u p) =
     seq (new_relation n) (\<lambda>_.
     on_table t (with_index \<lparr>ix_name = n, ix_columns = cs, ix_unique = u, ix_where = p\<rparr>))"
| "run_op (drop_index n) =
     seq (query (\<lambda>sc. list_ex (\<lambda>td. n \<in> set (map ix_name (td_indexes td))) (sc_tables sc))) (\<lambda>found.
     seq (require found (DdlError ''undefined_object'' n)) (\<lambda>_.
     set_tables (map (without_index n))))"
| "run_op (add_column t item) =
     seq (query (\<lambda>sc. list_ex (\<lambda>td. td_name td = t \<and> has_column td (item_column item)) (sc_tables sc))) (\<lambda>found.
     seq (require (\<not> found) (DdlError ''duplicate_column'' (item_column item))) (\<lambda>_.
     on_table t (add_item item)))"
| "run_op (drop_column t c) =
     seq (query (\<lambda>sc. list_ex (\<lambda>td. td_name td = t \<and> has_column td c) (sc_tables sc))) (\<lambda>found.
     seq (require found (DdlError ''undefined_column'' c)) (\<lambda>_.
     on_table t (without_column c)))"
| "run_op (create_check_constraint n t text) = on_table t (add_item (CheckConstraint text n))"
| "run_op (create_unique_constraint n t cs) =
     seq (new_relation n) (\<lambda>_. on_table t (add_item (UniqueConstraint cs n)))"
| "run_op (drop_constraint n t) =
     on_table t (without_constraint n)"
| "run_op (execute sql) =
     (case parse_sql sql of Some st \<Rightarrow> run_sql st | None \<Rightarrow> raise (DdlError ''syntax_error'' sql))"

section \<open>Rows\<close>

text \<open>
  Which tables hold rows matters where a new column has no value for them or a new constraint must
  hold of them.
\<close>

record database =
  da_schema :: schema_def
  da_rows :: "string set"
  da_version :: "string option"

definition needs_value :: "table_item \<Rightarrow> bool" where
  "needs_value item = (let td = add_item item (empty_table []) in
     list_ex (\<lambda>co. \<not> co_nullable co \<and> co_default co = None) (td_columns td))"

fun rows_refuse :: "(string \<Rightarrow> string \<Rightarrow> bool) \<Rightarrow> string set \<Rightarrow> migration_op \<Rightarrow> bool" where
  "rows_refuse valid rows (add_column t item) = (t \<in> rows \<and> needs_value item)"
| "rows_refuse valid rows (create_index n t cs u p) = (t \<in> rows \<and> u \<and> \<not> valid t n)"
| "rows_refuse valid rows (create_check_constraint n t text) = (t \<in> rows \<and> \<not> valid t n)"
| "rows_refuse valid rows (create_unique_constraint n t cs) = (t \<in> rows \<and> \<not> valid t n)"
| "rows_refuse valid rows _ = False"

fun rows_after :: "migration_op \<Rightarrow> string set \<Rightarrow> string set" where
  "rows_after (drop_table t) rows = rows - {t}"
| "rows_after (execute sql) rows =
     (case parse_sql sql of Some (DeleteFrom t) \<Rightarrow> rows - {t} | _ \<Rightarrow> rows)"
| "rows_after _ rows = rows"

definition on_schema :: "ddl \<Rightarrow> (database, ddl_error, unit) prog" where
  "on_schema m = (\<lambda>d. case m (da_schema d) of (r, sc) \<Rightarrow> (r, d\<lparr>da_schema := sc\<rparr>))"

definition apply_op :: "(string \<Rightarrow> string \<Rightarrow> bool) \<Rightarrow> migration_op \<Rightarrow> (database, ddl_error, unit) prog" where
  "apply_op valid op =
     seq (query (\<lambda>d. rows_refuse valid (da_rows d) op)) (\<lambda>refused.
     seq (require (\<not> refused) (DdlError ''integrity_violation'' [])) (\<lambda>_.
     seq (on_schema (run_op op)) (\<lambda>_.
     modify (\<lambda>d. d\<lparr>da_rows := rows_after op (da_rows d)\<rparr>))))"

end
