(* ===== verification/Rls_Scripts.thy ===== *)
theory Rls_Scripts
  imports Pytext Prelude
begin

text \<open>
  \<open>scripts/rls/apply.py\<close> and \<open>scripts/rls/new_policy.py\<close>: which policy statements the migration hook
  executes, when the hook takes a migration for an upgrade, and how a policy script is rendered.

  Alembic's \<open>ScriptDirectory.get_revision\<close> is the function \<open>R\<close>, from revision identifiers to
  revisions. The connection is the list of statements executed so far and the set of tables there are.
\<close>

datatype script_error = ScriptRuntimeError string | ScriptValueError string | FileExistsError string

section \<open>Applying the policies\<close>

definition split_sql_statements :: "string \<Rightarrow> string list" where
  "split_sql_statements sql = filter (\<lambda>stmt. stmt \<noteq> '''') (map str_strip (split_on (CHR '';'') sql))"

text \<open>The scripts of a directory, as stem and contents: private ones are skipped, the rest sorted by file name.\<close>

definition policy_files :: "(string \<times> string) list \<Rightarrow> (string \<times> string) list" where
  "policy_files dir =
     sort_key (\<lambda>f. fst f @ ''.sql'') (filter (\<lambda>f. take 1 (fst f) \<noteq> ''_'') dir)"

definition policy_table_names :: "(string \<times> string) list \<Rightarrow> string set" where
  "policy_table_names dir = fst ` set (policy_files dir)"

definition apply_policy :: "(string \<Rightarrow> bool) \<Rightarrow> bool \<Rightarrow> string \<times> string \<Rightarrow> (string list, script_error, unit) prog" where
  "apply_policy table_exists strict f =
     (case f of (table, sql) \<Rightarrow>
        if \<not> table_exists table then
          (if strict
           then raise (ScriptRuntimeError (''RLS policy script '' @ table @ ''.sql targets missing table '' @ table))
           else ret ())
        else modify (\<lambda>executed. executed @ split_sql_statements sql))"

definition apply_rls_policies ::
    "(string \<Rightarrow> bool) \<Rightarrow> bool \<Rightarrow> (string \<times> string) list \<Rightarrow> (string list, script_error, unit) prog" where
  "apply_rls_policies table_exists strict dir =
     for_each (apply_policy table_exists strict) (policy_files dir)"

lemma apply_policies_run:
  assumes "\<not> strict \<or> list_all (\<lambda>f. table_exists (fst f)) fs"
  shows "for_each (apply_policy table_exists strict) fs executed =
    (Inr (), executed @ concat (map (split_sql_statements \<circ> snd) (filter (\<lambda>f. table_exists (fst f)) fs)))"
  using assms
  by (induction fs arbitrary: executed)
    (auto simp: apply_policy_def prog_simps split: prod.split)

text \<open>
  The hook of a migration never fails and executes the statements of exactly the scripts whose table
  exists, in file order; the strict command does the same when no table is missing.
\<close>

theorem policies_of_existing_tables_run:
  assumes "\<not> strict \<or> list_all (\<lambda>f. table_exists (fst f)) (policy_files dir)"
  shows "apply_rls_policies table_exists strict dir executed =
    (Inr (), executed @
       concat (map (split_sql_statements \<circ> snd) (filter (\<lambda>f. table_exists (fst f)) (policy_files dir))))"
  unfolding apply_rls_policies_def by (rule apply_policies_run [OF assms])

section \<open>Upgrades\<close>

datatype down_revision = Base | Parent string | Parents "string list"

record revision =
  rv_revision :: string
  rv_down :: down_revision

type_synonym history = "string \<Rightarrow> revision option"

text \<open>
  The walk from a revision towards the base. The recursion through a merge starts a walk with a fresh
  \<open>seen\<close> set, so nothing but the shape of the history ends it: the first argument is fuel, one unit
  per revision visited, and \<open>None\<close> means that it ran out.
\<close>

fun is_upgrade_revision :: "nat \<Rightarrow> history \<Rightarrow> string option \<Rightarrow> string option \<Rightarrow> bool option"
  and walk_down :: "nat \<Rightarrow> history \<Rightarrow> string \<Rightarrow> string set \<Rightarrow> revision option \<Rightarrow> bool option"
  and any_upgrade :: "nat \<Rightarrow> history \<Rightarrow> string \<Rightarrow> string list \<Rightarrow> bool option" where
  "is_upgrade_revision n R start_rev end_rev =
     (if start_rev = end_rev then Some False
      else case end_rev of None \<Rightarrow> Some False
      | Some e \<Rightarrow> (case start_rev of None \<Rightarrow> Some True | Some s \<Rightarrow> walk_down n R s {} (R e)))"
| "walk_down n R s visited None = Some False"
| "walk_down 0 R s visited (Some node) = None"
| "walk_down (Suc n) R s visited (Some node) =
     (if rv_revision node = s then Some True
      else if rv_revision node \<in> visited then Some False
      else case rv_down node of
        Base \<Rightarrow> Some False
      | Parents ps \<Rightarrow> any_upgrade n R s ps
      | Parent p \<Rightarrow> walk_down n R s (insert (rv_revision node) visited) (R p))"
| "any_upgrade n R s [] = Some False"
| "any_upgrade n R s (p # ps) =
     (case is_upgrade_revision n R (Some s) (Some p) of
        None \<Rightarrow> None
      | Some b \<Rightarrow> if b then Some True else any_upgrade n R s ps)"

section \<open>What the walk finds\<close>

text \<open>
  The revisions from which the walk reaches \<open>s\<close>. A parent of a merge is asked with the public
  function, which answers no when start and end are equal: the clause for merges leaves it out.
\<close>

inductive found :: "history \<Rightarrow> string \<Rightarrow> string \<Rightarrow> bool" for R s where
  found_here: "R s = Some node \<Longrightarrow> rv_revision node = s \<Longrightarrow> found R s s"
| found_parent: "R e = Some node \<Longrightarrow> rv_down node = Parent p \<Longrightarrow> found R s p \<Longrightarrow> found R s e"
| found_merge: "R e = Some node \<Longrightarrow> rv_down node = Parents ps \<Longrightarrow> p \<in> set ps \<Longrightarrow> p \<noteq> s \<Longrightarrow> found R s p \<Longrightarrow>
    found R s e"

fun parents_of :: "down_revision \<Rightarrow> string list" where
  "parents_of Base = []"
| "parents_of (Parent p) = [p]"
| "parents_of (Parents ps) = ps"

text \<open>Every revision is stored under its own identifier and its parents stand lower.\<close>

definition well_founded :: "history \<Rightarrow> (string \<Rightarrow> nat) \<Rightarrow> bool" where
  "well_founded R rank \<longleftrightarrow>
     (\<forall>e node. R e = Some node \<longrightarrow> rv_revision node = e \<and> (\<forall>p \<in> set (parents_of (rv_down node)). rank p < rank e))"

lemma found_unfold:
  assumes "well_founded R rank" and "R e = Some node"
  shows "found R s e \<longleftrightarrow> e = s \<or>
    (case rv_down node of Base \<Rightarrow> False | Parent p \<Rightarrow> found R s p
     | Parents ps \<Rightarrow> \<exists>p \<in> set ps. p \<noteq> s \<and> found R s p)"
proof
  assume "found R s e"
  then show "e = s \<or>
    (case rv_down node of Base \<Rightarrow> False | Parent p \<Rightarrow> found R s p
     | Parents ps \<Rightarrow> \<exists>p \<in> set ps. p \<noteq> s \<and> found R s p)"
    using assms(2) by (cases rule: found.cases) auto
next
  have "rv_revision node = e"
    using assms by (simp add: well_founded_def)
  then show "e = s \<or> (case rv_down node of Base \<Rightarrow> False | Parent p \<Rightarrow> found R s p
     | Parents ps \<Rightarrow> \<exists>p \<in> set ps. p \<noteq> s \<and> found R s p) \<Longrightarrow> found R s e"
    using assms(2)
    by (auto intro: found_here found_parent found_merge split: down_revision.splits)
qed

lemma found_exists: "found R s e \<Longrightarrow> R e \<noteq> None"
  by (cases rule: found.cases) auto

lemma walk_finds:
  assumes wf: "well_founded R rank"
  shows "(rank e < n \<longrightarrow> (\<forall>x \<in> visited. rank e < rank x) \<longrightarrow>
      walk_down n R s visited (R e) = Some (found R s e)) \<and>
    ((\<forall>p \<in> set ps. rank p < n) \<longrightarrow>
      any_upgrade n R s ps = Some (\<exists>p \<in> set ps. p \<noteq> s \<and> found R s p))"
proof (induction n arbitrary: e visited ps)
  case 0
  have "ps = []" if "\<forall>p \<in> set ps. rank p < 0" using that by (cases ps) auto
  then show ?case by auto
next
  case (Suc n)
  have walk: "walk_down (Suc n) R s seen (R e) = Some (found R s e)"
    if e: "rank e < Suc n" and seen: "\<forall>x \<in> seen. rank e < rank x" for e seen
  proof (cases "R e")
    case None
    then show ?thesis using found_exists [of R s e] by auto
  next
    case (Some node)
    have node: "rv_revision node = e" "\<forall>p \<in> set (parents_of (rv_down node)). rank p < rank e"
      using wf Some by (auto simp: well_founded_def)
    have fresh: "e \<notin> seen" using seen by blast
    have low: "rank p < n" if "p \<in> set (parents_of (rv_down node))" for p
      using node(2) that e by fastforce
    show ?thesis
    proof (cases "rv_down node")
      case Base
      then show ?thesis using node(1) fresh by (simp add: Some found_unfold [OF wf Some])
    next
      case (Parent p)
      then have "rank p < rank e" and "rank p < n" using node(2) low by simp_all
      then have "walk_down n R s (insert e seen) (R p) = Some (found R s p)"
        using Suc.IH [of p "insert e seen" "[]"] seen by fastforce
      with Parent show ?thesis using node(1) fresh by (auto simp: Some found_unfold [OF wf Some])
    next
      case (Parents qs)
      then have "any_upgrade n R s qs = Some (\<exists>p \<in> set qs. p \<noteq> s \<and> found R s p)"
        using Suc.IH [of e "{}" qs] low by simp
      with Parents show ?thesis using node(1) fresh by (auto simp: Some found_unfold [OF wf Some])
    qed
  qed
  have "any_upgrade (Suc n) R s ps = Some (\<exists>p \<in> set ps. p \<noteq> s \<and> found R s p)"
    if "\<forall>p \<in> set ps. rank p < Suc n"
    using that by (induction ps) (auto simp: walk)
  with walk show ?case by blast
qed

text \<open>The revisions below another one, and histories that never merge.\<close>

definition earlier :: "history \<Rightarrow> string \<Rightarrow> string \<Rightarrow> bool" where
  "earlier R = (\<lambda>p e. \<exists>node. R e = Some node \<and> p \<in> set (parents_of (rv_down node)))\<^sup>+\<^sup>+"

definition linear :: "history \<Rightarrow> bool" where
  "linear R \<longleftrightarrow> (\<forall>e node ps. R e = Some node \<longrightarrow> rv_down node \<noteq> Parents ps)"

lemma earlier_found:
  assumes "well_founded R rank" and "linear R" and "R s \<noteq> None" and "earlier R s e"
  shows "s \<noteq> e \<and> found R s e"
proof -
  have "rank s < rank e \<and> found R s e"
    using assms(4) unfolding earlier_def
  proof (induction rule: tranclp_induct)
    case (base e)
    then obtain node where node: "R e = Some node" "s \<in> set (parents_of (rv_down node))" by blast
    then have "rv_down node = Parent s"
      using assms(2) by (cases "rv_down node") (auto simp: linear_def)
    moreover have "found R s s"
      using assms(1,3) by (auto simp: well_founded_def intro: found_here)
    ultimately show ?case
      using node assms(1) by (auto simp: well_founded_def intro: found_parent)
  next
    case (step m e)
    then obtain node where node: "R e = Some node" "m \<in> set (parents_of (rv_down node))" by blast
    then have "rv_down node = Parent m"
      using assms(2) by (cases "rv_down node") (auto simp: linear_def)
    then show ?case
      using node step assms(1) by (fastforce simp: well_founded_def intro: found_parent)
  qed
  then show ?thesis by auto
qed

lemma found_earlier: "found R s e \<Longrightarrow> s = e \<or> earlier R s e"
proof (induction rule: found.induct)
  case (found_parent e node p)
  then show ?case
    unfolding earlier_def by (fastforce intro: tranclp.intros)
next
  case (found_merge e node ps p)
  then show ?case
    unfolding earlier_def by (fastforce intro: tranclp.intros)
qed simp

text \<open>
  C40. The hook's question always has an answer: on a history without cycles the walk ends, within one
  step more than the end revision stands high. Without merges the answer is the meaning of the
  question, that the start is an earlier revision than the end. Through a merge it is not: a
  revision that merges the start itself with others which do not descend from it counts as no upgrade.
\<close>

theorem upgrade_detection:
  assumes "well_founded R rank" and "rank e < n" and "R s \<noteq> None"
  shows "(linear R \<longrightarrow> is_upgrade_revision n R (Some s) (Some e) = Some (earlier R s e)) \<and>
    (\<forall>node ps. R e = Some node \<longrightarrow> rv_down node = Parents ps \<longrightarrow> s \<in> set ps \<longrightarrow>
       (\<forall>p \<in> set ps - {s}. \<not> earlier R s p) \<longrightarrow> is_upgrade_revision n R (Some s) (Some e) = Some False) \<and>
    is_upgrade_revision n R (Some s) (Some e) \<noteq> None"
proof -
  have answer: "is_upgrade_revision n R (Some s) (Some e) = Some (s \<noteq> e \<and> found R s e)"
    using walk_finds [OF assms(1), of e n "{}" s "[]"] assms(2) by simp
  moreover have "s \<noteq> e \<and> found R s e \<longleftrightarrow> earlier R s e" if "linear R"
    using earlier_found [OF assms(1) that assms(3)] found_earlier [of R s e] by blast
  moreover have "\<not> (s \<noteq> e \<and> found R s e)"
    if "R e = Some node" and "rv_down node = Parents ps" and "\<forall>p \<in> set ps - {s}. \<not> earlier R s p" for node ps
    using that found_unfold [OF assms(1) that(1), of s] found_earlier by fastforce
  ultimately show ?thesis by simp
qed

text \<open>The history under \<open>alembic/versions\<close>.\<close>

definition repository_history :: history where
  "repository_history = map_of (map (\<lambda>(i, d). (i, \<lparr>rv_revision = i, rv_down = d\<rparr>))
     [(''a1b2c3d4e5f6'', Base), (''6dc854c15a49'', Parent ''a1b2c3d4e5f6''),
      (''b7e8f9a0b1c2'', Parent ''6dc854c15a49''), (''c8d9e0f1a2b3'', Parent ''b7e8f9a0b1c2''),
      (''d9e0f1a2b3c4'', Parent ''c8d9e0f1a2b3''), (''e0f1a2b3c4d5'', Parent ''d9e0f1a2b3c4''),
      (''f1a2b3c4d5e6'', Parent ''e0f1a2b3c4d5'')])"

definition repository_rank :: "string \<Rightarrow> nat" where
  "repository_rank i =
     (case map_of (zip [''a1b2c3d4e5f6'', ''6dc854c15a49'', ''b7e8f9a0b1c2'', ''c8d9e0f1a2b3'', ''d9e0f1a2b3c4'',
        ''e0f1a2b3c4d5'', ''f1a2b3c4d5e6''] [0..<7]) i of Some n \<Rightarrow> n | None \<Rightarrow> 0)"

lemma repository_history_ok: "well_founded repository_history repository_rank" "linear repository_history"
  by (auto simp: well_founded_def linear_def repository_history_def repository_rank_def upt_rec split: if_splits)

theorem upgrade_detection_witness:
  "is_upgrade_revision 8 repository_history (Some ''6dc854c15a49'') (Some ''d9e0f1a2b3c4'') =
     Some (earlier repository_history ''6dc854c15a49'' ''d9e0f1a2b3c4'')"
proof -
  have "repository_rank ''d9e0f1a2b3c4'' < 8" "repository_history ''6dc854c15a49'' \<noteq> None"
    by (simp_all add: repository_rank_def repository_history_def upt_rec)
  from upgrade_detection [OF repository_history_ok(1) this] repository_history_ok(2) show ?thesis by blast
qed

section \<open>Rendering\<close>

fun replace_all :: "string \<Rightarrow> string \<Rightarrow> string \<Rightarrow> string" where
  "replace_all old new [] = []"
| "replace_all old new (c # cs) =
     (if take (length old) (c # cs) = old then new @ replace_all old new (drop (length old - 1) cs)
      else c # replace_all old new cs)"

definition render_policy :: "string \<Rightarrow> string \<Rightarrow> string \<Rightarrow> string" where
  "render_policy template table tenant_column =
     replace_all ''{{tenant_column}}'' tenant_column (replace_all ''{{table}}'' table template)"

text \<open>The pattern \<open>^[a-z][a-z0-9_]*$\<close>, whose \<open>$\<close> also matches before a final newline.\<close>

definition name_char :: "char \<Rightarrow> bool" where
  "name_char c \<longleftrightarrow> (let n = of_char c :: nat in 97 \<le> n \<and> n \<le> 122 \<or> 48 \<le> n \<and> n \<le> 57 \<or> n = 95)"

definition valid_table_name :: "string \<Rightarrow> bool" where
  "valid_table_name s \<longleftrightarrow>
     (let body = (if s \<noteq> [] \<and> last s = CHR 0x0A then butlast s else s)
      in case body of [] \<Rightarrow> False
         | c # cs \<Rightarrow> 97 \<le> (of_char c :: nat) \<and> (of_char c :: nat) \<le> 122 \<and> list_all name_char cs)"

definition create_policy_file ::
    "string \<Rightarrow> string \<Rightarrow> string \<Rightarrow> (string \<rightharpoonup> string, script_error, unit) prog" where
  "create_policy_file template table tenant_column =
     (if \<not> valid_table_name table then raise (ScriptValueError (''Invalid table name: '' @ table))
      else seq (query (\<lambda>files. files table)) (\<lambda>found.
        if found \<noteq> None then raise (FileExistsError (table @ ''.sql''))
        else modify (\<lambda>files. files(table \<mapsto> render_policy template table tenant_column))))"

end
