(* ===== verification/Migrations.thy ===== *)
theory Migrations
  imports Catalogue Rls_Scripts
begin

text \<open>
  The seven revisions of \<open>alembic/versions\<close>, statement by statement, and the migration hook of
  \<open>alembic/env.py\<close>: what \<open>alembic upgrade\<close> and \<open>alembic downgrade\<close> do to the database.
\<close>

definition tenant_condition :: "string \<Rightarrow> string" where
  "tenant_condition c =
     ''('' @ c @ '' = NULLIF(current_setting('app.current_tenant', true), '' @ [CHR 0x27, CHR 0x27] @ '')::uuid)''"

section \<open>The revisions\<close>

definition organization_items :: "table_item list" where
  "organization_items =
    [Column ''id'' Uuid [Nullable False],
     Column ''name'' (Varchar (Some 200)) [Nullable False],
     Column ''created_at'' Timestamptz [ServerDefault ''now()'', Nullable False],
     PrimaryKeyConstraint [''id'']]"

definition vault_items :: "table_item list" where
  "vault_items =
    [Column ''id'' Uuid [Nullable False],
     Column ''tenant_id'' Uuid [Nullable False],
     Column ''name'' (Varchar (Some 200)) [Nullable False],
     Column ''created_at'' Timestamptz [ServerDefault ''now()'', Nullable False],
     ForeignKeyConstraint [''tenant_id''] [''organization.id''] (Some ''CASCADE''),
     PrimaryKeyConstraint [''id'']]"

definition upgrade_initial_schema :: "migration_op list" where
  "upgrade_initial_schema =
    [create_table ''organization'' organization_items,
     create_table ''vault'' vault_items,
     create_index ''ix_vault_tenant_id'' ''vault'' [''tenant_id''] False None,
     execute ''GRANT USAGE ON SCHEMA public TO vaultlog_app'',
     execute ''GRANT SELECT, INSERT, UPDATE, DELETE ON organization, vault TO vaultlog_app'',
     execute ''ALTER TABLE organization ENABLE ROW LEVEL SECURITY'',
     execute ''ALTER TABLE organization FORCE ROW LEVEL SECURITY'',
     execute (''CREATE POLICY tenant_isolation ON organization USING '' @ tenant_condition ''id'' @
       '' WITH CHECK '' @ tenant_condition ''id''),
     execute ''ALTER TABLE vault ENABLE ROW LEVEL SECURITY'',
     execute ''ALTER TABLE vault FORCE ROW LEVEL SECURITY'',
     execute (''CREATE POLICY tenant_isolation ON vault USING '' @ tenant_condition ''tenant_id'' @
       '' WITH CHECK '' @ tenant_condition ''tenant_id'')]"

definition downgrade_initial_schema :: "migration_op list" where
  "downgrade_initial_schema =
    [execute ''DROP POLICY IF EXISTS tenant_isolation ON vault'',
     execute ''DROP POLICY IF EXISTS tenant_isolation ON organization'',
     drop_index ''ix_vault_tenant_id'',
     drop_table ''vault'',
     drop_table ''organization'']"

definition app_user_items :: "table_item list" where
  "app_user_items =
    [Column ''id'' Uuid [PrimaryKey, ServerDefault ''gen_random_uuid()''],
     Column ''email'' (Varchar (Some 320)) [Nullable False],
     Column ''password_hash'' (Varchar (Some 255)) [Nullable False],
     Column ''is_active'' Boolean [Nullable False, ServerDefault ''true''],
     Column ''mfa_enabled'' Boolean [Nullable False, ServerDefault ''false''],
     Column ''created_at'' Timestamptz [ServerDefault ''now()'', Nullable False],
     UniqueConstraint [''email''] ''uq_app_user_email'']"

definition membership_items :: "table_item list" where
  "membership_items =
    [Column ''id'' Uuid [PrimaryKey, ServerDefault ''gen_random_uuid()''],
     Column ''tenant_id'' Uuid [ForeignKey ''organization.id'' (Some ''CASCADE''), Nullable False],
     Column ''user_id'' Uuid [ForeignKey ''app_user.id'' (Some ''CASCADE''), Nullable False],
     Column ''role'' (Varchar (Some 20)) [Nullable False],
     Column ''created_at'' Timestamptz [ServerDefault ''now()'', Nullable False],
     UniqueConstraint [''tenant_id'', ''user_id''] ''uq_membership_tenant_user'',
     CheckConstraint ''role IN ('owner','admin','member','viewer')'' ''ck_membership_role'']"

definition auth_session_items :: "table_item list" where
  "auth_session_items =
    [Column ''id'' Uuid [PrimaryKey, ServerDefault ''gen_random_uuid()''],
     Column ''user_id'' Uuid [ForeignKey ''app_user.id'' (Some ''CASCADE''), Nullable False],
     Column ''revoked_at'' Timestamptz [Nullable True],
     Column ''revocation_reason'' (Varchar (Some 50)) [Nullable True],
     Column ''user_agent'' (Varchar (Some 500)) [Nullable True],
     Column ''created_at'' Timestamptz [ServerDefault ''now()'', Nullable False],
     Column ''last_used_at'' Timestamptz [ServerDefault ''now()'', Nullable False]]"

definition refresh_token_items :: "table_item list" where
  "refresh_token_items =
    [Column ''id'' Uuid [PrimaryKey, ServerDefault ''gen_random_uuid()''],
     Column ''session_id'' Uuid [ForeignKey ''auth_session.id'' (Some ''CASCADE''), Nullable False],
     Column ''token_hash'' (Varchar (Some 64)) [Nullable False],
     Column ''expires_at'' Timestamptz [Nullable False],
     Column ''used_at'' Timestamptz [Nullable True],
     Column ''revoked_at'' Timestamptz [Nullable True],
     Column ''replaced_by_id'' Uuid [ForeignKey ''refresh_token.id'' None, Nullable True],
     Column ''created_at'' Timestamptz [ServerDefault ''now()'', Nullable False],
     UniqueConstraint [''token_hash''] ''uq_refresh_token_hash'']"

definition upgrade_identity_and_sessions :: "migration_op list" where
  "upgrade_identity_and_sessions =
    [create_table ''app_user'' app_user_items,
     create_table ''membership'' membership_items,
     create_index ''ix_membership_tenant_id'' ''membership'' [''tenant_id''] False None,
     create_index ''ix_membership_user_id'' ''membership'' [''user_id''] False None,
     create_table ''auth_session'' auth_session_items,
     create_index ''ix_auth_session_user_id'' ''auth_session'' [''user_id''] False None,
     create_table ''refresh_token'' refresh_token_items,
     create_index ''ix_refresh_token_session_id'' ''refresh_token'' [''session_id''] False None,
     execute
       ''GRANT SELECT, INSERT, UPDATE, DELETE ON app_user, membership, auth_session, refresh_token TO vaultlog_app'',
     execute ''ALTER TABLE membership ENABLE ROW LEVEL SECURITY'',
     execute ''ALTER TABLE membership FORCE ROW LEVEL SECURITY'',
     execute (''CREATE POLICY tenant_isolation ON membership USING '' @ tenant_condition ''tenant_id'' @
       '' WITH CHECK '' @ tenant_condition ''tenant_id'')]"

definition downgrade_identity_and_sessions :: "migration_op list" where
  "downgrade_identity_and_sessions =
    [execute ''DROP POLICY IF EXISTS tenant_isolation ON membership'',
     drop_table ''refresh_token'',
     drop_table ''auth_session'',
     drop_table ''membership'',
     drop_table ''app_user'']"

definition totp_secret_items :: "table_item list" where
  "totp_secret_items =
    [Column ''id'' Uuid [PrimaryKey, ServerDefault ''gen_random_uuid()''],
     Column ''user_id'' Uuid [ForeignKey ''app_user.id'' (Some ''CASCADE''), Nullable False],
     Column ''encrypted_seed'' LargeBinary [Nullable False],
     Column ''seed_nonce'' LargeBinary [Nullable False],
     Column ''confirmed'' Boolean [Nullable False, ServerDefault ''false''],
     Column ''created_at'' Timestamptz [ServerDefault ''now()'', Nullable False],
     Column ''confirmed_at'' Timestamptz [Nullable True],
     UniqueConstraint [''user_id''] ''uq_totp_secret_user_id'']"

definition recovery_code_items :: "table_item list" where
  "recovery_code_items =
    [Column ''id'' Uuid [PrimaryKey, ServerDefault ''gen_random_uuid()''],
     Column ''user_id'' Uuid [ForeignKey ''app_user.id'' (Some ''CASCADE''), Nullable False],
     Column ''code_hash'' (Varchar (Some 64)) [Nullable False],
     Column ''used_at'' Timestamptz [Nullable True],
     Column ''created_at'' Timestamptz [ServerDefault ''now()'', Nullable False],
     UniqueConstraint [''code_hash''] ''uq_recovery_code_code_hash'']"

definition upgrade_totp_and_recovery :: "migration_op list" where
  "upgrade_totp_and_recovery =
    [create_table ''totp_secret'' totp_secret_items,
     create_index ''ix_totp_secret_user_id'' ''totp_secret'' [''user_id''] False None,
     create_table ''recovery_code'' recovery_code_items,
     create_index ''ix_recovery_code_user_id'' ''recovery_code'' [''user_id''] False None,
     execute ''GRANT SELECT, INSERT, UPDATE, DELETE ON totp_secret, recovery_code TO vaultlog_app'']"

definition downgrade_totp_and_recovery :: "migration_op list" where
  "downgrade_totp_and_recovery =
    [drop_index ''ix_recovery_code_user_id'',
     drop_table ''recovery_code'',
     drop_index ''ix_totp_secret_user_id'',
     drop_table ''totp_secret'']"

definition vault_grant_items :: "table_item list" where
  "vault_grant_items =
    [Column ''id'' Uuid [PrimaryKey, ServerDefault ''gen_random_uuid()''],
     Column ''tenant_id'' Uuid [ForeignKey ''organization.id'' (Some ''CASCADE''), Nullable False],
     Column ''vault_id'' Uuid [ForeignKey ''vault.id'' (Some ''CASCADE''), Nullable False],
     Column ''membership_id'' Uuid [ForeignKey ''membership.id'' (Some ''CASCADE''), Nullable False],
     Column ''permission'' (Varchar (Some 10)) [Nullable False],
     Column ''granted_by_user_id'' Uuid [Nullable False],
     Column ''created_at'' Timestamptz [ServerDefault ''now()'', Nullable False],
     CheckConstraint ''permission IN ('read','write','admin')'' ''ck_vault_grant_permission'',
     UniqueConstraint [''vault_id'', ''membership_id''] ''uq_vault_grant_vault_membership'']"

definition upgrade_vaults_and_grants :: "migration_op list" where
  "upgrade_vaults_and_grants =
    [execute ''DELETE FROM vault'',
     add_column ''vault'' (Column ''description'' (Varchar (Some 1000)) [Nullable True]),
     add_column ''vault'' (Column ''created_by_user_id'' Uuid [Nullable False]),
     add_column ''vault'' (Column ''updated_at'' Timestamptz [ServerDefault ''now()'', Nullable False]),
     add_column ''vault'' (Column ''deleted_at'' Timestamptz [Nullable True]),
     create_check_constraint ''ck_vault_name_nonempty'' ''vault'' ''length(name) >= 1'',
     create_unique_constraint ''uq_vault_tenant_name'' ''vault'' [''tenant_id'', ''name''],
     create_table ''vault_grant'' vault_grant_items,
     create_index ''ix_vault_grant_tenant_id'' ''vault_grant'' [''tenant_id''] False None,
     create_index ''ix_vault_grant_vault_id'' ''vault_grant'' [''vault_id''] False None,
     create_index ''ix_vault_grant_membership_id'' ''vault_grant'' [''membership_id''] False None,
     execute ''GRANT SELECT, INSERT, UPDATE, DELETE ON vault_grant TO vaultlog_app'']"

definition downgrade_vaults_and_grants :: "migration_op list" where
  "downgrade_vaults_and_grants =
    [drop_index ''ix_vault_grant_membership_id'',
     drop_index ''ix_vault_grant_vault_id'',
     drop_index ''ix_vault_grant_tenant_id'',
     drop_table ''vault_grant'',
     drop_constraint ''uq_vault_tenant_name'' ''vault'',
     drop_constraint ''ck_vault_name_nonempty'' ''vault'',
     drop_column ''vault'' ''deleted_at'',
     drop_column ''vault'' ''updated_at'',
     drop_column ''vault'' ''created_by_user_id'',
     drop_column ''vault'' ''description'']"

definition tenant_key_version_items :: "table_item list" where
  "tenant_key_version_items =
    [Column ''id'' Uuid [PrimaryKey, ServerDefault ''gen_random_uuid()''],
     Column ''tenant_id'' Uuid [ForeignKey ''organization.id'' (Some ''CASCADE''), Nullable False],
     Column ''version'' Integer [Nullable False],
     Column ''wrapped_dek'' LargeBinary [Nullable False],
     Column ''wrap_nonce'' LargeBinary [Nullable False],
     Column ''wrapping_key_id'' (Varchar (Some 200)) [Nullable False],
     Column ''status'' (Varchar (Some 10)) [Nullable False, ServerLiteral ''active''],
     Column ''created_at'' Timestamptz [ServerDefault ''now()'', Nullable False],
     Column ''retired_at'' Timestamptz [Nullable True],
     CheckConstraint ''status IN ('active','retired')'' ''ck_tkv_status'',
     UniqueConstraint [''tenant_id'', ''version''] ''uq_tenant_key_version'']"

definition secret_items :: "table_item list" where
  "secret_items =
    [Column ''id'' Uuid [PrimaryKey, ServerDefault ''gen_random_uuid()''],
     Column ''tenant_id'' Uuid [ForeignKey ''organization.id'' (Some ''CASCADE''), Nullable False],
     Column ''vault_id'' Uuid [ForeignKey ''vault.id'' (Some ''CASCADE''), Nullable False],
     Column ''name'' (Varchar (Some 200)) [Nullable False],
     Column ''description'' (Varchar (Some 1000)) [Nullable True],
     Column ''current_version'' Integer [Nullable False, ServerLiteral ''1''],
     Column ''created_by_user_id'' Uuid [Nullable False],
     Column ''created_at'' Timestamptz [ServerDefault ''now()'', Nullable False],
     Column ''updated_at'' Timestamptz [ServerDefault ''now()'', Nullable False],
     Column ''deleted_at'' Timestamptz [Nullable True],
     UniqueConstraint [''vault_id'', ''name''] ''uq_secret_vault_name'']"

definition secret_version_items :: "table_item list" where
  "secret_version_items =
    [Column ''id'' Uuid [PrimaryKey, ServerDefault ''gen_random_uuid()''],
     Column ''tenant_id'' Uuid [ForeignKey ''organization.id'' (Some ''CASCADE''), Nullable False],
     Column ''secret_id'' Uuid [ForeignKey ''secret.id'' (Some ''CASCADE''), Nullable False],
     Column ''version'' Integer [Nullable False],
     Column ''ciphertext'' LargeBinary [Nullable False],
     Column ''nonce'' LargeBinary [Nullable False],
     Column ''dek_version'' Integer [Nullable False],
     Column ''created_by_user_id'' Uuid [Nullable False],
     Column ''created_at'' Timestamptz [ServerDefault ''now()'', Nullable False],
     UniqueConstraint [''secret_id'', ''version''] ''uq_secret_version'']"

definition upgrade_secrets_and_keys :: "migration_op list" where
  "upgrade_secrets_and_keys =
    [create_table ''tenant_key_version'' tenant_key_version_items,
     create_index ''ix_tenant_key_version_tenant_id'' ''tenant_key_version'' [''tenant_id''] False None,
     create_index ''uq_tenant_key_one_active'' ''tenant_key_version'' [''tenant_id''] True
       (Some (''status = 'active'' @ [CHR 0x27])),
     create_table ''secret'' secret_items,
     create_index ''ix_secret_tenant_id'' ''secret'' [''tenant_id''] False None,
     create_index ''ix_secret_vault_id'' ''secret'' [''vault_id''] False None,
     create_table ''secret_version'' secret_version_items,
     create_index ''ix_secret_version_tenant_id'' ''secret_version'' [''tenant_id''] False None,
     create_index ''ix_secret_version_secret_id'' ''secret_version'' [''secret_id''] False None,
     execute ''GRANT SELECT, INSERT, UPDATE, DELETE ON secret, tenant_key_version TO vaultlog_app'',
     execute ''GRANT SELECT, INSERT ON secret_version TO vaultlog_app'']"

definition downgrade_secrets_and_keys :: "migration_op list" where
  "downgrade_secrets_and_keys =
    [drop_index ''ix_secret_version_secret_id'',
     drop_index ''ix_secret_version_tenant_id'',
     drop_table ''secret_version'',
     drop_index ''ix_secret_vault_id'',
     drop_index ''ix_secret_tenant_id'',
     drop_table ''secret'',
     drop_index ''uq_tenant_key_one_active'',
     drop_index ''ix_tenant_key_version_tenant_id'',
     drop_table ''tenant_key_version'']"

definition audit_event_items :: "table_item list" where
  "audit_event_items =
    [Column ''id'' Uuid [PrimaryKey, ServerDefault ''gen_random_uuid()''],
     Column ''tenant_id'' Uuid [ForeignKey ''organization.id'' (Some ''RESTRICT''), Nullable False],
     Column ''sequence'' BigInteger [Nullable False],
     Column ''actor_user_id'' Uuid [Nullable True],
     Column ''session_id'' Uuid [Nullable True],
     Column ''action'' (Varchar (Some 50)) [Nullable False],
     Column ''target_type'' (Varchar (Some 50)) [Nullable False],
     Column ''target_id'' Uuid [Nullable True],
     Column ''outcome'' (Varchar (Some 10)) [Nullable False],
     Column ''metadata'' Jsonb [Nullable False],
     Column ''occurred_at'' Timestamptz [ServerDefault ''now()'', Nullable False],
     Column ''previous_hash'' LargeBinary [Nullable True],
     Column ''entry_hash'' LargeBinary [Nullable False],
     CheckConstraint ''outcome IN ('success','failure','denied')'' ''ck_audit_outcome'',
     UniqueConstraint [''tenant_id'', ''sequence''] ''uq_audit_tenant_sequence'',
     UniqueConstraint [''tenant_id'', ''entry_hash''] ''uq_audit_tenant_entry_hash'']"

definition audit_chain_head_items :: "table_item list" where
  "audit_chain_head_items =
    [Column ''tenant_id'' Uuid [ForeignKey ''organization.id'' (Some ''RESTRICT''), PrimaryKey],
     Column ''last_sequence'' BigInteger [Nullable False, ServerLiteral ''0''],
     Column ''last_hash'' LargeBinary [Nullable True]]"

definition upgrade_audit_ledger_tables :: "migration_op list" where
  "upgrade_audit_ledger_tables =
    [create_table ''audit_event'' audit_event_items,
     create_index ''ix_audit_event_tenant_id'' ''audit_event'' [''tenant_id''] False None,
     create_index ''ix_audit_tenant_action_time'' ''audit_event'' [''tenant_id'', ''action'', ''occurred_at''] False None,
     create_table ''audit_chain_head'' audit_chain_head_items,
     execute ''GRANT SELECT, INSERT ON audit_event TO vaultlog_app'',
     execute ''GRANT SELECT, INSERT, UPDATE ON audit_chain_head TO vaultlog_app'']"

definition downgrade_audit_ledger_tables :: "migration_op list" where
  "downgrade_audit_ledger_tables =
    [drop_table ''audit_chain_head'',
     drop_index ''ix_audit_tenant_action_time'',
     drop_index ''ix_audit_event_tenant_id'',
     drop_table ''audit_event'']"

definition invitation_items :: "table_item list" where
  "invitation_items =
    [Column ''id'' Uuid [PrimaryKey, ServerDefault ''gen_random_uuid()''],
     Column ''tenant_id'' Uuid [ForeignKey ''organization.id'' (Some ''CASCADE''), Nullable False],
     Column ''email'' (Varchar (Some 320)) [Nullable False],
     Column ''role'' (Varchar (Some 20)) [Nullable False],
     Column ''token_hash'' (Varchar (Some 64)) [Nullable False],
     Column ''invited_by_user_id'' Uuid [Nullable False],
     Column ''expires_at'' Timestamptz [Nullable False],
     Column ''accepted_at'' Timestamptz [Nullable True],
     Column ''revoked_at'' Timestamptz [Nullable True],
     Column ''created_at'' Timestamptz [ServerDefault ''now()'', Nullable False],
     CheckConstraint ''role IN ('admin','member','viewer')'' ''ck_invitation_role'']"

definition upgrade_invitations_amr :: "migration_op list" where
  "upgrade_invitations_amr =
    [add_column ''auth_session'' (Column ''amr'' (ArrayOf Text) [Nullable False, ServerDefault ''ARRAY['pwd']::text[]'']),
     create_index ''uq_membership_one_user'' ''membership'' [''user_id''] True None,
     create_table ''invitation'' invitation_items,
     create_index ''ix_invitation_tenant_id'' ''invitation'' [''tenant_id''] False None,
     create_index ''ix_invitation_token_hash'' ''invitation'' [''token_hash''] True None,
     create_index ''uq_invitation_pending_tenant_email'' ''invitation'' [''tenant_id'', ''email''] True
       (Some ''accepted_at IS NULL AND revoked_at IS NULL''),
     execute ''GRANT SELECT, INSERT, UPDATE, DELETE ON invitation TO vaultlog_app'']"

definition downgrade_invitations_amr :: "migration_op list" where
  "downgrade_invitations_amr =
    [execute ''REVOKE ALL ON invitation FROM vaultlog_app'',
     drop_index ''uq_invitation_pending_tenant_email'',
     drop_index ''ix_invitation_token_hash'',
     drop_index ''ix_invitation_tenant_id'',
     drop_table ''invitation'',
     drop_index ''uq_membership_one_user'',
     drop_column ''auth_session'' ''amr'']"

section \<open>The script directory\<close>

record migration =
  mg_revision :: string
  mg_down :: down_revision
  mg_upgrade :: "migration_op list"
  mg_downgrade :: "migration_op list"

definition versions :: "migration list" where
  "versions =
     [\<lparr>mg_revision = ''a1b2c3d4e5f6'', mg_down = Base,
        mg_upgrade = upgrade_initial_schema, mg_downgrade = downgrade_initial_schema\<rparr>,
      \<lparr>mg_revision = ''6dc854c15a49'', mg_down = Parent ''a1b2c3d4e5f6'',
        mg_upgrade = upgrade_identity_and_sessions, mg_downgrade = downgrade_identity_and_sessions\<rparr>,
      \<lparr>mg_revision = ''b7e8f9a0b1c2'', mg_down = Parent ''6dc854c15a49'',
        mg_upgrade = upgrade_totp_and_recovery, mg_downgrade = downgrade_totp_and_recovery\<rparr>,
      \<lparr>mg_revision = ''c8d9e0f1a2b3'', mg_down = Parent ''b7e8f9a0b1c2'',
        mg_upgrade = upgrade_vaults_and_grants, mg_downgrade = downgrade_vaults_and_grants\<rparr>,
      \<lparr>mg_revision = ''d9e0f1a2b3c4'', mg_down = Parent ''c8d9e0f1a2b3'',
        mg_upgrade = upgrade_secrets_and_keys, mg_downgrade = downgrade_secrets_and_keys\<rparr>,
      \<lparr>mg_revision = ''e0f1a2b3c4d5'', mg_down = Parent ''d9e0f1a2b3c4'',
        mg_upgrade = upgrade_audit_ledger_tables, mg_downgrade = downgrade_audit_ledger_tables\<rparr>,
      \<lparr>mg_revision = ''f1a2b3c4d5e6'', mg_down = Parent ''e0f1a2b3c4d5'',
        mg_upgrade = upgrade_invitations_amr, mg_downgrade = downgrade_invitations_amr\<rparr>]"

lemma versions_history:
  "repository_history = map_of (map (\<lambda>m. (mg_revision m, \<lparr>rv_revision = mg_revision m, rv_down = mg_down m\<rparr>)) versions)"
  by (simp add: repository_history_def versions_def)

definition version_at :: "nat \<Rightarrow> string option" where
  "version_at k = (if k = 0 then None else Some (mg_revision (versions ! (k - 1))))"

text \<open>The policy scripts: the template rendered for every tenant-owned table.\<close>

definition rls_template :: string where
  "rls_template =
     ''ALTER TABLE {{table}} ENABLE ROW LEVEL SECURITY;
ALTER TABLE {{table}} FORCE ROW LEVEL SECURITY;

DROP POLICY IF EXISTS tenant_isolation ON {{table}};

CREATE POLICY tenant_isolation ON {{table}}
USING '' @ tenant_condition ''{{tenant_column}}'' @ ''
WITH CHECK '' @ tenant_condition ''{{tenant_column}}'' @ '';
''"

definition tenant_tables :: "(string \<times> string) list" where
  "tenant_tables =
     [(''audit_chain_head'', ''tenant_id''), (''audit_event'', ''tenant_id''), (''invitation'', ''tenant_id''),
      (''membership'', ''tenant_id''), (''organization'', ''id''), (''secret'', ''tenant_id''),
      (''secret_version'', ''tenant_id''), (''tenant_key_version'', ''tenant_id''), (''vault'', ''tenant_id''),
      (''vault_grant'', ''tenant_id'')]"

definition policies_dir :: "(string \<times> string) list" where
  "policies_dir = map (\<lambda>(t, c). (t, render_policy rls_template t c)) tenant_tables"

section \<open>The migration environment\<close>

text \<open>One revision is its operations, after which Alembic stamps the version it leads to.\<close>

type_synonym 'a dbop = "(database, ddl_error, 'a) prog"

definition run_step :: "(string \<Rightarrow> string \<Rightarrow> bool) \<Rightarrow> migration_op list \<times> string option \<Rightarrow> unit dbop" where
  "run_step valid step =
     seq (for_each (apply_op valid) (fst step)) (\<lambda>_. modify (\<lambda>d. d\<lparr>da_version := snd step\<rparr>))"

text \<open>The steps of \<open>alembic upgrade\<close> and \<open>alembic downgrade\<close> between two positions of the directory.\<close>

definition upgrade_plan :: "nat \<Rightarrow> nat \<Rightarrow> (migration_op list \<times> string option) list" where
  "upgrade_plan k n = map (\<lambda>i. (mg_upgrade (versions ! i), version_at (Suc i))) [k..<n]"

definition downgrade_plan :: "nat \<Rightarrow> nat \<Rightarrow> (migration_op list \<times> string option) list" where
  "downgrade_plan k n = map (\<lambda>i. (mg_downgrade (versions ! i), version_at i)) (rev [n..<k])"

text \<open>\<open>apply_rls_policies(connection, strict=False)\<close> on the migrated schema.\<close>

definition rls_hook :: "unit dbop" where
  "rls_hook = (\<lambda>d.
     case apply_rls_policies (has_table (da_schema d)) False policies_dir [] of
       (Inl _, _) \<Rightarrow> (Inl (DdlError ''rls'' []), d)
     | (Inr _, statements) \<Rightarrow> on_schema (for_each (\<lambda>sql. run_op (execute sql)) statements) d)"

text \<open>\<open>context.begin_transaction()\<close>: a failed run leaves the database as it was.\<close>

definition transaction :: "'a dbop \<Rightarrow> 'a dbop" where
  "transaction m = (\<lambda>d. case m d of (Inl e, _) \<Rightarrow> (Inl e, d) | (Inr x, d') \<Rightarrow> (Inr x, d'))"

definition do_run_migrations ::
    "(string \<Rightarrow> string \<Rightarrow> bool) \<Rightarrow> (migration_op list \<times> string option) list \<Rightarrow> unit dbop" where
  "do_run_migrations valid plan =
     transaction (
       seq (query da_version) (\<lambda>start_rev.
       seq (for_each (run_step valid) plan) (\<lambda>_.
       seq (query da_version) (\<lambda>end_rev.
       if is_upgrade_revision 8 repository_history start_rev end_rev = Some True then rls_hook else ret ()))))"

text \<open>
  The databases the commands can lead to from an empty one, in any order, whatever rows the tables hold
  in between.
\<close>

definition empty_database :: database where
  "empty_database = \<lparr>da_schema = empty_schema, da_rows = {}, da_version = None\<rparr>"

inductive migrated :: "database \<Rightarrow> bool" where
  start: "migrated empty_database"
| upgraded: "migrated d \<Longrightarrow> da_version d = version_at k \<Longrightarrow> k \<le> n \<Longrightarrow> n \<le> length versions \<Longrightarrow>
    do_run_migrations valid (upgrade_plan k n) d = (r, d') \<Longrightarrow> migrated d'"
| downgraded: "migrated d \<Longrightarrow> da_version d = version_at k \<Longrightarrow> n \<le> k \<Longrightarrow> k \<le> length versions \<Longrightarrow>
    do_run_migrations valid (downgrade_plan k n) d = (r, d') \<Longrightarrow> migrated d'"
| used: "migrated d \<Longrightarrow> rows \<subseteq> set (map td_name (sc_tables (da_schema d))) \<Longrightarrow> migrated (d\<lparr>da_rows := rows\<rparr>)"

end
