(* ===== verification/Policy_Scripts.thy ===== *)
theory Policy_Scripts
  imports Migrations
begin

text \<open>
  What the policy scripts say: the statements a rendered script splits into, and what executing all
  scripts of the directory does to a schema.
\<close>

section \<open>Words\<close>

text \<open>White space, decided on literal characters only.\<close>

lemmas literal_space = is_space_def [of "Char b0 b1 b2 b3 b4 b5 b6 b7" for b0 b1 b2 b3 b4 b5 b6 b7]

lemma replace_skip: "x \<noteq> y \<Longrightarrow> replace_all (y # ys) new (x # xs) = x # replace_all (y # ys) new xs"
  by simp

lemma replace_clean: "y \<notin> set t \<Longrightarrow> replace_all (y # ys) new (t @ rest) = t @ replace_all (y # ys) new rest"
  by (induction t) auto

text \<open>The two placeholders of the template, each where it is replaced and where it is passed over.\<close>

lemma replace_table:
  "replace_all ''{{table}}'' t (CHR ''{'' # CHR ''{'' # CHR ''t'' # CHR ''a'' # CHR ''b'' # CHR ''l'' #
    CHR ''e'' # CHR ''}'' # CHR ''}'' # rest) = t @ replace_all ''{{table}}'' t rest"
  by simp

lemma replace_column:
  "replace_all ''{{tenant_column}}'' c (CHR ''{'' # CHR ''{'' # CHR ''t'' # CHR ''e'' # CHR ''n'' # CHR
    ''a'' # CHR ''n'' # CHR ''t'' # CHR ''_'' # CHR ''c'' # CHR ''o'' # CHR ''l'' # CHR ''u'' # CHR
    ''m'' # CHR ''n'' # CHR ''}'' # CHR ''}'' # rest) = c @ replace_all ''{{tenant_column}}'' c rest"
  by simp

lemma pass_column:
  "replace_all ''{{table}}'' t (CHR ''{'' # CHR ''{'' # CHR ''t'' # CHR ''e'' # CHR ''n'' # CHR ''a'' #
    CHR ''n'' # CHR ''t'' # CHR ''_'' # CHR ''c'' # CHR ''o'' # CHR ''l'' # CHR ''u'' # CHR ''m'' #
    CHR ''n'' # CHR ''}'' # CHR ''}'' # rest) = ''{{tenant_column}}'' @ replace_all ''{{table}}'' t
    rest"
  by simp

lemmas placeholders = replace_skip replace_table replace_column pass_column

text \<open>A name as the script generator admits it, without the trailing newline.\<close>

definition plain_name :: "string \<Rightarrow> bool" where
  "plain_name t \<longleftrightarrow> t \<noteq> [] \<and> list_all name_char t"

lemma name_char_not:
  "name_char c \<Longrightarrow> \<not> is_space c" "name_char c \<Longrightarrow> c \<noteq> CHR '';''" "name_char c \<Longrightarrow> c \<noteq> CHR ''{''"
  "name_char c \<Longrightarrow> c \<noteq> CHR '' ''"
  by (auto simp: name_char_def is_space_def Let_def)

lemma plain_nameD:
  assumes "plain_name t"
  shows "t \<noteq> []" "CHR ''{'' \<notin> set t" "CHR '';'' \<notin> set t" "CHR '' '' \<notin> set t" "\<forall>c \<in> set t. \<not> is_space c"
  using assms by (auto simp: plain_name_def list_all_iff dest: name_char_not)

lemma spaces_plain: "\<forall>c \<in> set t. \<not> is_space c \<Longrightarrow> map (\<lambda>c. if is_space c then CHR '' '' else c) t = t"
  by (induction t) auto

lemma sql_words_append: "is_space x \<Longrightarrow> sql_words (a @ x # b) = sql_words a @ sql_words b"
  by (simp add: sql_words_def split_on_append)

lemma sql_words_name: "plain_name t \<Longrightarrow> sql_words t = [t]"
  using plain_nameD [of t] by (simp add: sql_words_def spaces_plain)

section \<open>A rendered script\<close>

definition enable_statement :: "string \<Rightarrow> string" where
  "enable_statement t = ''ALTER TABLE '' @ t @ '' ENABLE ROW LEVEL SECURITY''"

definition force_statement :: "string \<Rightarrow> string" where
  "force_statement t = ''ALTER TABLE '' @ t @ '' FORCE ROW LEVEL SECURITY''"

definition drop_statement :: "string \<Rightarrow> string" where
  "drop_statement t = ''DROP POLICY IF EXISTS tenant_isolation ON '' @ t"

definition policy_statement :: "string \<Rightarrow> string \<Rightarrow> string" where
  "policy_statement t c =
     ''CREATE POLICY tenant_isolation ON '' @ t @ CHR 0x0A # ''USING '' @ tenant_condition c @
     CHR 0x0A # ''WITH CHECK '' @ tenant_condition c"

lemmas statement_defs = enable_statement_def force_statement_def drop_statement_def policy_statement_def

lemma rendered_text:
  assumes "plain_name t" and "plain_name c"
  shows "render_policy rls_template t c =
    enable_statement t @ CHR '';'' # CHR 0x0A # force_statement t @ CHR '';'' # CHR 0x0A # CHR 0x0A #
    drop_statement t @ CHR '';'' # CHR 0x0A # CHR 0x0A # policy_statement t c @ [CHR '';'', CHR 0x0A]"
  by (simp add: render_policy_def rls_template_def tenant_condition_def statement_defs
      placeholders replace_clean plain_nameD [OF assms(1)] plain_nameD [OF assms(2)] del: replace_all.simps(2))

lemma strip_leading: "is_space x \<Longrightarrow> str_strip (x # s) = str_strip s"
  by (simp add: str_strip_def)

lemma strip_clean:
  assumes "s \<noteq> []" and "\<not> is_space (hd s)" and "\<not> is_space (last s)"
  shows "str_strip s = s"
proof -
  have "dropWhile is_space s = s"
    using assms(1,2) by (cases s) auto
  moreover have "dropWhile is_space (rev s) = rev s"
    using assms(1,3) by (cases s rule: rev_cases) auto
  ultimately show ?thesis by (simp add: str_strip_def)
qed

lemma last_plain: "plain_name t \<Longrightarrow> \<not> is_space (last t)"
  by (metis last_in_set plain_nameD(1,5))

lemma statements_clean:
  assumes "plain_name t" and "plain_name c"
  shows "str_strip (enable_statement t) = enable_statement t" "str_strip (force_statement t) = force_statement t"
    "str_strip (drop_statement t) = drop_statement t" "str_strip (policy_statement t c) = policy_statement t c"
  by (rule strip_clean; simp add: statement_defs tenant_condition_def literal_space last_plain [OF assms(1)]
      plain_nameD [OF assms(1)] plain_nameD [OF assms(2)])+

lemma statements_whole:
  assumes "plain_name t" and "plain_name c"
  shows "CHR '';'' \<notin> set (enable_statement t)" "CHR '';'' \<notin> set (force_statement t)"
    "CHR '';'' \<notin> set (drop_statement t)" "CHR '';'' \<notin> set (policy_statement t c)"
    "enable_statement t \<noteq> []" "force_statement t \<noteq> []" "drop_statement t \<noteq> []" "policy_statement t c \<noteq> []"
  by (simp_all add: statement_defs tenant_condition_def plain_nameD [OF assms(1)] plain_nameD [OF assms(2)])

lemma rendered_statements:
  assumes "plain_name t" and "plain_name c"
  shows "split_sql_statements (render_policy rls_template t c) =
    [enable_statement t, force_statement t, drop_statement t, policy_statement t c]"
proof -
  have newline: "is_space (CHR 0x0A)"
    by (simp add: is_space_def)
  have "str_strip [] = []"
    by (simp add: str_strip_def)
  then show ?thesis
    by (simp add: split_sql_statements_def rendered_text [OF assms] strip_leading newline
        statements_clean [OF assms] statements_whole [OF assms])
qed

section \<open>What the statements mean\<close>

lemma space_chars: "is_space (CHR '' '')" "is_space (CHR 0x0A)"
  by (simp_all add: is_space_def)

lemma phrase_words:
  "sql_words ''ALTER TABLE'' = [''ALTER'', ''TABLE'']"
  "sql_words ''ENABLE ROW LEVEL SECURITY'' = [''ENABLE'', ''ROW'', ''LEVEL'', ''SECURITY'']"
  "sql_words ''FORCE ROW LEVEL SECURITY'' = [''FORCE'', ''ROW'', ''LEVEL'', ''SECURITY'']"
  "sql_words ''DROP POLICY IF EXISTS tenant_isolation ON'' =
     [''DROP'', ''POLICY'', ''IF'', ''EXISTS'', ''tenant_isolation'', ''ON'']"
  "sql_words ''CREATE POLICY tenant_isolation ON'' = [''CREATE'', ''POLICY'', ''tenant_isolation'', ''ON'']"
  "sql_words ''USING'' = [''USING'']" "sql_words ''WITH CHECK'' = [''WITH'', ''CHECK'']"
  by (simp_all add: sql_words_def literal_space)

definition condition_words :: "string \<Rightarrow> string list" where
  "condition_words c = [''('' @ c, ''='', ''NULLIF(current_setting('app.current_tenant','', ''true),'',
     [CHR 0x27, CHR 0x27] @ '')::uuid)'']"

lemma tenant_condition_words:
  assumes "plain_name c"
  shows "sql_words (tenant_condition c) = condition_words c"
  using plain_nameD [OF assms]
  by (simp add: tenant_condition_def sql_words_def condition_words_def literal_space spaces_plain split_on_prefix)

lemma condition_joined: "join_words (condition_words c) = tenant_condition c" "''WITH'' \<notin> set (condition_words c)"
  by (simp_all add: condition_words_def tenant_condition_def)

lemma statement_words:
  assumes "plain_name t" and "plain_name c"
  shows "sql_words (enable_statement t) = [''ALTER'', ''TABLE'', t, ''ENABLE'', ''ROW'', ''LEVEL'', ''SECURITY'']"
    and "sql_words (force_statement t) = [''ALTER'', ''TABLE'', t, ''FORCE'', ''ROW'', ''LEVEL'', ''SECURITY'']"
    and "sql_words (drop_statement t) = [''DROP'', ''POLICY'', ''IF'', ''EXISTS'', ''tenant_isolation'', ''ON'', t]"
    and "sql_words (policy_statement t c) =
      [''CREATE'', ''POLICY'', ''tenant_isolation'', ''ON'', t, ''USING''] @ condition_words c @ [''WITH'', ''CHECK''] @
      condition_words c"
proof -
  have whole: "enable_statement t = ''ALTER TABLE'' @ CHR '' '' # t @ CHR '' '' # ''ENABLE ROW LEVEL SECURITY''"
    "force_statement t = ''ALTER TABLE'' @ CHR '' '' # t @ CHR '' '' # ''FORCE ROW LEVEL SECURITY''"
    "drop_statement t = ''DROP POLICY IF EXISTS tenant_isolation ON'' @ CHR '' '' # t"
    "policy_statement t c = ''CREATE POLICY tenant_isolation ON'' @ CHR '' '' # t @ CHR 0x0A # ''USING'' @ CHR '' '' #
       tenant_condition c @ CHR 0x0A # ''WITH CHECK'' @ CHR '' '' # tenant_condition c"
    by (simp_all add: statement_defs)
  note words = sql_words_append space_chars phrase_words sql_words_name [OF assms(1)] tenant_condition_words [OF assms(2)]
  show "sql_words (enable_statement t) = [''ALTER'', ''TABLE'', t, ''ENABLE'', ''ROW'', ''LEVEL'', ''SECURITY'']"
    unfolding whole by (simp only: words) simp
  show "sql_words (force_statement t) = [''ALTER'', ''TABLE'', t, ''FORCE'', ''ROW'', ''LEVEL'', ''SECURITY'']"
    unfolding whole by (simp only: words) simp
  show "sql_words (drop_statement t) = [''DROP'', ''POLICY'', ''IF'', ''EXISTS'', ''tenant_isolation'', ''ON'', t]"
    unfolding whole by (simp only: words) simp
  show "sql_words (policy_statement t c) =
      [''CREATE'', ''POLICY'', ''tenant_isolation'', ''ON'', t, ''USING''] @ condition_words c @ [''WITH'', ''CHECK''] @
      condition_words c"
    unfolding whole by (simp only: words) simp
qed

lemma until:
  "x \<notin> set xs \<Longrightarrow> takeWhile (\<lambda>w. w \<noteq> x) (xs @ x # ys) = xs"
  "x \<notin> set xs \<Longrightarrow> dropWhile (\<lambda>w. w \<noteq> x) (xs @ x # ys) = x # ys"
  by (induction xs) auto

lemma statements_parsed:
  assumes "plain_name t" and "plain_name c"
  shows "parse_sql (enable_statement t) = Some (EnableRls t)"
    and "parse_sql (force_statement t) = Some (ForceRls t)"
    and "parse_sql (drop_statement t) = Some (DropPolicyIfExists ''tenant_isolation'' t)"
    and "parse_sql (policy_statement t c) =
      Some (CreatePolicy ''tenant_isolation'' t (tenant_condition c) (tenant_condition c))"
  by (simp_all add: parse_sql_def statement_words [OF assms] parse_policy_def until condition_joined)

section \<open>What the hook does\<close>

definition tenant_policy :: "string \<Rightarrow> policy_def" where
  "tenant_policy c =
     \<lparr>po_name = ''tenant_isolation'', po_using = tenant_condition c, po_check = tenant_condition c\<rparr>"

definition secure :: "string \<Rightarrow> table_def \<Rightarrow> table_def" where
  "secure c td = td\<lparr>td_rls := True, td_forced := True,
     td_policies := filter (\<lambda>p. po_name p \<noteq> ''tenant_isolation'') (td_policies td) @ [tenant_policy c]\<rparr>"

definition secure_table :: "table_def \<Rightarrow> table_def" where
  "secure_table td = (case map_of tenant_tables (td_name td) of None \<Rightarrow> td | Some c \<Rightarrow> secure c td)"

lemma td_name_secure [simp]: "td_name (secure c td) = td_name td"
  by (simp add: secure_def)

definition at_table :: "string \<Rightarrow> (table_def \<Rightarrow> table_def) \<Rightarrow> table_def \<Rightarrow> table_def" where
  "at_table t f td = (if td_name td = t then f td else td)"

lemma at_table_here: "td_name td = t \<Longrightarrow> at_table t f td = f td"
  and at_table_else: "td_name td \<noteq> t \<Longrightarrow> at_table t f td = td"
  by (simp_all add: at_table_def)

definition mapped :: "(table_def \<Rightarrow> table_def) \<Rightarrow> schema_def \<Rightarrow> schema_def" where
  "mapped f sc = sc\<lparr>sc_tables := map f (sc_tables sc)\<rparr>"

text \<open>Changes that keep the name of a table.\<close>

definition naming :: "(table_def \<Rightarrow> table_def) \<Rightarrow> bool" where
  "naming f \<longleftrightarrow> (\<forall>td. td_name (f td) = td_name td)"

lemma naming_intros [simp]:
  "naming f \<Longrightarrow> naming (at_table t f)" "naming (secure c)" "naming (td_rls_update g)" "naming (td_forced_update g)"
  "naming (\<lambda>td. td\<lparr>td_policies := q td\<rparr>)"
  by (simp_all add: naming_def at_table_def secure_def)

lemma has_table_mapped [simp]: "naming f \<Longrightarrow> has_table (mapped f sc) t = has_table sc t"
  by (simp add: has_table_def mapped_def naming_def image_iff)

lemma mapped_mapped: "mapped f (mapped g sc) = mapped (f \<circ> g) sc"
  by (simp add: mapped_def)

lemma on_table_run: "has_table sc t \<Longrightarrow> on_table t f sc = (Inr (), mapped (at_table t f) sc)"
  by (simp add: on_table_def set_tables_def prog_simps mapped_def at_table_def cong: map_cong)

lemma seq_result: "m w = (Inr x, w') \<Longrightarrow> seq m f w = f x w'"
  by (simp add: seq_def)

lemma seq_on_table: "has_table sc t \<Longrightarrow> seq (on_table t f) g sc = g () (mapped (at_table t f) sc)"
  by (rule seq_result) (rule on_table_run)

lemma for_each_append: "for_each f (xs @ ys) = seq (for_each f xs) (\<lambda>_. for_each f ys)"
  by (induction xs) (simp_all add: seq_assoc)

lemma script_run:
  assumes "plain_name t" and "plain_name c" and "has_table sc t"
  shows "for_each (\<lambda>sql. run_op (execute sql)) (split_sql_statements (render_policy rls_template t c)) sc =
    (Inr (), mapped (at_table t (secure c)) sc)"
proof -
  let ?drop = "\<lambda>td. td\<lparr>td_policies := filter (\<lambda>p. po_name p \<noteq> ''tenant_isolation'') (td_policies td)\<rparr>"
  have drop: "set_tables (map (\<lambda>td. if td_name td = t then ?drop td else td)) sc' = (Inr (), mapped (at_table t ?drop) sc')" for sc'
    by (simp add: set_tables_def mapped_def at_table_def cong: map_cong)
  have none: "\<not> list_ex (\<lambda>td. td_name td = t \<and> ''tenant_isolation'' \<in> po_name ` set (td_policies td))
      (sc_tables (mapped (at_table t ?drop) sc'))" for sc'
    by (auto simp: mapped_def at_table_def list_ex_iff ball_Un)
  have script: "for_each (\<lambda>sql. run_op (execute sql)) (split_sql_statements (render_policy rls_template t c)) =
    seq (on_table t (td_rls_update (\<lambda>_. True))) (\<lambda>_. seq (on_table t (td_forced_update (\<lambda>_. True))) (\<lambda>_.
    seq (set_tables (map (\<lambda>td. if td_name td = t then ?drop td else td))) (\<lambda>_.
    seq (create_policy ''tenant_isolation'' t (tenant_condition c) (tenant_condition c)) ret)))"
    by (simp add: rendered_statements [OF assms(1,2)] statements_parsed [OF assms(1,2)])
  have "at_table t (\<lambda>td. td\<lparr>td_policies := td_policies td @ [tenant_policy c]\<rparr>) \<circ> (at_table t ?drop \<circ>
       (at_table t (td_forced_update (\<lambda>_. True)) \<circ> at_table t (td_rls_update (\<lambda>_. True)))) = at_table t (secure c)"
    by (auto simp: fun_eq_iff at_table_def secure_def)
  then have steps: "mapped (at_table t (\<lambda>td. td\<lparr>td_policies := td_policies td @ [tenant_policy c]\<rparr>))
      (mapped (at_table t ?drop) (mapped (at_table t (td_forced_update (\<lambda>_. True)))
        (mapped (at_table t (td_rls_update (\<lambda>_. True))) sc))) = mapped (at_table t (secure c)) sc"
    by (simp only: mapped_mapped)
  have "for_each (\<lambda>sql. run_op (execute sql)) (split_sql_statements (render_policy rls_template t c)) sc =
    (Inr (), mapped (at_table t (\<lambda>td. td\<lparr>td_policies := td_policies td @ [tenant_policy c]\<rparr>))
      (mapped (at_table t ?drop) (mapped (at_table t (td_forced_update (\<lambda>_. True)))
        (mapped (at_table t (td_rls_update (\<lambda>_. True))) sc))))"
    unfolding script using assms(3)
    by (simp add: seq_on_table seq_result [OF drop] create_policy_def none tenant_policy_def on_table_run prog_simps)
  then show ?thesis
    unfolding steps .
qed

lemma scripts_run:
  assumes "list_all (\<lambda>(t, c). plain_name t \<and> plain_name c \<and> has_table sc t) ts"
  shows "for_each (\<lambda>sql. run_op (execute sql))
      (concat (map (\<lambda>(t, c). split_sql_statements (render_policy rls_template t c)) ts)) sc =
    (Inr (), mapped (fold (\<lambda>(t, c). at_table t (secure c)) ts) sc)"
  using assms
proof (induction ts arbitrary: sc)
  case Nil
  then show ?case by (simp add: mapped_def)
next
  case (Cons tc ts)
  obtain t c where tc: "tc = (t, c)" by (cases tc)
  then have "for_each (\<lambda>sql. run_op (execute sql)) (split_sql_statements (render_policy rls_template t c)) sc =
      (Inr (), mapped (at_table t (secure c)) sc)"
    using Cons.prems by (intro script_run) simp_all
  moreover have "list_all (\<lambda>(t', c'). plain_name t' \<and> plain_name c' \<and> has_table (mapped (at_table t (secure c)) sc) t') ts"
    using Cons.prems tc by (simp add: list.pred_mono_strong)
  ultimately show ?case
    using Cons.IH tc by (simp add: for_each_append seq_result mapped_mapped o_def)
qed

lemma fold_elsewhere:
  "td_name td \<notin> fst ` set ts \<Longrightarrow> fold (\<lambda>(t, c). at_table t (secure c)) ts td = td"
  by (induction ts) (auto simp: at_table_def)

lemma fold_at_table:
  assumes "distinct (map fst ts)"
  shows "fold (\<lambda>(t, c). at_table t (secure c)) ts td =
    (case map_of ts (td_name td) of None \<Rightarrow> td | Some c \<Rightarrow> secure c td)"
  using assms
proof (induction ts)
  case (Cons tc ts)
  obtain t c where tc: "tc = (t, c)" by (cases tc)
  show ?case
  proof (cases "td_name td = t")
    case True
    then have "td_name (secure c td) \<notin> fst ` set ts"
      using Cons.prems tc by simp
    from fold_elsewhere [OF this] show ?thesis
      using True tc by (simp add: at_table_here)
  next
    case False
    then show ?thesis
      using Cons tc by (simp add: at_table_else)
  qed
qed simp

lemma tenant_tables_plain: "list_all (\<lambda>(t, c). plain_name t \<and> plain_name c) tenant_tables"
  by (simp add: tenant_tables_def plain_name_def name_char_def)

lemma tenant_tables_distinct: "distinct (map fst tenant_tables)"
  by (simp add: tenant_tables_def)

lemma tenant_files_sorted:
  "policy_files (map (\<lambda>(t, c). (t, f t c)) tenant_tables) = map (\<lambda>(t, c). (t, f t c)) tenant_tables"
proof -
  have "filter (\<lambda>f. take 1 (fst f) \<noteq> ''_'') (map (\<lambda>(t, c). (t, f t c)) tenant_tables) =
      map (\<lambda>(t, c). (t, f t c)) tenant_tables"
    by (simp add: tenant_tables_def)
  moreover have "sorted (map (\<lambda>f. fst f @ ''.sql'') (map (\<lambda>(t, c). (t, f t c)) tenant_tables))"
    by (simp add: tenant_tables_def)
  ultimately show ?thesis
    by (simp add: policy_files_def sort_key_id_if_sorted)
qed

lemma policies_dir_sorted: "policy_files policies_dir = policies_dir"
  unfolding policies_dir_def by (rule tenant_files_sorted)

lemma map_of_filter_fst: "P t \<Longrightarrow> map_of (filter (\<lambda>x. P (fst x)) xs) t = map_of xs t"
  by (induction xs) auto

text \<open>The hook never fails: it secures every tenant-owned table there is and changes nothing else.\<close>

theorem hook_secures: "rls_hook d = (Inr (), d\<lparr>da_schema := mapped secure_table (da_schema d)\<rparr>)"
proof -
  let ?sc = "da_schema d"
  let ?ts = "filter (\<lambda>tc. has_table ?sc (fst tc)) tenant_tables"
  have "apply_rls_policies (has_table ?sc) False policies_dir [] =
      (Inr (), concat (map (split_sql_statements \<circ> snd) (filter (\<lambda>f. has_table ?sc (fst f)) policies_dir)))"
    using apply_policies_run [of False "has_table ?sc" policies_dir "[]"]
    by (simp add: apply_rls_policies_def policies_dir_sorted)
  also have "concat (map (split_sql_statements \<circ> snd) (filter (\<lambda>f. has_table ?sc (fst f)) policies_dir)) =
      concat (map (\<lambda>(t, c). split_sql_statements (render_policy rls_template t c)) ?ts)"
    by (simp add: policies_dir_def filter_map o_def case_prod_unfold)
  finally have statements: "apply_rls_policies (has_table ?sc) False policies_dir [] =
      (Inr (), concat (map (\<lambda>(t, c). split_sql_statements (render_policy rls_template t c)) ?ts))" .
  have "list_all (\<lambda>(t, c). plain_name t \<and> plain_name c \<and> has_table ?sc t) ?ts"
    using tenant_tables_plain by (auto simp: list_all_iff)
  note run = scripts_run [OF this]
  have "mapped (fold (\<lambda>(t, c). at_table t (secure c)) ?ts) ?sc = mapped secure_table ?sc"
  proof -
    have "fold (\<lambda>(t, c). at_table t (secure c)) ?ts td = secure_table td" if "td \<in> set (sc_tables ?sc)" for td
    proof -
      have "has_table ?sc (td_name td)"
        using that by (simp add: has_table_def)
      then show ?thesis
        using tenant_tables_distinct
        by (simp add: fold_at_table distinct_map_filter map_of_filter_fst secure_table_def)
    qed
    then show ?thesis by (simp add: mapped_def cong: map_cong)
  qed
  with run statements show ?thesis
    by (simp add: rls_hook_def on_schema_def del: run_op.simps)
qed

end
