(* ===== verification/Migration_Steps.thy ===== *)
theory Migration_Steps
  imports Policy_Scripts
begin

text \<open>
  What the migrations do: the schema at every revision, upgrades and downgrades between any two, and what
  holds of every database they can lead to.
\<close>

section \<open>The tables at each revision\<close>

definition app :: string where
  "app = ''vaultlog_app''"

definition dml :: "string list" where
  "dml = [''SELECT'', ''INSERT'', ''UPDATE'', ''DELETE'']"

definition indexed :: "string \<Rightarrow> string list \<Rightarrow> table_def \<Rightarrow> table_def" where
  "indexed n cs = with_index \<lparr>ix_name = n, ix_columns = cs, ix_unique = False, ix_where = None\<rparr>"

definition unique_index :: "string \<Rightarrow> string list \<Rightarrow> string option \<Rightarrow> table_def \<Rightarrow> table_def" where
  "unique_index n cs p = with_index \<lparr>ix_name = n, ix_columns = cs, ix_unique = True, ix_where = p\<rparr>"

definition organization_table :: table_def where
  "organization_table =
     add_privileges app dml (table_of_items ''organization'' organization_items)"

definition vault_first :: table_def where
  "vault_first =
     add_privileges app dml (indexed ''ix_vault_tenant_id'' [''tenant_id'']
       (table_of_items ''vault'' vault_items))"

definition app_user_table :: table_def where
  "app_user_table =
     add_privileges app dml (table_of_items ''app_user'' app_user_items)"

definition membership_first :: table_def where
  "membership_first =
     add_privileges app dml (indexed ''ix_membership_user_id'' [''user_id'']
       (indexed ''ix_membership_tenant_id'' [''tenant_id'']
       (table_of_items ''membership'' membership_items)))"

definition auth_session_first :: table_def where
  "auth_session_first =
     add_privileges app dml (indexed ''ix_auth_session_user_id'' [''user_id'']
       (table_of_items ''auth_session'' auth_session_items))"

definition refresh_token_table :: table_def where
  "refresh_token_table =
     add_privileges app dml (indexed ''ix_refresh_token_session_id'' [''session_id'']
       (table_of_items ''refresh_token'' refresh_token_items))"

definition totp_secret_table :: table_def where
  "totp_secret_table =
     add_privileges app dml (indexed ''ix_totp_secret_user_id'' [''user_id'']
       (table_of_items ''totp_secret'' totp_secret_items))"

definition recovery_code_table :: table_def where
  "recovery_code_table =
     add_privileges app dml (indexed ''ix_recovery_code_user_id'' [''user_id'']
       (table_of_items ''recovery_code'' recovery_code_items))"

definition vault_grant_table :: table_def where
  "vault_grant_table =
     add_privileges app dml (indexed ''ix_vault_grant_membership_id'' [''membership_id'']
       (indexed ''ix_vault_grant_vault_id'' [''vault_id'']
       (indexed ''ix_vault_grant_tenant_id'' [''tenant_id'']
       (table_of_items ''vault_grant'' vault_grant_items))))"

definition tenant_key_version_table :: table_def where
  "tenant_key_version_table =
     add_privileges app dml (unique_index ''uq_tenant_key_one_active'' [''tenant_id''] (Some (''status = 'active'' @ [CHR 0x27]))
       (indexed ''ix_tenant_key_version_tenant_id'' [''tenant_id'']
       (table_of_items ''tenant_key_version'' tenant_key_version_items)))"

definition secret_table :: table_def where
  "secret_table =
     add_privileges app dml (indexed ''ix_secret_vault_id'' [''vault_id'']
       (indexed ''ix_secret_tenant_id'' [''tenant_id'']
       (table_of_items ''secret'' secret_items)))"

definition secret_version_table :: table_def where
  "secret_version_table =
     add_privileges app [''SELECT'', ''INSERT''] (indexed ''ix_secret_version_secret_id'' [''secret_id'']
       (indexed ''ix_secret_version_tenant_id'' [''tenant_id'']
       (table_of_items ''secret_version'' secret_version_items)))"

definition audit_event_table :: table_def where
  "audit_event_table =
     add_privileges app [''SELECT'', ''INSERT''] (indexed ''ix_audit_tenant_action_time'' [''tenant_id'', ''action'', ''occurred_at'']
       (indexed ''ix_audit_event_tenant_id'' [''tenant_id'']
       (table_of_items ''audit_event'' audit_event_items)))"

definition audit_chain_head_table :: table_def where
  "audit_chain_head_table =
     add_privileges app [''SELECT'', ''INSERT'', ''UPDATE''] (table_of_items ''audit_chain_head'' audit_chain_head_items)"

definition invitation_table :: table_def where
  "invitation_table =
     add_privileges app dml (unique_index ''uq_invitation_pending_tenant_email'' [''tenant_id'', ''email''] (Some ''accepted_at IS NULL AND revoked_at IS NULL'')
       (unique_index ''ix_invitation_token_hash'' [''token_hash''] None
       (indexed ''ix_invitation_tenant_id'' [''tenant_id'']
       (table_of_items ''invitation'' invitation_items))))"

definition vault_table :: table_def where
  "vault_table = fold add_item
     [Column ''description'' (Varchar (Some 1000)) [Nullable True], Column ''created_by_user_id'' Uuid [Nullable False],
      Column ''updated_at'' Timestamptz [ServerDefault ''now()'', Nullable False],
      Column ''deleted_at'' Timestamptz [Nullable True],
      CheckConstraint ''length(name) >= 1'' ''ck_vault_name_nonempty'',
      UniqueConstraint [''tenant_id'', ''name''] ''uq_vault_tenant_name''] vault_first"

definition auth_session_table :: table_def where
  "auth_session_table =
     add_item (Column ''amr'' (ArrayOf Text) [Nullable False, ServerDefault ''ARRAY['pwd']::text[]'']) auth_session_first"

definition membership_table :: table_def where
  "membership_table = unique_index ''uq_membership_one_user'' [''user_id''] None membership_first"

section \<open>Schemas with some tables secured\<close>

definition sec :: "(string \<Rightarrow> bool) \<Rightarrow> table_def \<Rightarrow> table_def" where
  "sec b td = (if b (td_name td) then secure_table td else td)"

definition schema_of :: "string list \<Rightarrow> (string \<Rightarrow> bool) \<Rightarrow> table_def list \<Rightarrow> schema_def" where
  "schema_of u b tds = \<lparr>sc_tables = map (sec b) tds, sc_usage = u\<rparr>"

definition tables_at :: "nat \<Rightarrow> table_def list" where
  "tables_at k = (let
     t1 = [organization_table, vault_first];
     t2 = t1 @ [app_user_table, membership_first, auth_session_first, refresh_token_table];
     t3 = t2 @ [totp_secret_table, recovery_code_table];
     t4 = t3[1 := vault_table] @ [vault_grant_table];
     t5 = t4 @ [tenant_key_version_table, secret_table, secret_version_table];
     t6 = t5 @ [audit_event_table, audit_chain_head_table];
     t7 = t6[3 := membership_table, 4 := auth_session_table] @ [invitation_table]
     in [[], t1, t2, t3, t4, t5, t6, t7] ! k)"

section \<open>Facts\<close>

lemma secure_table_fields [simp]:
  "td_name (secure_table td) = td_name td" "td_columns (secure_table td) = td_columns td"
  "td_primary_key (secure_table td) = td_primary_key td" "td_foreign_keys (secure_table td) = td_foreign_keys td"
  "td_uniques (secure_table td) = td_uniques td" "td_checks (secure_table td) = td_checks td"
  "td_indexes (secure_table td) = td_indexes td" "td_privileges (secure_table td) = td_privileges td"
  by (simp_all add: secure_table_def secure_def split: option.split)

lemma sec_fields [simp]:
  "td_name (sec b td) = td_name td" "td_columns (sec b td) = td_columns td"
  "td_primary_key (sec b td) = td_primary_key td" "td_foreign_keys (sec b td) = td_foreign_keys td"
  "td_uniques (sec b td) = td_uniques td" "td_checks (sec b td) = td_checks td"
  "td_indexes (sec b td) = td_indexes td" "td_privileges (sec b td) = td_privileges td"
  by (simp_all add: sec_def)

lemma table_names [simp]:
  "td_name (table_of_items t items) = t" "td_name (with_index i td) = td_name td"
  "td_name (add_privileges r ps td) = td_name td" "td_name (indexed n cs td) = td_name td"
  "td_name (unique_index n cs p td) = td_name td" "td_name (without_index n td) = td_name td"
  "td_name (without_constraint n td) = td_name td" "td_name (without_column c td) = td_name td"
  "td_name (add_item item td) = td_name td"
proof -
  have item: "td_name (add_item item td) = td_name td" for item td
  proof (cases item)
    case (Column c ty os)
    have "td_name (column_keys c os td) = td_name td" for td
      by (induction c os td rule: column_keys.induct) (simp_all add: with_foreign_key_def)
    with Column show ?thesis
      by (simp add: column_index_def with_index_def with_unique_def)
  qed (simp_all add: with_foreign_key_def with_unique_def with_index_def)
  then show "td_name (add_item item td) = td_name td" .
  have "td_name (fold add_item items td) = td_name td" for td
    by (induction items arbitrary: td) (simp_all add: item)
  then show "td_name (table_of_items t items) = t"
    by (simp add: table_of_items_def empty_table_def)
qed (simp_all add: with_index_def add_privileges_def indexed_def unique_index_def without_index_def
    without_constraint_def without_column_def)

lemma table_def_names:
  "td_name organization_table = ''organization''"
  "td_name vault_first = ''vault''"
  "td_name app_user_table = ''app_user''"
  "td_name membership_first = ''membership''"
  "td_name auth_session_first = ''auth_session''"
  "td_name refresh_token_table = ''refresh_token''"
  "td_name totp_secret_table = ''totp_secret''"
  "td_name recovery_code_table = ''recovery_code''"
  "td_name vault_grant_table = ''vault_grant''"
  "td_name tenant_key_version_table = ''tenant_key_version''"
  "td_name secret_table = ''secret''"
  "td_name secret_version_table = ''secret_version''"
  "td_name audit_event_table = ''audit_event''"
  "td_name audit_chain_head_table = ''audit_chain_head''"
  "td_name invitation_table = ''invitation''"
  "td_name vault_table = ''vault''"
  "td_name auth_session_table = ''auth_session''"
  "td_name membership_table = ''membership''"
  by code_simp+

lemma base_relations:
  "relation_names (table_of_items ''organization'' organization_items) = [''organization'']"
  "relation_names (table_of_items ''vault'' vault_items) = [''vault'']"
  "relation_names (table_of_items ''app_user'' app_user_items) = [''app_user'', ''uq_app_user_email'']"
  "relation_names (table_of_items ''membership'' membership_items) = [''membership'', ''uq_membership_tenant_user'']"
  "relation_names (table_of_items ''auth_session'' auth_session_items) = [''auth_session'']"
  "relation_names (table_of_items ''refresh_token'' refresh_token_items) = [''refresh_token'', ''uq_refresh_token_hash'']"
  "relation_names (table_of_items ''totp_secret'' totp_secret_items) = [''totp_secret'', ''uq_totp_secret_user_id'']"
  "relation_names (table_of_items ''recovery_code'' recovery_code_items) = [''recovery_code'', ''uq_recovery_code_code_hash'']"
  "relation_names (table_of_items ''vault_grant'' vault_grant_items) = [''vault_grant'', ''uq_vault_grant_vault_membership'']"
  "relation_names (table_of_items ''tenant_key_version'' tenant_key_version_items) = [''tenant_key_version'', ''uq_tenant_key_version'']"
  "relation_names (table_of_items ''secret'' secret_items) = [''secret'', ''uq_secret_vault_name'']"
  "relation_names (table_of_items ''secret_version'' secret_version_items) = [''secret_version'', ''uq_secret_version'']"
  "relation_names (table_of_items ''audit_event'' audit_event_items) = [''audit_event'', ''uq_audit_tenant_sequence'', ''uq_audit_tenant_entry_hash'']"
  "relation_names (table_of_items ''audit_chain_head'' audit_chain_head_items) = [''audit_chain_head'']"
  "relation_names (table_of_items ''invitation'' invitation_items) = [''invitation'']"
  by code_simp+

lemma table_relations:
  "relation_names organization_table = [''organization'']"
  "relation_names vault_first = [''vault'', ''ix_vault_tenant_id'']"
  "relation_names app_user_table = [''app_user'', ''uq_app_user_email'']"
  "relation_names membership_first = [''membership'', ''ix_membership_tenant_id'', ''ix_membership_user_id'', ''uq_membership_tenant_user'']"
  "relation_names auth_session_first = [''auth_session'', ''ix_auth_session_user_id'']"
  "relation_names refresh_token_table = [''refresh_token'', ''ix_refresh_token_session_id'', ''uq_refresh_token_hash'']"
  "relation_names totp_secret_table = [''totp_secret'', ''ix_totp_secret_user_id'', ''uq_totp_secret_user_id'']"
  "relation_names recovery_code_table = [''recovery_code'', ''ix_recovery_code_user_id'', ''uq_recovery_code_code_hash'']"
  "relation_names vault_grant_table = [''vault_grant'', ''ix_vault_grant_tenant_id'', ''ix_vault_grant_vault_id'', ''ix_vault_grant_membership_id'', ''uq_vault_grant_vault_membership'']"
  "relation_names tenant_key_version_table = [''tenant_key_version'', ''ix_tenant_key_version_tenant_id'', ''uq_tenant_key_one_active'', ''uq_tenant_key_version'']"
  "relation_names secret_table = [''secret'', ''ix_secret_tenant_id'', ''ix_secret_vault_id'', ''uq_secret_vault_name'']"
  "relation_names secret_version_table = [''secret_version'', ''ix_secret_version_tenant_id'', ''ix_secret_version_secret_id'', ''uq_secret_version'']"
  "relation_names audit_event_table = [''audit_event'', ''ix_audit_event_tenant_id'', ''ix_audit_tenant_action_time'', ''uq_audit_tenant_sequence'', ''uq_audit_tenant_entry_hash'']"
  "relation_names audit_chain_head_table = [''audit_chain_head'']"
  "relation_names invitation_table = [''invitation'', ''ix_invitation_tenant_id'', ''ix_invitation_token_hash'', ''uq_invitation_pending_tenant_email'']"
  "relation_names vault_table = [''vault'', ''ix_vault_tenant_id'', ''uq_vault_tenant_name'']"
  "relation_names auth_session_table = [''auth_session'', ''ix_auth_session_user_id'']"
  "relation_names membership_table = [''membership'', ''ix_membership_tenant_id'', ''ix_membership_user_id'', ''uq_membership_one_user'', ''uq_membership_tenant_user'']"
  by code_simp+

lemma base_targets:
  "map fk_table (td_foreign_keys (table_of_items ''organization'' organization_items)) = []"
  "map fk_table (td_foreign_keys (table_of_items ''vault'' vault_items)) = [''organization'']"
  "map fk_table (td_foreign_keys (table_of_items ''app_user'' app_user_items)) = []"
  "map fk_table (td_foreign_keys (table_of_items ''membership'' membership_items)) = [''organization'', ''app_user'']"
  "map fk_table (td_foreign_keys (table_of_items ''auth_session'' auth_session_items)) = [''app_user'']"
  "map fk_table (td_foreign_keys (table_of_items ''refresh_token'' refresh_token_items)) = [''auth_session'', ''refresh_token'']"
  "map fk_table (td_foreign_keys (table_of_items ''totp_secret'' totp_secret_items)) = [''app_user'']"
  "map fk_table (td_foreign_keys (table_of_items ''recovery_code'' recovery_code_items)) = [''app_user'']"
  "map fk_table (td_foreign_keys (table_of_items ''vault_grant'' vault_grant_items)) = [''organization'', ''vault'', ''membership'']"
  "map fk_table (td_foreign_keys (table_of_items ''tenant_key_version'' tenant_key_version_items)) = [''organization'']"
  "map fk_table (td_foreign_keys (table_of_items ''secret'' secret_items)) = [''organization'', ''vault'']"
  "map fk_table (td_foreign_keys (table_of_items ''secret_version'' secret_version_items)) = [''organization'', ''secret'']"
  "map fk_table (td_foreign_keys (table_of_items ''audit_event'' audit_event_items)) = [''organization'']"
  "map fk_table (td_foreign_keys (table_of_items ''audit_chain_head'' audit_chain_head_items)) = [''organization'']"
  "map fk_table (td_foreign_keys (table_of_items ''invitation'' invitation_items)) = [''organization'']"
  by code_simp+

lemma table_targets:
  "map fk_table (td_foreign_keys organization_table) = []"
  "map fk_table (td_foreign_keys vault_first) = [''organization'']"
  "map fk_table (td_foreign_keys app_user_table) = []"
  "map fk_table (td_foreign_keys membership_first) = [''organization'', ''app_user'']"
  "map fk_table (td_foreign_keys auth_session_first) = [''app_user'']"
  "map fk_table (td_foreign_keys refresh_token_table) = [''auth_session'', ''refresh_token'']"
  "map fk_table (td_foreign_keys totp_secret_table) = [''app_user'']"
  "map fk_table (td_foreign_keys recovery_code_table) = [''app_user'']"
  "map fk_table (td_foreign_keys vault_grant_table) = [''organization'', ''vault'', ''membership'']"
  "map fk_table (td_foreign_keys tenant_key_version_table) = [''organization'']"
  "map fk_table (td_foreign_keys secret_table) = [''organization'', ''vault'']"
  "map fk_table (td_foreign_keys secret_version_table) = [''organization'', ''secret'']"
  "map fk_table (td_foreign_keys audit_event_table) = [''organization'']"
  "map fk_table (td_foreign_keys audit_chain_head_table) = [''organization'']"
  "map fk_table (td_foreign_keys invitation_table) = [''organization'']"
  "map fk_table (td_foreign_keys vault_table) = [''organization'']"
  "map fk_table (td_foreign_keys auth_session_table) = [''app_user'']"
  "map fk_table (td_foreign_keys membership_table) = [''organization'', ''app_user'']"
  by code_simp+

lemma table_indexes:
  "map ix_name (td_indexes organization_table) = []"
  "map ix_name (td_indexes vault_first) = [''ix_vault_tenant_id'']"
  "map ix_name (td_indexes app_user_table) = []"
  "map ix_name (td_indexes membership_first) = [''ix_membership_tenant_id'', ''ix_membership_user_id'']"
  "map ix_name (td_indexes auth_session_first) = [''ix_auth_session_user_id'']"
  "map ix_name (td_indexes refresh_token_table) = [''ix_refresh_token_session_id'']"
  "map ix_name (td_indexes totp_secret_table) = [''ix_totp_secret_user_id'']"
  "map ix_name (td_indexes recovery_code_table) = [''ix_recovery_code_user_id'']"
  "map ix_name (td_indexes vault_grant_table) = [''ix_vault_grant_tenant_id'', ''ix_vault_grant_vault_id'', ''ix_vault_grant_membership_id'']"
  "map ix_name (td_indexes tenant_key_version_table) = [''ix_tenant_key_version_tenant_id'', ''uq_tenant_key_one_active'']"
  "map ix_name (td_indexes secret_table) = [''ix_secret_tenant_id'', ''ix_secret_vault_id'']"
  "map ix_name (td_indexes secret_version_table) = [''ix_secret_version_tenant_id'', ''ix_secret_version_secret_id'']"
  "map ix_name (td_indexes audit_event_table) = [''ix_audit_event_tenant_id'', ''ix_audit_tenant_action_time'']"
  "map ix_name (td_indexes audit_chain_head_table) = []"
  "map ix_name (td_indexes invitation_table) = [''ix_invitation_tenant_id'', ''ix_invitation_token_hash'', ''uq_invitation_pending_tenant_email'']"
  "map ix_name (td_indexes vault_table) = [''ix_vault_tenant_id'']"
  "map ix_name (td_indexes auth_session_table) = [''ix_auth_session_user_id'']"
  "map ix_name (td_indexes membership_table) = [''ix_membership_tenant_id'', ''ix_membership_user_id'', ''uq_membership_one_user'']"
  by code_simp+

lemma table_index_sets:
  "ix_name ` set (td_indexes organization_table) = {}"
  "ix_name ` set (td_indexes vault_first) = {''ix_vault_tenant_id''}"
  "ix_name ` set (td_indexes app_user_table) = {}"
  "ix_name ` set (td_indexes membership_first) = {''ix_membership_tenant_id'', ''ix_membership_user_id''}"
  "ix_name ` set (td_indexes auth_session_first) = {''ix_auth_session_user_id''}"
  "ix_name ` set (td_indexes refresh_token_table) = {''ix_refresh_token_session_id''}"
  "ix_name ` set (td_indexes totp_secret_table) = {''ix_totp_secret_user_id''}"
  "ix_name ` set (td_indexes recovery_code_table) = {''ix_recovery_code_user_id''}"
  "ix_name ` set (td_indexes vault_grant_table) = {''ix_vault_grant_tenant_id'', ''ix_vault_grant_vault_id'', ''ix_vault_grant_membership_id''}"
  "ix_name ` set (td_indexes tenant_key_version_table) = {''ix_tenant_key_version_tenant_id'', ''uq_tenant_key_one_active''}"
  "ix_name ` set (td_indexes secret_table) = {''ix_secret_tenant_id'', ''ix_secret_vault_id''}"
  "ix_name ` set (td_indexes secret_version_table) = {''ix_secret_version_tenant_id'', ''ix_secret_version_secret_id''}"
  "ix_name ` set (td_indexes audit_event_table) = {''ix_audit_event_tenant_id'', ''ix_audit_tenant_action_time''}"
  "ix_name ` set (td_indexes audit_chain_head_table) = {}"
  "ix_name ` set (td_indexes invitation_table) = {''ix_invitation_tenant_id'', ''ix_invitation_token_hash'', ''uq_invitation_pending_tenant_email''}"
  "ix_name ` set (td_indexes vault_table) = {''ix_vault_tenant_id''}"
  "ix_name ` set (td_indexes auth_session_table) = {''ix_auth_session_user_id''}"
  "ix_name ` set (td_indexes membership_table) = {''ix_membership_tenant_id'', ''ix_membership_user_id'', ''uq_membership_one_user''}"
  by (simp_all add: table_indexes flip: set_map)

lemma table_target_sets:
  "fk_table ` set (td_foreign_keys organization_table) = {}"
  "fk_table ` set (td_foreign_keys vault_first) = {''organization''}"
  "fk_table ` set (td_foreign_keys app_user_table) = {}"
  "fk_table ` set (td_foreign_keys membership_first) = {''organization'', ''app_user''}"
  "fk_table ` set (td_foreign_keys auth_session_first) = {''app_user''}"
  "fk_table ` set (td_foreign_keys refresh_token_table) = {''auth_session'', ''refresh_token''}"
  "fk_table ` set (td_foreign_keys totp_secret_table) = {''app_user''}"
  "fk_table ` set (td_foreign_keys recovery_code_table) = {''app_user''}"
  "fk_table ` set (td_foreign_keys vault_grant_table) = {''organization'', ''vault'', ''membership''}"
  "fk_table ` set (td_foreign_keys tenant_key_version_table) = {''organization''}"
  "fk_table ` set (td_foreign_keys secret_table) = {''organization'', ''vault''}"
  "fk_table ` set (td_foreign_keys secret_version_table) = {''organization'', ''secret''}"
  "fk_table ` set (td_foreign_keys audit_event_table) = {''organization''}"
  "fk_table ` set (td_foreign_keys audit_chain_head_table) = {''organization''}"
  "fk_table ` set (td_foreign_keys invitation_table) = {''organization''}"
  "fk_table ` set (td_foreign_keys vault_table) = {''organization''}"
  "fk_table ` set (td_foreign_keys auth_session_table) = {''app_user''}"
  "fk_table ` set (td_foreign_keys membership_table) = {''organization'', ''app_user''}"
  by (simp_all add: table_targets flip: set_map)

section \<open>The SQL of the revisions\<close>

lemma parsed:
  "parse_sql ''GRANT USAGE ON SCHEMA public TO vaultlog_app'' =
     Some (GrantSchemaUsage ''vaultlog_app'')"
  "parse_sql ''GRANT SELECT, INSERT, UPDATE, DELETE ON organization, vault TO vaultlog_app'' =
     Some (Grant [''SELECT'', ''INSERT'', ''UPDATE'', ''DELETE''] [''organization'', ''vault''] ''vaultlog_app'')"
  "parse_sql ''ALTER TABLE organization ENABLE ROW LEVEL SECURITY'' =
     Some (EnableRls ''organization'')"
  "parse_sql ''ALTER TABLE organization FORCE ROW LEVEL SECURITY'' =
     Some (ForceRls ''organization'')"
  "parse_sql ''ALTER TABLE vault ENABLE ROW LEVEL SECURITY'' =
     Some (EnableRls ''vault'')"
  "parse_sql ''ALTER TABLE vault FORCE ROW LEVEL SECURITY'' =
     Some (ForceRls ''vault'')"
  "parse_sql ''DROP POLICY IF EXISTS tenant_isolation ON vault'' =
     Some (DropPolicyIfExists ''tenant_isolation'' ''vault'')"
  "parse_sql ''DROP POLICY IF EXISTS tenant_isolation ON organization'' =
     Some (DropPolicyIfExists ''tenant_isolation'' ''organization'')"
  "parse_sql ''GRANT SELECT, INSERT, UPDATE, DELETE ON app_user, membership, auth_session, refresh_token TO vaultlog_app'' =
     Some (Grant [''SELECT'', ''INSERT'', ''UPDATE'', ''DELETE''] [''app_user'', ''membership'', ''auth_session'', ''refresh_token''] ''vaultlog_app'')"
  "parse_sql ''ALTER TABLE membership ENABLE ROW LEVEL SECURITY'' =
     Some (EnableRls ''membership'')"
  "parse_sql ''ALTER TABLE membership FORCE ROW LEVEL SECURITY'' =
     Some (ForceRls ''membership'')"
  "parse_sql ''DROP POLICY IF EXISTS tenant_isolation ON membership'' =
     Some (DropPolicyIfExists ''tenant_isolation'' ''membership'')"
  "parse_sql ''GRANT SELECT, INSERT, UPDATE, DELETE ON totp_secret, recovery_code TO vaultlog_app'' =
     Some (Grant [''SELECT'', ''INSERT'', ''UPDATE'', ''DELETE''] [''totp_secret'', ''recovery_code''] ''vaultlog_app'')"
  "parse_sql ''DELETE FROM vault'' =
     Some (DeleteFrom ''vault'')"
  "parse_sql ''GRANT SELECT, INSERT, UPDATE, DELETE ON vault_grant TO vaultlog_app'' =
     Some (Grant [''SELECT'', ''INSERT'', ''UPDATE'', ''DELETE''] [''vault_grant''] ''vaultlog_app'')"
  "parse_sql ''GRANT SELECT, INSERT, UPDATE, DELETE ON secret, tenant_key_version TO vaultlog_app'' =
     Some (Grant [''SELECT'', ''INSERT'', ''UPDATE'', ''DELETE''] [''secret'', ''tenant_key_version''] ''vaultlog_app'')"
  "parse_sql ''GRANT SELECT, INSERT ON secret_version TO vaultlog_app'' =
     Some (Grant [''SELECT'', ''INSERT''] [''secret_version''] ''vaultlog_app'')"
  "parse_sql ''GRANT SELECT, INSERT ON audit_event TO vaultlog_app'' =
     Some (Grant [''SELECT'', ''INSERT''] [''audit_event''] ''vaultlog_app'')"
  "parse_sql ''GRANT SELECT, INSERT, UPDATE ON audit_chain_head TO vaultlog_app'' =
     Some (Grant [''SELECT'', ''INSERT'', ''UPDATE''] [''audit_chain_head''] ''vaultlog_app'')"
  "parse_sql ''GRANT SELECT, INSERT, UPDATE, DELETE ON invitation TO vaultlog_app'' =
     Some (Grant [''SELECT'', ''INSERT'', ''UPDATE'', ''DELETE''] [''invitation''] ''vaultlog_app'')"
  "parse_sql ''REVOKE ALL ON invitation FROM vaultlog_app'' =
     Some (RevokeAll ''invitation'' ''vaultlog_app'')"
  by (simp_all add: parse_sql_def sql_words_def literal_space parse_grant_def strip_comma_def)

lemma policy_text_parsed:
  assumes "plain_name t" and "plain_name c" and "text = ''CREATE POLICY tenant_isolation ON'' @ CHR '' '' # t @ CHR '' '' #
    ''USING'' @ CHR '' '' # tenant_condition c @ CHR '' '' # ''WITH CHECK'' @ CHR '' '' # tenant_condition c"
  shows "parse_sql text = Some (CreatePolicy ''tenant_isolation'' t (tenant_condition c) (tenant_condition c))"
proof -
  note words = sql_words_append space_chars phrase_words sql_words_name [OF assms(1)] tenant_condition_words [OF assms(2)]
  have "sql_words text = [''CREATE'', ''POLICY'', ''tenant_isolation'', ''ON'', t, ''USING''] @ condition_words c @
      [''WITH'', ''CHECK''] @ condition_words c"
    unfolding assms(3) by (simp only: words) simp
  then show ?thesis
    by (simp add: parse_sql_def parse_policy_def until condition_joined)
qed

lemma policies_parsed:
  "parse_sql (''CREATE POLICY tenant_isolation ON organization USING '' @ tenant_condition ''id'' @
       '' WITH CHECK '' @ tenant_condition ''id'') =
     Some (CreatePolicy ''tenant_isolation'' ''organization'' (tenant_condition ''id'') (tenant_condition ''id''))"
  "parse_sql (''CREATE POLICY tenant_isolation ON vault USING '' @ tenant_condition ''tenant_id'' @
       '' WITH CHECK '' @ tenant_condition ''tenant_id'') =
     Some (CreatePolicy ''tenant_isolation'' ''vault'' (tenant_condition ''tenant_id'') (tenant_condition ''tenant_id''))"
  "parse_sql (''CREATE POLICY tenant_isolation ON membership USING '' @ tenant_condition ''tenant_id'' @
       '' WITH CHECK '' @ tenant_condition ''tenant_id'') =
     Some (CreatePolicy ''tenant_isolation'' ''membership'' (tenant_condition ''tenant_id'') (tenant_condition ''tenant_id''))"
  by (rule policy_text_parsed; simp add: plain_name_def name_char_def)+

section \<open>One revision at a time\<close>

lemma changed_relations:
  "set (relation_names (sec b td)) = set (relation_names td)"
  "set (relation_names (indexed n cs td)) = insert n (set (relation_names td))"
  "set (relation_names (unique_index n cs p td)) = insert n (set (relation_names td))"
  "set (relation_names (add_privileges r ps td)) = set (relation_names td)"
  by (auto simp: relation_names_def indexed_def unique_index_def with_index_def add_privileges_def)

lemma changed_targets:
  "td_foreign_keys (indexed n cs td) = td_foreign_keys td"
  "td_foreign_keys (unique_index n cs p td) = td_foreign_keys td"
  "td_foreign_keys (add_privileges r ps td) = td_foreign_keys td"
  "td_foreign_keys (without_index n td) = td_foreign_keys td"
  "td_foreign_keys (without_constraint n td) = td_foreign_keys td"
  by (simp_all add: indexed_def unique_index_def with_index_def add_privileges_def without_index_def without_constraint_def)

lemma targets_exist_names:
  "targets_exist sc td = list_all (\<lambda>t. t = td_name td \<or> has_table sc t) (map fk_table (td_foreign_keys td))"
  by (simp add: targets_exist_def list.pred_map o_def)

lemma with_index_kinds:
  "with_index \<lparr>ix_name = n, ix_columns = cs, ix_unique = False, ix_where = None\<rparr> = indexed n cs"
  "with_index \<lparr>ix_name = n, ix_columns = cs, ix_unique = True, ix_where = p\<rparr> = unique_index n cs p"
  by (simp_all add: indexed_def unique_index_def)

lemma for_each_steps: "for_each f (x # xs) sc = (case f x sc of (Inl e, sc') \<Rightarrow> (Inl e, sc') | (Inr _, sc') \<Rightarrow> for_each f xs sc')"
  by (simp add: seq_def split: sum.splits prod.splits)

lemma seq_apply: "seq m f sc = (case m sc of (Inl e, sc') \<Rightarrow> (Inl e, sc') | (Inr x, sc') \<Rightarrow> f x sc')"
  by (simp add: seq_def)

lemmas run_simps = for_each_steps seq_apply new_relation_def has_relation_def has_table_def set_tables_def on_table_def
  targets_exist_names with_index_kinds

lemmas run_simps_all = run_simps require_apply parsed policies_parsed [unfolded append_Cons append_Nil]
  table_def_names changed_relations changed_targets base_relations table_relations base_targets table_targets

text \<open>The tables a revision creates are not secured, whatever was.\<close>

definition except :: "string list \<Rightarrow> (string \<Rightarrow> bool) \<Rightarrow> string \<Rightarrow> bool" where
  "except ts b = (\<lambda>t. b t \<and> t \<notin> set ts)"

lemma sec_except: "sec (except ts b) td = (if td_name td \<in> set ts then td else sec b td)"
  by (simp add: sec_def except_def)

lemma upgrade_3:
  "for_each run_op upgrade_totp_and_recovery (schema_of u b (tables_at 2)) =
   (Inr (), schema_of u (except [''totp_secret'', ''recovery_code''] b) (tables_at 3))"
  by (simp add: tables_at_def schema_of_def upgrade_totp_and_recovery_def run_simps_all sec_except
     totp_secret_table_def recovery_code_table_def app_def dml_def del: for_each.simps(2))

lemma column_keys_fields:
  "td_columns (column_keys c os td) = td_columns td" "td_rls (column_keys c os td) = td_rls td"
  "td_forced (column_keys c os td) = td_forced td" "td_policies (column_keys c os td) = td_policies td"
  "td_name (column_keys c os td) = td_name td" "td_indexes (column_keys c os td) = td_indexes td"
  "td_uniques (column_keys c os td) = td_uniques td"
  by (induction c os td rule: column_keys.induct) (simp_all add: with_foreign_key_def)

lemma column_index_fields:
  "td_columns (column_index c os td) = td_columns td" "td_rls (column_index c os td) = td_rls td"
  "td_forced (column_index c os td) = td_forced td" "td_policies (column_index c os td) = td_policies td"
  "td_name (column_index c os td) = td_name td"
  by (simp_all add: column_index_def with_index_def with_unique_def)

lemma column_relations:
  "Indexed \<notin> set os \<Longrightarrow> Unique \<notin> set os \<Longrightarrow>
     set (relation_names (add_item (Column c ty os) td)) = set (relation_names td)"
  by (simp add: relation_names_def column_index_def column_keys_fields)

lemma constraint_relations:
  "set (relation_names (add_item (CheckConstraint e n) td)) = set (relation_names td)"
  "set (relation_names (add_item (UniqueConstraint cs n) td)) = insert n (set (relation_names td))"
  by (auto simp: relation_names_def with_unique_def)

lemma added_columns:
  "has_column (add_item (Column c ty os) td) x \<longleftrightarrow> x = c \<or> has_column td x"
  "has_column (add_item (CheckConstraint e n) td) x = has_column td x"
  "has_column (add_item (UniqueConstraint cs n) td) x = has_column td x"
proof -
  have "co_name (column_of_options co os) = co_name co" for co
    by (induction co os rule: column_of_options.induct) simp_all
  then show "has_column (add_item (Column c ty os) td) x \<longleftrightarrow> x = c \<or> has_column td x"
    by (auto simp: has_column_def column_index_fields column_keys_fields)
qed (simp_all add: has_column_def with_unique_def)

text \<open>Operations on a table neither look at its row-level security nor change it.\<close>

definition guarded :: "bool \<Rightarrow> bool \<Rightarrow> policy_def list \<Rightarrow> table_def \<Rightarrow> table_def" where
  "guarded r f ps td = td\<lparr>td_rls := r, td_forced := f, td_policies := ps\<rparr>"

lemma guarded_updates:
  "(guarded r f ps td)\<lparr>td_columns := cs\<rparr> = guarded r f ps (td\<lparr>td_columns := cs\<rparr>)"
  "(guarded r f ps td)\<lparr>td_primary_key := k\<rparr> = guarded r f ps (td\<lparr>td_primary_key := k\<rparr>)"
  "(guarded r f ps td)\<lparr>td_foreign_keys := fks\<rparr> = guarded r f ps (td\<lparr>td_foreign_keys := fks\<rparr>)"
  "(guarded r f ps td)\<lparr>td_uniques := us\<rparr> = guarded r f ps (td\<lparr>td_uniques := us\<rparr>)"
  "(guarded r f ps td)\<lparr>td_checks := ks\<rparr> = guarded r f ps (td\<lparr>td_checks := ks\<rparr>)"
  "(guarded r f ps td)\<lparr>td_indexes := is\<rparr> = guarded r f ps (td\<lparr>td_indexes := is\<rparr>)"
  "(guarded r f ps td)\<lparr>td_privileges := gs\<rparr> = guarded r f ps (td\<lparr>td_privileges := gs\<rparr>)"
  by (cases td; simp add: guarded_def)+

lemma guarded_fields:
  "td_name (guarded r f ps td) = td_name td" "td_columns (guarded r f ps td) = td_columns td"
  "td_primary_key (guarded r f ps td) = td_primary_key td" "td_foreign_keys (guarded r f ps td) = td_foreign_keys td"
  "td_uniques (guarded r f ps td) = td_uniques td" "td_checks (guarded r f ps td) = td_checks td"
  "td_indexes (guarded r f ps td) = td_indexes td" "td_privileges (guarded r f ps td) = td_privileges td"
  by (simp_all add: guarded_def)

lemmas guarded_simps = guarded_updates guarded_fields with_index_def with_unique_def with_foreign_key_def

definition commuting :: "(table_def \<Rightarrow> table_def) \<Rightarrow> bool" where
  "commuting g \<longleftrightarrow> (\<forall>r f ps td. g (guarded r f ps td) = guarded r f ps (g td)) \<and>
     (\<forall>td. td_name (g td) = td_name td \<and> td_policies (g td) = td_policies td)"

lemma sec_commutes:
  assumes "commuting g"
  shows "g (sec b td) = sec b (g td)"
proof -
  have "secure c td = guarded True True (filter (\<lambda>p. po_name p \<noteq> ''tenant_isolation'') (td_policies td) @ [tenant_policy c]) td"
    for c td by (simp add: secure_def guarded_def)
  then show ?thesis
    using assms by (simp add: sec_def secure_table_def commuting_def split: option.split)
qed

lemma column_keys_guarded: "column_keys c os (guarded r f ps td) = guarded r f ps (column_keys c os td)"
  by (induction c os td rule: column_keys.induct) (simp_all add: guarded_simps)

lemma column_index_guarded: "column_index c os (guarded r f ps td) = guarded r f ps (column_index c os td)"
  by (simp add: column_index_def guarded_simps)

lemma add_item_commutes: "commuting (add_item item)"
  by (cases item) (simp_all add: commuting_def column_keys_guarded column_index_guarded column_keys_fields
      column_index_fields guarded_simps)

lemma others_commute:
  "commuting (indexed n cs)" "commuting (unique_index n cs p)" "commuting (add_privileges r ps)"
  "commuting (without_index n)" "commuting (without_constraint n)" "commuting (without_column c)"
  by (simp_all add: commuting_def indexed_def unique_index_def add_privileges_def without_index_def without_constraint_def
      without_column_def guarded_simps)

lemmas sec_inwards = add_item_commutes [THEN sec_commutes] others_commute [THEN sec_commutes]

lemma first_columns:
  "map co_name (td_columns vault_first) = [''id'', ''tenant_id'', ''name'', ''created_at'']"
  "map co_name (td_columns auth_session_first) =
     [''id'', ''user_id'', ''revoked_at'', ''revocation_reason'', ''user_agent'', ''created_at'', ''last_used_at'']"
  by code_simp+

lemma vault_columns:
  "has_column vault_first c \<longleftrightarrow> c \<in> {''id'', ''tenant_id'', ''name'', ''created_at''}"
  "has_column auth_session_first c \<longleftrightarrow>
     c \<in> {''id'', ''user_id'', ''revoked_at'', ''revocation_reason'', ''user_agent'', ''created_at'', ''last_used_at''}"
  "has_column (sec b td) c = has_column td c"
  by (simp_all add: has_column_def first_columns del: set_map)

lemma upgrade_4:
  "for_each run_op upgrade_vaults_and_grants (schema_of u b (tables_at 3)) =
   (Inr (), schema_of u (except [''vault_grant''] b) (tables_at 4))"
  by (simp add: tables_at_def schema_of_def upgrade_vaults_and_grants_def run_simps_all sec_except sec_inwards
     vault_columns added_columns constraint_relations column_relations
     vault_grant_table_def vault_table_def app_def dml_def del: for_each.simps(2) add_item.simps)

lemma upgrade_5:
  "for_each run_op upgrade_secrets_and_keys (schema_of u b (tables_at 4)) =
   (Inr (), schema_of u (except [''tenant_key_version'', ''secret'', ''secret_version''] b) (tables_at 5))"
  by (simp add: tables_at_def schema_of_def upgrade_secrets_and_keys_def run_simps_all sec_except sec_inwards
     tenant_key_version_table_def secret_table_def secret_version_table_def app_def dml_def
     del: for_each.simps(2) add_item.simps)

lemma upgrade_6:
  "for_each run_op upgrade_audit_ledger_tables (schema_of u b (tables_at 5)) =
   (Inr (), schema_of u (except [''audit_event'', ''audit_chain_head''] b) (tables_at 6))"
  by (simp add: tables_at_def schema_of_def upgrade_audit_ledger_tables_def run_simps_all sec_except sec_inwards
     audit_event_table_def audit_chain_head_table_def app_def dml_def del: for_each.simps(2) add_item.simps)

lemma upgrade_7:
  "for_each run_op upgrade_invitations_amr (schema_of u b (tables_at 6)) =
   (Inr (), schema_of u (except [''invitation''] b) (tables_at 7))"
  by (simp add: tables_at_def schema_of_def upgrade_invitations_amr_def run_simps_all sec_except sec_inwards
     vault_columns column_relations membership_table_def auth_session_table_def
     invitation_table_def app_def dml_def del: for_each.simps(2) add_item.simps)

section \<open>The first two revisions\<close>

lemma fresh_policies:
  "td_policies (table_of_items t items) = []" "td_policies (add_privileges r ps td) = td_policies td"
  "td_policies (indexed n cs td) = td_policies td"
proof -
  have "td_policies (fold add_item items td) = td_policies td" for td
    using add_item_commutes by (induction items arbitrary: td) (simp_all add: commuting_def)
  then show "td_policies (table_of_items t items) = []"
    by (simp add: table_of_items_def empty_table_def)
qed (simp_all add: add_privileges_def indexed_def with_index_def)

lemma secured_by_hand:
  assumes "td_policies td = []" and "map_of tenant_tables (td_name td) = Some c"
  shows "td\<lparr>td_rls := True, td_forced := True,
      td_policies := [\<lparr>po_name = ''tenant_isolation'', po_using = tenant_condition c, po_check = tenant_condition c\<rparr>]\<rparr> =
    secure_table td"
  using assms by (simp add: secure_table_def secure_def tenant_policy_def)

lemma tenant_columns:
  "map_of tenant_tables ''organization'' = Some ''id''" "map_of tenant_tables ''vault'' = Some ''tenant_id''"
  "map_of tenant_tables ''membership'' = Some ''tenant_id''" "map_of tenant_tables ''app_user'' = None"
  "map_of tenant_tables ''auth_session'' = None" "map_of tenant_tables ''refresh_token'' = None"
  by (simp_all add: tenant_tables_def)

lemma upgrade_1:
  "for_each run_op upgrade_initial_schema (schema_of u b (tables_at 0)) =
   (Inr (), schema_of (if ''vaultlog_app'' \<in> set u then u else u @ [''vaultlog_app'']) (\<lambda>_. True) (tables_at 1))"
  by (simp add: tables_at_def schema_of_def upgrade_initial_schema_def run_simps_all create_policy_def fresh_policies
     secured_by_hand tenant_columns sec_def
     organization_table_def vault_first_def app_def dml_def del: for_each.simps(2) add_item.simps)

lemma sec_membership: "sec (b(t := True)) td = (if td_name td = t then secure_table td else sec b td)"
  by (simp add: sec_def)

lemma global_tables:
  "map_of tenant_tables (td_name td) = None \<Longrightarrow> sec b td = td"
  by (simp add: sec_def secure_table_def)

lemma upgrade_2:
  "for_each run_op upgrade_identity_and_sessions (schema_of u b (tables_at 1)) =
   (Inr (), schema_of u (b(''membership'' := True)) (tables_at 2))"
  by (simp add: tables_at_def schema_of_def upgrade_identity_and_sessions_def run_simps_all create_policy_def fresh_policies
     secured_by_hand tenant_columns sec_membership global_tables
     app_user_table_def membership_first_def auth_session_first_def refresh_token_table_def app_def dml_def
     del: for_each.simps(2) add_item.simps)
section \<open>And back\<close>

lemma index_gone: "n \<notin> ix_name ` set (td_indexes td) \<Longrightarrow> without_index n td = td"
  by (auto simp: without_index_def intro!: filter_True table_def.equality)

lemma indexes_left:
  "ix_name ` set (td_indexes (without_index n td)) = ix_name ` set (td_indexes td) - {n}"
  by (auto simp: without_index_def)

lemma columns_left:
  "has_column (without_column c td) x \<longleftrightarrow> x \<noteq> c \<and> has_column td x"
  "has_column (without_constraint n td) x = has_column td x"
  by (auto simp: has_column_def without_column_def without_constraint_def)

lemma table_columns:
  "has_column vault_table c \<longleftrightarrow> c \<in> {''id'', ''tenant_id'', ''name'', ''created_at'', ''description'',
     ''created_by_user_id'', ''updated_at'', ''deleted_at''}"
  "has_column auth_session_table c \<longleftrightarrow> c = ''amr'' \<or> has_column auth_session_first c"
  by (auto simp: vault_table_def auth_session_table_def added_columns vault_columns simp del: add_item.simps)

lemma undone:
  "without_column ''description'' (without_column ''created_by_user_id'' (without_column ''updated_at''
     (without_column ''deleted_at'' (without_constraint ''ck_vault_name_nonempty''
       (without_constraint ''uq_vault_tenant_name'' vault_table))))) = vault_first"
  "without_column ''amr'' auth_session_table = auth_session_first"
  "without_index ''uq_membership_one_user'' membership_table = membership_first"
  by code_simp+

lemmas back_simps = run_simps_all sec_inwards index_gone indexes_left columns_left table_columns table_index_sets table_target_sets undone
  referenced_def vault_columns

text \<open>A revision's own tables stand at the end of the schema, and go from there one by one.\<close>

definition upgraded_6 :: "table_def list" where
  "upgraded_6 = (tables_at 6)[3 := membership_table, 4 := auth_session_table]"

definition upgraded_3 :: "table_def list" where
  "upgraded_3 = (tables_at 3)[1 := vault_table]"

definition free_of :: "table_def list \<Rightarrow> string \<Rightarrow> bool" where
  "free_of tds n \<longleftrightarrow> (\<forall>td \<in> set tds. td_name td \<noteq> n \<and> n \<notin> ix_name ` set (td_indexes td) \<and>
     n \<notin> fk_table ` set (td_foreign_keys td))"

lemma free_of_cases: "free_of (tds @ [td]) n \<longleftrightarrow> free_of tds n \<and> td_name td \<noteq> n \<and> n \<notin> ix_name ` set (td_indexes td) \<and>
    n \<notin> fk_table ` set (td_foreign_keys td)"
  by (auto simp: free_of_def)

lemma drop_last_index:
  assumes "free_of tds n" and "n \<in> ix_name ` set (td_indexes td)"
  shows "run_op (drop_index n) \<lparr>sc_tables = map (sec b) tds @ [td], sc_usage = u\<rparr> =
    (Inr (), \<lparr>sc_tables = map (sec b) tds @ [without_index n td], sc_usage = u\<rparr>)"
proof -
  have "map (without_index n \<circ> sec b) tds = map (sec b) tds"
    using assms(1) by (simp add: free_of_def index_gone cong: map_cong)
  moreover have "list_ex (\<lambda>td. n \<in> ix_name ` set (td_indexes td)) (map (sec b) tds @ [td])"
    using assms(2) by simp
  ultimately show ?thesis
    by (simp add: prog_simps set_tables_def)
qed

lemma drop_last_table:
  assumes "free_of tds t" and "td_name td = t"
  shows "run_op (drop_table t) \<lparr>sc_tables = map (sec b) tds @ [td], sc_usage = u\<rparr> =
    (Inr (), \<lparr>sc_tables = map (sec b) tds, sc_usage = u\<rparr>)"
proof -
  have "filter (\<lambda>td. td_name td \<noteq> t) (map (sec b) tds) = map (sec b) tds"
    using assms(1) by (simp add: free_of_def filter_id_conv)
  moreover have "\<not> referenced \<lparr>sc_tables = map (sec b) tds @ [td], sc_usage = u\<rparr> t"
    using assms by (auto simp: free_of_def referenced_def list_ex_iff)
  ultimately show ?thesis
    using assms(2) by (simp add: prog_simps set_tables_def has_table_def)
qed

lemma after_drop:
  assumes "run_op op sc = (Inr (), sc')"
  shows "for_each run_op (op # ops) sc = for_each run_op ops sc'"
  using assms by (simp add: seq_def)

lemma free_3: "free_of upgraded_3 n" if "n \<in> {''ix_vault_grant_membership_id'', ''ix_vault_grant_vault_id'',
    ''ix_vault_grant_tenant_id'', ''vault_grant''}"
  using that by (auto simp: free_of_def upgraded_3_def tables_at_def table_def_names table_index_sets table_target_sets)

lemma free_6: "free_of upgraded_6 n" if "n \<in> {''uq_invitation_pending_tenant_email'', ''ix_invitation_token_hash'',
    ''ix_invitation_tenant_id'', ''invitation''}"
  using that by (auto simp: free_of_def upgraded_6_def tables_at_def table_def_names table_index_sets table_target_sets)

lemma change_last_table:
  assumes "free_of tds t" and "td_name td = t"
  shows "on_table t f \<lparr>sc_tables = map (sec b) tds @ [td], sc_usage = u\<rparr> =
    (Inr (), \<lparr>sc_tables = map (sec b) tds @ [f td], sc_usage = u\<rparr>)"
proof -
  have "map (\<lambda>td. if td_name td = t then f td else td) (map (sec b) tds) = map (sec b) tds"
    using assms(1) by (auto simp: free_of_def)
  then show ?thesis
    using assms(2) by (simp add: on_table_def prog_simps set_tables_def has_table_def)
qed

lemmas last_simps = after_drop [OF drop_last_index] after_drop [OF drop_last_table] indexes_left table_index_sets

lemma downgrade_7:
  "for_each run_op downgrade_invitations_amr (schema_of u b (tables_at 7)) = (Inr (), schema_of u b (tables_at 6))"
proof -
  let ?revoked = "\<lparr>sc_tables = map (sec b) upgraded_6 @ [(sec b invitation_table)\<lparr>td_privileges :=
    filter (\<lambda>p. fst p \<noteq> ''vaultlog_app'') (td_privileges invitation_table)\<rparr>], sc_usage = u\<rparr>"
  have "run_op (execute ''REVOKE ALL ON invitation FROM vaultlog_app'')
      \<lparr>sc_tables = map (sec b) upgraded_6 @ [sec b invitation_table], sc_usage = u\<rparr> = (Inr (), ?revoked)"
    by (simp add: parsed change_last_table free_6 table_def_names)
  moreover have "schema_of u b (tables_at 7) = \<lparr>sc_tables = map (sec b) upgraded_6 @ [sec b invitation_table], sc_usage = u\<rparr>"
    by (simp add: schema_of_def tables_at_def upgraded_6_def)
  ultimately have "for_each run_op downgrade_invitations_amr (schema_of u b (tables_at 7)) =
      for_each run_op (tl downgrade_invitations_amr) ?revoked"
    by (simp add: downgrade_invitations_amr_def after_drop del: for_each.simps run_op.simps)
  also have "\<dots> = for_each run_op [drop_index ''uq_membership_one_user'', drop_column ''auth_session'' ''amr'']
      \<lparr>sc_tables = map (sec b) upgraded_6, sc_usage = u\<rparr>"
    by (simp add: downgrade_invitations_amr_def last_simps free_6 table_def_names del: for_each.simps run_op.simps)
  also have "\<dots> = (Inr (), schema_of u b (tables_at 6))"
    by (simp add: upgraded_6_def tables_at_def schema_of_def back_simps del: for_each.simps(2) add_item.simps)
  finally show ?thesis .
qed

lemma downgrade_4:
  "for_each run_op downgrade_vaults_and_grants (schema_of u b (tables_at 4)) = (Inr (), schema_of u b (tables_at 3))"
proof -
  have "schema_of u b (tables_at 4) = \<lparr>sc_tables = map (sec b) upgraded_3 @ [sec b vault_grant_table], sc_usage = u\<rparr>"
    by (simp add: schema_of_def tables_at_def upgraded_3_def)
  then have "for_each run_op downgrade_vaults_and_grants (schema_of u b (tables_at 4)) =
      for_each run_op (drop 4 downgrade_vaults_and_grants) \<lparr>sc_tables = map (sec b) upgraded_3, sc_usage = u\<rparr>"
    by (simp add: downgrade_vaults_and_grants_def last_simps free_3 table_def_names del: for_each.simps run_op.simps)
  also have "\<dots> = (Inr (), schema_of u b (tables_at 3))"
    by (simp add: upgraded_3_def tables_at_def schema_of_def downgrade_vaults_and_grants_def back_simps
        del: for_each.simps(2) add_item.simps)
  finally show ?thesis .
qed

lemma free_4: "free_of (tables_at 4) n" if "n \<in> {''ix_tenant_key_version_tenant_id'', ''uq_tenant_key_one_active'',
    ''tenant_key_version'', ''ix_secret_tenant_id'', ''ix_secret_vault_id'', ''secret'', ''ix_secret_version_secret_id'',
    ''ix_secret_version_tenant_id'', ''secret_version''}"
  using that by (auto simp: free_of_def tables_at_def table_def_names table_index_sets table_target_sets)

lemma free_5: "free_of (tables_at 5) n" if "n \<in> {''ix_audit_event_tenant_id'', ''ix_audit_tenant_action_time'',
    ''audit_event'', ''audit_chain_head''}"
  using that by (auto simp: free_of_def tables_at_def table_def_names table_index_sets table_target_sets)

lemma downgrade_5:
  "for_each run_op downgrade_secrets_and_keys (schema_of u b (tables_at 5)) = (Inr (), schema_of u b (tables_at 4))"
proof -
  let ?secrets = "(tables_at 4 @ [tenant_key_version_table]) @ [secret_table]"
  have "schema_of u b (tables_at 5) = \<lparr>sc_tables = map (sec b) ?secrets @ [sec b secret_version_table], sc_usage = u\<rparr>"
    by (simp add: schema_of_def tables_at_def)
  then have "for_each run_op downgrade_secrets_and_keys (schema_of u b (tables_at 5)) =
      for_each run_op (drop 3 downgrade_secrets_and_keys) \<lparr>sc_tables = map (sec b) ?secrets, sc_usage = u\<rparr>"
    by (simp only:) (simp add: downgrade_secrets_and_keys_def last_simps free_of_cases free_4 table_def_names
       table_target_sets del: for_each.simps run_op.simps map_append append_assoc)
  also have "\<dots> = for_each run_op (drop 6 downgrade_secrets_and_keys)
      \<lparr>sc_tables = map (sec b) (tables_at 4 @ [tenant_key_version_table]), sc_usage = u\<rparr>"
    unfolding map_append [of "sec b" "tables_at 4 @ [tenant_key_version_table]"]
    by (simp add: downgrade_secrets_and_keys_def last_simps free_of_cases free_4 table_def_names
       table_target_sets del: for_each.simps run_op.simps map_append append_assoc)
  also have "\<dots> = (Inr (), schema_of u b (tables_at 4))"
    by (simp add: downgrade_secrets_and_keys_def last_simps free_4 table_def_names schema_of_def
        del: for_each.simps(2) run_op.simps)
  finally show ?thesis .
qed

lemma downgrade_6:
  "for_each run_op downgrade_audit_ledger_tables (schema_of u b (tables_at 6)) = (Inr (), schema_of u b (tables_at 5))"
proof -
  let ?events = "tables_at 5 @ [audit_event_table]"
  have "schema_of u b (tables_at 6) = \<lparr>sc_tables = map (sec b) ?events @ [sec b audit_chain_head_table], sc_usage = u\<rparr>"
    by (simp add: schema_of_def tables_at_def)
  then have "for_each run_op downgrade_audit_ledger_tables (schema_of u b (tables_at 6)) =
      for_each run_op (drop 1 downgrade_audit_ledger_tables) \<lparr>sc_tables = map (sec b) ?events, sc_usage = u\<rparr>"
    by (simp only:) (simp add: downgrade_audit_ledger_tables_def last_simps free_of_cases free_5 table_def_names
       table_target_sets del: for_each.simps run_op.simps map_append append_assoc)
  also have "\<dots> = (Inr (), schema_of u b (tables_at 5))"
    by (simp add: downgrade_audit_ledger_tables_def last_simps free_5 table_def_names schema_of_def
        del: for_each.simps(2) run_op.simps)
  finally show ?thesis .
qed

lemma downgrade_3:
  "for_each run_op downgrade_totp_and_recovery (schema_of u b (tables_at 3)) = (Inr (), schema_of u b (tables_at 2))"
  by (simp add: tables_at_def schema_of_def downgrade_totp_and_recovery_def back_simps
      del: for_each.simps(2) add_item.simps)

lemma downgrade_2:
  "for_each run_op downgrade_identity_and_sessions (schema_of u b (tables_at 2)) = (Inr (), schema_of u b (tables_at 1))"
  by (simp add: tables_at_def schema_of_def downgrade_identity_and_sessions_def back_simps
      del: for_each.simps(2) add_item.simps)

lemma downgrade_1:
  "for_each run_op downgrade_initial_schema (schema_of u b (tables_at 1)) = (Inr (), schema_of u b (tables_at 0))"
  by (simp add: tables_at_def schema_of_def downgrade_initial_schema_def back_simps
      del: for_each.simps(2) add_item.simps)

end
