(* ===== verification/Migration_Laws.thy ===== *)
theory Migration_Laws
  imports Migration_Steps
begin

text \<open>
  What holds of every database the migrations can lead to: tenant-owned tables are under forced row-level
  security, the application role cannot rewrite the ledger, and upgrades can be undone.
\<close>

section \<open>Steps\<close>

lemma versions_count: "length versions = 7"
  by (simp add: versions_def)

lemma below_7: "(i :: nat) < 7 \<Longrightarrow> i \<in> {0, 1, 2, 3, 4, 5, 6}"
  by auto

lemma upgrade_step:
  assumes "i < 7"
  shows "\<exists>u' b'. for_each run_op (mg_upgrade (versions ! i)) (schema_of u b (tables_at i)) =
    (Inr (), schema_of u' b' (tables_at (Suc i)))"
  using below_7 [OF assms]
  by (elim insertE emptyE; simp add: versions_def upgrade_1 [simplified] upgrade_2 [simplified] upgrade_3 upgrade_4
      upgrade_5 upgrade_6 upgrade_7 numeral_2_eq_2 [symmetric] del: for_each.simps; blast)

lemma downgrade_step:
  assumes "i < 7"
  shows "for_each run_op (mg_downgrade (versions ! i)) (schema_of u b (tables_at (Suc i))) =
    (Inr (), schema_of u b (tables_at i))"
  using below_7 [OF assms]
  by (elim insertE emptyE; simp add: versions_def downgrade_1 [simplified] downgrade_2 [simplified] downgrade_3 downgrade_4
      downgrade_5 downgrade_6 downgrade_7 numeral_2_eq_2 [symmetric] del: for_each.simps)

lemma eight_cases: "(i :: nat) \<le> 7 \<Longrightarrow> i \<in> {0, 1, 2, 3, 4, 5, 6, 7}"
  by auto

lemma version_index:
  assumes "i < 7"
  shows "repository_history (mg_revision (versions ! i)) = Some \<lparr>rv_revision = mg_revision (versions ! i),
    rv_down = (if i = 0 then Base else Parent (mg_revision (versions ! (i - 1))))\<rparr>"
  using below_7 [OF assms] by (elim insertE emptyE; simp add: repository_history_def versions_def)

lemma versions_distinct: "i < 7 \<Longrightarrow> j < 7 \<Longrightarrow> mg_revision (versions ! i) = mg_revision (versions ! j) \<longleftrightarrow> i = j"
proof -
  have "distinct (map mg_revision versions)"
    by (simp add: versions_def)
  then show "i < 7 \<Longrightarrow> j < 7 \<Longrightarrow> ?thesis"
    using nth_eq_iff_index_eq [of "map mg_revision versions" i j] by (simp add: versions_count)
qed

lemma version_found:
  assumes "i < 7" and "j < 7"
  shows "found repository_history (mg_revision (versions ! i)) (mg_revision (versions ! j)) \<longleftrightarrow> i \<le> j"
  using assms(2)
proof (induction j)
  case 0
  let ?s = "mg_revision (versions ! i)"
  have "found repository_history ?s (mg_revision (versions ! 0)) \<longleftrightarrow> mg_revision (versions ! 0) = ?s"
    using found_unfold [OF repository_history_ok(1) version_index [of 0], of ?s] by simp
  then show ?case
    using versions_distinct [of 0 i] assms(1) by auto
next
  case (Suc j)
  let ?s = "mg_revision (versions ! i)"
  have "found repository_history ?s (mg_revision (versions ! Suc j)) \<longleftrightarrow>
      mg_revision (versions ! Suc j) = ?s \<or> found repository_history ?s (mg_revision (versions ! j))"
    using found_unfold [OF repository_history_ok(1) version_index [of "Suc j"], of ?s] Suc.prems by simp
  then show ?case
    using versions_distinct [of "Suc j" i] Suc assms(1) by (auto simp: le_Suc_eq)
qed

lemma version_rank: "j < 7 \<Longrightarrow> repository_rank (mg_revision (versions ! j)) < 8"
  using below_7 [of j] by (auto simp: repository_rank_def versions_def upt_rec)

lemma upgrade_answer:
  assumes "k \<le> 7" and "n \<le> 7"
  shows "is_upgrade_revision 8 repository_history (version_at k) (version_at n) = Some (k < n)"
proof (cases "k = 0 \<or> n = 0")
  case True
  then show ?thesis by (auto simp: version_at_def)
next
  case False
  then have bounds: "k - 1 < 7" "n - 1 < 7" using assms by auto
  let ?s = "mg_revision (versions ! (k - 1))" and ?e = "mg_revision (versions ! (n - 1))"
  have "is_upgrade_revision 8 repository_history (Some ?s) (Some ?e) = Some (?s \<noteq> ?e \<and> found repository_history ?s ?e)"
    using walk_finds [OF repository_history_ok(1), of ?e 8 "{}" ?s "[]"] version_rank [OF bounds(2)] by simp
  then show ?thesis
    using False versions_distinct [OF bounds] version_found [OF bounds] by (auto simp: version_at_def)
qed

section \<open>Rows\<close>

text \<open>The rows a sequence of operations meets never stand against it.\<close>

fun rows_ok :: "(string \<Rightarrow> string \<Rightarrow> bool) \<Rightarrow> string set \<Rightarrow> migration_op list \<Rightarrow> bool" where
  "rows_ok valid rows [] = True"
| "rows_ok valid rows (op # ops) = (\<not> rows_refuse valid rows op \<and> rows_ok valid (rows_after op rows) ops)"

lemma apply_ops_ok:
  assumes "for_each run_op ops (da_schema d) = (Inr (), sc)" and "rows_ok valid (da_rows d) ops"
  shows "for_each (apply_op valid) ops d = (Inr (), d\<lparr>da_schema := sc, da_rows := fold rows_after ops (da_rows d)\<rparr>)"
  using assms
proof (induction ops arbitrary: d)
  case (Cons op ops)
  obtain sc1 where first: "run_op op (da_schema d) = (Inr (), sc1)"
    and rest: "for_each run_op ops sc1 = (Inr (), sc)"
    using Cons.prems(1) by (auto simp: seq_def split: prod.splits sum.splits)
  let ?d1 = "d\<lparr>da_schema := sc1, da_rows := rows_after op (da_rows d)\<rparr>"
  have "apply_op valid op d = (Inr (), ?d1)"
    using first Cons.prems(2) by (simp add: apply_op_def seq_def require_def on_schema_def)
  then show ?case
    using Cons.IH [of ?d1] rest Cons.prems(2) by (simp add: seq_def)
qed simp

lemma apply_ops_refused:
  assumes "for_each run_op ops (da_schema d) = (Inr (), sc)" and "\<not> rows_ok valid (da_rows d) ops"
  shows "\<exists>e d'. for_each (apply_op valid) ops d = (Inl e, d')"
  using assms
proof (induction ops arbitrary: d)
  case (Cons op ops)
  obtain sc1 where first: "run_op op (da_schema d) = (Inr (), sc1)"
    and rest: "for_each run_op ops sc1 = (Inr (), sc)"
    using Cons.prems(1) by (auto simp: seq_def split: prod.splits sum.splits)
  show ?case
  proof (cases "rows_refuse valid (da_rows d) op")
    case True
    then show ?thesis by (simp add: apply_op_def seq_def require_def)
  next
    case False
    let ?d1 = "d\<lparr>da_schema := sc1, da_rows := rows_after op (da_rows d)\<rparr>"
    have "apply_op valid op d = (Inr (), ?d1)"
      using first False by (simp add: apply_op_def seq_def require_def on_schema_def)
    then show ?thesis
      using Cons.IH [of ?d1] rest Cons.prems(2) False by (simp add: seq_def)
  qed
qed simp

lemma rows_shrink: "fold rows_after ops rows \<subseteq> rows"
proof (induction ops arbitrary: rows)
  case (Cons op ops)
  have "rows_after op rows \<subseteq> rows"
    by (cases op) (auto split: option.splits sql_statement.splits)
  with Cons show ?case by fastforce
qed simp

definition names_at :: "nat \<Rightarrow> string set" where
  "names_at k = set (map td_name (tables_at k))"

definition one_organization :: "(string \<Rightarrow> string \<Rightarrow> bool) \<Rightarrow> string set \<Rightarrow> bool" where
  "one_organization valid rows \<longleftrightarrow> ''membership'' \<in> rows \<longrightarrow> valid ''membership'' ''uq_membership_one_user''"

lemma new_tables: "''tenant_key_version'' \<notin> names_at 4" "''invitation'' \<notin> names_at 6"
  by (simp_all add: names_at_def tables_at_def table_def_names)

lemma amr_has_default:
  "\<not> needs_value (Column ''amr'' (ArrayOf Text) [Nullable False, ServerDefault ''ARRAY['pwd']::text[]''])"
  by code_simp

lemmas script_defs = upgrade_initial_schema_def upgrade_identity_and_sessions_def upgrade_totp_and_recovery_def
  upgrade_vaults_and_grants_def upgrade_secrets_and_keys_def upgrade_audit_ledger_tables_def upgrade_invitations_amr_def
  downgrade_initial_schema_def downgrade_identity_and_sessions_def downgrade_totp_and_recovery_def
  downgrade_vaults_and_grants_def downgrade_secrets_and_keys_def downgrade_audit_ledger_tables_def
  downgrade_invitations_amr_def

lemma upgrade_rows:
  assumes "i < 7" and "rows \<subseteq> names_at i"
  shows "rows_ok valid rows (mg_upgrade (versions ! i)) \<longleftrightarrow> (i = 6 \<longrightarrow> one_organization valid rows)"
proof -
  have "i = 4 \<Longrightarrow> ''tenant_key_version'' \<notin> rows" "i = 6 \<Longrightarrow> ''invitation'' \<notin> rows"
    using assms(2) new_tables by auto
  then show ?thesis
    using below_7 [OF assms(1)]
    by (elim insertE emptyE; simp add: versions_def script_defs parsed policies_parsed [unfolded append_Cons append_Nil]
        amr_has_default one_organization_def)
qed

lemma downgrade_rows:
  assumes "i < 7"
  shows "rows_ok valid rows (mg_downgrade (versions ! i))"
  using below_7 [OF assms] by (elim insertE emptyE; simp add: versions_def script_defs parsed)

lemma names_grow:
  assumes "i < 7"
  shows "names_at i \<subseteq> names_at (Suc i)"
  using below_7 [OF assms] by (elim insertE emptyE; simp add: names_at_def tables_at_def table_def_names)

lemma rows_after_mono: "rows \<subseteq> R \<Longrightarrow> fold rows_after ops rows \<subseteq> fold rows_after ops R"
proof (induction ops arbitrary: rows R)
  case (Cons op ops)
  have "rows_after op rows \<subseteq> rows_after op R"
    using Cons.prems by (cases op) (auto split: option.splits sql_statement.splits)
  with Cons.IH show ?case by simp
qed simp

lemma dropped_names:
  assumes "i < 7"
  shows "fold rows_after (mg_downgrade (versions ! i)) (names_at (Suc i)) \<subseteq> names_at i"
  using below_7 [OF assms]
  by (elim insertE emptyE; simp add: versions_def script_defs parsed names_at_def tables_at_def table_def_names insert_Diff_if)

lemma dropped_rows:
  assumes "i < 7" and "rows \<subseteq> names_at (Suc i)"
  shows "fold rows_after (mg_downgrade (versions ! i)) rows \<subseteq> names_at i"
  using rows_after_mono [OF assms(2)] dropped_names [OF assms(1)] by blast

lemma membership_kept:
  assumes "i < 7"
  shows "''membership'' \<in> fold rows_after (mg_upgrade (versions ! i)) rows \<longleftrightarrow> ''membership'' \<in> rows"
  using below_7 [OF assms]
  by (elim insertE emptyE; simp add: versions_def script_defs parsed policies_parsed [unfolded append_Cons append_Nil])

section \<open>Plans\<close>

text \<open>A database at revision \<open>k\<close>; \<open>b\<close> tells which of its tables the policies have been applied to.\<close>

definition at_revision :: "nat \<Rightarrow> (string \<Rightarrow> bool) \<Rightarrow> database \<Rightarrow> bool" where
  "at_revision k b d \<longleftrightarrow> k \<le> 7 \<and> da_version d = version_at k \<and> (\<exists>u. da_schema d = schema_of u b (tables_at k)) \<and>
     da_rows d \<subseteq> names_at k"

lemma upgrade_run_step:
  assumes "at_revision i b d" and "i < 7"
  shows "if i = 6 \<longrightarrow> one_organization valid (da_rows d)
    then \<exists>b' d'. run_step valid (mg_upgrade (versions ! i), version_at (Suc i)) d = (Inr (), d') \<and>
      at_revision (Suc i) b' d' \<and> (''membership'' \<in> da_rows d' \<longleftrightarrow> ''membership'' \<in> da_rows d)
    else \<exists>e d'. run_step valid (mg_upgrade (versions ! i), version_at (Suc i)) d = (Inl e, d')"
proof -
  obtain u where schema: "da_schema d = schema_of u b (tables_at i)" and rows: "da_rows d \<subseteq> names_at i"
    using assms(1) by (auto simp: at_revision_def)
  obtain u' b' where run: "for_each run_op (mg_upgrade (versions ! i)) (da_schema d) =
      (Inr (), schema_of u' b' (tables_at (Suc i)))"
    using upgrade_step [OF assms(2)] schema by metis
  let ?rows = "fold rows_after (mg_upgrade (versions ! i)) (da_rows d)"
  have kept: "?rows \<subseteq> names_at (Suc i)"
    using rows_shrink rows names_grow [OF assms(2)] by blast
  show ?thesis
  proof (cases "i = 6 \<longrightarrow> one_organization valid (da_rows d)")
    case True
    then have "rows_ok valid (da_rows d) (mg_upgrade (versions ! i))"
      using upgrade_rows [OF assms(2) rows] by blast
    from apply_ops_ok [OF run this] show ?thesis
      using True kept assms membership_kept [OF assms(2)]
      by (auto simp: run_step_def seq_def modify_def at_revision_def)
  next
    case False
    then have "\<not> rows_ok valid (da_rows d) (mg_upgrade (versions ! i))"
      using upgrade_rows [OF assms(2) rows] by blast
    from apply_ops_refused [OF run this] show ?thesis
      using False by (auto simp: run_step_def seq_def)
  qed
qed

lemma downgrade_run_step:
  assumes "at_revision (Suc i) b d"
  shows "\<exists>d'. run_step valid (mg_downgrade (versions ! i), version_at i) d = (Inr (), d') \<and> at_revision i b d' \<and>
    sc_tables (da_schema d') = map (sec b) (tables_at i)"
proof -
  have bound: "i < 7" using assms by (simp add: at_revision_def)
  obtain u where schema: "da_schema d = schema_of u b (tables_at (Suc i))" and rows: "da_rows d \<subseteq> names_at (Suc i)"
    using assms by (auto simp: at_revision_def)
  have "for_each run_op (mg_downgrade (versions ! i)) (da_schema d) = (Inr (), schema_of u b (tables_at i))"
    using downgrade_step [OF bound] schema by simp
  from apply_ops_ok [OF this downgrade_rows [OF bound]] show ?thesis
    using bound dropped_rows [OF bound rows]
    by (auto simp: run_step_def seq_def modify_def at_revision_def schema_of_def)
qed

lemma plan_simps:
  "upgrade_plan n n = []" "downgrade_plan n n = []"
  "k < n \<Longrightarrow> upgrade_plan k n = (mg_upgrade (versions ! k), version_at (Suc k)) # upgrade_plan (Suc k) n"
  "n \<le> k \<Longrightarrow> downgrade_plan (Suc k) n = (mg_downgrade (versions ! k), version_at k) # downgrade_plan k n"
  by (simp_all add: upgrade_plan_def downgrade_plan_def upt_conv_Cons)

lemma upgrade_runs:
  assumes "at_revision k b d" and "k \<le> n" and "n \<le> 7"
  shows "if k < 7 \<and> n = 7 \<longrightarrow> one_organization valid (da_rows d)
    then \<exists>b' d'. for_each (run_step valid) (upgrade_plan k n) d = (Inr (), d') \<and> at_revision n b' d'
    else \<exists>e d'. for_each (run_step valid) (upgrade_plan k n) d = (Inl e, d')"
  using assms
proof (induction "n - k" arbitrary: k b d)
  case 0
  then show ?case by (auto simp: plan_simps)
next
  case (Suc m)
  then have less: "k < n" by simp
  note step = upgrade_run_step [OF Suc.prems(1), of valid]
  show ?case
  proof (cases "k = 6 \<longrightarrow> one_organization valid (da_rows d)")
    case True
    then obtain b1 d1 where d1: "run_step valid (mg_upgrade (versions ! k), version_at (Suc k)) d = (Inr (), d1)"
      "at_revision (Suc k) b1 d1" "''membership'' \<in> da_rows d1 \<longleftrightarrow> ''membership'' \<in> da_rows d"
      using step less Suc.prems(3) by (auto split: if_splits)
    have same: "(Suc k < 7 \<and> n = 7 \<longrightarrow> one_organization valid (da_rows d1)) \<longleftrightarrow>
        (k < 7 \<and> n = 7 \<longrightarrow> one_organization valid (da_rows d))"
      using d1(3) True less Suc.prems(3) by (auto simp: one_organization_def)
    from d1(1) have "for_each (run_step valid) (upgrade_plan k n) d = for_each (run_step valid) (upgrade_plan (Suc k) n) d1"
      using less by (simp add: plan_simps seq_def)
    moreover have "m = n - Suc k" using Suc.hyps(2) by simp
    ultimately show ?thesis
      using Suc.hyps(1) [OF _ d1(2)] less Suc.prems(3) same by (auto split: if_splits)
  next
    case False
    then show ?thesis
      using step less Suc.prems(3) by (auto simp: plan_simps seq_def split: if_splits)
  qed
qed

lemma downgrade_runs:
  assumes "at_revision k b d" and "n \<le> k"
  shows "\<exists>d'. for_each (run_step valid) (downgrade_plan k n) d = (Inr (), d') \<and> at_revision n b d'"
  using assms
proof (induction k arbitrary: d)
  case (Suc k)
  show ?case
  proof (cases "n = Suc k")
    case False
    then have le: "n \<le> k" using Suc.prems(2) by simp
    obtain d1 where "run_step valid (mg_downgrade (versions ! k), version_at k) d = (Inr (), d1)" "at_revision k b d1"
      using downgrade_run_step [OF Suc.prems(1)] by blast
    then show ?thesis
      using Suc.IH [OF _ le] le by (simp add: plan_simps seq_def)
  qed (use Suc.prems in \<open>simp add: plan_simps\<close>)
qed (simp add: plan_simps)

section \<open>Commands\<close>

lemma secure_twice: "secure_table (secure_table td) = secure_table td"
proof -
  have "secure c (secure c td) = secure c td" for c
    by (cases td) (simp add: secure_def tenant_policy_def)
  then show ?thesis
    by (simp add: secure_table_def split: option.split)
qed

lemma hook_schema: "mapped secure_table (schema_of u b tds) = schema_of u (\<lambda>_. True) tds"
  by (auto simp: mapped_def schema_of_def sec_def secure_twice)

lemma run_upgrade:
  assumes "at_revision k b d" and "k \<le> n" and "n \<le> 7" and "k = n \<longrightarrow> b = b'" and "k \<noteq> n \<longrightarrow> b' = (\<lambda>_. True)"
  shows "if k < 7 \<and> n = 7 \<longrightarrow> one_organization valid (da_rows d)
    then \<exists>d'. do_run_migrations valid (upgrade_plan k n) d = (Inr (), d') \<and> at_revision n b' d'
    else \<exists>e. do_run_migrations valid (upgrade_plan k n) d = (Inl e, d)"
proof (cases "k = n")
  case True
  then show ?thesis
    using assms upgrade_answer [OF assms(3) assms(3)]
    by (simp add: plan_simps do_run_migrations_def transaction_def prog_simps at_revision_def)
next
  case False
  note answer = upgrade_answer [of k n]
  have start: "da_version d = version_at k" "k \<le> 7"
    using assms(1) by (simp_all add: at_revision_def)
  show ?thesis
  proof (cases "k < 7 \<and> n = 7 \<longrightarrow> one_organization valid (da_rows d)")
    case True
    then obtain b1 d1 where d1: "for_each (run_step valid) (upgrade_plan k n) d = (Inr (), d1)" "at_revision n b1 d1"
      using upgrade_runs [OF assms(1-3), of valid] by (auto split: if_splits)
    then obtain u where "da_schema d1 = schema_of u b1 (tables_at n)" "da_version d1 = version_at n"
      by (auto simp: at_revision_def)
    then have "do_run_migrations valid (upgrade_plan k n) d =
        (Inr (), d1\<lparr>da_schema := schema_of u (\<lambda>_. True) (tables_at n)\<rparr>)"
      using d1(1) start answer assms(2,3) False
      by (simp add: do_run_migrations_def transaction_def seq_def query_def hook_secures hook_schema
          del: is_upgrade_revision.simps)
    then show ?thesis
      using True d1(2) assms(5) False by (auto simp: at_revision_def)
  next
    case False
    then show ?thesis
      using upgrade_runs [OF assms(1-3), of valid]
      by (auto simp: do_run_migrations_def transaction_def seq_def query_def)
  qed
qed

lemma run_downgrade:
  assumes "at_revision k b d" and "n \<le> k"
  shows "\<exists>d'. do_run_migrations valid (downgrade_plan k n) d = (Inr (), d') \<and> at_revision n b d'"
proof -
  have start: "da_version d = version_at k" "k \<le> 7"
    using assms(1) by (simp_all add: at_revision_def)
  obtain d' where d': "for_each (run_step valid) (downgrade_plan k n) d = (Inr (), d')" "at_revision n b d'"
    using downgrade_runs [OF assms] by blast
  then have "do_run_migrations valid (downgrade_plan k n) d = (Inr (), d')"
    using start upgrade_answer [of k n] assms(2)
    by (simp add: do_run_migrations_def transaction_def seq_def query_def at_revision_def
        del: is_upgrade_revision.simps)
  with d'(2) show ?thesis by blast
qed

lemma version_at_inj: "k \<le> 7 \<Longrightarrow> n \<le> 7 \<Longrightarrow> version_at k = version_at n \<Longrightarrow> k = n"
  using versions_distinct [of "k - 1" "n - 1"] by (auto simp: version_at_def split: if_splits)

lemma revision_known:
  assumes "at_revision j b d" and "da_version d = version_at k" and "k \<le> 7"
  shows "at_revision k b d"
proof -
  have "j = k"
    using assms by (auto simp: at_revision_def intro: version_at_inj)
  with assms(1) show ?thesis by simp
qed

text \<open>Between commands the policies are in place on every tenant-owned table.\<close>

lemma migrated_at_revision: "migrated d \<Longrightarrow> \<exists>k. at_revision k (\<lambda>_. True) d"
proof (induction rule: migrated.induct)
  case start
  have "at_revision 0 (\<lambda>_. True) empty_database"
    by (simp add: at_revision_def empty_database_def empty_schema_def schema_of_def tables_at_def version_at_def)
  then show ?case by blast
next
  case (upgraded d k n valid r d')
  then have at: "at_revision k (\<lambda>_. True) d"
    using revision_known by (fastforce simp: versions_count)
  show ?case
    using run_upgrade [OF at, of n "\<lambda>_. True" valid] upgraded at by (auto simp: versions_count split: if_splits)
next
  case (downgraded d k n valid r d')
  then have at: "at_revision k (\<lambda>_. True) d"
    using revision_known by (fastforce simp: versions_count)
  show ?case
    using run_downgrade [OF at, of n valid] downgraded by auto
next
  case (used d rows)
  then obtain k where at: "at_revision k (\<lambda>_. True) d" by blast
  then have "set (map td_name (sc_tables (da_schema d))) = names_at k"
    by (auto simp: at_revision_def schema_of_def names_at_def image_image)
  with used(2) at have "at_revision k (\<lambda>_. True) (d\<lparr>da_rows := rows\<rparr>)"
    by (simp add: at_revision_def)
  then show ?case by blast
qed

section \<open>The checklist for tenant-owned tables\<close>

text \<open>
  \<open>docs/migration-checklist.md\<close>: a tenant-owned table has its tenant column, required and indexed, and is under
  forced row-level security with the policy \<open>tenant_isolation\<close> on that column alone; every other table has
  neither a tenant column nor a policy.
\<close>

definition tenant_table_ok :: "string \<Rightarrow> table_def \<Rightarrow> bool" where
  "tenant_table_ok c td \<longleftrightarrow>
     td_rls td \<and> td_forced td \<and> td_policies td = [tenant_policy c] \<and>
     list_ex (\<lambda>co. co_name co = c \<and> \<not> co_nullable co) (td_columns td) \<and>
     (td_primary_key td = [c] \<or> list_ex (\<lambda>i. ix_columns i = [c]) (td_indexes td))"

definition global_table_ok :: "table_def \<Rightarrow> bool" where
  "global_table_ok td \<longleftrightarrow> \<not> td_rls td \<and> td_policies td = [] \<and> \<not> has_column td ''tenant_id''"

definition isolated :: "table_def \<Rightarrow> bool" where
  "isolated td = (case map_of tenant_tables (td_name td) of
     Some c \<Rightarrow> tenant_table_ok c td | None \<Rightarrow> global_table_ok td)"

text \<open>What the application role may do to the tables whose rows must stay.\<close>

definition append_only :: "table_def \<Rightarrow> bool" where
  "append_only td \<longleftrightarrow>
     (td_name td \<in> {''audit_event'', ''secret_version''} \<longrightarrow>
        set (td_privileges td) = {(''vaultlog_app'', ''SELECT''), (''vaultlog_app'', ''INSERT'')}) \<and>
     (td_name td = ''audit_chain_head'' \<longrightarrow> (''vaultlog_app'', ''DELETE'') \<notin> set (td_privileges td))"

definition all_tables :: "table_def list" where
  "all_tables = [organization_table, vault_first, app_user_table, membership_first, auth_session_first,
     refresh_token_table, totp_secret_table, recovery_code_table, vault_table, vault_grant_table,
     tenant_key_version_table, secret_table, secret_version_table, audit_event_table, audit_chain_head_table,
     auth_session_table, membership_table, invitation_table]"

lemma tables_at_all: "k \<le> 7 \<Longrightarrow> set (tables_at k) \<subseteq> set all_tables"
  using eight_cases [of k] by (auto simp: tables_at_def all_tables_def)

lemma all_tables_isolated: "list_all (\<lambda>td. isolated (secure_table td)) all_tables"
  unfolding all_tables_def list.pred_inject by (intro conjI; code_simp)

lemma all_tables_append_only: "list_all append_only all_tables"
  unfolding all_tables_def list.pred_inject by (intro conjI; code_simp)

lemma secured_append_only: "append_only (sec b td) = append_only td"
  by (simp add: append_only_def)

text \<open>
  C13. Whatever upgrades and downgrades are run, in any order and with whatever rows, every tenant-owned
  table there is keeps its checklist, no other table has a tenant column or a policy, and the application role
  can only read and append events and secret versions and cannot delete chain heads.
\<close>

theorem migrated_tables_are_isolated:
  assumes "migrated d"
  shows "list_all isolated (sc_tables (da_schema d)) \<and> list_all append_only (sc_tables (da_schema d))"
proof -
  obtain k u where k: "k \<le> 7" and schema: "da_schema d = schema_of u (\<lambda>_. True) (tables_at k)"
    using migrated_at_revision [OF assms] by (auto simp: at_revision_def)
  have "sc_tables (da_schema d) = map secure_table (tables_at k)"
    by (simp add: schema schema_of_def sec_def)
  moreover have "append_only (secure_table td) = append_only td" for td
    by (simp add: append_only_def)
  ultimately show ?thesis
    using tables_at_all [OF k] all_tables_isolated all_tables_append_only by (auto simp: list_all_iff)
qed

theorem migrated_tables_are_isolated_witness:
  "list_all isolated (sc_tables (da_schema
     (snd (do_run_migrations (\<lambda>_ _. True) (upgrade_plan 0 7) empty_database)))) \<and>
   list_all append_only (sc_tables (da_schema
     (snd (do_run_migrations (\<lambda>_ _. True) (upgrade_plan 0 7) empty_database))))"
proof (rule migrated_tables_are_isolated)
  show "migrated (snd (do_run_migrations (\<lambda>_ _. True) (upgrade_plan 0 7) empty_database))"
    by (rule upgraded [OF start, where k = 0 and n = 7 and valid = "\<lambda>_ _. True" and
        r = "fst (do_run_migrations (\<lambda>_ _. True) (upgrade_plan 0 7) empty_database)"])
      (simp_all add: empty_database_def version_at_def versions_count)
qed

text \<open>
  C26. An upgrade from any reached revision to any later one fails only where some user belongs to two
  organizations and the last revision forbids it; then nothing has changed. Otherwise it leads to the later revision,
  and the downgrade back succeeds and restores version and tables, policies and privileges included.
\<close>

theorem upgrades_can_be_undone:
  assumes "migrated d" and "da_version d = version_at k" and "k \<le> n" and "n \<le> length versions"
  shows "case do_run_migrations valid (upgrade_plan k n) d of
      (Inl e, d') \<Rightarrow> d' = d \<and> k < n \<and> n = length versions \<and> ''membership'' \<in> da_rows d \<and>
        \<not> valid ''membership'' ''uq_membership_one_user''
    | (Inr _, d') \<Rightarrow> da_version d' = version_at n \<and>
        (\<exists>d''. do_run_migrations valid (downgrade_plan n k) d' = (Inr (), d'') \<and> da_version d'' = da_version d \<and>
           sc_tables (da_schema d'') = sc_tables (da_schema d))"
proof -
  have bound: "n \<le> 7" using assms(4) by (simp add: versions_count)
  obtain j where "at_revision j (\<lambda>_. True) d"
    using migrated_at_revision [OF assms(1)] by blast
  then have at: "at_revision k (\<lambda>_. True) d"
    using revision_known assms(2,3) bound by fastforce
  note up = run_upgrade [OF at assms(3) bound, of "\<lambda>_. True" valid]
  show ?thesis
  proof (cases "k < 7 \<and> n = 7 \<longrightarrow> one_organization valid (da_rows d)")
    case True
    then obtain d' where d': "do_run_migrations valid (upgrade_plan k n) d = (Inr (), d')" "at_revision n (\<lambda>_. True) d'"
      using up by auto
    obtain d'' where d'': "do_run_migrations valid (downgrade_plan n k) d' = (Inr (), d'')" "at_revision k (\<lambda>_. True) d''"
      using run_downgrade [OF d'(2) assms(3)] by blast
    have "sc_tables (da_schema d'') = sc_tables (da_schema d)"
      using at d''(2) by (auto simp: at_revision_def schema_of_def)
    then show ?thesis
      using d' d'' at by (auto simp: at_revision_def)
  next
    case False
    then show ?thesis
      using up by (auto simp: one_organization_def versions_count)
  qed
qed

theorem upgrades_can_be_undone_witness:
  "case do_run_migrations (\<lambda>_ _. True) (upgrade_plan 0 7) empty_database of
      (Inl e, d') \<Rightarrow> d' = empty_database \<and> (0 :: nat) < 7 \<and> 7 = length versions \<and>
        ''membership'' \<in> da_rows empty_database \<and> \<not> True
    | (Inr _, d') \<Rightarrow> da_version d' = version_at 7 \<and>
        (\<exists>d''. do_run_migrations (\<lambda>_ _. True) (downgrade_plan 7 0) d' = (Inr (), d'') \<and>
           da_version d'' = da_version empty_database \<and>
           sc_tables (da_schema d'') = sc_tables (da_schema empty_database))"
  by (rule upgrades_can_be_undone [OF start, of 0 7 "\<lambda>_ _. True"])
    (simp_all add: empty_database_def version_at_def versions_count)

end
