(* ===== verification/Metadata.thy ===== *)
theory Metadata
  imports Migration_Laws
begin

text \<open>
  The tables SQLAlchemy declares in \<open>infrastructure/database/models.py\<close> and \<open>identity_models.py\<close>, the
  \<open>target_metadata\<close> of \<open>alembic/env.py\<close>, and how the migrated database differs from them.
\<close>

section \<open>The declared tables\<close>

definition organization_model :: "table_item list" where
  "organization_model =
    [Column ''id'' Uuid [PrimaryKey],
     Column ''name'' (Varchar (Some 200)) [Nullable False],
     Column ''created_at'' Timestamptz [ServerDefault ''now()'', Nullable False]]"

definition vault_model :: "table_item list" where
  "vault_model =
    [Column ''id'' Uuid [PrimaryKey],
     Column ''tenant_id'' Uuid [ForeignKey ''organization.id'' (Some ''CASCADE''), Nullable False, Indexed],
     Column ''name'' (Varchar (Some 200)) [Nullable False],
     Column ''description'' (Varchar (Some 1000)) [Nullable True],
     Column ''created_by_user_id'' Uuid [Nullable False],
     Column ''created_at'' Timestamptz [ServerDefault ''now()'', Nullable False],
     Column ''updated_at'' Timestamptz [ServerDefault ''now()'', Nullable False],
     Column ''deleted_at'' Timestamptz [Nullable True],
     CheckConstraint ''length(name) >= 1'' ''ck_vault_name_nonempty'',
     UniqueConstraint [''tenant_id'', ''name''] ''uq_vault_tenant_name'']"

definition vault_grant_model :: "table_item list" where
  "vault_grant_model =
    [Column ''id'' Uuid [PrimaryKey],
     Column ''tenant_id'' Uuid [ForeignKey ''organization.id'' (Some ''CASCADE''), Nullable False, Indexed],
     Column ''vault_id'' Uuid [ForeignKey ''vault.id'' (Some ''CASCADE''), Nullable False, Indexed],
     Column ''membership_id'' Uuid [ForeignKey ''membership.id'' (Some ''CASCADE''), Nullable False, Indexed],
     Column ''permission'' (Varchar (Some 10)) [Nullable False],
     Column ''granted_by_user_id'' Uuid [Nullable False],
     Column ''created_at'' Timestamptz [ServerDefault ''now()'', Nullable False],
     CheckConstraint ''permission IN ('read','write','admin')'' ''ck_vault_grant_permission'',
     UniqueConstraint [''vault_id'', ''membership_id''] ''uq_vault_grant_vault_membership'']"

definition tenant_key_version_model :: "table_item list" where
  "tenant_key_version_model =
    [Column ''id'' Uuid [PrimaryKey],
     Column ''tenant_id'' Uuid [ForeignKey ''organization.id'' (Some ''CASCADE''), Nullable False, Indexed],
     Column ''version'' Integer [Nullable False],
     Column ''wrapped_dek'' LargeBinary [Nullable False],
     Column ''wrap_nonce'' LargeBinary [Nullable False],
     Column ''wrapping_key_id'' (Varchar (Some 200)) [Nullable False],
     Column ''status'' (Varchar (Some 10)) [Nullable False],
     Column ''created_at'' Timestamptz [ServerDefault ''now()'', Nullable False],
     Column ''retired_at'' Timestamptz [Nullable True],
     UniqueConstraint [''tenant_id'', ''version''] ''uq_tenant_key_version'',
     CheckConstraint ''status IN ('active','retired')'' ''ck_tkv_status'',
     Index ''uq_tenant_key_one_active'' [''tenant_id''] True
       (Some (''status = 'active'' @ [CHR 0x27]))]"

definition secret_model :: "table_item list" where
  "secret_model =
    [Column ''id'' Uuid [PrimaryKey],
     Column ''tenant_id'' Uuid [ForeignKey ''organization.id'' (Some ''CASCADE''), Nullable False, Indexed],
     Column ''vault_id'' Uuid [ForeignKey ''vault.id'' (Some ''CASCADE''), Nullable False, Indexed],
     Column ''name'' (Varchar (Some 200)) [Nullable False],
     Column ''description'' (Varchar (Some 1000)) [Nullable True],
     Column ''current_version'' Integer [Nullable False],
     Column ''created_by_user_id'' Uuid [Nullable False],
     Column ''created_at'' Timestamptz [ServerDefault ''now()'', Nullable False],
     Column ''updated_at'' Timestamptz [ServerDefault ''now()'', Nullable False],
     Column ''deleted_at'' Timestamptz [Nullable True],
     UniqueConstraint [''vault_id'', ''name''] ''uq_secret_vault_name'']"

definition secret_version_model :: "table_item list" where
  "secret_version_model =
    [Column ''id'' Uuid [PrimaryKey],
     Column ''tenant_id'' Uuid [ForeignKey ''organization.id'' (Some ''CASCADE''), Nullable False, Indexed],
     Column ''secret_id'' Uuid [ForeignKey ''secret.id'' (Some ''CASCADE''), Nullable False, Indexed],
     Column ''version'' Integer [Nullable False],
     Column ''ciphertext'' LargeBinary [Nullable False],
     Column ''nonce'' LargeBinary [Nullable False],
     Column ''dek_version'' Integer [Nullable False],
     Column ''created_by_user_id'' Uuid [Nullable False],
     Column ''created_at'' Timestamptz [ServerDefault ''now()'', Nullable False],
     UniqueConstraint [''secret_id'', ''version''] ''uq_secret_version'']"

definition audit_event_model :: "table_item list" where
  "audit_event_model =
    [Column ''id'' Uuid [PrimaryKey],
     Column ''tenant_id'' Uuid [ForeignKey ''organization.id'' (Some ''RESTRICT''), Nullable False, Indexed],
     Column ''sequence'' BigInteger [Nullable False],
     Column ''actor_user_id'' Uuid [Nullable True],
     Column ''session_id'' Uuid [Nullable True],
     Column ''action'' (Varchar (Some 50)) [Nullable False],
     Column ''target_type'' (Varchar (Some 50)) [Nullable False],
     Column ''target_id'' Uuid [Nullable True],
     Column ''outcome'' (Varchar (Some 10)) [Nullable False],
     Column ''metadata'' Jsonb [Nullable False],
     Column ''occurred_at'' Timestamptz [ServerDefault ''now()'', Nullable False],
     Column ''previous_hash'' LargeBinary [Nullable True],
     Column ''entry_hash'' LargeBinary [Nullable False],
     UniqueConstraint [''tenant_id'', ''sequence''] ''uq_audit_tenant_sequence'',
     UniqueConstraint [''tenant_id'', ''entry_hash''] ''uq_audit_tenant_entry_hash'',
     CheckConstraint ''outcome IN ('success','failure','denied')'' ''ck_audit_outcome'',
     Index ''ix_audit_tenant_action_time'' [''tenant_id'', ''action'', ''occurred_at''] False None]"

definition audit_chain_head_model :: "table_item list" where
  "audit_chain_head_model =
    [Column ''tenant_id'' Uuid [ForeignKey ''organization.id'' (Some ''RESTRICT''), PrimaryKey],
     Column ''last_sequence'' BigInteger [Nullable False],
     Column ''last_hash'' LargeBinary [Nullable True]]"

definition invitation_model :: "table_item list" where
  "invitation_model =
    [Column ''id'' Uuid [PrimaryKey],
     Column ''tenant_id'' Uuid [ForeignKey ''organization.id'' (Some ''CASCADE''), Nullable False, Indexed],
     Column ''email'' (Varchar (Some 320)) [Nullable False],
     Column ''role'' (Varchar (Some 20)) [Nullable False],
     Column ''token_hash'' (Varchar (Some 64)) [Nullable False, Unique, Indexed],
     Column ''invited_by_user_id'' Uuid [Nullable False],
     Column ''expires_at'' Timestamptz [Nullable False],
     Column ''accepted_at'' Timestamptz [Nullable True],
     Column ''revoked_at'' Timestamptz [Nullable True],
     Column ''created_at'' Timestamptz [ServerDefault ''now()'', Nullable False],
     CheckConstraint ''role IN ('admin','member','viewer')'' ''ck_invitation_role'',
     Index ''uq_invitation_pending_tenant_email'' [''tenant_id'', ''email''] True
       (Some ''accepted_at IS NULL AND revoked_at IS NULL'')]"

definition app_user_model :: "table_item list" where
  "app_user_model =
    [Column ''id'' Uuid [PrimaryKey],
     Column ''email'' (Varchar (Some 320)) [Unique, Nullable False],
     Column ''password_hash'' (Varchar (Some 255)) [Nullable False],
     Column ''is_active'' Boolean [Nullable False],
     Column ''mfa_enabled'' Boolean [Nullable False],
     Column ''created_at'' Timestamptz [ServerDefault ''now()'', Nullable False]]"

definition membership_model :: "table_item list" where
  "membership_model =
    [Column ''id'' Uuid [PrimaryKey],
     Column ''tenant_id'' Uuid [ForeignKey ''organization.id'' (Some ''CASCADE''), Nullable False, Indexed],
     Column ''user_id'' Uuid [ForeignKey ''app_user.id'' (Some ''CASCADE''), Nullable False, Indexed],
     Column ''role'' (Varchar (Some 20)) [Nullable False],
     Column ''created_at'' Timestamptz [ServerDefault ''now()'', Nullable False]]"

definition auth_session_model :: "table_item list" where
  "auth_session_model =
    [Column ''id'' Uuid [PrimaryKey],
     Column ''user_id'' Uuid [ForeignKey ''app_user.id'' (Some ''CASCADE''), Nullable False, Indexed],
     Column ''revoked_at'' Timestamptz [Nullable True],
     Column ''revocation_reason'' (Varchar (Some 50)) [Nullable True],
     Column ''user_agent'' (Varchar (Some 500)) [Nullable True],
     Column ''created_at'' Timestamptz [ServerDefault ''now()'', Nullable False],
     Column ''last_used_at'' Timestamptz [ServerDefault ''now()'', Nullable False],
     Column ''amr'' (ArrayOf (Varchar None)) [Nullable False, ServerLiteral ''{'pwd'}'']]"

definition refresh_token_model :: "table_item list" where
  "refresh_token_model =
    [Column ''id'' Uuid [PrimaryKey],
     Column ''session_id'' Uuid [ForeignKey ''auth_session.id'' (Some ''CASCADE''), Nullable False, Indexed],
     Column ''token_hash'' (Varchar (Some 64)) [Unique, Nullable False],
     Column ''expires_at'' Timestamptz [Nullable False],
     Column ''used_at'' Timestamptz [Nullable True],
     Column ''revoked_at'' Timestamptz [Nullable True],
     Column ''replaced_by_id'' Uuid [ForeignKey ''refresh_token.id'' None, Nullable True],
     Column ''created_at'' Timestamptz [ServerDefault ''now()'', Nullable False]]"

definition totp_secret_model :: "table_item list" where
  "totp_secret_model =
    [Column ''id'' Uuid [PrimaryKey],
     Column ''user_id'' Uuid [ForeignKey ''app_user.id'' (Some ''CASCADE''), Unique, Nullable False, Indexed],
     Column ''encrypted_seed'' LargeBinary [Nullable False],
     Column ''seed_nonce'' LargeBinary [Nullable False],
     Column ''confirmed'' Boolean [Nullable False],
     Column ''created_at'' Timestamptz [ServerDefault ''now()'', Nullable False],
     Column ''confirmed_at'' Timestamptz [Nullable True]]"

definition recovery_code_model :: "table_item list" where
  "recovery_code_model =
    [Column ''id'' Uuid [PrimaryKey],
     Column ''user_id'' Uuid [ForeignKey ''app_user.id'' (Some ''CASCADE''), Nullable False, Indexed],
     Column ''code_hash'' (Varchar (Some 64)) [Unique, Nullable False],
     Column ''used_at'' Timestamptz [Nullable True],
     Column ''created_at'' Timestamptz [ServerDefault ''now()'', Nullable False]]"

definition target_metadata :: "table_def list" where
  "target_metadata = map (\<lambda>(t, items). table_of_items t items)
     [(''organization'', organization_model),
      (''vault'', vault_model),
      (''vault_grant'', vault_grant_model),
      (''tenant_key_version'', tenant_key_version_model),
      (''secret'', secret_model),
      (''secret_version'', secret_version_model),
      (''audit_event'', audit_event_model),
      (''audit_chain_head'', audit_chain_head_model),
      (''invitation'', invitation_model),
      (''app_user'', app_user_model),
      (''membership'', membership_model),
      (''auth_session'', auth_session_model),
      (''refresh_token'', refresh_token_model),
      (''totp_secret'', totp_secret_model),
      (''recovery_code'', recovery_code_model)]"

section \<open>What differs\<close>

text \<open>
  What a table says, without the names of keys and indexes and the order of columns. A default counts where
  the model declares it to the server; defaults that Python fills in are the database's own affair.
\<close>

datatype fact =
    ColumnFact string column_type bool
  | DefaultFact string string
  | PrimaryKeyFact "string list"
  | ForeignKeyFact "string list" string "string list" "string option"
  | UniqueFact "string list" "string option"
  | IndexFact "string list"
  | CheckFact string string

definition table_facts :: "table_def \<Rightarrow> fact list" where
  "table_facts td =
     map (\<lambda>co. ColumnFact (co_name co) (co_type co) (co_nullable co)) (td_columns td) @
     [PrimaryKeyFact (td_primary_key td)] @
     map (\<lambda>fk. ForeignKeyFact (fk_columns fk) (fk_table fk) (fk_references fk) (fk_ondelete fk)) (td_foreign_keys td) @
     map (\<lambda>u. UniqueFact (snd u) None) (td_uniques td) @
     map (\<lambda>i. UniqueFact (ix_columns i) (ix_where i)) (filter ix_unique (td_indexes td)) @
     map (\<lambda>i. IndexFact (ix_columns i)) (td_indexes td) @
     map (\<lambda>k. CheckFact (fst k) (snd k)) (td_checks td)"

definition default_facts :: "table_def \<Rightarrow> fact list" where
  "default_facts td = concat (map (\<lambda>co. case co_default co of None \<Rightarrow> [] | Some d \<Rightarrow> [DefaultFact (co_name co) d]) (td_columns td))"

definition only_declared :: "table_def \<Rightarrow> table_def \<Rightarrow> fact list" where
  "only_declared model td = filter (\<lambda>f. f \<notin> set (table_facts td @ default_facts td)) (table_facts model @ default_facts model)"

definition only_migrated :: "table_def \<Rightarrow> table_def \<Rightarrow> fact list" where
  "only_migrated model td = filter (\<lambda>f. f \<notin> set (table_facts model)) (table_facts td)"

text \<open>The differences of every declared table the database has, and the tables one side has alone.\<close>

definition drift :: "table_def list \<Rightarrow> table_def list \<Rightarrow> (string \<times> fact list \<times> fact list) list" where
  "drift models tds =
     filter (\<lambda>(t, a, b). a \<noteq> [] \<or> b \<noteq> [])
       (concat (map (\<lambda>m. map (\<lambda>td. (td_name m, only_declared m td, only_migrated m td))
          (filter (\<lambda>td. td_name td = td_name m) tds)) models))"

definition unmatched :: "table_def list \<Rightarrow> table_def list \<Rightarrow> string list" where
  "unmatched models tds =
     filter (\<lambda>t. t \<notin> set (map td_name tds)) (map td_name models) @
     filter (\<lambda>t. t \<notin> set (map td_name models)) (map td_name tds)"

section \<open>The migrated schema\<close>

lemma drift_secured: "drift models (map secure_table tds) = drift models tds"
proof -
  have "table_facts (secure_table td) = table_facts td" "default_facts (secure_table td) = default_facts td" for td
    by (simp_all add: table_facts_def default_facts_def)
  then show ?thesis
    by (simp add: drift_def filter_map o_def only_declared_def only_migrated_def)
qed

lemma unmatched_secured: "unmatched models (map secure_table tds) = unmatched models tds"
  by (simp add: unmatched_def o_def)

lemma head_unmatched: "unmatched target_metadata (tables_at 7) = []"
  by code_simp

lemma head_drift: "drift target_metadata (tables_at 7) =
    [(''membership'', [],
      [UniqueFact [''tenant_id'', ''user_id''] None, UniqueFact [''user_id''] None,
       CheckFact ''ck_membership_role'' ''role IN ('owner','admin','member','viewer')'']),
     (''auth_session'',
      [ColumnFact ''amr'' (ArrayOf (Varchar None)) False, DefaultFact ''amr'' (sql_literal ''{'pwd'}'')],
      [ColumnFact ''amr'' (ArrayOf Text) False])]"
  by code_simp

text \<open>
  C27. At the last revision the database has exactly the declared tables, and they agree in columns, keys,
  foreign keys, checks, indexes and declared defaults but for two: \<open>membership\<close> is unique per user and has its
  roles checked only in the database, and \<open>amr\<close> is declared with another element type and with a default
  that spells the quotes into the method.
\<close>

theorem migrated_schema_is_declared:
  assumes "migrated d" and "da_version d = version_at (length versions)"
  shows "unmatched target_metadata (sc_tables (da_schema d)) = [] \<and>
    drift target_metadata (sc_tables (da_schema d)) =
      [(''membership'', [],
        [UniqueFact [''tenant_id'', ''user_id''] None, UniqueFact [''user_id''] None,
         CheckFact ''ck_membership_role'' ''role IN ('owner','admin','member','viewer')'']),
       (''auth_session'',
        [ColumnFact ''amr'' (ArrayOf (Varchar None)) False, DefaultFact ''amr'' (sql_literal ''{'pwd'}'')],
        [ColumnFact ''amr'' (ArrayOf Text) False])]"
proof -
  obtain j where "at_revision j (\<lambda>_. True) d"
    using migrated_at_revision [OF assms(1)] by blast
  then have "at_revision 7 (\<lambda>_. True) d"
    using revision_known assms(2) by (simp add: versions_count)
  then have "sc_tables (da_schema d) = map secure_table (tables_at 7)"
    by (auto simp: at_revision_def schema_of_def sec_def)
  then show ?thesis
    by (simp only: drift_secured unmatched_secured head_drift head_unmatched)
qed

theorem migrated_schema_is_declared_witness:
  "unmatched target_metadata (sc_tables (da_schema
     (snd (do_run_migrations (\<lambda>_ _. True) (upgrade_plan 0 7) empty_database)))) = [] \<and>
   drift target_metadata (sc_tables (da_schema
     (snd (do_run_migrations (\<lambda>_ _. True) (upgrade_plan 0 7) empty_database)))) =
      [(''membership'', [],
        [UniqueFact [''tenant_id'', ''user_id''] None, UniqueFact [''user_id''] None,
         CheckFact ''ck_membership_role'' ''role IN ('owner','admin','member','viewer')'']),
       (''auth_session'',
        [ColumnFact ''amr'' (ArrayOf (Varchar None)) False, DefaultFact ''amr'' (sql_literal ''{'pwd'}'')],
        [ColumnFact ''amr'' (ArrayOf Text) False])]"
proof (rule migrated_schema_is_declared)
  let ?run = "do_run_migrations (\<lambda>_ _. True) (upgrade_plan 0 7) empty_database"
  show "migrated (snd ?run)"
    by (rule upgraded [OF start, where k = 0 and n = 7 and valid = "\<lambda>_ _. True" and r = "fst ?run"])
      (simp_all add: empty_database_def version_at_def versions_count)
  have "at_revision 0 (\<lambda>_. True) empty_database"
    by (simp add: at_revision_def empty_database_def empty_schema_def schema_of_def tables_at_def version_at_def)
  then obtain d' where "?run = (Inr (), d')" "at_revision 7 (\<lambda>_. True) d'"
    using run_upgrade [of 0 "\<lambda>_. True" empty_database 7 "\<lambda>_. True" "\<lambda>_ _. True"]
    by (auto simp: one_organization_def empty_database_def)
  then show "da_version (snd ?run) = version_at (length versions)"
    by (simp add: at_revision_def versions_count)
qed

end
