(* ===== verification/Mail.thy ===== *)
theory Mail
  imports Organizations
begin

text \<open>
  \<open>infrastructure/email/smtp.py\<close>: the message \<open>SmtpEmailSender\<close> builds and hands to \<open>aiosmtplib\<close>,
  whose verdict is the parameter \<open>transport\<close>, and the sender as an instance of \<open>mailer\<close>.
\<close>

section \<open>The message\<close>

record smtp_settings =
  smtp_host :: string
  smtp_port :: nat
  smtp_user :: string
  smtp_password :: string
  smtp_from :: string

record mail_message =
  mm_from :: string
  mm_to :: string
  mm_subject :: string
  mm_content :: string

record submission =
  su_hostname :: string
  su_port :: nat
  su_username :: "string option"
  su_password :: "string option"
  su_start_tls :: bool

text \<open>\<open>str.splitlines\<close> finds a second line: something follows the first line break.\<close>

definition line_break :: "char \<Rightarrow> bool" where
  "line_break c = (let n = of_char c :: nat in 10 \<le> n \<and> n \<le> 13 \<or> 28 \<le> n \<and> n \<le> 30 \<or> n = 133)"

definition several_lines :: "string \<Rightarrow> bool" where
  "several_lines s =
     (case dropWhile (\<lambda>c. \<not> line_break c) s of
        [] \<Rightarrow> False
      | c # rest \<Rightarrow> rest \<noteq> [] \<and> \<not> (c = CHR 0x0D \<and> rest = [CHR 0x0A]))"

text \<open>\<open>EmailMessage\<close> refuses a header of more than one line with a \<open>ValueError\<close>.\<close>

definition mail_header :: "string \<Rightarrow> (world, exn, string) prog" where
  "mail_header v =
     (if several_lines v
      then raise (System (ValueError ''Header values may not contain linefeed or carriage return characters''))
      else ret v)"

definition invitation_subject :: "email \<Rightarrow> string" where
  "invitation_subject m = ''You are invited to join '' @ em_organization_name m @ '' on VaultLog''"

text \<open>\<open>set_content\<close> ends the text with the line break the source leaves out.\<close>

definition invitation_text :: "email \<Rightarrow> string" where
  "invitation_text m =
     ''You have been invited to join '' @ em_organization_name m @ '' on VaultLog as '' @ role_value (em_role m) @
     ''.'' @ CHR 0x0A # CHR 0x0A # ''Accept your invitation:'' @ CHR 0x0A # em_invite_url m @ CHR 0x0A # CHR 0x0A #
     ''This link expires in 7 days.'' @ [CHR 0x0A]"

definition smtp_message :: "smtp_settings \<Rightarrow> email \<Rightarrow> (world, exn, mail_message) prog" where
  "smtp_message s m =
     seq (mail_header (smtp_from s)) (\<lambda>from_addr.
     seq (mail_header (em_to m)) (\<lambda>to_addr.
     seq (mail_header (invitation_subject m)) (\<lambda>subject.
     ret \<lparr>mm_from = from_addr, mm_to = to_addr, mm_subject = subject, mm_content = invitation_text m\<rparr>)))"

definition smtp_submission :: "smtp_settings \<Rightarrow> submission" where
  "smtp_submission s = \<lparr>su_hostname = smtp_host s, su_port = smtp_port s,
     su_username = (if smtp_user s = '''' then None else Some (smtp_user s)),
     su_password = (if smtp_password s = '''' then None else Some (smtp_password s)),
     su_start_tls = (smtp_port s = 587)\<rparr>"

section \<open>The sender\<close>

type_synonym transport = "submission \<Rightarrow> mail_message \<Rightarrow> nat \<Rightarrow> bool"

definition smtp_refuses :: "smtp_settings \<Rightarrow> transport \<Rightarrow> email \<Rightarrow> nat \<Rightarrow> bool" where
  "smtp_refuses s transport m n \<longleftrightarrow>
     several_lines (smtp_from s) \<or> several_lines (em_to m) \<or> several_lines (invitation_subject m) \<or>
     \<not> transport (smtp_submission s) \<lparr>mm_from = smtp_from s, mm_to = em_to m, mm_subject = invitation_subject m,
          mm_content = invitation_text m\<rparr> n"

definition smtp_mailer :: "smtp_settings \<Rightarrow> transport \<Rightarrow> string \<Rightarrow> mailer" where
  "smtp_mailer s transport base = \<lparr>ml_refuses = smtp_refuses s transport, ml_invite_base_url = base\<rparr>"

section \<open>What leaves\<close>

text \<open>The sender refuses exactly what cannot be put into a message or what the server does not take.\<close>

lemma smtp_refuses_iff:
  "smtp_refuses s transport m n \<longleftrightarrow>
     (case smtp_message s m w of (Inl _, _) \<Rightarrow> True | (Inr msg, _) \<Rightarrow> \<not> transport (smtp_submission s) msg n)"
  by (simp add: smtp_message_def mail_header_def smtp_refuses_def prog_simps)

lemma several_lines_append:
  assumes "line_break c" and "2 \<le> length rest"
  shows "several_lines (a @ c # rest)"
proof (cases "dropWhile (\<lambda>c. \<not> line_break c) a")
  case Nil
  then have "dropWhile (\<lambda>c. \<not> line_break c) (a @ c # rest) = c # rest"
    using assms(1) by (simp add: dropWhile_append dropWhile_eq_Nil_conv)
  then show ?thesis
    using assms(2) by (cases rest) (auto simp: several_lines_def)
next
  case (Cons x b)
  then have "\<exists>y \<in> set a. line_break y"
    by (metis dropWhile_eq_Nil_conv list.distinct(1))
  then have "dropWhile (\<lambda>c. \<not> line_break c) (a @ c # rest) = x # b @ c # rest"
    using Cons by (auto simp: dropWhile_append1)
  moreover have "b @ c # rest \<noteq> [CHR 0x0A]"
    using assms(2) by (cases b) auto
  ultimately show ?thesis
    by (simp add: several_lines_def)
qed

lemma break_in_name:
  assumes "list_ex line_break (em_organization_name m)"
  shows "several_lines (invitation_subject m)"
proof -
  obtain a c b where "em_organization_name m = a @ c # b" and c: "line_break c"
    using assms by (auto simp: list_ex_iff dest: split_list)
  then have "invitation_subject m = (''You are invited to join '' @ a) @ c # (b @ '' on VaultLog'')"
    by (simp add: invitation_subject_def)
  then show ?thesis
    using several_lines_append [OF c, of "b @ '' on VaultLog''" "''You are invited to join '' @ a"] by simp
qed

lemma link_on_its_line:
  assumes "CHR 0x0A \<notin> set (em_invite_url m)"
  shows "em_invite_url m \<in> set (split_on (CHR 0x0A) (invitation_text m))"
proof -
  let ?intro = "''You have been invited to join '' @ em_organization_name m @ '' on VaultLog as '' @ role_value (em_role m) @ ''.''"
  have "invitation_text m = ?intro @ CHR 0x0A # [] @ CHR 0x0A # ''Accept your invitation:'' @ CHR 0x0A #
      em_invite_url m @ CHR 0x0A # CHR 0x0A # ''This link expires in 7 days.'' @ [CHR 0x0A]"
    by (simp add: invitation_text_def)
  then show ?thesis
    using assms by (simp only: split_on_append) simp
qed

text \<open>
  An organization whose name holds a line break can invite nobody: every message is refused. What is sent has
  single-line headers and the link on a line of its own.
\<close>

theorem smtp_sends_clean_headers:
  assumes "send_invitation (smtp_mailer s transport base) m w = (r, w')"
  shows "(list_ex line_break (em_organization_name m) \<longrightarrow> r = Inl (System MailError) \<and> outbox w' = outbox w) \<and>
    (r = Inr () \<longrightarrow> outbox w' = outbox w @ [m] \<and> \<not> several_lines (em_to m) \<and> \<not> several_lines (invitation_subject m) \<and>
       (CHR 0x0A \<notin> set (em_invite_url m) \<longrightarrow> em_invite_url m \<in> set (split_on (CHR 0x0A) (invitation_text m))))"
  using assms break_in_name [of m] link_on_its_line [of m]
  by (auto simp: send_invitation_def smtp_mailer_def smtp_refuses_def split: if_splits)

end
