(* ===== verification/Verify_Script.thy ===== *)
theory Verify_Script
  imports System
begin

text \<open>
  \<open>scripts/verify_chain.py\<close>: the command line around \<open>VerifyTenantChain\<close>, with the status the process exits
  with. The two lines it prints and the engine it opens are left out.
\<close>

section \<open>The script\<close>

definition verify_chain_main :: "uuid \<Rightarrow> int op" where
  "verify_chain_main tenant_id =
     seq (verify_tenant_chain tenant_id) (\<lambda>result.
     ret (if vr_ok result then 0 else 1))"

text \<open>
  The module's last block, on \<open>sys.argv\<close>. Of the spellings \<open>uuid.UUID\<close> reads, \<open>uuid_of_text\<close> has the ones with
  and without dashes; the others count as badly formed.
\<close>

definition verify_chain_script :: "string list \<Rightarrow> int op" where
  "verify_chain_script argv =
     (if length argv \<noteq> 2 then ret 2
      else case uuid_of_text (argv ! 1) of
             None \<Rightarrow> raise (System (ValueError ''badly formed hexadecimal UUID string''))
           | Some tenant_id \<Rightarrow> verify_chain_main tenant_id)"

section \<open>What its status tells\<close>

lemma rows_where_events:
  "sees_tenant w t \<Longrightarrow>
     sort_key ev_sequence (rows_where audit_events (\<lambda>e. ev_tenant_id e = t) w) = events_in (store w) t"
  unfolding rows_where_def seen_def sees_tenant_def rows_of_simps tenant_col_simps events_in_def
  by (rule arg_cong [where f = "sort_key ev_sequence"], rule filter_cong) auto

lemma verify_tenant_chain_reads:
  "\<exists>w'. verify_tenant_chain t w = (Inr (verify_chain (events_in (committed w) t) (head_in (committed w) t)), w') \<and>
     committed w' = committed w"
proof -
  have "sees_tenant (uow_start (AppRole t) w) t" and "store (uow_start (AppRole t) w) = committed w"
    by (simp_all add: uow_start_def sees_tenant_def visible_def)
  then show ?thesis
    by (simp add: verify_tenant_chain_def with_tenant_uow_def with_uow_apply audit_list_all_ordered_def
        audit_get_head_def prog_simps rows_where_events row_where_head)
qed

theorem script_reports_the_ledger:
  "\<exists>w'. verify_chain_script [program, uuid_str t] w =
      (Inr (if vr_ok (verify_chain (events_in (committed w) t) (head_in (committed w) t)) then 0 else 1), w') \<and>
    committed w' = committed w"
  using verify_tenant_chain_reads [of t w]
  by (auto simp: verify_chain_script_def verify_chain_main_def seq_def)

end
