(* ===== verification/Spec2Isabelle.thy ===== *)
theory Spec2Isabelle
  imports Chain_Laws Secret_Guarantees Access_Laws Rate_Laws Org_Laws Http_Hiding Redaction
    Metadata Mail Verify_Script
begin

text \<open>
  A verification development for the backend of VaultLog (\<open>backend/src/vaultlog\<close>), a multi-tenant
  secrets manager: organizations own vaults of encrypted secrets, members act in roles, sessions are
  JWTs with rotating refresh tokens and a second factor, and every sensitive act is an event of a
  hash-chained ledger per organization. Paths below are relative to \<open>backend/src/vaultlog\<close>.

  \<^bold>\<open>The shape of the model.\<close> A coroutine of the program is a function from the world to a result
  or an exception and the next world (\<open>prog\<close> of theory Prelude; \<open>op\<close> of theory Store fixes world and
  exceptions). The world holds the committed rows, the rows of the open transaction, the session role,
  clock, random source, Redis and the mails sent. A raise is \<open>Inl\<close>, so every early return, error and
  rollback of the source is a branch. Each definition carries the name of the function it translates.

  \<^bold>\<open>Theories and code.\<close>
  \<^item> Prelude, Pytext, Errors: programs and frames; the parts of Python's \<open>str\<close>, \<open>bytes\<close>, \<open>uuid\<close>
    and \<open>datetime\<close> used; the exception classes of all layers.
  \<^item> Json, Sha256, Audit_Chain, Ledger, Audit_Cases: \<open>domain/audit\<close>, the repository
    \<open>repositories/audit.py\<close> and \<open>application/audit\<close>. JSON and SHA-256 are written out, so hashes compute.
  \<^item> Store, Schema, Frames: the tables of \<open>infrastructure/database/models.py\<close> and
    \<open>identity_models.py\<close> with keys and row-level security, statements, and the units of work.
  \<^item> Access, Vault_Repo, Vaults: \<open>domain/access\<close>, \<open>repositories/vaults.py\<close>, vault service and use cases.
  \<^item> Crypto, Secret_Repo, Secrets: envelope encryption, key service, secret service and use cases.
  \<^item> Tokens, Mfa_Codes, Rate_Limit, Identity_Repo, Identity: \<open>infrastructure/security\<close>,
    \<open>repositories/identity.py\<close>, \<open>domain/identity\<close> and \<open>application/identity\<close>.
  \<^item> Org_Repo, Organizations: invitations, members and the organization.
  \<^item> Http, Http_Gates, Http_Routes: \<open>presentation\<close> and the wiring of \<open>main.py\<close>: requests and
    responses, exception handlers, middlewares, the dependencies that guard a route, request models, the
    handlers, and \<open>serve\<close>, the application as a function from a request to a response.
  \<^item> Redaction: \<open>shared/logging.py\<close>. Mail: \<open>infrastructure/email/smtp.py\<close>, the headers and text of an
    invitation and the submission. Verify_Script: \<open>backend/scripts/verify_chain.py\<close>.
  \<^item> Rls_Scripts: \<open>backend/scripts/rls\<close>, which policy statements the migration hook executes.
  \<^item> Catalogue: tables, keys, indexes, policies and privileges of a PostgreSQL database, and what the
    operations of Alembic and the SQL of the scripts do to them. Migrations: the seven revisions of
    \<open>backend/alembic/versions\<close>, statement by statement, and \<open>do_run_migrations\<close> of \<open>alembic/env.py\<close>.
    Metadata: the tables as the model classes declare them.
  \<^item> System: every use case as a command, and the worlds commands lead to (\<open>reachable\<close>).

  \<^bold>\<open>How the parts interact.\<close> \<open>serve\<close> runs the middlewares, matches the route, runs its gates and
  limits and calls one use case; the use case opens a unit of work under a session role, asks the policy,
  calls its service, records an audit event in the same transaction and commits; the repositories are
  statements over the tables the role lets them see. The interfaces are locales: \<open>policy_reads\<close> (what
  the access policy asks of the repositories), \<open>audit_ledger\<close> and \<open>total_ledger\<close> (the ledger port),
  \<open>stored_table\<close> (what a table promises), and the family from \<open>frame_relation\<close> and \<open>db_order\<close> to
  \<open>whole_order\<close>: a preorder on databases that every statement keeps is kept by every service, use case,
  command and request. Each is interpreted on the model's own definitions.

  \<^bold>\<open>What is shown.\<close>
  \<^item> This theory: properties of whole runs. Ledgers of reachable worlds verify and only grow, tenants
    are isolated, the schema's constraints hold, cipher texts are retained, sensitive commands commit only with
    their event, and what HTTP clients can reach is what commands can reach.
  \<^item> Chain_Laws: altering or truncating a ledger is detected, or exhibits a collision of SHA-256.
  \<^item> Access_Laws: the policy is the documented matrix. Token_Laws, Session_Laws, Login_Laws: tokens and
    their kinds, refresh rotation and reuse, login, second factor, enrolment, recovery codes.
  \<^item> Secret_Laws, Secret_Guarantees, Retention: what is revealed is what was stored, and a cipher text
    opens only at its place. Org_Laws: invitations and removals. Rate_Laws: the bound of the limiter.
  \<^item> Http_Laws, Http_Guards, Http_Responses, Http_Hiding: requests refine commands, gates cannot be
    passed, the shape of responses, what errors hide, limits that fail closed.
  \<^item> Policy_Scripts, Migration_Steps, Migration_Laws: the policy hook as a function on tables, what every
    revision does to the catalogue, and that of every database upgrades and downgrades lead to: forced row-level
    security on tenant-owned tables, an append-only ledger, upgrades that complete and can be undone. Metadata: how
    the migrated schema differs from the declared one.
  \<^item> Tenancy, Frames and the frame sections: the isolation and frame lemmas these rest on.

  \<^bold>\<open>Parameters.\<close> Code that is not in the repository is an argument: PyJWT, Argon2, pyotp, AES-GCM,
  Redis round trips (each may fail), the mail transport, the clock and the random source, EmailStr and
  FastAPI's decoding of bodies, Alembic's \<open>get_revision\<close>, and the verdict of PostgreSQL on whether the rows
  of a table satisfy a new constraint (\<open>valid\<close>). What a property relies on is a named hypothesis
  (\<open>jwt_ok\<close>, \<open>argon2_ok\<close>, \<open>zset_ok\<close> and so on) that states documented behaviour; theories Demo and Demo_Jwt
  give concrete instances on which the witnesses run.

  \<^bold>\<open>Bounds and fuel.\<close> Recursion is structural except for the walk over the migration history, whose
  recursion through merges nothing in the code bounds: it has fuel, one unit per revision visited, and one unit
  more than the height of the end revision is enough (theory Rls_Scripts); the hook runs with eight for the seven
  revisions there are. Times are integers in
  microseconds, hashes work on 32-bit words, a \<open>str\<close> is a list of code points below 256.

  \<^bold>\<open>Not modelled.\<close> Concurrency: a transaction runs alone, row locks have no effect. Column
  widths in the tables of theory Store, relationships and \<open>created_at\<close> columns nothing reads. What the rows are while
  a migration runs (no revision moves any) and offline migrations, which only print SQL. Settings, engines, start-up, CORS, the
  debug mode and the OpenAPI pages; the SMTP dialogue; the port protocols, which have no behaviour; the
  constructors of use cases and the \<open>get_\<close> factories that only call them; the frontend.
\<close>

section \<open>The audit ledger\<close>

lemma reachable_ledger_ok: "reachable dp w \<Longrightarrow> ledger_ok (committed w) t"
  by (rule ledger.reachable_invariant)
    (simp_all add: ledger_order_def ledger_ok_def events_in_def head_in_def empty_db_def)

lemma verified_if_ok: "ledger_ok d t \<Longrightarrow> vr_ok (verify_chain (events_in d t) (head_in d t))"
  by (simp add: ledger_ok_def ledger_valid_def)

text \<open>C1. In every state the program can reach, the ledger of every tenant passes verification.\<close>

theorem reachable_ledgers_verify:
  assumes "reachable dp w"
  shows "vr_ok (verify_chain (events_in (committed w) t) (head_in (committed w) t))"
  by (rule verified_if_ok [OF reachable_ledger_ok [OF assms]])

theorem reachable_ledgers_verify_witness:
  "vr_ok (verify_chain
     (events_in (committed (demo_after [RegisterUser ''a@b'' ''long enough pw'' ''Org'', CreateVault demo_actor ''v'' None])) 1003)
     (head_in (committed (demo_after [RegisterUser ''a@b'' ''long enough pw'' ''Org'', CreateVault demo_actor ''v'' None])) 1003))"
  by (rule reachable_ledgers_verify [OF demo_reachable])

text \<open>The verification script accepts the ledger of every tenant in every state the program can reach.\<close>

theorem script_accepts_reachable_ledgers:
  assumes "reachable dp w"
  shows "\<exists>w'. verify_chain_script [program, uuid_str t] w = (Inr 0, w') \<and> committed w' = committed w"
  using script_reports_the_ledger [of program t w] verified_if_ok [OF reachable_ledger_ok [OF assms]] by simp

text \<open>C6. No command ever shortens or rewrites a valid ledger: it stays valid and only grows at its end.\<close>

theorem ledgers_only_grow:
  assumes "run_command dp c w = (r, w')" and "ledger_ok (committed w) t"
  shows "ledger_ok (committed w') t \<and> prefix (events_in (committed w) t) (events_in (committed w') t)"
  using ledger.command_across [OF assms(1)] assms(2) by (simp add: ledger_order_def)

theorem ledgers_only_grow_witness:
  "\<exists>w'. run_command demo_deployment (VerifyChain 3) (world_of empty_db) = (Inr (), w') \<and>
     ledger_ok (committed w') 3 \<and> prefix (events_in (committed (world_of empty_db)) 3) (events_in (committed w') 3)"
proof -
  have ok: "ledger_ok (committed (world_of empty_db)) 3"
    by (simp add: ledger_ok_def world_of_def events_in_def head_in_def empty_db_def)
  have "\<exists>w'. run_command demo_deployment (VerifyChain 3) (world_of empty_db) = (Inr (), w')"
    by (simp add: discard_def seq_def verify_tenant_chain_def with_tenant_uow_def with_uow_apply
        audit_list_all_ordered_def audit_get_head_def select_all_def select_one_def)
  then show ?thesis
    using ledgers_only_grow [OF _ ok] by blast
qed

lemma discard_audited:
  assumes "discard m w = (r, w')"
    and "\<And>r0. m w = (r0, w') \<Longrightarrow> audit_or_nothing actor acts r0 d (committed w')"
  shows "audit_or_nothing actor acts r d (committed w')"
proof (cases "m w")
  case (Pair r0 w0)
  with assms show ?thesis
    by (cases r0) (auto simp: discard_def seq_def audit_or_nothing_def)
qed

text \<open>
  C5. Audited or undone: a sensitive command that returns has appended exactly one event, by its
  actor, with the action that names it; one that raises has changed no business row and left at
  most the event of the denial.
\<close>

theorem sensitive_commands_audited:
  assumes "audited_command c = Some (actor, acts)"
    and "run_command dp c w = (r, w')" and ok: "ledger_ok (committed w) (actor_tenant actor)"
  shows "audit_or_nothing actor acts r (committed w) (committed w')"
proof -
  note a = vault_cases_audited [OF ok] secret_cases_audited [OF ok] create_invitation_audited [OF ok]
    remove_member_audited [OF ok]
  show ?thesis
    using assms(1,2)
    by (cases c) (auto simp: audited_command_def intro: a elim!: discard_audited)
qed

theorem sensitive_commands_audited_witness:
  "\<exists>r w'. run_command demo_deployment (DeleteVault demo_actor 9 False) (world_of empty_db) = (r, w') \<and>
     audit_or_nothing demo_actor {''vault.deleted''} r empty_db (committed w')"
proof -
  have ok: "ledger_ok (committed (world_of empty_db)) (actor_tenant demo_actor)"
    by (simp add: ledger_ok_def world_of_def events_in_def head_in_def empty_db_def)
  obtain r w' where run: "run_command demo_deployment (DeleteVault demo_actor 9 False) (world_of empty_db) = (r, w')"
    by fastforce
  have "audited_command (DeleteVault demo_actor 9 False) = Some (demo_actor, {''vault.deleted''})"
    by (simp add: audited_command_def)
  from sensitive_commands_audited [OF this run ok] run show ?thesis
    by (auto simp: world_of_def)
qed

section \<open>Tenants, schema and retention\<close>

text \<open>
  C2. Tenant isolation: in every reachable state, a command of one organization leaves the rows of
  every other organization, in every table with a tenant column, exactly as they were.
\<close>

theorem tenants_are_isolated:
  assumes "reachable dp w" and "run_command dp c w = (r, w')"
    and "acts_in c = Some t" and "u \<noteq> t"
  shows "same_tenant u (committed w) (committed w')"
  by (rule command_isolated [OF reachable_schema_ok [OF assms(1)]
        reachable_grants_aligned [OF assms(1)] assms(2,3,4)])

theorem tenants_are_isolated_witness:
  "\<exists>r w'. run_command demo_deployment (RemoveMember demo_actor 9 True) (demo_after []) = (r, w') \<and>
     same_tenant 4 (committed (demo_after [])) (committed w')"
proof -
  obtain r w' where run: "run_command demo_deployment (RemoveMember demo_actor 9 True) (demo_after []) = (r, w')"
    by fastforce
  have "acts_in (RemoveMember demo_actor 9 True) = Some (actor_tenant demo_actor)"
    by (simp add: acts_in_def)
  moreover have "4 \<noteq> actor_tenant demo_actor" by (simp add: demo_actor_def)
  ultimately show ?thesis
    using tenants_are_isolated [OF demo_reachable run] run by blast
qed



text \<open>
  C20. Retention: whatever sequence of commands runs, every cipher text and every wrapped key that
  was stored is still stored, unchanged and at its place.
\<close>

theorem material_is_retained:
  "prefix (t_secret_versions (committed w)) (t_secret_versions (committed (run_all dp cs w))) \<and>
   prefix (t_tenant_keys (committed w)) (t_tenant_keys (committed (run_all dp cs w)))"
  using material.run_all_across by (simp add: material_kept_def)

section \<open>The backend as its clients see it\<close>

text \<open>
  C3. The application refines the machine of use cases: every state that HTTP requests lead to, in any
  order and with any arguments, is one the commands reach. So whatever clients send, the ledgers of
  all organizations verify, the rows keep the constraints of the schema and grants stay inside
  their organization.
\<close>

theorem web_states_refine_commands:
  assumes "web_reachable st w"
  shows "reachable (st_deployment st) w \<and>
    vr_ok (verify_chain (events_in (committed w) t) (head_in (committed w) t)) \<and>
    schema_ok (committed w) \<and> grants_aligned (committed w)"
  using web_states_reachable [OF assms] reachable_ledger_ok verified_if_ok reachable_schema_ok
    reachable_grants_aligned by blast

theorem web_states_refine_commands_witness:
  "schema_ok (committed (snd (serve demo_site (PostRegister ''a@b'' ''long enough pw'' ''Org'') (demo_request None)
     (world_of empty_db))))"
proof -
  have "web_reachable demo_site (snd (serve demo_site (PostRegister ''a@b'' ''long enough pw'' ''Org'')
      (demo_request None) (world_of empty_db)))"
    by (rule web_request [OF web_start surjective_pairing]) (simp add: initial_def)
  from web_states_refine_commands [OF this] show ?thesis by blast
qed

end
